(* ===== verification/Lenny_Prelude.thy ===== *)
theory Lenny_Prelude
  imports Main "HOL-Library.AList" "HOL-Library.Multiset"
begin

text \<open>
  The shared layer of the development.

  \<^item> Go's scalar types: the wrap-around of a 64-bit signed integer, and
    \<^verbatim>\<open>time.Time\<close> as the number of nanoseconds since Go's zero time, so
    \<^verbatim>\<open>IsZero\<close> is equality with 0 and \<^verbatim>\<open>Sub\<close> saturates at the range of
    \<^verbatim>\<open>time.Duration\<close> as the library does.
  \<^item> Go maps as association lists with distinct keys. The order of the list stands
    for the unspecified iteration order of a Go map, so a lemma about a loop over a
    map that is proved for every list holds for every iteration order.
  \<^item> The interface of the transition tables that most components carry, as the
    locales \<open>transition_table\<close> and \<open>ranked_table\<close>, and the map interface
    \<open>keyed_store\<close>.
\<close>

section \<open>Theorem collections\<close>

named_theorems table_defs \<open>definitions of the transition tables and their enumerations\<close>
named_theorems op_defs \<open>definitions of the operations of a component\<close>
named_theorems inv_intros \<open>introduction rules of invariants\<close>

section \<open>Go scalars\<close>

type_synonym go_time = int
type_synonym duration = int

text \<open>A Go \<^verbatim>\<open>int\<close> or \<^verbatim>\<open>int64\<close> on a 64-bit platform: arithmetic wraps.\<close>

definition max_int64 :: int where
  "max_int64 = 9223372036854775807"

definition min_int64 :: int where
  "min_int64 = - 9223372036854775808"

definition w64 :: "int \<Rightarrow> int" where
  "w64 x = (x + 9223372036854775808) mod 18446744073709551616 - 9223372036854775808"

definition is_int64 :: "int \<Rightarrow> bool" where
  "is_int64 x \<longleftrightarrow> min_int64 \<le> x \<and> x \<le> max_int64"

definition is_zero_time :: "go_time \<Rightarrow> bool" where
  "is_zero_time t \<longleftrightarrow> t = 0"

definition time_sub :: "go_time \<Rightarrow> go_time \<Rightarrow> duration" where
  "time_sub t u = max min_int64 (min max_int64 (t - u))"

definition time_add :: "go_time \<Rightarrow> duration \<Rightarrow> go_time" where
  "time_add t d = t + d"

definition time_before :: "go_time \<Rightarrow> go_time \<Rightarrow> bool" where
  "time_before t u \<longleftrightarrow> t < u"

definition time_after :: "go_time \<Rightarrow> go_time \<Rightarrow> bool" where
  "time_after t u \<longleftrightarrow> u < t"

text \<open>Nanoseconds in a second, the unit of \<^verbatim>\<open>time.Second\<close>.\<close>

definition second :: duration where
  "second = 1000000000"

section \<open>Association lists as Go maps\<close>

type_synonym ('k, 'v) go_map = "('k \<times> 'v) list"

definition wf_map :: "('k, 'v) go_map \<Rightarrow> bool" where
  "wf_map m \<longleftrightarrow> distinct (map fst m)"

text \<open>Edges of a table, and runs along them.\<close>

definition edge :: "('s \<times> 's) list \<Rightarrow> 's \<Rightarrow> 's \<Rightarrow> bool" where
  "edge es s t \<longleftrightarrow> (s, t) \<in> set es"

fun legal_run :: "('s \<times> 's) list \<Rightarrow> 's \<Rightarrow> 's list \<Rightarrow> bool" where
  "legal_run es s [] \<longleftrightarrow> True"
| "legal_run es s (t # ts) \<longleftrightarrow> edge es s t \<and> legal_run es t ts"

section \<open>Lemmas on Go scalars\<close>

lemma w64_range [simp]: "is_int64 (w64 x)"
  by (simp add: is_int64_def w64_def min_int64_def max_int64_def)

lemma w64_id: "is_int64 x \<Longrightarrow> w64 x = x"
  by (simp add: is_int64_def w64_def min_int64_def max_int64_def)

lemma w64_w64 [simp]: "w64 (w64 x) = w64 x"
  by (rule w64_id) simp

lemma w64_add_left [simp]: "w64 (w64 x + y) = w64 (x + y)"
proof -
  have "(w64 x + y + 9223372036854775808)
      = ((x + 9223372036854775808) mod 18446744073709551616) + y"
    by (simp add: w64_def)
  then show ?thesis
    by (simp add: w64_def mod_simps add.assoc add.commute add.left_commute)
qed

lemma w64_overflow:
  assumes "max_int64 < x" "x \<le> 2 * max_int64 + 1"
  shows "w64 x = x - 18446744073709551616"
proof -
  have "(x + 9223372036854775808) mod 18446744073709551616
           = (x + 9223372036854775808 - 18446744073709551616) mod 18446744073709551616"
    by (simp only: minus_mod_self2)
  also have "\<dots> = x + 9223372036854775808 - 18446744073709551616"
    using assms by (intro mod_pos_pos_trivial) (simp_all add: max_int64_def)
  finally show ?thesis by (simp add: w64_def)
qed

lemma time_sub_exact: "is_int64 (t - u) \<Longrightarrow> time_sub t u = t - u"
  by (simp add: time_sub_def is_int64_def)

lemma time_sub_self [simp]: "time_sub t t = 0"
  by (simp add: time_sub_def min_int64_def max_int64_def)

lemma time_sub_nonneg_iff: "0 \<le> time_sub t u \<longleftrightarrow> u \<le> t"
  by (auto simp: time_sub_def min_int64_def max_int64_def)

lemma time_sub_mono: "t \<le> t' \<Longrightarrow> time_sub t u \<le> time_sub t' u"
  by (auto simp: time_sub_def)

lemma time_sub_ge_iff:
  "is_int64 d \<Longrightarrow> min_int64 < d \<Longrightarrow> d \<le> time_sub t u \<longleftrightarrow> u + d \<le> t"
  by (auto simp: time_sub_def is_int64_def)

section \<open>Lemmas on Go maps\<close>

lemma wf_map_Nil [simp]: "wf_map []"
  by (simp add: wf_map_def)

lemma wf_map_update [simp]: "wf_map m \<Longrightarrow> wf_map (AList.update k v m)"
  by (simp add: wf_map_def distinct_update)

lemma wf_map_delete [simp]: "wf_map m \<Longrightarrow> wf_map (AList.delete k m)"
  by (simp add: wf_map_def distinct_delete)

lemma wf_map_filter [simp]: "wf_map m \<Longrightarrow> wf_map (filter P m)"
  by (simp add: wf_map_def distinct_map_filter)

lemma wf_map_Cons [simp]:
  "wf_map ((k, v) # m) \<longleftrightarrow> k \<notin> fst ` set m \<and> wf_map m"
  by (simp add: wf_map_def)

lemma map_of_update [simp]:
  "map_of (AList.update k v m) k' = (if k' = k then Some v else map_of m k')"
  by (simp add: update_conv')

lemma map_of_delete [simp]:
  "map_of (AList.delete k m) k' = (if k' = k then None else map_of m k')"
  by (simp add: delete_conv')

lemma map_of_filter:
  "wf_map m \<Longrightarrow>
   map_of (filter P m) k =
   (case map_of m k of None \<Rightarrow> None | Some v \<Rightarrow> if P (k, v) then Some v else None)"
  by (induction m) (force split: option.splits simp: map_of_eq_None_iff dest: map_of_SomeD)+

lemma in_set_map_of: "wf_map m \<Longrightarrow> (k, v) \<in> set m \<longleftrightarrow> map_of m k = Some v"
  by (auto simp: wf_map_def dest: map_of_SomeD)

lemma set_update:
  "wf_map m \<Longrightarrow>
   set (AList.update k v m) = insert (k, v) {e \<in> set m. fst e \<noteq> k}"
  by (induction m) (auto simp: image_iff, metis fst_conv)

lemma count_filter_update_new:
  "map_of m k = None \<Longrightarrow>
   length (filter P (AList.update k v m)) = length (filter P m) + (if P (k, v) then 1 else 0)"
  by (induction m) auto

lemma count_filter_update_le:
  "wf_map m \<Longrightarrow> length (filter P (AList.update k v m)) \<le> length (filter P m) + (if P (k, v) then 1 else 0)"
  by (induction m) auto

lemma count_filter_update_old:
  "wf_map m \<Longrightarrow> map_of m k = Some u \<Longrightarrow>
   length (filter P (AList.update k v m)) + (if P (k, u) then 1 else 0)
   = length (filter P m) + (if P (k, v) then 1 else 0)"
  by (induction m) auto

lemma filter_delete:
  "filter P (AList.delete k m) = AList.delete k (filter P m)"
  by (simp add: AList.delete_eq filter_filter conj_commute)

lemma count_filter_delete_le: "length (filter P (AList.delete k m)) \<le> length (filter P m)"
proof -
  have "length (AList.delete k (filter P m)) \<le> length (filter P m)"
    by (rule length_delete_le)
  then show ?thesis by (simp only: filter_delete)
qed

section \<open>Deciding edges by evaluation\<close>

lemma edge_ex_iff: "(\<exists>t. edge es s t \<and> P t) \<longleftrightarrow> list_ex (\<lambda>(a, b). a = s \<and> P b) es"
  by (auto simp: edge_def list_ex_iff)

lemma edge_all: "list_all (\<lambda>(a, b). P a b) es \<Longrightarrow> edge es s t \<Longrightarrow> P s t"
  by (auto simp: edge_def list_all_iff)

section \<open>Interfaces\<close>

text \<open>
  The map interface the stores rely on: what a lookup returns after a write or a
  delete. The client lemmas are the frame rules used by the components.
\<close>

locale keyed_store =
  fixes get :: "'m \<Rightarrow> 'k \<Rightarrow> 'v option"
    and put :: "'k \<Rightarrow> 'v \<Rightarrow> 'm \<Rightarrow> 'm"
    and del :: "'k \<Rightarrow> 'm \<Rightarrow> 'm"
    and wf :: "'m \<Rightarrow> bool"
  assumes get_put: "wf m \<Longrightarrow> get (put k v m) k' = (if k' = k then Some v else get m k')"
    and get_del: "wf m \<Longrightarrow> get (del k m) k' = (if k' = k then None else get m k')"
    and wf_put: "wf m \<Longrightarrow> wf (put k v m)"
    and wf_del: "wf m \<Longrightarrow> wf (del k m)"
begin

definition puts :: "('k \<times> 'v) list \<Rightarrow> 'm \<Rightarrow> 'm" where
  "puts kvs m = fold (\<lambda>(k, v). put k v) kvs m"

definition dels :: "'k list \<Rightarrow> 'm \<Rightarrow> 'm" where
  "dels ks m = fold del ks m"

lemma wf_dels: "wf m \<Longrightarrow> wf (dels ks m)"
  by (induction ks arbitrary: m) (simp_all add: dels_def wf_del)

lemma wf_puts: "wf m \<Longrightarrow> wf (puts kvs m)"
  by (induction kvs arbitrary: m) (auto simp: puts_def wf_put)

lemma get_dels:
  "wf m \<Longrightarrow> get (dels ks m) k = (if k \<in> set ks then None else get m k)"
proof (induction ks arbitrary: m)
  case Nil
  then show ?case by (simp add: dels_def)
next
  case (Cons a ks)
  then show ?case
    using Cons.IH[of "del a m"] by (simp add: dels_def wf_del get_del)
qed

lemma get_puts_frame:
  "wf m \<Longrightarrow> k \<notin> fst ` set kvs \<Longrightarrow> get (puts kvs m) k = get m k"
proof (induction kvs arbitrary: m)
  case Nil
  then show ?case by (simp add: puts_def)
next
  case (Cons a kvs)
  then show ?case
    using Cons.IH[of "put (fst a) (snd a) m"]
    by (cases a) (simp add: puts_def wf_put get_put)
qed

end

interpretation gm: keyed_store map_of AList.update AList.delete wf_map
  by unfold_locales simp_all

text \<open>
  The interface of a transition table: every edge stays inside the enumeration, a
  sink has no outgoing edge, and from every other state some edge decreases the
  distance to a sink.
\<close>

locale transition_table =
  fixes states :: "'s list"
    and edges :: "('s \<times> 's) list"
    and sink :: "'s \<Rightarrow> bool"
    and distance :: "'s \<Rightarrow> nat"
  assumes edge_target: "edge edges s t \<Longrightarrow> t \<in> set states"
    and edge_source: "edge edges s t \<Longrightarrow> \<not> sink s"
    and progress: "s \<in> set states \<Longrightarrow> \<not> sink s \<Longrightarrow> \<exists>t. edge edges s t \<and> distance t < distance s"
begin

lemma run_states:
  "(edge edges)\<^sup>*\<^sup>* s t \<Longrightarrow> s \<in> set states \<Longrightarrow> t \<in> set states"
  by (induction rule: rtranclp_induct) (auto dest: edge_target)

lemma sink_absorbing: "(edge edges)\<^sup>*\<^sup>* s t \<Longrightarrow> sink s \<Longrightarrow> t = s"
  by (induction rule: rtranclp_induct) (auto dest: edge_source)

lemma reaches_sink:
  "s \<in> set states \<Longrightarrow> \<exists>t. (edge edges)\<^sup>*\<^sup>* s t \<and> sink t"
proof (induction "distance s" arbitrary: s rule: less_induct)
  case less
  show ?case
  proof (cases "sink s")
    case True
    then show ?thesis by blast
  next
    case False
    then obtain u where u: "edge edges s u" "distance u < distance s"
      using progress less.prems by blast
    then obtain t where "(edge edges)\<^sup>*\<^sup>* u t" "sink t"
      using less.hyps[of u] edge_target by blast
    then show ?thesis
      using u(1) converse_rtranclp_into_rtranclp by metis
  qed
qed

end

text \<open>A table whose every edge decreases a rank has no cycle: runs are bounded.\<close>

locale ranked_table = transition_table +
  assumes edge_rank: "edge edges s t \<Longrightarrow> distance t < distance s"
begin

lemma run_bounded: "legal_run edges s ts \<Longrightarrow> length ts \<le> distance s"
proof (induction ts arbitrary: s)
  case Nil
  then show ?case by simp
next
  case (Cons t ts)
  then have "length ts \<le> distance t" "distance t < distance s"
    using edge_rank[of s t] by auto
  then show ?case by simp
qed

lemma no_return: "(edge edges)\<^sup>+\<^sup>+ s t \<Longrightarrow> s \<noteq> t"
proof -
  have "distance t < distance s" if "(edge edges)\<^sup>+\<^sup>+ s t" for s t
    using that by (induction rule: tranclp_induct) (auto dest: edge_rank)
  then show "(edge edges)\<^sup>+\<^sup>+ s t \<Longrightarrow> s \<noteq> t" by fastforce
qed

end

section \<open>Runs and paths\<close>

lemma legal_run_path: "legal_run es s ts \<Longrightarrow> (edge es)\<^sup>*\<^sup>* s (last (s # ts))"
proof (induction ts arbitrary: s)
  case Nil
  then show ?case by simp
next
  case (Cons t ts)
  then show ?case by (auto intro: converse_rtranclp_into_rtranclp)
qed

lemma path_legal_run: "(edge es)\<^sup>*\<^sup>* s t \<Longrightarrow> \<exists>ts. legal_run es s ts \<and> last (s # ts) = t"
proof (induction rule: converse_rtranclp_induct)
  case base
  then show ?case by (intro exI[of _ "[]"]) simp
next
  case (step y z)
  then obtain ts where "legal_run es z ts" "last (z # ts) = t" by blast
  then show ?case using step.hyps(1) by (intro exI[of _ "z # ts"]) simp
qed

end
