(* ===== verification/Session_State.thy ===== *)
theory Session_State
  imports Lenny_Prelude "HOL-Library.Char_ord" "HOL-Library.List_Lexorder"
begin

text \<open>
  The session state machine (\<^verbatim>\<open>pkg/session/state/state.go\<close>) and the REST
  projection of it (\<^verbatim>\<open>pkg/api/v1/session/session.go\<close>).

  Both Go packages declare \<^verbatim>\<open>type State string\<close> with the same values; the
  model has one datatype for both, whose last constructor holds any other string.
  \<open>session_IsValid\<close> is the transition check over the table that
  \<open>session_ValidTransitions\<close> builds, and \<open>Validate\<close> is the precondition check of
  the state-mutating endpoints. An error result is \<open>Some\<close>, Go's nil is \<open>None\<close>.
\<close>

section \<open>States\<close>

datatype session_state =
    Created | Finalizing | Ready | Starting | Running | InputRequired
  | Suspended | ResumePending | AwaitingClientAction | Resuming
  | Completed | Failed | Cancelled | Expired
  | OtherState string

primrec state_string :: "session_state \<Rightarrow> string" where
  "state_string Created = ''created''"
| "state_string Finalizing = ''finalizing''"
| "state_string Ready = ''ready''"
| "state_string Starting = ''starting''"
| "state_string Running = ''running''"
| "state_string InputRequired = ''input_required''"
| "state_string Suspended = ''suspended''"
| "state_string ResumePending = ''resume_pending''"
| "state_string AwaitingClientAction = ''awaiting_client_action''"
| "state_string Resuming = ''resuming''"
| "state_string Completed = ''completed''"
| "state_string Failed = ''failed''"
| "state_string Cancelled = ''cancelled''"
| "state_string Expired = ''expired''"
| "state_string (OtherState s) = s"

definition session_All :: "session_state list" where
  "session_All =
    [Created, Finalizing, Ready, Starting, Running, InputRequired,
     Suspended, ResumePending, AwaitingClientAction, Resuming,
     Completed, Failed, Cancelled, Expired]"

definition session_Terminal :: "session_state list" where
  "session_Terminal = [Completed, Failed, Cancelled, Expired]"

definition session_IsTerminal :: "session_state \<Rightarrow> bool" where
  "session_IsTerminal s \<longleftrightarrow> list_ex (\<lambda>t. s = t) session_Terminal"

section \<open>The transition table\<close>

type_synonym session_transition = "session_state \<times> session_state"

definition anyStateTerminalTargets :: "session_state list" where
  "anyStateTerminalTargets = [Failed, Expired, Cancelled]"

text \<open>One round of the inner loop: the accumulated edges and the \<^verbatim>\<open>listed\<close> set.\<close>

definition append_unlisted ::
  "session_transition \<Rightarrow> session_transition list \<times> session_transition list
   \<Rightarrow> session_transition list \<times> session_transition list" where
  "append_unlisted e acc =
    (case acc of (edges, listed) \<Rightarrow>
       if e \<in> set listed then (edges, listed) else (edges @ [e], e # listed))"

definition appendAnyStateTerminalEdges :: "session_transition list \<Rightarrow> session_transition list" where
  "appendAnyStateTerminalEdges edges =
    fst (fold (\<lambda>from acc.
           if session_IsTerminal from then acc
           else fold (\<lambda>to. append_unlisted (from, to)) anyStateTerminalTargets acc)
         session_All (edges, edges))"

definition session_ValidTransitions :: "session_transition list" where
  "session_ValidTransitions = appendAnyStateTerminalEdges
    [(Created, Failed),
     (Created, Finalizing),
     (Finalizing, Ready),
     (Ready, Starting),
     (Starting, Running),
     (Starting, Failed),
     (Starting, Expired),
     (Running, InputRequired),
     (Running, Suspended),
     (Running, Completed),
     (Running, ResumePending),
     (Running, AwaitingClientAction),
     (Running, Failed),
     (Running, Cancelled),
     (Running, Expired),
     (InputRequired, Running),
     (InputRequired, Completed),
     (InputRequired, Cancelled),
     (InputRequired, Expired),
     (InputRequired, Failed),
     (InputRequired, ResumePending),
     (InputRequired, AwaitingClientAction),
     (Suspended, Running),
     (Suspended, ResumePending),
     (Suspended, Completed),
     (Suspended, Cancelled),
     (Suspended, Expired),
     (Suspended, Failed),
     (Suspended, AwaitingClientAction),
     (ResumePending, Resuming),
     (ResumePending, AwaitingClientAction),
     (ResumePending, Cancelled),
     (ResumePending, Completed),
     (ResumePending, Expired),
     (Resuming, Running),
     (Resuming, ResumePending),
     (Resuming, AwaitingClientAction),
     (Resuming, Cancelled),
     (Resuming, Completed),
     (Resuming, Expired),
     (AwaitingClientAction, ResumePending),
     (AwaitingClientAction, Completed),
     (AwaitingClientAction, Cancelled),
     (AwaitingClientAction, Expired)]"

datatype session_transition_error = InvalidTransitionError session_state session_state

definition session_IsValid :: "session_state \<Rightarrow> session_state \<Rightarrow> session_transition_error option" where
  "session_IsValid from to =
    (if (from, to) \<in> set session_ValidTransitions then None
     else Some (InvalidTransitionError from to))"

text \<open>The metadata map has at most one key, whose value is always true.\<close>

definition MCPProtocolState :: "session_state \<Rightarrow> string \<times> string option" where
  "MCPProtocolState s =
    (case s of
       Created \<Rightarrow> (''submitted'', None)
     | Finalizing \<Rightarrow> (''submitted'', None)
     | Ready \<Rightarrow> (''submitted'', None)
     | Starting \<Rightarrow> (''submitted'', None)
     | Running \<Rightarrow> (''working'', None)
     | InputRequired \<Rightarrow> (''input_required'', None)
     | Suspended \<Rightarrow> (''working'', Some ''suspended'')
     | ResumePending \<Rightarrow> (''working'', Some ''resuming'')
     | Resuming \<Rightarrow> (''working'', Some ''resuming'')
     | AwaitingClientAction \<Rightarrow> (''input_required'', None)
     | Completed \<Rightarrow> (''completed'', None)
     | Failed \<Rightarrow> (''failed'', None)
     | Cancelled \<Rightarrow> (''canceled'', None)
     | Expired \<Rightarrow> (''failed'', None)
     | OtherState _ \<Rightarrow> ('''', None))"

section \<open>The REST projection\<close>

definition AllStates :: "session_state list" where
  "AllStates =
    [Created, Finalizing, Ready, Starting,
     Running, InputRequired, Suspended, ResumePending,
     AwaitingClientAction, Completed, Failed,
     Cancelled, Expired]"

definition TerminalStates :: "session_state list" where
  "TerminalStates = [Completed, Failed, Cancelled, Expired]"

definition api_IsTerminal :: "session_state \<Rightarrow> bool" where
  "api_IsTerminal s \<longleftrightarrow> list_ex (\<lambda>t. s = t) TerminalStates"

definition CountsTowardConcurrencyCaps :: "session_state \<Rightarrow> bool" where
  "CountsTowardConcurrencyCaps s \<longleftrightarrow> \<not> api_IsTerminal s \<and> s \<noteq> Suspended"

definition RecoveryStates :: "session_state list" where
  "RecoveryStates = [ResumePending, Resuming, AwaitingClientAction]"

definition IsRecovery :: "session_state \<Rightarrow> bool" where
  "IsRecovery s \<longleftrightarrow> list_ex (\<lambda>r. s = r) RecoveryStates"

definition nonTerminalStates :: "session_state list" where
  "nonTerminalStates = filter (\<lambda>s. \<not> api_IsTerminal s) AllStates"

datatype endpoint =
    EndpointUpload | EndpointFinalize | EndpointStart | EndpointInterrupt
  | EndpointTerminate | EndpointResume | EndpointMessages | EndpointDerive
  | EndpointDelete | EndpointOther string

datatype capability = CapabilityMidSessionUpload | CapabilityAllowStaleDerive | CapabilityOther string

record gated_states =
  gs_flag :: capability
  gs_states :: "session_state list"

record endpoint_rule =
  baseStates :: "session_state list"
  gated :: "gated_states list"

definition preconditionTable :: "endpoint \<Rightarrow> endpoint_rule option" where
  "preconditionTable e =
    (case e of
       EndpointUpload \<Rightarrow>
         Some \<lparr>baseStates = [Created],
               gated = [\<lparr>gs_flag = CapabilityMidSessionUpload, gs_states = [Running]\<rparr>]\<rparr>
     | EndpointFinalize \<Rightarrow> Some \<lparr>baseStates = [Created], gated = []\<rparr>
     | EndpointStart \<Rightarrow> Some \<lparr>baseStates = [Ready], gated = []\<rparr>
     | EndpointInterrupt \<Rightarrow> Some \<lparr>baseStates = [Running], gated = []\<rparr>
     | EndpointTerminate \<Rightarrow>
         Some \<lparr>baseStates = [Created, Finalizing, Ready, Starting,
                            Running, InputRequired, Suspended, ResumePending,
                            AwaitingClientAction, Resuming],
               gated = []\<rparr>
     | EndpointResume \<Rightarrow> Some \<lparr>baseStates = [AwaitingClientAction, Suspended], gated = []\<rparr>
     | EndpointMessages \<Rightarrow> Some \<lparr>baseStates = nonTerminalStates, gated = []\<rparr>
     | EndpointDerive \<Rightarrow>
         Some \<lparr>baseStates = [Completed, Failed, Cancelled, Expired],
               gated = [\<lparr>gs_flag = CapabilityAllowStaleDerive,
                         gs_states = [Running, Suspended, ResumePending, AwaitingClientAction]\<rparr>]\<rparr>
     | EndpointDelete \<Rightarrow> Some \<lparr>baseStates = nonTerminalStates @ [Resuming], gated = []\<rparr>
     | EndpointOther _ \<Rightarrow> None)"

record precondition_request =
  pr_Endpoint :: endpoint
  pr_CurrentState :: session_state
  pr_Capabilities :: "capability \<Rightarrow> bool"

datatype precondition_error =
    UnknownEndpoint endpoint
  | PreconditionError endpoint session_state "session_state list"

definition externallyVisible :: "session_state list \<Rightarrow> session_state list" where
  "externallyVisible states = sort_key state_string (filter (\<lambda>st. st \<in> set AllStates) states)"

text \<open>The admitted states of a rule, as both callers below build them.\<close>

definition rule_states :: "endpoint_rule \<Rightarrow> (capability \<Rightarrow> bool) \<Rightarrow> session_state list" where
  "rule_states r caps =
    foldl (\<lambda>acc g. if caps (gs_flag g) then acc @ gs_states g else acc) (baseStates r) (gated r)"

definition Validate :: "precondition_request \<Rightarrow> precondition_error option" where
  "Validate r =
    (case preconditionTable (pr_Endpoint r) of
       None \<Rightarrow> Some (UnknownEndpoint (pr_Endpoint r))
     | Some rule \<Rightarrow>
         (let allowed = rule_states rule (pr_Capabilities r) in
          if list_ex (\<lambda>s. s = pr_CurrentState r) allowed then None
          else Some (PreconditionError (pr_Endpoint r) (pr_CurrentState r)
                       (externallyVisible allowed))))"

definition AllowedStates :: "endpoint \<Rightarrow> (capability \<Rightarrow> bool) \<Rightarrow> session_state list" where
  "AllowedStates e caps =
    (case preconditionTable e of
       None \<Rightarrow> []
     | Some rule \<Rightarrow> externallyVisible (rule_states rule caps))"

section \<open>Cascade policy, tree visibility and messaging scope\<close>

datatype cascade_policy = CascadeCancelAll | CascadeAwaitCompletion | CascadeDetach | CascadeOther string

definition DefaultCascadePolicy :: cascade_policy where
  "DefaultCascadePolicy = CascadeCancelAll"

definition AllCascadePolicies :: "cascade_policy list" where
  "AllCascadePolicies = [CascadeCancelAll, CascadeAwaitCompletion, CascadeDetach]"

definition cascade_IsValid :: "cascade_policy \<Rightarrow> bool" where
  "cascade_IsValid p \<longleftrightarrow> list_ex (\<lambda>v. p = v) AllCascadePolicies"

definition cascade_Resolve :: "cascade_policy \<Rightarrow> cascade_policy" where
  "cascade_Resolve p = (if cascade_IsValid p then p else DefaultCascadePolicy)"

datatype tree_visibility = VisibilityFull | VisibilityParentAndSelf | VisibilitySelfOnly | VisibilityOther string

definition visibility_IsValid :: "tree_visibility \<Rightarrow> bool" where
  "visibility_IsValid v = (case v of VisibilityOther _ \<Rightarrow> False | _ \<Rightarrow> True)"

definition visibility_OrDefault :: "tree_visibility \<Rightarrow> tree_visibility" where
  "visibility_OrDefault v = (if visibility_IsValid v then v else VisibilityFull)"

definition visibility_rank :: "tree_visibility \<Rightarrow> int" where
  "visibility_rank v =
    (case v of VisibilityParentAndSelf \<Rightarrow> 1 | VisibilitySelfOnly \<Rightarrow> 2 | _ \<Rightarrow> 0)"

definition AtLeastAsNarrow :: "tree_visibility \<Rightarrow> tree_visibility \<Rightarrow> bool" where
  "AtLeastAsNarrow v parent \<longleftrightarrow>
    visibility_rank (visibility_OrDefault v) \<ge> visibility_rank (visibility_OrDefault parent)"

text \<open>An empty scope is \<open>ScopeUnset\<close>; any other unrecognised string is \<open>ScopeOther\<close>.\<close>

datatype messaging_scope = ScopeDirect | ScopeSiblings | ScopeUnset | ScopeOther string

definition scope_OrDefault :: "messaging_scope \<Rightarrow> messaging_scope" where
  "scope_OrDefault s = (if s = ScopeSiblings then ScopeSiblings else ScopeDirect)"

definition restrictiveness :: "messaging_scope \<Rightarrow> int" where
  "restrictiveness s = (if scope_OrDefault s = ScopeSiblings then 1 else 0)"

definition narrowerMessagingScope :: "messaging_scope \<Rightarrow> messaging_scope \<Rightarrow> messaging_scope" where
  "narrowerMessagingScope a b =
    (if restrictiveness b < restrictiveness a then scope_OrDefault b else scope_OrDefault a)"

definition ResolveEffectiveMessagingScope ::
  "messaging_scope \<Rightarrow> messaging_scope \<Rightarrow> messaging_scope \<Rightarrow> messaging_scope \<Rightarrow> messaging_scope" where
  "ResolveEffectiveMessagingScope deploymentDefault deploymentMax tenantScope runtimeScope =
    (let base = scope_OrDefault deploymentDefault;
         base = (if tenantScope \<noteq> ScopeUnset then narrowerMessagingScope base tenantScope else base);
         base = (if runtimeScope \<noteq> ScopeUnset then narrowerMessagingScope base runtimeScope else base)
     in if deploymentMax = ScopeDirect then ScopeDirect else base)"

lemmas [table_defs] = session_All_def session_Terminal_def session_IsTerminal_def
  AllStates_def TerminalStates_def api_IsTerminal_def nonTerminalStates_def RecoveryStates_def

section \<open>The table\<close>

lemma append_unlisted_sets:
  assumes "set (fst acc) = set (snd acc)" "distinct (fst acc)"
  shows "set (fst (append_unlisted e acc)) = insert e (set (fst acc))
       \<and> set (snd (append_unlisted e acc)) = set (fst (append_unlisted e acc))
       \<and> distinct (fst (append_unlisted e acc))"
  using assms by (cases acc) (auto simp: append_unlisted_def)

lemma fold_append_unlisted:
  assumes "set (fst acc) = set (snd acc)" "distinct (fst acc)"
  shows "set (fst (fold (\<lambda>to. append_unlisted (from, to)) ts acc)) = set (fst acc) \<union> {from} \<times> set ts
       \<and> set (snd (fold (\<lambda>to. append_unlisted (from, to)) ts acc))
         = set (fst (fold (\<lambda>to. append_unlisted (from, to)) ts acc))
       \<and> distinct (fst (fold (\<lambda>to. append_unlisted (from, to)) ts acc))"
  using assms
proof (induction ts arbitrary: acc)
  case Nil
  then show ?case by simp
next
  case (Cons t ts)
  note one = append_unlisted_sets[OF Cons.prems, of "(from, t)"]
  then show ?case
    using Cons.IH[of "append_unlisted (from, t) acc"] by auto
qed

lemma fold_any_state_edges:
  assumes "set (fst acc) = set (snd acc)" "distinct (fst acc)"
  shows "set (fst (fold (\<lambda>from acc. if session_IsTerminal from then acc
            else fold (\<lambda>to. append_unlisted (from, to)) ts acc) fs acc))
          = set (fst acc) \<union> {f \<in> set fs. \<not> session_IsTerminal f} \<times> set ts
       \<and> distinct (fst (fold (\<lambda>from acc. if session_IsTerminal from then acc
            else fold (\<lambda>to. append_unlisted (from, to)) ts acc) fs acc))"
  using assms
proof (induction fs arbitrary: acc)
  case Nil
  then show ?case by simp
next
  case (Cons f fs)
  let ?acc = "if session_IsTerminal f then acc else fold (\<lambda>to. append_unlisted (f, to)) ts acc"
  have "set (fst ?acc) = set (snd ?acc)" "distinct (fst ?acc)"
       "set (fst ?acc) = set (fst acc) \<union> (if session_IsTerminal f then {} else {f} \<times> set ts)"
    using fold_append_unlisted[OF Cons.prems, of f ts] Cons.prems by auto
  then show ?case
    using Cons.IH[of ?acc] by auto
qed

lemma set_appendAnyStateTerminalEdges:
  assumes "distinct es"
  shows "set (appendAnyStateTerminalEdges es)
         = set es \<union> {f \<in> set session_All. \<not> session_IsTerminal f} \<times> set anyStateTerminalTargets"
    and "distinct (appendAnyStateTerminalEdges es)"
  using fold_any_state_edges[of "(es, es)" anyStateTerminalTargets session_All] assms
  by (simp_all add: appendAnyStateTerminalEdges_def)

lemma session_IsTerminal_simps [simp]:
  "session_IsTerminal s \<longleftrightarrow> s \<in> {Completed, Failed, Cancelled, Expired}"
  by (auto simp: session_IsTerminal_def session_Terminal_def)

lemma api_IsTerminal_simps [simp]:
  "api_IsTerminal s \<longleftrightarrow> s \<in> {Completed, Failed, Cancelled, Expired}"
  by (auto simp: api_IsTerminal_def TerminalStates_def)

lemma in_session_All: "s \<in> set session_All \<longleftrightarrow> (\<forall>x. s \<noteq> OtherState x)"
  by (cases s) (simp_all add: session_All_def)

lemma session_edge_iff:
  "edge session_ValidTransitions s t \<longleftrightarrow>
    (s \<in> set session_All \<and> \<not> session_IsTerminal s \<and> t \<in> {Failed, Expired, Cancelled})
    \<or> (s, t) \<in> {(Created, Finalizing), (Finalizing, Ready), (Ready, Starting), (Starting, Running),
         (Running, InputRequired), (Running, Suspended), (Running, Completed), (Running, ResumePending),
         (Running, AwaitingClientAction), (InputRequired, Running), (InputRequired, Completed),
         (InputRequired, ResumePending), (InputRequired, AwaitingClientAction), (Suspended, Running),
         (Suspended, ResumePending), (Suspended, Completed), (Suspended, AwaitingClientAction),
         (ResumePending, Resuming), (ResumePending, AwaitingClientAction), (ResumePending, Completed),
         (Resuming, Running), (Resuming, ResumePending), (Resuming, AwaitingClientAction),
         (Resuming, Completed), (AwaitingClientAction, ResumePending), (AwaitingClientAction, Completed)}"
  unfolding edge_def session_ValidTransitions_def
  by (subst set_appendAnyStateTerminalEdges(1), simp,
      cases s, simp_all add: anyStateTerminalTargets_def in_session_All, blast+)

lemma session_IsValid_edge: "session_IsValid s t = None \<longleftrightarrow> edge session_ValidTransitions s t"
  by (simp add: session_IsValid_def edge_def)

lemma session_IsValid_rel: "(\<lambda>a b. session_IsValid a b = None) = edge session_ValidTransitions"
  by (intro ext) (simp add: session_IsValid_edge)

interpretation session_table: transition_table session_All session_ValidTransitions session_IsTerminal
  "\<lambda>s. if session_IsTerminal s then 0 else 1"
proof unfold_locales
  fix s t assume "edge session_ValidTransitions s t"
  then show "t \<in> set session_All" "\<not> session_IsTerminal s"
    unfolding session_edge_iff in_session_All by auto
next
  fix s assume "s \<in> set session_All" "\<not> session_IsTerminal s"
  then show "\<exists>t. edge session_ValidTransitions s t \<and>
        (if session_IsTerminal t then 0 else 1) < (if session_IsTerminal s then 0 else (1::nat))"
    by (intro exI[of _ Failed]) (simp add: session_edge_iff)
qed

section \<open>Admission of the REST endpoints\<close>

lemma set_rule_states:
  "set (rule_states r caps) = set (baseStates r) \<union> (\<Union>g\<in>set (gated r). if caps (gs_flag g) then set (gs_states g) else {})"
proof -
  have "set (foldl (\<lambda>acc g. if caps (gs_flag g) then acc @ gs_states g else acc) b gs)
        = set b \<union> (\<Union>g\<in>set gs. if caps (gs_flag g) then set (gs_states g) else {})" for b gs
    by (induction gs arbitrary: b) auto
  then show ?thesis by (simp add: rule_states_def)
qed

lemma set_externallyVisible [simp]: "set (externallyVisible ss) = set ss \<inter> set AllStates"
  by (auto simp: externallyVisible_def)

lemma sorted_externallyVisible: "sorted (map state_string (externallyVisible ss))"
  by (simp add: externallyVisible_def)

lemma in_AllStates: "s \<in> set AllStates \<longleftrightarrow> s \<in> set session_All \<and> s \<noteq> Resuming"
  by (cases s) (simp_all add: AllStates_def session_All_def)

lemma set_nonTerminalStates:
  "set nonTerminalStates = {s \<in> set session_All. \<not> session_IsTerminal s \<and> s \<noteq> Resuming}"
  by (auto simp: nonTerminalStates_def in_AllStates)

lemma Validate_None_iff:
  "Validate r = None \<longleftrightarrow>
    (\<exists>rule. preconditionTable (pr_Endpoint r) = Some rule
          \<and> pr_CurrentState r \<in> set (rule_states rule (pr_Capabilities r)))"
  by (auto simp: Validate_def Let_def list_ex_iff split: option.splits)

lemma Validate_simps:
  "Validate \<lparr>pr_Endpoint = EndpointDelete, pr_CurrentState = s, pr_Capabilities = c\<rparr> = None
     \<longleftrightarrow> s \<in> set session_All \<and> \<not> session_IsTerminal s"
  "Validate \<lparr>pr_Endpoint = EndpointTerminate, pr_CurrentState = s, pr_Capabilities = c\<rparr> = None
     \<longleftrightarrow> s \<in> set session_All \<and> \<not> session_IsTerminal s"
  "Validate \<lparr>pr_Endpoint = EndpointFinalize, pr_CurrentState = s, pr_Capabilities = c\<rparr> = None \<longleftrightarrow> s = Created"
  "Validate \<lparr>pr_Endpoint = EndpointStart, pr_CurrentState = s, pr_Capabilities = c\<rparr> = None \<longleftrightarrow> s = Ready"
  "Validate \<lparr>pr_Endpoint = EndpointInterrupt, pr_CurrentState = s, pr_Capabilities = c\<rparr> = None \<longleftrightarrow> s = Running"
  "Validate \<lparr>pr_Endpoint = EndpointResume, pr_CurrentState = s, pr_Capabilities = c\<rparr> = None
     \<longleftrightarrow> s = AwaitingClientAction \<or> s = Suspended"
  by (cases s; simp add: Validate_None_iff preconditionTable_def set_rule_states set_nonTerminalStates
        session_All_def)+

section \<open>Properties\<close>

text \<open>
  C15. A canonical session state is terminal exactly when no sequence of legal
  transitions leaves it, and from every non-terminal canonical state the three
  terminal writes \<^verbatim>\<open>failed\<close>, \<^verbatim>\<open>expired\<close> and \<^verbatim>\<open>cancelled\<close> are legal.
\<close>

theorem session_terminal_iff_absorbing:
  assumes "s \<in> set session_All"
  shows "(session_IsTerminal s \<longleftrightarrow> (\<forall>t. (\<lambda>a b. session_IsValid a b = None)\<^sup>*\<^sup>* s t \<longrightarrow> t = s))
       \<and> (\<not> session_IsTerminal s \<longrightarrow>
            (\<forall>t\<in>{Failed, Expired, Cancelled}. session_IsValid s t = None))"
proof (cases "session_IsTerminal s")
  case True
  then show ?thesis
    using session_table.sink_absorbing unfolding session_IsValid_rel by blast
next
  case False
  then have "edge session_ValidTransitions s t" if "t \<in> {Failed, Expired, Cancelled}" for t
    using assms that by (auto simp: session_edge_iff)
  moreover have "s \<noteq> Failed" using False by auto
  ultimately show ?thesis
    using False unfolding session_IsValid_rel session_IsValid_edge by blast
qed

theorem session_terminal_iff_absorbing_witness:
  "(session_IsTerminal Resuming \<longleftrightarrow>
      (\<forall>t. (\<lambda>a b. session_IsValid a b = None)\<^sup>*\<^sup>* Resuming t \<longrightarrow> t = Resuming))
   \<and> session_IsValid Resuming Expired = None"
  using session_terminal_iff_absorbing[of Resuming] by (simp add: session_All_def)

text \<open>
  C16. A request the REST precondition check rejects answers with the same
  \<^verbatim>\<open>allowedStates\<close> that \<open>AllowedStates\<close> computes: sorted by wire name, never
  naming the internal \<^verbatim>\<open>resuming\<close> state, and never naming the state the
  session is in, so a client is not told to retry in its current state.
\<close>

theorem Validate_error_body:
  assumes "Validate r = Some (PreconditionError e cur allowed)"
  shows "e = pr_Endpoint r \<and> cur = pr_CurrentState r
       \<and> allowed = AllowedStates e (pr_Capabilities r)
       \<and> sorted (map state_string allowed) \<and> Resuming \<notin> set allowed \<and> cur \<notin> set allowed"
  using assms
  by (auto simp: Validate_def AllowedStates_def Let_def list_ex_iff sorted_externallyVisible in_AllStates
      split: option.splits if_splits)

theorem Validate_error_body_witness:
  "Validate \<lparr>pr_Endpoint = EndpointResume, pr_CurrentState = Running, pr_Capabilities = (\<lambda>_. False)\<rparr>
     = Some (PreconditionError EndpointResume Running [AwaitingClientAction, Suspended])
   \<and> AllowedStates EndpointResume (\<lambda>_. False) = [AwaitingClientAction, Suspended]"
proof -
  have v: "Validate \<lparr>pr_Endpoint = EndpointResume, pr_CurrentState = Running, pr_Capabilities = (\<lambda>_. False)\<rparr>
     = Some (PreconditionError EndpointResume Running [AwaitingClientAction, Suspended])"
    by code_simp
  then show ?thesis using Validate_error_body[OF v] by simp
qed

text \<open>
  C17. The effective messaging scope is \<^verbatim>\<open>siblings\<close> exactly when the deployment
  default is \<^verbatim>\<open>siblings\<close>, neither the tenant nor the runtime sets another value,
  and the ceiling is not \<^verbatim>\<open>direct\<close>; otherwise it is \<^verbatim>\<open>direct\<close>. In particular
  no tenant or runtime value widens a \<^verbatim>\<open>direct\<close> default.
\<close>

theorem ResolveEffectiveMessagingScope_narrowest:
  "ResolveEffectiveMessagingScope dflt ceiling tenant runtime =
    (if dflt = ScopeSiblings \<and> tenant \<in> {ScopeUnset, ScopeSiblings}
        \<and> runtime \<in> {ScopeUnset, ScopeSiblings} \<and> ceiling \<noteq> ScopeDirect
     then ScopeSiblings else ScopeDirect)"
  by (simp add: ResolveEffectiveMessagingScope_def narrowerMessagingScope_def restrictiveness_def
      scope_OrDefault_def Let_def)

end
