(* ===== verification/Retry_Policy.thy ===== *)
theory Retry_Policy
  imports Session_State
begin

text \<open>
  The per-session retry policy (\<^verbatim>\<open>pkg/api/v1/session/retry_policy.go\<close>) and the
  error code of a failed child (\<^verbatim>\<open>task_error_code.go\<close>). A nil policy pointer is
  \<open>None\<close>. Failure reasons are Go strings. \<^verbatim>\<open>strings.ToUpper\<close> is modelled on
  the lower-case ASCII letters, the only ones the canonical state names contain.
\<close>

section \<open>Data\<close>

datatype retry_mode = RetryModeAutoThenClient | RetryModeClientOnly | RetryModeUnset | RetryModeOther string

record retry_policy =
  rp_Mode :: retry_mode
  rp_MaxRetries :: int
  rp_RetryableFailures :: "string list"
  rp_NonRetryableFailures :: "string list"
  rp_MaxSessionAgeSeconds :: int
  rp_MaxResumeWindowSeconds :: int

record retry_policy_caps =
  rc_MaxRetries :: int
  rc_MaxSessionAgeSeconds :: int
  rc_MaxResumeWindowSeconds :: int

datatype retry_policy_field = FieldMode | FieldMaxRetries | FieldMaxSessionAgeSeconds | FieldMaxResumeWindowSeconds

datatype failure_classification = FailureUnclassified | FailureRetryable | FailureNonRetryable | FailureUnknown

section \<open>Operations\<close>

definition DefaultRetryMode :: retry_mode where
  "DefaultRetryMode = RetryModeAutoThenClient"

definition AllRetryModes :: "retry_mode list" where
  "AllRetryModes = [RetryModeAutoThenClient, RetryModeClientOnly]"

definition retry_mode_IsValid :: "retry_mode \<Rightarrow> bool" where
  "retry_mode_IsValid m \<longleftrightarrow> list_ex (\<lambda>v. m = v) AllRetryModes"

definition retry_mode_Resolve :: "retry_mode \<Rightarrow> retry_mode" where
  "retry_mode_Resolve m = (if retry_mode_IsValid m then m else DefaultRetryMode)"

text \<open>The error is the field it names; the reason text is not modelled.\<close>

definition ValidateRetryPolicy :: "retry_policy option \<Rightarrow> retry_policy_field option" where
  "ValidateRetryPolicy po =
    (case po of None \<Rightarrow> None
     | Some p \<Rightarrow>
         if rp_Mode p \<noteq> RetryModeUnset \<and> \<not> retry_mode_IsValid (rp_Mode p) then Some FieldMode
         else if rp_MaxRetries p < 0 then Some FieldMaxRetries
         else if rp_MaxSessionAgeSeconds p < 0 then Some FieldMaxSessionAgeSeconds
         else if rp_MaxResumeWindowSeconds p < 0 then Some FieldMaxResumeWindowSeconds
         else None)"

text \<open>The three clamps of the function have one shape.\<close>

definition clamp_field :: "int \<Rightarrow> int \<Rightarrow> int" where
  "clamp_field cap v = (if cap > 0 then (if v \<le> 0 \<or> v > cap then cap else v) else v)"

definition ClampRetryPolicy :: "retry_policy option \<Rightarrow> retry_policy_caps \<Rightarrow> retry_policy" where
  "ClampRetryPolicy po caps =
    (let out = (case po of
                  None \<Rightarrow> \<lparr>rp_Mode = DefaultRetryMode, rp_MaxRetries = 0, rp_RetryableFailures = [],
                           rp_NonRetryableFailures = [], rp_MaxSessionAgeSeconds = 0,
                           rp_MaxResumeWindowSeconds = 0\<rparr>
                | Some p \<Rightarrow> p);
         out = out\<lparr>rp_Mode := retry_mode_Resolve (rp_Mode out)\<rparr>;
         out = out\<lparr>rp_MaxRetries := clamp_field (rc_MaxRetries caps) (rp_MaxRetries out)\<rparr>;
         out = out\<lparr>rp_MaxSessionAgeSeconds :=
                 clamp_field (rc_MaxSessionAgeSeconds caps) (rp_MaxSessionAgeSeconds out)\<rparr>
     in out\<lparr>rp_MaxResumeWindowSeconds :=
              clamp_field (rc_MaxResumeWindowSeconds caps) (rp_MaxResumeWindowSeconds out)\<rparr>)"

definition DefaultRetryableFailures :: "string list" where
  "DefaultRetryableFailures = [''pod_evicted'', ''node_lost'', ''runtime_crash'']"

definition DefaultNonRetryableFailures :: "string list" where
  "DefaultNonRetryableFailures =
    [''workspace_validation_failed'', ''setup_command_failed'', ''credential_rejected'']"

definition containsString :: "string list \<Rightarrow> string \<Rightarrow> bool" where
  "containsString s v \<longleftrightarrow> list_ex (\<lambda>x. x = v) s"

definition ClassifyFailure :: "string \<Rightarrow> retry_policy option \<Rightarrow> failure_classification" where
  "ClassifyFailure reason po =
    (if reason = '''' then FailureUnclassified
     else
       (let retryable = (case po of Some p \<Rightarrow>
                           (if rp_RetryableFailures p \<noteq> [] then rp_RetryableFailures p
                            else DefaultRetryableFailures)
                         | None \<Rightarrow> DefaultRetryableFailures);
            nonRetryable = (case po of Some p \<Rightarrow>
                           (if rp_NonRetryableFailures p \<noteq> [] then rp_NonRetryableFailures p
                            else DefaultNonRetryableFailures)
                         | None \<Rightarrow> DefaultNonRetryableFailures)
        in if (case po of Some p \<Rightarrow> rp_Mode p = RetryModeClientOnly | None \<Rightarrow> False)
           then (if containsString retryable reason \<or> containsString nonRetryable reason
                 then FailureNonRetryable else FailureUnknown)
           else if containsString retryable reason then FailureRetryable
           else if containsString nonRetryable reason then FailureNonRetryable
           else FailureUnknown))"

definition to_upper :: "string \<Rightarrow> string" where
  "to_upper = map (\<lambda>c. if of_char c \<ge> (97::nat) \<and> of_char c \<le> (122::nat)
                       then char_of (of_char c - (32::nat)) else c)"

definition reasonErrorCodes :: "string \<Rightarrow> string option" where
  "reasonErrorCodes = map_of
    [(''deadlock_timeout'', ''DEADLOCK_TIMEOUT''),
     (''runtime_crash'', ''RUNTIME_CRASH''),
     (''setup_command_failed'', ''SETUP_COMMAND_FAILED'')]"

definition TaskErrorCode :: "string \<Rightarrow> session_state \<Rightarrow> string" where
  "TaskErrorCode reason st =
    (if reason = '''' then ''CHILD_'' @ to_upper (state_string st)
     else case reasonErrorCodes reason of Some code \<Rightarrow> code | None \<Rightarrow> reason)"

section \<open>Lemmas\<close>

lemma containsString_iff [simp]: "containsString s v \<longleftrightarrow> v \<in> set s"
  by (auto simp: containsString_def list_ex_iff)

lemma clamp_field_idem: "clamp_field c (clamp_field c v) = clamp_field c v"
  by (simp add: clamp_field_def)

lemma clamp_field_bound: "0 < c \<Longrightarrow> 0 < clamp_field c v \<and> clamp_field c v \<le> c"
  by (simp add: clamp_field_def)

lemma retry_mode_IsValid_iff [simp]:
  "retry_mode_IsValid m \<longleftrightarrow> m = RetryModeAutoThenClient \<or> m = RetryModeClientOnly"
  by (auto simp: retry_mode_IsValid_def AllRetryModes_def)

lemma retry_mode_Resolve_valid: "retry_mode_IsValid (retry_mode_Resolve m)"
  by (simp add: retry_mode_Resolve_def DefaultRetryMode_def)

section \<open>Properties\<close>



end
