(* ===== verification/Pod_State.thy ===== *)
theory Pod_State
  imports Lenny_Prelude
begin

text \<open>
  The transition tables of the warm-pod layer: the coarse pod phase
  (\<^verbatim>\<open>pkg/sandbox/state/state.go\<close>), the SandboxClaim binding state
  (\<^verbatim>\<open>pkg/sandboxclaim/state/state.go\<close>) and the per-slot sub-state
  (\<^verbatim>\<open>pkg/sandbox/slotstate/slotstate.go\<close>). Each Go \<^verbatim>\<open>type State string\<close> is
  a datatype with the declared constants, the empty string where the code
  distinguishes it, and a constructor for any other string. All three tables
  interpret \<open>transition_table\<close>.
\<close>

section \<open>Pod phases\<close>

datatype pod_phase =
    PhWarming | PhSDKConnecting | PhIdle | PhReserved | PhClaimed
  | PhFailed | PhDraining | PhTerminated
  | PhEmpty | PhOther string

definition RuntimeProcessLifetime :: "string \<Rightarrow> string" where
  "RuntimeProcessLifetime poolValue = (if poolValue = ''restart'' then ''restart'' else ''keep'')"

definition CoarseState :: "pod_phase \<Rightarrow> string \<times> bool" where
  "CoarseState s =
    (case s of
       PhIdle \<Rightarrow> (''idle'', True)
     | PhDraining \<Rightarrow> (''draining'', True)
     | PhClaimed \<Rightarrow> (''active'', True)
     | PhReserved \<Rightarrow> (''active'', True)
     | _ \<Rightarrow> ('''', False))"

definition pod_All :: "pod_phase list" where
  "pod_All = [PhWarming, PhSDKConnecting, PhIdle, PhReserved, PhClaimed,
              PhFailed, PhDraining, PhTerminated]"

definition pod_Terminal :: "pod_phase list" where
  "pod_Terminal = [PhFailed, PhTerminated]"

definition pod_IsTerminal :: "pod_phase \<Rightarrow> bool" where
  "pod_IsTerminal s \<longleftrightarrow> list_ex (\<lambda>t. s = t) pod_Terminal"

definition pod_ValidTransitions :: "(pod_phase \<times> pod_phase) list" where
  "pod_ValidTransitions =
    [(PhWarming, PhIdle),
     (PhWarming, PhFailed),
     (PhWarming, PhSDKConnecting),
     (PhSDKConnecting, PhIdle),
     (PhSDKConnecting, PhFailed),
     (PhSDKConnecting, PhTerminated),
     (PhIdle, PhClaimed),
     (PhClaimed, PhClaimed),
     (PhIdle, PhDraining),
     (PhClaimed, PhDraining),
     (PhFailed, PhDraining),
     (PhDraining, PhTerminated),
     (PhClaimed, PhSDKConnecting),
     (PhClaimed, PhReserved),
     (PhSDKConnecting, PhReserved),
     (PhReserved, PhClaimed),
     (PhReserved, PhIdle)]"

text \<open>An invalid edge is reported with its endpoints; \<open>None\<close> is Go's nil.\<close>

definition pod_IsValid :: "pod_phase \<Rightarrow> pod_phase \<Rightarrow> (pod_phase \<times> pod_phase) option" where
  "pod_IsValid from to = (if (from, to) \<in> set pod_ValidTransitions then None else Some (from, to))"

section \<open>Claim binding states\<close>

datatype claim_state =
    ClBound | ClRecycling | ClReserved | ClReleased | ClFailed | ClEmpty | ClOther string

definition claim_All :: "claim_state list" where
  "claim_All = [ClBound, ClRecycling, ClReserved, ClReleased, ClFailed]"

definition claim_Terminal :: "claim_state list" where
  "claim_Terminal = [ClReleased, ClFailed]"

definition claim_IsTerminal :: "claim_state \<Rightarrow> bool" where
  "claim_IsTerminal s \<longleftrightarrow> list_ex (\<lambda>t. s = t) claim_Terminal"

definition claim_ValidTransitions :: "(claim_state \<times> claim_state) list" where
  "claim_ValidTransitions =
    [(ClEmpty, ClBound),
     (ClBound, ClRecycling),
     (ClRecycling, ClReserved),
     (ClReserved, ClBound),
     (ClBound, ClReleased),
     (ClBound, ClFailed),
     (ClRecycling, ClReleased),
     (ClRecycling, ClFailed),
     (ClReserved, ClReleased),
     (ClReserved, ClFailed)]"

definition claim_IsValid :: "claim_state \<Rightarrow> claim_state \<Rightarrow> (claim_state \<times> claim_state) option" where
  "claim_IsValid from to = (if (from, to) \<in> set claim_ValidTransitions then None else Some (from, to))"

section \<open>Slot sub-states\<close>

datatype slot_state =
    SlotAssigned | ReceivingUploads | SlotRunning | SlotCleanup
  | SlotReleased | SlotLeaked | SlotFailed | SlotOther string

definition slot_All :: "slot_state list" where
  "slot_All = [SlotAssigned, ReceivingUploads, SlotRunning, SlotCleanup,
               SlotReleased, SlotLeaked, SlotFailed]"

definition IsValidState :: "slot_state \<Rightarrow> bool" where
  "IsValidState s = (case s of SlotOther _ \<Rightarrow> False | _ \<Rightarrow> True)"

definition slot_Terminal :: "slot_state \<Rightarrow> bool" where
  "slot_Terminal s =
    (case s of SlotReleased \<Rightarrow> True | SlotLeaked \<Rightarrow> True | SlotFailed \<Rightarrow> True | _ \<Rightarrow> False)"

definition OccupiesSlot :: "slot_state \<Rightarrow> bool" where
  "OccupiesSlot s \<longleftrightarrow> s \<noteq> SlotReleased"

definition slot_ValidTransitions :: "(slot_state \<times> slot_state) list" where
  "slot_ValidTransitions =
    [(SlotAssigned, ReceivingUploads),
     (ReceivingUploads, SlotRunning),
     (ReceivingUploads, SlotCleanup),
     (SlotRunning, SlotCleanup),
     (SlotRunning, SlotFailed),
     (SlotCleanup, SlotReleased),
     (SlotCleanup, SlotLeaked)]"

definition slot_IsValid :: "slot_state \<Rightarrow> slot_state \<Rightarrow> (slot_state \<times> slot_state) option" where
  "slot_IsValid from to = (if (from, to) \<in> set slot_ValidTransitions then None else Some (from, to))"

text \<open>The length of the longest lifecycle a slot still has before it.\<close>

definition slot_rank :: "slot_state \<Rightarrow> nat" where
  "slot_rank s =
    (case s of SlotAssigned \<Rightarrow> 4 | ReceivingUploads \<Rightarrow> 3 | SlotRunning \<Rightarrow> 2 | SlotCleanup \<Rightarrow> 1 | _ \<Rightarrow> 0)"

definition pod_distance :: "pod_phase \<Rightarrow> nat" where
  "pod_distance s =
    (case s of PhTerminated \<Rightarrow> 0 | PhDraining \<Rightarrow> 1 | PhSDKConnecting \<Rightarrow> 1 | PhReserved \<Rightarrow> 3
     | PhWarming \<Rightarrow> 3 | _ \<Rightarrow> 2)"

definition claim_distance :: "claim_state \<Rightarrow> nat" where
  "claim_distance s = (case s of ClReleased \<Rightarrow> 0 | ClFailed \<Rightarrow> 0 | ClEmpty \<Rightarrow> 2 | _ \<Rightarrow> 1)"

lemmas [table_defs] = pod_All_def pod_Terminal_def pod_IsTerminal_def pod_ValidTransitions_def
  claim_All_def claim_Terminal_def claim_IsTerminal_def claim_ValidTransitions_def
  slot_All_def slot_Terminal_def slot_ValidTransitions_def

section \<open>The tables keep their contracts\<close>

lemma pod_IsTerminal_iff [simp]: "pod_IsTerminal s \<longleftrightarrow> s = PhFailed \<or> s = PhTerminated"
  by (auto simp: pod_IsTerminal_def pod_Terminal_def)

lemma claim_IsTerminal_iff [simp]: "claim_IsTerminal s \<longleftrightarrow> s = ClReleased \<or> s = ClFailed"
  by (auto simp: claim_IsTerminal_def claim_Terminal_def)

lemma pod_IsValid_edge: "pod_IsValid s t = None \<longleftrightarrow> edge pod_ValidTransitions s t"
  by (simp add: pod_IsValid_def edge_def)

lemma claim_IsValid_edge: "claim_IsValid s t = None \<longleftrightarrow> edge claim_ValidTransitions s t"
  by (simp add: claim_IsValid_def edge_def)

lemma slot_IsValid_edge: "slot_IsValid s t = None \<longleftrightarrow> edge slot_ValidTransitions s t"
  by (simp add: slot_IsValid_def edge_def)

lemma slot_IsValid_rel: "(\<lambda>a b. slot_IsValid a b = None) = edge slot_ValidTransitions"
  by (intro ext) (simp add: slot_IsValid_edge)

lemma pod_IsValid_rel: "(\<lambda>a b. pod_IsValid a b = None) = edge pod_ValidTransitions"
  by (intro ext) (simp add: pod_IsValid_edge)

lemma pod_table_laws:
  "list_all (\<lambda>(s, t). t \<in> set pod_All \<and> s \<noteq> PhTerminated) pod_ValidTransitions"
  "list_all (\<lambda>s. s = PhTerminated
     \<or> list_ex (\<lambda>(a, b). a = s \<and> pod_distance b < pod_distance s) pod_ValidTransitions) pod_All"
  by (simp_all add: pod_ValidTransitions_def pod_All_def pod_distance_def)

lemma claim_table_laws:
  "list_all (\<lambda>(s, t). t \<in> set (ClEmpty # claim_All) \<and> \<not> claim_IsTerminal s) claim_ValidTransitions"
  "list_all (\<lambda>s. claim_IsTerminal s
     \<or> list_ex (\<lambda>(a, b). a = s \<and> claim_distance b < claim_distance s) claim_ValidTransitions)
     (ClEmpty # claim_All)"
  by (simp_all add: claim_ValidTransitions_def claim_All_def claim_distance_def)

lemma slot_table_laws:
  "list_all (\<lambda>(s, t). t \<in> set slot_All \<and> \<not> slot_Terminal s \<and> slot_rank t < slot_rank s)
     slot_ValidTransitions"
  "list_all (\<lambda>s. slot_Terminal s
     \<or> list_ex (\<lambda>(a, b). a = s \<and> slot_rank b < slot_rank s) slot_ValidTransitions) slot_All"
  by (simp_all add: slot_ValidTransitions_def slot_All_def slot_rank_def slot_Terminal_def)

interpretation pod_table: transition_table pod_All pod_ValidTransitions "\<lambda>s. s = PhTerminated" pod_distance
  using edge_all[OF pod_table_laws(1)] pod_table_laws(2)
  by unfold_locales (auto simp: edge_ex_iff list_all_iff)

interpretation claim_table: transition_table "ClEmpty # claim_All" claim_ValidTransitions claim_IsTerminal
  claim_distance
  using edge_all[OF claim_table_laws(1)] claim_table_laws(2)
  by unfold_locales (auto simp: edge_ex_iff list_all_iff)

interpretation slot_table: ranked_table slot_All slot_ValidTransitions slot_Terminal slot_rank
  using edge_all[OF slot_table_laws(1)] slot_table_laws(2)
  by unfold_locales (auto simp: edge_ex_iff list_all_iff)

section \<open>Properties\<close>

text \<open>
  C24. A slot's lifecycle is finite and cannot be reopened: any sequence of legal
  sub-state transitions from a freshly assigned slot has at most four steps, and
  a maximal one has ended in a terminal sub-state.
\<close>

theorem slot_lifecycle_bounded:
  assumes "legal_run slot_ValidTransitions SlotAssigned ts"
  shows "length ts \<le> 4
       \<and> ((\<forall>t. slot_IsValid (last (SlotAssigned # ts)) t \<noteq> None) \<longrightarrow> slot_Terminal (last (SlotAssigned # ts)))"
proof -
  have path: "(edge slot_ValidTransitions)\<^sup>*\<^sup>* SlotAssigned (last (SlotAssigned # ts))"
    using legal_run_path[OF assms] .
  then have "last (SlotAssigned # ts) \<in> set slot_All"
    by (rule slot_table.run_states) (simp add: slot_All_def)
  then have "(\<forall>t. slot_IsValid (last (SlotAssigned # ts)) t \<noteq> None)
      \<longrightarrow> slot_Terminal (last (SlotAssigned # ts))"
    using slot_table.progress unfolding slot_IsValid_edge by blast
  then show ?thesis
    using slot_table.run_bounded[OF assms] by (simp add: slot_rank_def)
qed

theorem slot_lifecycle_bounded_witness:
  "length [ReceivingUploads, SlotRunning, SlotCleanup, SlotLeaked] \<le> 4 \<and> slot_Terminal SlotLeaked"
proof -
  have "legal_run slot_ValidTransitions SlotAssigned [ReceivingUploads, SlotRunning, SlotCleanup, SlotLeaked]"
    by (simp add: edge_def slot_ValidTransitions_def)
  from slot_lifecycle_bounded[OF this] show ?thesis
    by (simp add: slot_Terminal_def)
qed

text \<open>
  C25. The pod-phase table has exactly one sink, \<^verbatim>\<open>terminated\<close>: no legal
  sequence leaves it, every other canonical phase can reach it, and
  \<^verbatim>\<open>failed\<close>, which the code also lists as terminal, has the reclaim edge to
  \<^verbatim>\<open>draining\<close> as its only way out.
\<close>

theorem pod_terminated_only_sink:
  assumes "s \<in> set pod_All"
  shows "(\<exists>t. (\<lambda>a b. pod_IsValid a b = None)\<^sup>*\<^sup>* s t \<and> t = PhTerminated)
       \<and> (s = PhTerminated \<longleftrightarrow> (\<forall>t. (\<lambda>a b. pod_IsValid a b = None)\<^sup>*\<^sup>* s t \<longrightarrow> t = s))
       \<and> (pod_IsValid PhFailed t = None \<longleftrightarrow> t = PhDraining)"
proof -
  have "pod_IsValid PhFailed t = None \<longleftrightarrow> t = PhDraining"
    by (auto simp: pod_IsValid_def pod_ValidTransitions_def)
  moreover have "\<exists>t. (edge pod_ValidTransitions)\<^sup>*\<^sup>* s t \<and> t = PhTerminated"
    by (rule pod_table.reaches_sink[OF assms])
  moreover have "s = PhTerminated \<longleftrightarrow> (\<forall>t. (edge pod_ValidTransitions)\<^sup>*\<^sup>* s t \<longrightarrow> t = s)"
    using calculation(2) pod_table.sink_absorbing[of s] by blast
  ultimately show ?thesis
    unfolding pod_IsValid_rel by blast
qed

theorem pod_terminated_only_sink_witness:
  "\<exists>t. (\<lambda>a b. pod_IsValid a b = None)\<^sup>*\<^sup>* PhFailed t \<and> t = PhTerminated"
  using pod_terminated_only_sink[of PhFailed] by (simp add: pod_All_def)

end
