(* ===== verification/Pod_Lifecycle.thy ===== *)
theory Pod_Lifecycle
  imports Pod_State
begin

text \<open>
  The two controller arms that write the phase of a warm pod: the Sandbox-to-Pod
  reconciler (\<^verbatim>\<open>pkg/controller/sandbox/controller.go\<close>, \<^verbatim>\<open>sdkwarm.go\<close>) with
  its planner (\<^verbatim>\<open>lifecycle/lifecycle.go\<close>), and the occupancy projection
  (\<^verbatim>\<open>pkg/controller/warmpool/occupancy.go\<close>).

  Kubernetes objects are inputs: a Pod is the record of the fields the code reads,
  a Get of a SandboxClaim returns an error, not-found or the claim. A reconcile that
  returns an error writes no phase, which is the result \<open>None\<close>. Status
  de-duplication, metrics and label writes do not change the phase and are left out.

  The third group is the gateway's claim writes
  (\<^verbatim>\<open>pkg/gateway/podlifecycle/podclaim/bindingstate.go\<close>).
\<close>

section \<open>The planner\<close>

datatype pod_observation =
  PodAbsent | PodPending | PodReady | PodNotReady | PodFailed | PodSucceeded | PodTerminating

datatype action = ActionNone | ActionCreatePod | ActionDeletePod | ActionSetPhase

record decision =
  Action :: action
  NextPhase :: pod_phase

text \<open>Go's zero value \<^verbatim>\<open>Decision{}\<close>.\<close>

definition no_decision :: decision where
  "no_decision = \<lparr>Action = ActionNone, NextPhase = PhEmpty\<rparr>"

definition setPhase :: "pod_phase \<Rightarrow> decision" where
  "setPhase p = \<lparr>Action = ActionSetPhase, NextPhase = p\<rparr>"

definition holdTerminatingWarming :: decision where
  "holdTerminatingWarming = no_decision"

definition Decide :: "pod_phase \<Rightarrow> pod_observation \<Rightarrow> decision" where
  "Decide phase pod =
    (if phase = PhEmpty \<or> phase = PhWarming then
       (case pod of
          PodAbsent \<Rightarrow> \<lparr>Action = ActionCreatePod, NextPhase = PhEmpty\<rparr>
        | PodReady \<Rightarrow> setPhase PhIdle
        | PodFailed \<Rightarrow> setPhase PhFailed
        | PodSucceeded \<Rightarrow> setPhase PhFailed
        | PodTerminating \<Rightarrow> holdTerminatingWarming
        | _ \<Rightarrow> no_decision)
     else if phase = PhIdle then
       (case pod of
          PodAbsent \<Rightarrow> setPhase PhDraining
        | PodFailed \<Rightarrow> setPhase PhDraining
        | PodSucceeded \<Rightarrow> setPhase PhDraining
        | PodTerminating \<Rightarrow> setPhase PhDraining
        | _ \<Rightarrow> no_decision)
     else if phase = PhFailed then setPhase PhDraining
     else if phase = PhDraining then
       (case pod of
          PodAbsent \<Rightarrow> setPhase PhTerminated
        | PodTerminating \<Rightarrow> no_decision
        | _ \<Rightarrow> \<lparr>Action = ActionDeletePod, NextPhase = PhEmpty\<rparr>)
     else no_decision)"

definition HoldFailedReclaim :: "pod_phase \<Rightarrow> bool \<Rightarrow> decision \<Rightarrow> decision" where
  "HoldFailedReclaim phase claimPresent d =
    (if phase = PhFailed \<and> claimPresent then no_decision else d)"

record sdk_warm_inputs =
  si_Phase :: pod_phase
  si_Pod :: pod_observation
  si_SDKConnectElapsed :: duration
  si_SDKConnectTimeout :: duration
  si_Recycle :: bool

definition TimedOut :: "sdk_warm_inputs \<Rightarrow> bool" where
  "TimedOut i \<longleftrightarrow> si_Phase i = PhSDKConnecting
    \<and> (si_Pod i = PodPending \<or> si_Pod i = PodNotReady)
    \<and> si_SDKConnectTimeout i > 0 \<and> si_SDKConnectElapsed i > si_SDKConnectTimeout i"

definition DecideSDKWarm :: "sdk_warm_inputs \<Rightarrow> decision" where
  "DecideSDKWarm i =
    (if si_Phase i = PhEmpty \<or> si_Phase i = PhWarming then
       (case si_Pod i of
          PodAbsent \<Rightarrow> \<lparr>Action = ActionCreatePod, NextPhase = PhEmpty\<rparr>
        | PodFailed \<Rightarrow> setPhase PhFailed
        | PodSucceeded \<Rightarrow> setPhase PhFailed
        | PodTerminating \<Rightarrow> holdTerminatingWarming
        | PodPending \<Rightarrow> no_decision
        | _ \<Rightarrow> setPhase PhSDKConnecting)
     else if si_Phase i = PhSDKConnecting then
       (case si_Pod i of
          PodTerminating \<Rightarrow> setPhase PhTerminated
        | PodAbsent \<Rightarrow> setPhase PhFailed
        | PodFailed \<Rightarrow> setPhase PhFailed
        | PodSucceeded \<Rightarrow> setPhase PhFailed
        | PodReady \<Rightarrow> (if si_Recycle i then no_decision else setPhase PhIdle)
        | _ \<Rightarrow> (if TimedOut i then setPhase PhFailed else no_decision))
     else Decide (si_Phase i) (si_Pod i))"

section \<open>The Sandbox-to-Pod reconciler\<close>

datatype k8s_phase = KPending | KRunning | KSucceeded | KFailed | KOther string

record k8s_pod =
  kp_deleting :: bool
  kp_Phase :: k8s_phase
  kp_ContainerStatuses :: "(string \<times> bool) list"
  kp_Conditions :: "(string \<times> string) list"
  kp_StartTime :: "go_time option"

definition agentContainerTerminated :: "k8s_pod \<Rightarrow> bool" where
  "agentContainerTerminated pod \<longleftrightarrow>
    list_ex (\<lambda>(name, terminated). (name = ''adapter'' \<or> name = ''runtime'') \<and> terminated)
      (kp_ContainerStatuses pod)"

fun podReady_loop :: "(string \<times> string) list \<Rightarrow> bool" where
  "podReady_loop [] = False"
| "podReady_loop ((typ, status) # cs) = (if typ = ''Ready'' then status = ''True'' else podReady_loop cs)"

definition podReady :: "k8s_pod \<Rightarrow> bool" where
  "podReady pod = podReady_loop (kp_Conditions pod)"

definition observePod :: "k8s_pod option \<Rightarrow> pod_observation" where
  "observePod po =
    (case po of None \<Rightarrow> PodAbsent
     | Some pod \<Rightarrow>
         if kp_deleting pod then PodTerminating
         else if kp_Phase pod = KFailed then PodFailed
         else if kp_Phase pod = KSucceeded then PodSucceeded
         else if agentContainerTerminated pod then PodFailed
         else if kp_Phase pod = KRunning then (if podReady pod then PodReady else PodNotReady)
         else PodPending)"

text \<open>The status of a SandboxClaim; a nil time pointer is \<open>None\<close>.\<close>

record sandbox_claim =
  cl_Phase :: claim_state
  cl_RewarmStartedAt :: "go_time option"
  cl_HoldExpiresAt :: "go_time option"
  cl_BindingStateTransitionTime :: "go_time option"

datatype claim_read = ClaimReadError | ClaimNotFound | ClaimFound sandbox_claim

record sdk_warm_config =
  sc_preConnect :: bool
  sc_disabled :: bool
  sc_connectTimeout :: duration

definition sdkWarmActive :: "sdk_warm_config \<Rightarrow> bool" where
  "sdkWarmActive c \<longleftrightarrow> sc_preConnect c \<and> \<not> sc_disabled c"

definition podRunningFor :: "k8s_pod option \<Rightarrow> go_time \<Rightarrow> duration" where
  "podRunningFor po now =
    (case po of None \<Rightarrow> 0
     | Some pod \<Rightarrow> (case kp_StartTime pod of None \<Rightarrow> 0
        | Some t \<Rightarrow> (let d = time_sub now t in if d < 0 then 0 else d)))"

definition rewarmElapsed :: "go_time \<Rightarrow> go_time \<Rightarrow> duration" where
  "rewarmElapsed rewarmStartedAt now = (let d = time_sub now rewarmStartedAt in if d < 0 then 0 else d)"

text \<open>Inl: a read error. Inr: the re-warm stamp, if the claim is on the re-warm leg.\<close>

definition observeRewarm :: "claim_read \<Rightarrow> unit + go_time option" where
  "observeRewarm r =
    (case r of ClaimReadError \<Rightarrow> Inl ()
     | ClaimNotFound \<Rightarrow> Inr None
     | ClaimFound cl \<Rightarrow>
         if cl_Phase cl \<noteq> ClRecycling \<or> cl_RewarmStartedAt cl = None then Inr None
         else Inr (cl_RewarmStartedAt cl))"

definition claimPresent :: "claim_read \<Rightarrow> unit + bool" where
  "claimPresent r =
    (case r of ClaimReadError \<Rightarrow> Inl () | ClaimNotFound \<Rightarrow> Inr False | ClaimFound _ \<Rightarrow> Inr True)"

definition sdkWarmInputs ::
  "pod_phase \<Rightarrow> pod_observation \<Rightarrow> k8s_pod option \<Rightarrow> sdk_warm_config \<Rightarrow> go_time option \<Rightarrow> go_time \<Rightarrow> sdk_warm_inputs" where
  "sdkWarmInputs phase obs pod cfg rewarm now =
    \<lparr>si_Phase = phase, si_Pod = obs,
     si_SDKConnectElapsed = (case rewarm of Some t \<Rightarrow> rewarmElapsed t now | None \<Rightarrow> podRunningFor pod now),
     si_SDKConnectTimeout = sc_connectTimeout cfg,
     si_Recycle = (rewarm \<noteq> None)\<rparr>"

text \<open>The decision of one reconcile; \<open>None\<close> when a claim read fails.\<close>

definition reconcile_decision ::
  "pod_phase \<Rightarrow> k8s_pod option \<Rightarrow> sdk_warm_config \<Rightarrow> claim_read \<Rightarrow> go_time \<Rightarrow> decision option" where
  "reconcile_decision phase pod cfg rd now =
    (let obs = observePod pod;
         planned =
           (if sdkWarmActive cfg then
              (case (if phase = PhSDKConnecting then observeRewarm rd else Inr None) of
                 Inl _ \<Rightarrow> None
               | Inr rewarm \<Rightarrow> Some (DecideSDKWarm (sdkWarmInputs phase obs pod cfg rewarm now)))
            else Some (Decide phase obs))
     in case planned of None \<Rightarrow> None
        | Some d \<Rightarrow>
            if phase = PhFailed then
              (case claimPresent rd of Inl _ \<Rightarrow> None
               | Inr present \<Rightarrow> Some (HoldFailedReclaim PhFailed present d))
            else Some d)"

text \<open>The phase that \<^verbatim>\<open>buildSandboxStatusPatch\<close> writes.\<close>

definition phase_after :: "pod_phase \<Rightarrow> decision \<Rightarrow> pod_phase" where
  "phase_after before d = (if Action d = ActionSetPhase then NextPhase d else before)"

definition reconcile_phase ::
  "pod_phase \<Rightarrow> k8s_pod option \<Rightarrow> sdk_warm_config \<Rightarrow> claim_read \<Rightarrow> go_time \<Rightarrow> pod_phase" where
  "reconcile_phase phase pod cfg rd now =
    (case reconcile_decision phase pod cfg rd now of None \<Rightarrow> phase | Some d \<Rightarrow> phase_after phase d)"

section \<open>The occupancy projection\<close>

record occupancy =
  oc_Current :: pod_phase
  oc_HasClaim :: bool
  oc_Binding :: claim_state
  oc_RewarmStarted :: bool

text \<open>\<open>None\<close> is the second result false: the projection does not own the phase.\<close>

definition ProjectOccupancyPhase :: "occupancy \<Rightarrow> pod_phase option" where
  "ProjectOccupancyPhase oc =
    (if pod_IsTerminal (oc_Current oc) then
       (if oc_Current oc = PhFailed \<and> oc_HasClaim oc
           \<and> (oc_Binding oc = ClReleased \<or> oc_Binding oc = ClFailed)
        then Some PhDraining else None)
     else if oc_HasClaim oc then
       (case oc_Binding oc of
          ClBound \<Rightarrow> Some PhClaimed
        | ClRecycling \<Rightarrow> (if oc_RewarmStarted oc then Some PhSDKConnecting else Some PhClaimed)
        | ClReserved \<Rightarrow> Some PhReserved
        | ClReleased \<Rightarrow> Some PhDraining
        | ClFailed \<Rightarrow> Some PhDraining
        | _ \<Rightarrow> None)
     else
       (case oc_Current oc of
          PhReserved \<Rightarrow> Some PhIdle
        | PhClaimed \<Rightarrow> Some PhDraining
        | _ \<Rightarrow> None))"

definition observeClaim :: "claim_read \<Rightarrow> unit + claim_state \<times> bool \<times> bool" where
  "observeClaim r =
    (case r of ClaimReadError \<Rightarrow> Inl ()
     | ClaimNotFound \<Rightarrow> Inr (ClEmpty, False, False)
     | ClaimFound cl \<Rightarrow> Inr (cl_Phase cl, cl_RewarmStartedAt cl \<noteq> None, True))"

text \<open>
  One pass over a Sandbox that is not being deleted: the phase after it.
\<close>

definition occupancy_Reconcile :: "pod_phase \<Rightarrow> claim_read \<Rightarrow> pod_phase" where
  "occupancy_Reconcile phase rd =
    (case observeClaim rd of Inl _ \<Rightarrow> phase
     | Inr (binding, rewarm, hasClaim) \<Rightarrow>
         (case ProjectOccupancyPhase \<lparr>oc_Current = phase, oc_HasClaim = hasClaim,
                 oc_Binding = binding, oc_RewarmStarted = rewarm\<rparr> of
            None \<Rightarrow> phase
          | Some projected \<Rightarrow> if projected = phase then phase else projected))"

section \<open>The gateway's claim writes\<close>

text \<open>
  Each write of \<^verbatim>\<open>pkg/gateway/podlifecycle/podclaim/bindingstate.go\<close> builds a
  status from an empty apply skeleton and applies it; the gateway is the only field
  manager of the status, so the applied status replaces the live one. The functions
  return the status they apply: \<open>Inr None\<close> is a return without a write, \<open>Inl\<close> an
  error of the gateway's own.
\<close>

definition statusApplyPatch :: sandbox_claim where
  "statusApplyPatch = \<lparr>cl_Phase = ClEmpty, cl_RewarmStartedAt = None, cl_HoldExpiresAt = None,
                       cl_BindingStateTransitionTime = None\<rparr>"

definition writeBoundStatus :: "sandbox_claim \<Rightarrow> go_time \<Rightarrow> unit + sandbox_claim option" where
  "writeBoundStatus cur now =
    (if cl_Phase cur = ClBound then Inr None
     else Inr (Some (statusApplyPatch\<lparr>cl_Phase := ClBound, cl_BindingStateTransitionTime := Some now\<rparr>)))"

definition WriteRecyclingStatus :: "sandbox_claim \<Rightarrow> go_time \<Rightarrow> unit + sandbox_claim option" where
  "WriteRecyclingStatus cur now =
    (if cl_Phase cur = ClRecycling then Inr None
     else Inr (Some (statusApplyPatch\<lparr>cl_Phase := ClRecycling, cl_BindingStateTransitionTime := Some now\<rparr>)))"

definition WriteRewarmStartedStatus :: "sandbox_claim \<Rightarrow> go_time \<Rightarrow> unit + sandbox_claim option" where
  "WriteRewarmStartedStatus cur now =
    (if cl_Phase cur \<noteq> ClRecycling then Inl ()
     else if cl_RewarmStartedAt cur \<noteq> None then Inr None
     else Inr (Some (statusApplyPatch\<lparr>cl_Phase := ClRecycling, cl_RewarmStartedAt := Some now,
                 cl_BindingStateTransitionTime := cl_BindingStateTransitionTime cur\<rparr>)))"

definition WriteReservedStatus :: "duration \<Rightarrow> go_time \<Rightarrow> unit + sandbox_claim option" where
  "WriteReservedStatus holdTTL now =
    (let holdExpiresAt = time_add now holdTTL in
     Inr (Some (statusApplyPatch\<lparr>cl_Phase := ClReserved, cl_HoldExpiresAt := Some holdExpiresAt,
            cl_BindingStateTransitionTime := Some now\<rparr>)))"

definition WriteRebindStatus :: "go_time \<Rightarrow> unit + sandbox_claim option" where
  "WriteRebindStatus now =
    Inr (Some (statusApplyPatch\<lparr>cl_Phase := ClBound, cl_BindingStateTransitionTime := Some now\<rparr>))"

definition WriteDispositionStatus :: "claim_state \<Rightarrow> go_time \<Rightarrow> unit + sandbox_claim option" where
  "WriteDispositionStatus disposition now =
    (if \<not> claim_IsTerminal disposition then Inl ()
     else Inr (Some (statusApplyPatch\<lparr>cl_Phase := disposition, cl_BindingStateTransitionTime := Some now\<rparr>)))"

datatype claim_write =
    WBound | WRecycling | WRewarmStarted | WReserved duration | WRebind | WDisposition claim_state

primrec claim_patch :: "claim_write \<Rightarrow> sandbox_claim \<Rightarrow> go_time \<Rightarrow> unit + sandbox_claim option" where
  "claim_patch WBound cur now = writeBoundStatus cur now"
| "claim_patch WRecycling cur now = WriteRecyclingStatus cur now"
| "claim_patch WRewarmStarted cur now = WriteRewarmStartedStatus cur now"
| "claim_patch (WReserved ttl) cur now = WriteReservedStatus ttl now"
| "claim_patch WRebind cur now = WriteRebindStatus now"
| "claim_patch (WDisposition d) cur now = WriteDispositionStatus d now"

section \<open>Reading the claim, and the phases an arm can write\<close>

definition read_of :: "sandbox_claim option \<Rightarrow> claim_read" where
  "read_of c = (case c of None \<Rightarrow> ClaimNotFound | Some cl \<Rightarrow> ClaimFound cl)"

definition claim_wf :: "sandbox_claim \<Rightarrow> bool" where
  "claim_wf cl \<longleftrightarrow> (cl_RewarmStartedAt cl \<noteq> None \<longrightarrow> cl_Phase cl = ClRecycling)
              \<and> (cl_HoldExpiresAt cl \<noteq> None \<longleftrightarrow> cl_Phase cl = ClReserved)"

text \<open>The phases one pass of the lifecycle arm can write.\<close>

definition lifecycle_targets :: "pod_phase \<Rightarrow> claim_read \<Rightarrow> pod_phase set" where
  "lifecycle_targets ph rd =
    (case ph of
       PhEmpty \<Rightarrow> {PhIdle, PhFailed, PhSDKConnecting}
     | PhWarming \<Rightarrow> {PhIdle, PhFailed, PhSDKConnecting}
     | PhIdle \<Rightarrow> {PhDraining}
     | PhFailed \<Rightarrow> (if rd = ClaimNotFound then {PhDraining} else {})
     | PhDraining \<Rightarrow> {PhTerminated}
     | PhSDKConnecting \<Rightarrow> {PhTerminated, PhFailed} \<union>
         (case rd of ClaimReadError \<Rightarrow> {}
          | ClaimNotFound \<Rightarrow> {PhIdle}
          | ClaimFound cl \<Rightarrow> (if cl_Phase cl = ClRecycling \<and> cl_RewarmStartedAt cl \<noteq> None then {} else {PhIdle}))
     | _ \<Rightarrow> {})"

text \<open>Inputs the examples use.\<close>

definition ready_pod :: k8s_pod where
  "ready_pod = \<lparr>kp_deleting = False, kp_Phase = KRunning,
     kp_ContainerStatuses = [(''adapter'', False), (''runtime'', False)],
     kp_Conditions = [(''Ready'', ''True'')], kp_StartTime = Some 5\<rparr>"

definition pod_warm :: sdk_warm_config where
  "pod_warm = \<lparr>sc_preConnect = False, sc_disabled = False, sc_connectTimeout = 60 * second\<rparr>"

definition sdk_warm :: sdk_warm_config where
  "sdk_warm = pod_warm\<lparr>sc_preConnect := True\<rparr>"

lemmas run_defs = ready_pod_def pod_warm_def sdk_warm_def reconcile_phase_def reconcile_decision_def
  Decide_def observePod_def podReady_def agentContainerTerminated_def sdkWarmActive_def Let_def

lemmas [op_defs] = Decide_def DecideSDKWarm_def HoldFailedReclaim_def setPhase_def no_decision_def
  holdTerminatingWarming_def phase_after_def reconcile_decision_def reconcile_phase_def
  sdkWarmInputs_def observeRewarm_def claimPresent_def

lemmas claim_write_defs = writeBoundStatus_def WriteRecyclingStatus_def WriteRewarmStartedStatus_def
  WriteReservedStatus_def WriteRebindStatus_def WriteDispositionStatus_def statusApplyPatch_def

lemmas occupancy_defs = occupancy_Reconcile_def observeClaim_def ProjectOccupancyPhase_def read_of_def

section \<open>The phases each arm writes\<close>

lemma phase_after_simps [simp]:
  "phase_after ph (setPhase p) = p"
  "phase_after ph no_decision = ph"
  "phase_after ph \<lparr>Action = ActionCreatePod, NextPhase = q\<rparr> = ph"
  "phase_after ph \<lparr>Action = ActionDeletePod, NextPhase = q\<rparr> = ph"
  by (simp_all add: phase_after_def setPhase_def no_decision_def)

lemma Decide_targets:
  "phase_after ph (Decide ph ob) = ph
   \<or> (ph = PhEmpty \<or> ph = PhWarming) \<and> phase_after ph (Decide ph ob) \<in> {PhIdle, PhFailed}
   \<or> ph = PhIdle \<and> phase_after ph (Decide ph ob) = PhDraining
   \<or> ph = PhFailed \<and> phase_after ph (Decide ph ob) = PhDraining
   \<or> ph = PhDraining \<and> phase_after ph (Decide ph ob) = PhTerminated"
  by (cases ob) (simp_all add: Decide_def holdTerminatingWarming_def)

lemma DecideSDKWarm_targets:
  "phase_after (si_Phase i) (DecideSDKWarm i) = si_Phase i
   \<or> (si_Phase i = PhEmpty \<or> si_Phase i = PhWarming)
       \<and> phase_after (si_Phase i) (DecideSDKWarm i) \<in> {PhSDKConnecting, PhFailed}
   \<or> si_Phase i = PhSDKConnecting
       \<and> (phase_after (si_Phase i) (DecideSDKWarm i) \<in> {PhTerminated, PhFailed}
          \<or> phase_after (si_Phase i) (DecideSDKWarm i) = PhIdle \<and> \<not> si_Recycle i \<and> si_Pod i = PodReady)
   \<or> si_Phase i = PhIdle \<and> phase_after (si_Phase i) (DecideSDKWarm i) = PhDraining
   \<or> si_Phase i = PhFailed \<and> phase_after (si_Phase i) (DecideSDKWarm i) = PhDraining
   \<or> si_Phase i = PhDraining \<and> phase_after (si_Phase i) (DecideSDKWarm i) = PhTerminated"
proof (cases "si_Phase i \<in> {PhEmpty, PhWarming, PhSDKConnecting}")
  case True
  then show ?thesis
    by (cases "si_Pod i") (auto simp: DecideSDKWarm_def holdTerminatingWarming_def)
next
  case False
  then have "DecideSDKWarm i = Decide (si_Phase i) (si_Pod i)"
    by (simp add: DecideSDKWarm_def)
  then show ?thesis using Decide_targets[of "si_Phase i" "si_Pod i"] False by auto
qed

lemma Decide_SDKConnecting [simp]: "phase_after PhSDKConnecting (Decide PhSDKConnecting ob) = PhSDKConnecting"
  by (simp add: Decide_def)

lemma phase_after_hold:
  "phase_after PhFailed (HoldFailedReclaim PhFailed b d) = (if b then PhFailed else phase_after PhFailed d)"
  by (simp add: HoldFailedReclaim_def)

lemma reconcile_phase_targets:
  "reconcile_phase ph pod cfg rd now \<in> insert ph (lifecycle_targets ph rd)"
proof (cases "sdkWarmActive cfg")
  case False
  then have dec: "reconcile_decision ph pod cfg rd now =
      (if ph = PhFailed then
         (case claimPresent rd of Inl _ \<Rightarrow> None
          | Inr present \<Rightarrow> Some (HoldFailedReclaim PhFailed present (Decide ph (observePod pod))))
       else Some (Decide ph (observePod pod)))"
    by (simp add: reconcile_decision_def Let_def)
  show ?thesis
  proof (cases "ph = PhFailed")
    case True
    show ?thesis
      unfolding reconcile_phase_def dec lifecycle_targets_def
      using True Decide_targets[of ph "observePod pod"]
      by (cases rd) (auto simp: claimPresent_def phase_after_hold)
  next
    case False
    then show ?thesis
      using Decide_targets[of ph "observePod pod"]
      by (auto simp: reconcile_phase_def dec lifecycle_targets_def)
  qed
next
  case True
  define i where "i = (\<lambda>rw. sdkWarmInputs ph (observePod pod) pod cfg rw now)"
  have i: "si_Phase (i rw) = ph" "si_Recycle (i rw) \<longleftrightarrow> rw \<noteq> None" for rw
    by (simp_all add: i_def sdkWarmInputs_def)
  have dec: "reconcile_decision ph pod cfg rd now =
      (case (if ph = PhSDKConnecting then observeRewarm rd else Inr None) of
         Inl _ \<Rightarrow> None
       | Inr rw \<Rightarrow> if ph = PhFailed then
            (case claimPresent rd of Inl _ \<Rightarrow> None
             | Inr present \<Rightarrow> Some (HoldFailedReclaim PhFailed present (DecideSDKWarm (i rw))))
            else Some (DecideSDKWarm (i rw)))"
    using True by (simp add: reconcile_decision_def i_def split: sum.splits)
  consider "ph = PhFailed" | "ph = PhSDKConnecting" | "ph \<noteq> PhFailed" "ph \<noteq> PhSDKConnecting" by blast
  then show ?thesis
  proof cases
    case 1
    show ?thesis
      unfolding reconcile_phase_def dec lifecycle_targets_def
      using 1 DecideSDKWarm_targets[of "i None"]
      by (cases rd) (auto simp: claimPresent_def phase_after_hold i)
  next
    case 2
    show ?thesis
    proof (cases "observeRewarm rd")
      case (Inl u)
      then show ?thesis
        unfolding reconcile_phase_def dec using 2 by simp
    next
      case (Inr rw)
      then have "reconcile_phase ph pod cfg rd now = phase_after ph (DecideSDKWarm (i rw))"
        unfolding reconcile_phase_def dec using 2 by simp
      moreover have "rw = None \<Longrightarrow> PhIdle \<in> lifecycle_targets PhSDKConnecting rd"
        using Inr by (cases rd) (auto simp: observeRewarm_def lifecycle_targets_def split: if_splits)
      ultimately show ?thesis
        using DecideSDKWarm_targets[of "i rw"] 2 by (auto simp: i lifecycle_targets_def)
    qed
  next
    case 3
    show ?thesis
      unfolding reconcile_phase_def dec lifecycle_targets_def
      using 3 DecideSDKWarm_targets[of "i None"] by (auto simp: i)
  qed
qed

lemma occupancy_Reconcile_None [simp]:
  "occupancy_Reconcile ph ClaimReadError = ph"
  "occupancy_Reconcile ph ClaimNotFound =
     (case ph of PhReserved \<Rightarrow> PhIdle | PhClaimed \<Rightarrow> PhDraining | _ \<Rightarrow> ph)"
  by (simp_all add: occupancy_defs split: pod_phase.splits)

lemma occupancy_Reconcile_Found:
  "occupancy_Reconcile ph (ClaimFound cl) =
     (if ph = PhTerminated then ph
      else if ph = PhFailed then (if cl_Phase cl \<in> {ClReleased, ClFailed} then PhDraining else ph)
      else case cl_Phase cl of
             ClBound \<Rightarrow> PhClaimed
           | ClRecycling \<Rightarrow> (if cl_RewarmStartedAt cl \<noteq> None then PhSDKConnecting else PhClaimed)
           | ClReserved \<Rightarrow> PhReserved
           | ClReleased \<Rightarrow> PhDraining
           | ClFailed \<Rightarrow> PhDraining
           | _ \<Rightarrow> ph)"
  by (cases "cl_Phase cl") (auto simp: occupancy_defs)

lemma claim_patch_wf:
  "claim_patch w cl now = Inr (Some new) \<Longrightarrow> claim_wf new"
  by (cases w) (auto simp: claim_wf_def claim_write_defs Let_def split: if_splits)

lemma reconcile_phase_edge:
  assumes "reconcile_phase ph pod cfg rd now \<noteq> ph"
  shows "pod_IsValid (if ph = PhEmpty then PhWarming else ph) (reconcile_phase ph pod cfg rd now) = None"
  using reconcile_phase_targets[of ph pod cfg rd now] assms
  by (cases ph) (auto simp: lifecycle_targets_def pod_IsValid_def pod_ValidTransitions_def
      split: if_splits claim_read.splits)

section \<open>Properties\<close>

text \<open>
  C21. Every phase change that the Sandbox-to-Pod reconciler writes, from any phase,
  pod observation, claim and clock, is an edge of the phase table (an unset phase
  counts as \<^verbatim>\<open>warming\<close>), and a pod that Kubernetes is deleting is never
  promoted to a warm phase and never recorded as failed.
\<close>

theorem reconcile_phase_valid:
  "(reconcile_phase ph pod cfg rd now \<noteq> ph \<longrightarrow>
      pod_IsValid (if ph = PhEmpty then PhWarming else ph) (reconcile_phase ph pod cfg rd now) = None)
   \<and> (observePod pod = PodTerminating \<and> reconcile_phase ph pod cfg rd now \<noteq> ph \<longrightarrow>
      reconcile_phase ph pod cfg rd now \<in> {PhDraining, PhTerminated})"
proof -
  have dec: "phase_after ph (Decide ph PodTerminating) \<in> {ph, PhDraining}"
    by (simp add: Decide_def holdTerminatingWarming_def)
  have "phase_after ph (DecideSDKWarm (sdkWarmInputs ph PodTerminating pod cfg rw now)) \<in> {ph, PhDraining, PhTerminated}" for rw
    using dec by (auto simp: DecideSDKWarm_def sdkWarmInputs_def holdTerminatingWarming_def)
  then have "observePod pod = PodTerminating \<Longrightarrow> reconcile_phase ph pod cfg rd now \<in> {ph, PhDraining, PhTerminated}"
    using dec
    by (auto simp: reconcile_phase_def reconcile_decision_def HoldFailedReclaim_def Let_def
        split: sum.splits option.splits if_splits)
  then show ?thesis using reconcile_phase_edge by blast
qed

theorem reconcile_phase_valid_witness:
  "pod_IsValid PhWarming (reconcile_phase PhEmpty (Some ready_pod) pod_warm ClaimNotFound 9) = None
   \<and> reconcile_phase PhEmpty (Some ready_pod) pod_warm ClaimNotFound 9 = PhIdle"
proof -
  have "reconcile_phase PhEmpty (Some ready_pod) pod_warm ClaimNotFound 9 = PhIdle"
    by (simp add: run_defs)
  then show ?thesis
    using reconcile_phase_valid[of PhEmpty "Some ready_pod" pod_warm ClaimNotFound 9] by simp
qed

text \<open>
  C22. The occupancy projection is level-triggered: a second pass over the same claim
  changes nothing, whatever phase and claim the first pass found, and it takes
  \<^verbatim>\<open>terminated\<close> nowhere and \<^verbatim>\<open>failed\<close> only to \<^verbatim>\<open>draining\<close>.
\<close>

theorem occupancy_Reconcile_converges:
  "occupancy_Reconcile (occupancy_Reconcile ph rd) rd = occupancy_Reconcile ph rd
   \<and> occupancy_Reconcile PhTerminated rd = PhTerminated
   \<and> occupancy_Reconcile PhFailed rd \<in> {PhFailed, PhDraining}"
proof (cases rd)
  case (ClaimFound cl)
  then show ?thesis by (cases "cl_Phase cl") (auto simp: occupancy_Reconcile_Found)
qed (cases ph; simp)+

text \<open>
  C23. The warm-fill arm does not leave a held pod alone in the window between the
  gateway's \<^verbatim>\<open>reserved\<close> write and the projection of it: on an SDK-warm pool a
  ready pod in \<^verbatim>\<open>sdk_connecting\<close> whose claim is already \<^verbatim>\<open>reserved\<close> or
  rebound is written \<^verbatim>\<open>idle\<close>; only a claim that is still \<^verbatim>\<open>recycling\<close>
  with a re-warm stamp is left to the projection.
\<close>

theorem sdk_warm_arm_idles_held_pod:
  assumes "sdkWarmActive cfg" and "observePod pod = PodReady"
  shows "reconcile_phase PhSDKConnecting pod cfg (ClaimFound cl) now =
    (if cl_Phase cl = ClRecycling \<and> cl_RewarmStartedAt cl \<noteq> None then PhSDKConnecting else PhIdle)"
  using assms
  by (auto simp: reconcile_phase_def reconcile_decision_def observeRewarm_def DecideSDKWarm_def sdkWarmInputs_def)

theorem sdk_warm_arm_idles_held_pod_witness:
  "reconcile_phase PhSDKConnecting (Some ready_pod) sdk_warm
     (ClaimFound (statusApplyPatch\<lparr>cl_Phase := ClReserved, cl_HoldExpiresAt := Some 30\<rparr>)) 20 = PhIdle"
  using sdk_warm_arm_idles_held_pod[of sdk_warm "Some ready_pod"
      "statusApplyPatch\<lparr>cl_Phase := ClReserved, cl_HoldExpiresAt := Some 30\<rparr>" 20]
  by (simp add: run_defs)

end
