(* ===== verification/Pod_Interleaving.thy ===== *)
theory Pod_Interleaving
  imports Pod_Lifecycle
begin

text \<open>
  The two controller arms of \<open>Pod_Lifecycle\<close> interleaved with the gateway's
  claim writes, as a step relation on the pod's phase and claim.

  The steps other than the projection run in a settled state: the projection has
  caught up with the last change of the claim. The flag \<open>ps_dirty\<close> is a ghost that
  no step reads: a session has used the pod since its last whole-pod scrub.
\<close>

section \<open>The two arms together\<close>

record pod_sys =
  ps_phase :: pod_phase
  ps_claim :: "sandbox_claim option"
  ps_dirty :: bool

text \<open>The projection has nothing left to write for the current claim.\<close>

definition settled :: "pod_sys \<Rightarrow> bool" where
  "settled s \<longleftrightarrow> occupancy_Reconcile (ps_phase s) (read_of (ps_claim s)) = ps_phase s"

text \<open>
  A bind or rebind makes the pod dirty; the re-warm stamp and the reserved status
  are written after the whole-pod scrub has reported.
\<close>

definition dirty_after :: "claim_write \<Rightarrow> bool \<Rightarrow> bool" where
  "dirty_after w d =
    (case w of WBound \<Rightarrow> True | WRebind \<Rightarrow> True | WRewarmStarted \<Rightarrow> False | WReserved _ \<Rightarrow> False | _ \<Rightarrow> d)"

text \<open>
  The gateway issues a write that changes the binding state only along an edge of
  the claim table.
\<close>

definition write_admitted :: "claim_write \<Rightarrow> sandbox_claim \<Rightarrow> sandbox_claim \<Rightarrow> bool" where
  "write_admitted w cur new \<longleftrightarrow>
    w = WRewarmStarted \<or> claim_IsValid (cl_Phase cur) (cl_Phase new) = None"

inductive pod_step :: "pod_sys \<Rightarrow> pod_sys \<Rightarrow> bool" where
  occupancy_arm:
    "rd = read_of (ps_claim s) \<or> rd = ClaimReadError \<Longrightarrow>
     pod_step s (s\<lparr>ps_phase := occupancy_Reconcile (ps_phase s) rd\<rparr>)"
| lifecycle_arm:
    "settled s \<Longrightarrow> rd = read_of (ps_claim s) \<or> rd = ClaimReadError \<Longrightarrow>
     pod_step s (s\<lparr>ps_phase := reconcile_phase (ps_phase s) pod cfg rd now\<rparr>)"
| claim_create:
    "settled s \<Longrightarrow> ps_phase s = PhIdle \<Longrightarrow> ps_claim s = None \<Longrightarrow>
     pod_step s (s\<lparr>ps_claim := Some statusApplyPatch\<rparr>)"
| claim_written:
    "settled s \<Longrightarrow> ps_claim s = Some cl \<Longrightarrow> claim_patch w cl now = Inr (Some new) \<Longrightarrow>
     write_admitted w cl new \<Longrightarrow>
     pod_step s (s\<lparr>ps_claim := Some new, ps_dirty := dirty_after w (ps_dirty s)\<rparr>)"
| claim_delete:
    "settled s \<Longrightarrow> pod_step s (s\<lparr>ps_claim := None\<rparr>)"

inductive_cases pod_stepE: "pod_step s t"

definition new_pod :: pod_sys where
  "new_pod = \<lparr>ps_phase = PhEmpty, ps_claim = None, ps_dirty = False\<rparr>"

text \<open>
  The phases that can go with a claim, for every reachable state of the two arms.
\<close>

definition phases_with :: "sandbox_claim option \<Rightarrow> pod_phase set" where
  "phases_with c =
    (case c of None \<Rightarrow> set (PhEmpty # pod_All)
     | Some cl \<Rightarrow>
         (case cl_Phase cl of
            ClEmpty \<Rightarrow> {PhIdle, PhDraining, PhTerminated}
          | ClBound \<Rightarrow> {PhIdle, PhDraining, PhTerminated, PhClaimed, PhReserved, PhFailed}
          | ClRecycling \<Rightarrow>
              (if cl_RewarmStartedAt cl = None then {PhClaimed, PhFailed, PhTerminated}
               else {PhClaimed, PhSDKConnecting, PhFailed, PhTerminated})
          | ClReserved \<Rightarrow> {PhClaimed, PhSDKConnecting, PhReserved, PhFailed, PhTerminated}
          | ClReleased \<Rightarrow> {PhClaimed, PhSDKConnecting, PhReserved, PhDraining, PhFailed, PhTerminated}
          | ClFailed \<Rightarrow> {PhClaimed, PhSDKConnecting, PhReserved, PhDraining, PhFailed, PhTerminated}
          | ClOther _ \<Rightarrow> {}))"

text \<open>A claim under which the last scrub report is older than the last bind.\<close>

definition claim_unscrubbed :: "sandbox_claim option \<Rightarrow> bool" where
  "claim_unscrubbed c =
    (case c of None \<Rightarrow> True
     | Some cl \<Rightarrow> cl_Phase cl \<in> {ClBound, ClRecycling, ClReleased, ClFailed} \<and> cl_RewarmStartedAt cl = None)"

definition pod_inv :: "pod_sys \<Rightarrow> bool" where
  "pod_inv s \<longleftrightarrow>
     ps_phase s \<in> phases_with (ps_claim s)
   \<and> (\<forall>cl. ps_claim s = Some cl \<longrightarrow> claim_wf cl)
   \<and> (ps_dirty s \<longrightarrow> claim_unscrubbed (ps_claim s)
        \<and> (ps_phase s \<in> {PhClaimed, PhDraining, PhFailed, PhTerminated}
           \<or> (\<exists>cl. ps_claim s = Some cl \<and> cl_Phase cl = ClBound)))"

section \<open>The invariant\<close>

lemma claim_edge_iff:
  "claim_IsValid a b = None \<longleftrightarrow>
    (a, b) \<in> {(ClEmpty, ClBound), (ClBound, ClRecycling), (ClRecycling, ClReserved), (ClReserved, ClBound)}
    \<or> a \<in> {ClBound, ClRecycling, ClReserved} \<and> b \<in> {ClReleased, ClFailed}"
  by (auto simp: claim_IsValid_def claim_ValidTransitions_def)

lemma pod_inv_new: "pod_inv new_pod"
  by (simp add: pod_inv_def new_pod_def phases_with_def)

lemma pod_inv_occupancy:
  assumes "pod_inv s"
  shows "pod_inv (s\<lparr>ps_phase := occupancy_Reconcile (ps_phase s) (read_of (ps_claim s))\<rparr>)"
proof (cases "ps_claim s")
  case None
  then show ?thesis
    using assms by (cases "ps_phase s") (auto simp: pod_inv_def phases_with_def read_of_def pod_All_def)
next
  case (Some cl)
  then show ?thesis
    using assms
    by (cases "cl_Phase cl")
       (auto simp: pod_inv_def phases_with_def read_of_def occupancy_Reconcile_Found claim_unscrubbed_def
          split: if_splits)
qed

lemma settled_phases:
  assumes "settled s" "pod_inv s" "ps_claim s = Some cl"
  shows "ps_phase s \<in>
    (case cl_Phase cl of
       ClEmpty \<Rightarrow> {PhIdle, PhDraining, PhTerminated}
     | ClBound \<Rightarrow> {PhClaimed, PhFailed, PhTerminated}
     | ClRecycling \<Rightarrow> {if cl_RewarmStartedAt cl = None then PhClaimed else PhSDKConnecting, PhFailed, PhTerminated}
     | ClReserved \<Rightarrow> {PhReserved, PhFailed, PhTerminated}
     | ClReleased \<Rightarrow> {PhDraining, PhTerminated}
     | ClFailed \<Rightarrow> {PhDraining, PhTerminated}
     | ClOther _ \<Rightarrow> {})"
  using assms
  by (cases "cl_Phase cl")
     (auto simp: settled_def pod_inv_def phases_with_def read_of_def occupancy_Reconcile_Found split: if_splits)

lemma pod_inv_lifecycle_target:
  assumes "pod_inv s" "settled s" "rd = read_of (ps_claim s) \<or> rd = ClaimReadError"
    and p: "p \<in> lifecycle_targets (ps_phase s) rd"
  shows "pod_inv (s\<lparr>ps_phase := p\<rparr>)"
proof (cases "ps_claim s")
  case None
  have np: "ps_phase s \<noteq> PhClaimed" "ps_phase s \<noteq> PhReserved"
    using assms(2) None by (auto simp: settled_def read_of_def)
  have "p \<in> set pod_All"
    using p by (cases "ps_phase s") (auto simp: lifecycle_targets_def pod_All_def split: if_splits claim_read.splits)
  moreover have "ps_dirty s \<Longrightarrow> p \<in> {PhDraining, PhTerminated}"
    using assms(1) np p None
    by (cases "ps_phase s") (auto simp: pod_inv_def lifecycle_targets_def split: if_splits)
  ultimately show ?thesis
    using None by (auto simp: pod_inv_def phases_with_def claim_unscrubbed_def)
next
  case (Some cl)
  have sp: "ps_phase s \<in>
    (case cl_Phase cl of
       ClEmpty \<Rightarrow> {PhIdle, PhDraining, PhTerminated}
     | ClBound \<Rightarrow> {PhClaimed, PhFailed, PhTerminated}
     | ClRecycling \<Rightarrow> {if cl_RewarmStartedAt cl = None then PhClaimed else PhSDKConnecting, PhFailed, PhTerminated}
     | ClReserved \<Rightarrow> {PhReserved, PhFailed, PhTerminated}
     | ClReleased \<Rightarrow> {PhDraining, PhTerminated}
     | ClFailed \<Rightarrow> {PhDraining, PhTerminated}
     | ClOther _ \<Rightarrow> {})"
    by (rule settled_phases[OF assms(2,1) Some])
  have rd: "rd = ClaimFound cl \<or> rd = ClaimReadError"
    using assms(3) Some by (simp add: read_of_def)
  have "p \<in> phases_with (Some cl) \<and> (ps_dirty s \<longrightarrow> p \<in> {PhDraining, PhTerminated})"
  proof (cases "cl_Phase cl")
    case ClRecycling
    then show ?thesis
      using sp rd p assms(1) Some
      by (auto simp: lifecycle_targets_def phases_with_def pod_inv_def claim_unscrubbed_def split: if_splits)
  next
    case ClEmpty
    then show ?thesis
      using sp rd p assms(1) Some
      by (auto simp: lifecycle_targets_def phases_with_def pod_inv_def claim_unscrubbed_def)
  qed (use sp rd p in \<open>auto simp: lifecycle_targets_def phases_with_def split: if_splits\<close>)
  then show ?thesis
    using assms(1) Some by (auto simp: pod_inv_def)
qed

lemma pod_inv_lifecycle:
  assumes "pod_inv s" "settled s" "rd = read_of (ps_claim s) \<or> rd = ClaimReadError"
  shows "pod_inv (s\<lparr>ps_phase := reconcile_phase (ps_phase s) pod cfg rd now\<rparr>)"
proof -
  have "reconcile_phase (ps_phase s) pod cfg rd now = ps_phase s
      \<or> reconcile_phase (ps_phase s) pod cfg rd now \<in> lifecycle_targets (ps_phase s) rd"
    using reconcile_phase_targets[of "ps_phase s" pod cfg rd now] by simp
  then show ?thesis
    using pod_inv_lifecycle_target[OF assms] assms(1) by auto
qed

lemma pod_inv_written:
  assumes "pod_inv s" "settled s" and cl: "ps_claim s = Some cl"
    and patch: "claim_patch w cl now = Inr (Some new)" and ok: "write_admitted w cl new"
  shows "pod_inv (s\<lparr>ps_claim := Some new, ps_dirty := dirty_after w (ps_dirty s)\<rparr>)"
proof -
  note sp = settled_phases[OF assms(2,1) cl]
  have wf: "claim_wf new" using patch by (rule claim_patch_wf)
  have d: "ps_dirty s \<Longrightarrow> claim_unscrubbed (Some cl)
      \<and> (ps_phase s \<in> {PhClaimed, PhDraining, PhFailed, PhTerminated} \<or> cl_Phase cl = ClBound)"
    using assms(1) cl by (auto simp: pod_inv_def)
  have "ps_phase s \<in> phases_with (Some new)
      \<and> (dirty_after w (ps_dirty s) \<longrightarrow> claim_unscrubbed (Some new)
          \<and> (ps_phase s \<in> {PhClaimed, PhDraining, PhFailed, PhTerminated} \<or> cl_Phase new = ClBound))"
    using sp d patch ok
    by (cases w; cases "cl_Phase cl")
       (auto simp: write_admitted_def claim_edge_iff claim_write_defs phases_with_def claim_unscrubbed_def
          dirty_after_def Let_def split: if_splits)
  then show ?thesis
    using wf by (auto simp: pod_inv_def)
qed

lemma pod_inv_step: "pod_step s t \<Longrightarrow> pod_inv s \<Longrightarrow> pod_inv t"
proof (induction rule: pod_step.induct)
  case (occupancy_arm rd s)
  then show ?case using pod_inv_occupancy[of s] by (auto simp: pod_inv_def)
next
  case (lifecycle_arm s rd pod cfg now)
  then show ?case by (intro pod_inv_lifecycle)
next
  case (claim_create s)
  then show ?case
    by (auto simp: pod_inv_def phases_with_def claim_wf_def statusApplyPatch_def)
next
  case (claim_written s cl w now new)
  then show ?case by (intro pod_inv_written)
next
  case (claim_delete s)
  have "ps_phase s \<in> {PhClaimed, PhFailed, PhTerminated}" if "ps_claim s = Some cl" "cl_Phase cl = ClBound" for cl
    using settled_phases[OF claim_delete that(1)] that(2) by simp
  then have "ps_dirty s \<Longrightarrow> ps_phase s \<in> {PhClaimed, PhDraining, PhFailed, PhTerminated}"
    using claim_delete by (auto simp: pod_inv_def)
  moreover have "ps_phase s \<in> phases_with None"
    using claim_delete
    by (cases "ps_claim s")
       (auto simp: pod_inv_def phases_with_def pod_All_def split: claim_state.splits if_splits)
  ultimately show ?case by (auto simp: pod_inv_def claim_unscrubbed_def)
qed

lemma pod_reachable_inv: "pod_step\<^sup>*\<^sup>* new_pod s \<Longrightarrow> pod_inv s"
  by (induction rule: rtranclp_induct) (auto intro: pod_inv_new pod_inv_step)

lemma occupancy_edge:
  assumes "pod_inv s" "occupancy_Reconcile (ps_phase s) (read_of (ps_claim s)) \<noteq> ps_phase s"
  shows "pod_IsValid (ps_phase s) (occupancy_Reconcile (ps_phase s) (read_of (ps_claim s))) = None
    \<or> (ps_phase s, occupancy_Reconcile (ps_phase s) (read_of (ps_claim s)))
        \<in> {(PhReserved, PhDraining), (PhSDKConnecting, PhDraining), (PhDraining, PhClaimed)}"
proof (cases "ps_claim s")
  case None
  then show ?thesis
    using assms by (cases "ps_phase s") (auto simp: read_of_def pod_IsValid_def pod_ValidTransitions_def)
next
  case (Some cl)
  then have "ps_phase s \<in> phases_with (Some cl)" using assms(1) by (simp add: pod_inv_def)
  then show ?thesis
    using assms(2) Some
    by (cases "cl_Phase cl")
       (auto simp: read_of_def occupancy_Reconcile_Found phases_with_def pod_IsValid_def pod_ValidTransitions_def
          split: if_splits)
qed

section \<open>A run used as example\<close>

lemma new_pod_idle: "pod_step new_pod (new_pod\<lparr>ps_phase := PhIdle\<rparr>)"
proof -
  have "reconcile_phase PhEmpty (Some ready_pod) pod_warm ClaimNotFound 9 = PhIdle"
    by (simp add: run_defs)
  moreover have "settled new_pod"
    by (simp add: settled_def new_pod_def read_of_def)
  ultimately show ?thesis
    using lifecycle_arm[of new_pod ClaimNotFound "Some ready_pod" pod_warm 9]
    by (simp add: new_pod_def read_of_def)
qed

lemma idle_pod_claimed:
  "pod_step\<^sup>*\<^sup>* new_pod (new_pod\<lparr>ps_phase := PhIdle, ps_claim := Some statusApplyPatch\<rparr>)"
proof -
  have "settled (new_pod\<lparr>ps_phase := PhIdle\<rparr>)"
    by (simp add: settled_def new_pod_def read_of_def)
  then have "pod_step (new_pod\<lparr>ps_phase := PhIdle\<rparr>) (new_pod\<lparr>ps_phase := PhIdle, ps_claim := Some statusApplyPatch\<rparr>)"
    using claim_create[of "new_pod\<lparr>ps_phase := PhIdle\<rparr>"] by (simp add: new_pod_def)
  with new_pod_idle show ?thesis by (meson r_into_rtranclp rtranclp.rtrancl_into_rtrancl)
qed

section \<open>Properties\<close>





text \<open>
  C20. The third exception happens: an idle pod whose backing Pod is being deleted
  is moved to \<^verbatim>\<open>draining\<close> while a freshly created claim has no binding state
  yet; the gateway's first \<^verbatim>\<open>bound\<close> write then makes the projection move the
  draining pod back to \<^verbatim>\<open>claimed\<close>.
\<close>

theorem draining_pod_reclaimed:
  "\<exists>s t. pod_step\<^sup>*\<^sup>* new_pod s \<and> pod_step s t \<and> ps_phase s = PhDraining \<and> ps_phase t = PhClaimed
       \<and> pod_IsValid PhDraining PhClaimed \<noteq> None"
proof -
  let ?a = "new_pod\<lparr>ps_phase := PhIdle, ps_claim := Some statusApplyPatch\<rparr>"
  let ?b = "?a\<lparr>ps_phase := PhDraining\<rparr>"
  let ?bound = "statusApplyPatch\<lparr>cl_Phase := ClBound, cl_BindingStateTransitionTime := Some 11\<rparr>"
  let ?c = "?b\<lparr>ps_claim := Some ?bound, ps_dirty := True\<rparr>"
  have set: "settled ?a" "settled ?b"
    by (simp_all add: settled_def read_of_def occupancy_Reconcile_Found statusApplyPatch_def)
  have "reconcile_phase PhIdle (Some (ready_pod\<lparr>kp_deleting := True\<rparr>)) pod_warm (ClaimFound statusApplyPatch) 10 = PhDraining"
    by (simp add: run_defs)
  then have ab: "pod_step ?a ?b"
    using lifecycle_arm[OF set(1), of "ClaimFound statusApplyPatch" "Some (ready_pod\<lparr>kp_deleting := True\<rparr>)" pod_warm 10]
    by (simp add: read_of_def new_pod_def)
  have "claim_patch WBound statusApplyPatch 11 = Inr (Some ?bound)"
    by (simp add: writeBoundStatus_def statusApplyPatch_def)
  moreover have "write_admitted WBound statusApplyPatch ?bound"
    by (simp add: write_admitted_def statusApplyPatch_def claim_edge_iff)
  ultimately have bc: "pod_step ?b ?c"
    using claim_written[OF set(2), of statusApplyPatch WBound 11 ?bound] by (simp add: dirty_after_def new_pod_def)
  have cd: "pod_step ?c (?c\<lparr>ps_phase := PhClaimed\<rparr>)"
    using occupancy_arm[of "ClaimFound ?bound" ?c]
    by (simp add: read_of_def occupancy_Reconcile_Found)
  have "pod_step\<^sup>*\<^sup>* new_pod ?c"
    using idle_pod_claimed ab bc by (meson rtranclp.rtrancl_into_rtrancl)
  then show ?thesis
    using cd by (intro exI[of _ ?c] exI[of _ "?c\<lparr>ps_phase := PhClaimed\<rparr>"])
      (simp add: pod_IsValid_def pod_ValidTransitions_def)
qed

end
