(* ===== verification/Slot_Registry.thy ===== *)
theory Slot_Registry
  imports Pod_State
begin

text \<open>
  The in-process tracker of per-slot sub-states
  (\<^verbatim>\<open>pkg/sandbox/slotstate/registry.go\<close>). A \<^verbatim>\<open>*Registry\<close> is an optional
  map, \<open>None\<close> being the nil pointer every method accepts; the mutex makes each
  operation one atomic step, so an execution is a sequence of operations
  (\<open>registry_op\<close>).
\<close>

section \<open>State\<close>

record slot_record =
  sr_pod :: string
  sr_pool :: string
  sr_state :: slot_state

type_synonym registry = "(string, slot_record) go_map option"

datatype registry_error = ErrUnknownSlot | ErrInvalidSlotTransition slot_state slot_state

section \<open>Operations\<close>

definition NewRegistry :: registry where
  "NewRegistry = Some []"

definition Assign :: "registry \<Rightarrow> string \<Rightarrow> string \<Rightarrow> string \<Rightarrow> registry" where
  "Assign r slotID pod pool =
    (case r of None \<Rightarrow> None
     | Some slots \<Rightarrow>
         (case map_of slots slotID of
            Some _ \<Rightarrow> Some slots
          | None \<Rightarrow> Some (AList.update slotID
                     \<lparr>sr_pod = pod, sr_pool = pool, sr_state = SlotAssigned\<rparr> slots)))"

definition Transition :: "registry \<Rightarrow> string \<Rightarrow> slot_state \<Rightarrow> registry_error option \<times> registry" where
  "Transition r slotID to =
    (case r of None \<Rightarrow> (Some ErrUnknownSlot, None)
     | Some slots \<Rightarrow>
         (case map_of slots slotID of
            None \<Rightarrow> (Some ErrUnknownSlot, Some slots)
          | Some rec \<Rightarrow>
              (case slot_IsValid (sr_state rec) to of
                 Some (a, b) \<Rightarrow> (Some (ErrInvalidSlotTransition a b), Some slots)
               | None \<Rightarrow>
                   if to = SlotReleased then (None, Some (AList.delete slotID slots))
                   else (None, Some (AList.update slotID (rec\<lparr>sr_state := to\<rparr>) slots)))))"

definition MarkReleased :: "registry \<Rightarrow> string \<Rightarrow> registry" where
  "MarkReleased r slotID = (case r of None \<Rightarrow> None | Some slots \<Rightarrow> Some (AList.delete slotID slots))"

definition leakedCountLocked :: "(string, slot_record) go_map \<Rightarrow> string \<Rightarrow> int" where
  "leakedCountLocked slots pod =
    int (length (filter (\<lambda>(_, rec). sr_pod rec = pod \<and> sr_state rec = SlotLeaked) slots))"

text \<open>The zero value of a record an absent key yields; its state is the empty string.\<close>

definition zero_slot_record :: slot_record where
  "zero_slot_record = \<lparr>sr_pod = '''', sr_pool = '''', sr_state = SlotOther ''''\<rparr>"

definition leaked_record :: "slot_record option \<Rightarrow> string \<Rightarrow> string \<Rightarrow> slot_record" where
  "leaked_record ro pod pool =
    (let rec = (case ro of Some rec \<Rightarrow> rec | None \<Rightarrow> zero_slot_record);
         rec = rec\<lparr>sr_state := SlotLeaked\<rparr>;
         rec = (if sr_pod rec = '''' then rec\<lparr>sr_pod := pod\<rparr> else rec)
     in if sr_pool rec = '''' then rec\<lparr>sr_pool := pool\<rparr> else rec)"

definition MarkLeaked :: "registry \<Rightarrow> string \<Rightarrow> string \<Rightarrow> string \<Rightarrow> int \<times> registry" where
  "MarkLeaked r slotID pod pool =
    (case r of None \<Rightarrow> (0, None)
     | Some slots \<Rightarrow>
         (let rec = leaked_record (map_of slots slotID) pod pool;
              slots' = AList.update slotID rec slots
          in (leakedCountLocked slots' (sr_pod rec), Some slots')))"

definition slot_State :: "registry \<Rightarrow> string \<Rightarrow> slot_state \<times> bool" where
  "slot_State r slotID =
    (case r of None \<Rightarrow> (SlotOther '''', False)
     | Some slots \<Rightarrow>
         (case map_of slots slotID of
            Some rec \<Rightarrow> (sr_state rec, True)
          | None \<Rightarrow> (SlotOther '''', False)))"

definition LeakedCount :: "registry \<Rightarrow> string \<Rightarrow> int" where
  "LeakedCount r pod = (case r of None \<Rightarrow> 0 | Some slots \<Rightarrow> leakedCountLocked slots pod)"

definition ForgetPod :: "registry \<Rightarrow> string \<Rightarrow> registry" where
  "ForgetPod r pod =
    (case r of None \<Rightarrow> None | Some slots \<Rightarrow> Some (filter (\<lambda>(_, rec). sr_pod rec \<noteq> pod) slots))"

section \<open>Executions\<close>

datatype registry_op =
    OpAssign string string string
  | OpTransition string slot_state
  | OpMarkReleased string
  | OpMarkLeaked string string string
  | OpForgetPod string

primrec registry_apply :: "registry_op \<Rightarrow> registry \<Rightarrow> registry" where
  "registry_apply (OpAssign s p q) r = Assign r s p q"
| "registry_apply (OpTransition s t) r = snd (Transition r s t)"
| "registry_apply (OpMarkReleased s) r = MarkReleased r s"
| "registry_apply (OpMarkLeaked s p q) r = snd (MarkLeaked r s p q)"
| "registry_apply (OpForgetPod p) r = ForgetPod r p"

definition registry_inv :: "registry \<Rightarrow> bool" where
  "registry_inv r = (case r of None \<Rightarrow> True
     | Some slots \<Rightarrow> wf_map slots
         \<and> (\<forall>k rec. map_of slots k = Some rec \<longrightarrow> sr_state rec \<in> set slot_All - {SlotReleased}))"

lemmas [op_defs] = Assign_def Transition_def MarkReleased_def MarkLeaked_def ForgetPod_def

section \<open>The invariant\<close>

lemma leaked_record_simps [simp]:
  "sr_state (leaked_record ro pod pool) = SlotLeaked"
  "ro = Some rec \<Longrightarrow> sr_pod rec \<noteq> '''' \<Longrightarrow> sr_pod (leaked_record ro pod pool) = sr_pod rec"
  "ro = None \<Longrightarrow> sr_pod (leaked_record ro pod pool) = pod"
  by (simp_all add: leaked_record_def zero_slot_record_def Let_def)

lemma slot_IsValid_target: "slot_IsValid a b = None \<Longrightarrow> b \<in> set slot_All"
  using slot_table.edge_target by (simp add: slot_IsValid_edge)

lemma registry_inv_Some:
  "registry_inv (Some slots) \<longleftrightarrow> wf_map slots
     \<and> (\<forall>k rec. map_of slots k = Some rec \<longrightarrow> sr_state rec \<in> set slot_All - {SlotReleased})"
  by (simp add: registry_inv_def)

lemma registry_inv_apply: "registry_inv r \<Longrightarrow> registry_inv (registry_apply op r)"
proof (cases r)
  case None
  then show ?thesis
    by (cases op) (simp_all add: registry_inv_def op_defs)
next
  case (Some slots)
  assume "registry_inv r"
  then have wf: "wf_map slots"
    and st: "\<And>k rec. map_of slots k = Some rec \<Longrightarrow> sr_state rec \<in> set slot_All - {SlotReleased}"
    by (simp_all add: Some registry_inv_Some)
  show ?thesis
  proof (cases op)
    case (OpAssign s p q)
    then show ?thesis
      using wf st by (auto simp: Some Assign_def registry_inv_Some slot_All_def split: option.splits)
  next
    case (OpTransition s t)
    then show ?thesis
      using wf st
      by (auto simp: Some Transition_def registry_inv_Some split: option.splits dest: slot_IsValid_target)
  next
    case (OpMarkReleased s)
    then show ?thesis using wf st by (auto simp: Some MarkReleased_def registry_inv_Some)
  next
    case (OpMarkLeaked s p q)
    then show ?thesis
      using wf st by (auto simp: Some MarkLeaked_def registry_inv_Some Let_def slot_All_def)
  next
    case (OpForgetPod p)
    then show ?thesis
      using wf st by (auto simp: Some ForgetPod_def registry_inv_Some map_of_filter split: option.splits if_splits)
  qed
qed

lemma registry_inv_fold: "registry_inv r \<Longrightarrow> registry_inv (fold registry_apply ops r)"
  by (induction ops arbitrary: r) (simp_all add: registry_inv_apply)

lemma slot_leaked_stuck: "slot_IsValid SlotLeaked t \<noteq> None"
  by (simp add: slot_IsValid_def slot_ValidTransitions_def)

lemma leaked_kept:
  assumes "registry_inv (Some slots)" and "map_of slots s = Some rec"
    and "sr_state rec = SlotLeaked" "sr_pod rec = p" "p \<noteq> ''''"
    and "op \<noteq> OpMarkReleased s" "op \<noteq> OpForgetPod p"
  shows "\<exists>slots' rec'. registry_apply op (Some slots) = Some slots' \<and> map_of slots' s = Some rec'
           \<and> sr_state rec' = SlotLeaked \<and> sr_pod rec' = p"
proof (cases op)
  case (OpTransition s' t)
  obtain e where "slot_IsValid SlotLeaked t = Some e" using slot_leaked_stuck by blast
  then show ?thesis
    using assms OpTransition
    by (cases "s' = s") (auto simp: Transition_def split: option.splits prod.splits)
next
  case (OpForgetPod p')
  then show ?thesis
    using assms by (auto simp: ForgetPod_def map_of_filter registry_inv_Some)
qed (use assms in \<open>auto simp: Assign_def MarkReleased_def MarkLeaked_def Let_def split: option.splits\<close>)

lemma leaked_kept_fold:
  assumes "registry_inv (Some slots)" and "map_of slots s = Some rec"
    and "sr_state rec = SlotLeaked" "sr_pod rec = p" "p \<noteq> ''''"
    and "OpMarkReleased s \<notin> set ops" "OpForgetPod p \<notin> set ops"
  shows "\<exists>slots' rec'. fold registry_apply ops (Some slots) = Some slots' \<and> map_of slots' s = Some rec'
           \<and> sr_state rec' = SlotLeaked \<and> sr_pod rec' = p"
  using assms
proof (induction ops arbitrary: slots rec)
  case Nil
  then show ?case by auto
next
  case (Cons op ops)
  then obtain slots' rec' where "registry_apply op (Some slots) = Some slots'" "map_of slots' s = Some rec'"
      "sr_state rec' = SlotLeaked" "sr_pod rec' = p"
    using leaked_kept[OF Cons.prems(1-5), of op] by auto
  moreover from this have "registry_inv (Some slots')"
    using registry_inv_apply[OF Cons.prems(1), of op] by simp
  ultimately show ?case using Cons.IH[of slots' rec'] Cons.prems by simp
qed

lemma leaked_counted:
  assumes "map_of slots s = Some rec" "sr_state rec = SlotLeaked"
  shows "0 < leakedCountLocked slots (sr_pod rec)"
proof -
  have "(s, rec) \<in> set (filter (\<lambda>(_, r). sr_pod r = sr_pod rec \<and> sr_state r = SlotLeaked) slots)"
    using assms map_of_SomeD by fastforce
  then show ?thesis
    unfolding leakedCountLocked_def by (metis length_pos_if_in_set of_nat_0_less_iff)
qed

section \<open>Properties\<close>

text \<open>
  C26. A leaked slot stays tracked as leaked and counted against its pod through any
  sequence of registry operations (assignments, attempted transitions, further
  leaks, releases of other slots, other pods terminating) until that slot is marked
  released or its own pod is forgotten.
\<close>

theorem leaked_slot_stays_counted:
  assumes "fold registry_apply before NewRegistry = Some slots"
    and "map_of slots s = Some rec" "sr_state rec = SlotLeaked" "sr_pod rec \<noteq> ''''"
    and "OpMarkReleased s \<notin> set ops" "OpForgetPod (sr_pod rec) \<notin> set ops"
  shows "slot_State (fold registry_apply ops (Some slots)) s = (SlotLeaked, True)
       \<and> 0 < LeakedCount (fold registry_apply ops (Some slots)) (sr_pod rec)"
proof -
  have "registry_inv (Some slots)"
    using registry_inv_fold[of NewRegistry before] assms(1) by (simp add: NewRegistry_def registry_inv_Some)
  from leaked_kept_fold[OF this assms(2,3) refl assms(4-6)]
  obtain slots' rec' where "fold registry_apply ops (Some slots) = Some slots'" "map_of slots' s = Some rec'"
      "sr_state rec' = SlotLeaked" "sr_pod rec' = sr_pod rec" by blast
  then show ?thesis
    using leaked_counted[of slots' s rec'] by (simp add: slot_State_def LeakedCount_def)
qed

theorem leaked_slot_stays_counted_witness:
  "slot_State (fold registry_apply [OpTransition ''s1'' SlotReleased, OpForgetPod ''p2'']
      (Some [(''s1'', \<lparr>sr_pod = ''p1'', sr_pool = ''q'', sr_state = SlotLeaked\<rparr>)])) ''s1'' = (SlotLeaked, True)"
  using leaked_slot_stays_counted[of "[OpMarkLeaked ''s1'' ''p1'' ''q'']"
      "[(''s1'', \<lparr>sr_pod = ''p1'', sr_pool = ''q'', sr_state = SlotLeaked\<rparr>)]" "''s1''"
      "\<lparr>sr_pod = ''p1'', sr_pool = ''q'', sr_state = SlotLeaked\<rparr>"
      "[OpTransition ''s1'' SlotReleased, OpForgetPod ''p2'']"]
  by (simp add: NewRegistry_def MarkLeaked_def leaked_record_def zero_slot_record_def Let_def)

text \<open>
  C27. Every operation keeps the registry's invariant: keys are unique and no tracked
  slot is in the released sub-state (a release drops it) or in a sub-state outside
  the enumeration.
\<close>

theorem registry_invariant:
  "registry_inv (fold registry_apply ops NewRegistry)
   \<and> slot_State (fold registry_apply ops NewRegistry) s \<noteq> (SlotReleased, True)"
proof -
  have "registry_inv (fold registry_apply ops NewRegistry)"
    by (rule registry_inv_fold) (simp add: NewRegistry_def registry_inv_Some)
  then show ?thesis
    by (auto simp: slot_State_def registry_inv_def split: option.splits)
qed

text \<open>
  Forgetting a pod sets its leaked-slot gauge to zero and leaves the gauge of
  every other pod unchanged; marking a slot leaked returns the gauge of the pod the
  slot is recorded under, which is then positive.
\<close>

lemma leaked_gauge:
  "LeakedCount (ForgetPod r pod) pod = 0
   \<and> (other \<noteq> pod \<longrightarrow> LeakedCount (ForgetPod r pod) other = LeakedCount r other)
   \<and> (r = Some slots \<longrightarrow> (case MarkLeaked r s p q of (n, r') \<Rightarrow>
        n = LeakedCount r' (sr_pod (leaked_record (map_of slots s) p q)) \<and> 0 < n))"
proof -
  have "0 < leakedCountLocked (AList.update s (leaked_record (map_of slots s) p q) slots)
              (sr_pod (leaked_record (map_of slots s) p q))"
    by (rule leaked_counted[of _ s]) simp_all
  moreover have "LeakedCount (ForgetPod r pod) pod = 0"
    by (auto simp: LeakedCount_def ForgetPod_def leakedCountLocked_def filter_empty_conv split: option.splits)
  moreover have "other \<noteq> pod \<Longrightarrow> LeakedCount (ForgetPod r pod) other = LeakedCount r other"
    by (auto simp: LeakedCount_def ForgetPod_def leakedCountLocked_def case_prod_beta
        intro!: arg_cong[of _ _ length] filter_cong split: option.splits)
  ultimately show ?thesis
    by (auto simp: MarkLeaked_def LeakedCount_def Let_def)
qed

end
