(* ===== verification/Runtime_Upgrade.thy ===== *)
theory Runtime_Upgrade
  imports Lenny_Prelude
begin

text \<open>
  Runtime image upgrades: the phase machine and its pause/resume record
  (\<^verbatim>\<open>pkg/runtime/upgrade/state/state.go\<close>), the store of one row per pool with
  an optimistic version guard
  (\<^verbatim>\<open>pkg/gateway/upgrade/runtimeupgradestore/runtimeupgradestore.go\<close>) and the
  operator-facing manager (\<^verbatim>\<open>pkg/gateway/upgrade/runtimeupgrade/runtimeupgrade.go\<close>).

  A manager call returns an error or the stored row with the new store; the snapshot
  it hands to the caller and to the gauges is a view of that row whose duration field
  is a float, and is left out. Both clocks are arguments. The pool reader is an
  interface of another component: a parameter that answers a pool name.
\<close>

section \<open>Phases\<close>

datatype upgrade_state =
    UpPending | UpExpanding | UpDraining | UpContracting | UpComplete | UpPaused
  | UpEmpty | UpOther string

definition upgrade_All :: "upgrade_state list" where
  "upgrade_All = [UpPending, UpExpanding, UpDraining, UpContracting, UpComplete, UpPaused]"

definition upgrade_IsTerminal :: "upgrade_state \<Rightarrow> bool" where
  "upgrade_IsTerminal s \<longleftrightarrow> s = UpComplete"

definition upgrade_ValidTransitions :: "(upgrade_state \<times> upgrade_state) list" where
  "upgrade_ValidTransitions =
    [(UpPending, UpExpanding),
     (UpExpanding, UpDraining),
     (UpDraining, UpContracting),
     (UpContracting, UpComplete),
     (UpPending, UpPaused),
     (UpExpanding, UpPaused),
     (UpDraining, UpPaused),
     (UpContracting, UpPaused)]"

datatype upgrade_error =
    ErrInvalidUpgradeTransition upgrade_state upgrade_state
  | ErrAlreadyPaused | ErrNotPaused | ErrCannotPauseTerminal | ErrCurrentlyPaused
  | ErrUsePause | ErrUnknownState | ErrPriorNotResumable | ErrPriorMustBeEmpty
  | ErrConflict
  | ErrPoolRead | ErrPoolNotFound | ErrUpgradeNotFound | ErrUpgradeActive | ErrInvalidImage
  | ErrCanaryPercent | ErrTerminal | ErrPaused | ErrRollbackNotAllowed

definition upgrade_IsValid :: "upgrade_state \<Rightarrow> upgrade_state \<Rightarrow> upgrade_error option" where
  "upgrade_IsValid from to =
    (if (from, to) \<in> set upgrade_ValidTransitions then None
     else Some (ErrInvalidUpgradeTransition from to))"

definition isKnown :: "upgrade_state \<Rightarrow> bool" where
  "isKnown s \<longleftrightarrow> list_ex (\<lambda>x. s = x) upgrade_All"

section \<open>The pause/resume record\<close>

record upgrade_record =
  ur_current :: upgrade_state
  ur_priorPaused :: upgrade_state

definition NewRecord :: upgrade_record where
  "NewRecord = \<lparr>ur_current = UpPending, ur_priorPaused = UpEmpty\<rparr>"

definition NewRecordAt :: "upgrade_state \<Rightarrow> upgrade_state \<Rightarrow> upgrade_error + upgrade_record" where
  "NewRecordAt s priorIfPaused =
    (if \<not> isKnown s then Inl ErrUnknownState
     else if s = UpPaused then
       (if \<not> isKnown priorIfPaused \<or> priorIfPaused = UpPaused \<or> priorIfPaused = UpComplete
        then Inl ErrPriorNotResumable
        else Inr \<lparr>ur_current = UpPaused, ur_priorPaused = priorIfPaused\<rparr>)
     else if priorIfPaused \<noteq> UpEmpty then Inl ErrPriorMustBeEmpty
     else Inr \<lparr>ur_current = s, ur_priorPaused = UpEmpty\<rparr>)"

definition PriorPaused :: "upgrade_record \<Rightarrow> upgrade_state" where
  "PriorPaused r = (if ur_current r \<noteq> UpPaused then UpEmpty else ur_priorPaused r)"

definition record_Transition :: "upgrade_record \<Rightarrow> upgrade_state \<Rightarrow> upgrade_error + upgrade_record" where
  "record_Transition r to =
    (if to = UpPaused then Inl ErrUsePause
     else if ur_current r = UpPaused then Inl ErrCurrentlyPaused
     else case upgrade_IsValid (ur_current r) to of
            Some err \<Rightarrow> Inl err
          | None \<Rightarrow> Inr (r\<lparr>ur_current := to\<rparr>))"

definition record_Pause :: "upgrade_record \<Rightarrow> upgrade_error + upgrade_record" where
  "record_Pause r =
    (if ur_current r = UpPaused then Inl ErrAlreadyPaused
     else if ur_current r = UpComplete then Inl ErrCannotPauseTerminal
     else case upgrade_IsValid (ur_current r) UpPaused of
            Some err \<Rightarrow> Inl err
          | None \<Rightarrow> Inr (r\<lparr>ur_priorPaused := ur_current r, ur_current := UpPaused\<rparr>))"

definition record_Resume :: "upgrade_record \<Rightarrow> upgrade_error + upgrade_record" where
  "record_Resume r =
    (if ur_current r \<noteq> UpPaused then Inl ErrNotPaused
     else Inr (r\<lparr>ur_current := ur_priorPaused r, ur_priorPaused := UpEmpty\<rparr>))"

section \<open>The store\<close>

record upgrade_row =
  rw_Pool :: string
  rw_Phase :: upgrade_state
  rw_PriorPhase :: upgrade_state
  rw_NewImage :: string
  rw_PreviousPoolSpec :: string
  rw_SchemaVersion :: string
  rw_DrainFirst :: bool
  rw_CanaryPercent :: int
  rw_StabilizationWindowSeconds :: int
  rw_DrainTimeoutSeconds :: int
  rw_AutoAdvance :: bool
  rw_PauseReason :: string
  rw_PausedAt :: go_time
  rw_PhaseEnteredAt :: go_time
  rw_DrainingSessions :: int
  rw_Version :: int
  rw_CreatedAt :: go_time
  rw_UpdatedAt :: go_time

type_synonym upgrade_mem = "(string, upgrade_row) go_map"

definition mem_Get :: "upgrade_mem \<Rightarrow> string \<Rightarrow> upgrade_row option" where
  "mem_Get m pool = map_of m pool"

definition mem_Put :: "upgrade_mem \<Rightarrow> upgrade_row \<Rightarrow> int \<Rightarrow> go_time \<Rightarrow> upgrade_error + (upgrade_row \<times> upgrade_mem)" where
  "mem_Put m rec expectVersion now =
    (let stamped = (case map_of m (rw_Pool rec) of
           Some existing \<Rightarrow>
             if rw_Version existing \<noteq> expectVersion then Inl ErrConflict
             else Inr (rec\<lparr>rw_CreatedAt := rw_CreatedAt existing\<rparr>)
         | None \<Rightarrow>
             if expectVersion \<noteq> 0 then Inl ErrConflict
             else Inr (rec\<lparr>rw_CreatedAt := now\<rparr>))
     in case stamped of Inl e \<Rightarrow> Inl e
        | Inr r \<Rightarrow>
            (let stored = r\<lparr>rw_Version := w64 (expectVersion + 1), rw_UpdatedAt := now\<rparr>
             in Inr (stored, AList.update (rw_Pool rec) stored m)))"

definition mem_List :: "upgrade_mem \<Rightarrow> upgrade_row list" where
  "mem_List m = map snd m"

section \<open>The manager\<close>

datatype pool_read = PoolReadError | PoolMissing | PoolSpec string

record start_options =
  so_NewImage :: string
  so_CanaryPercent :: int
  so_SchemaVersion :: string
  so_DrainFirst :: bool
  so_AutoAdvance :: bool
  so_StabilizationWindowSeconds :: int
  so_DrainTimeoutSeconds :: int

type_synonym manager_result = "upgrade_error + (upgrade_row \<times> upgrade_mem)"

definition nextLinear :: "upgrade_state \<Rightarrow> upgrade_state option" where
  "nextLinear s =
    (case s of UpPending \<Rightarrow> Some UpExpanding
     | UpExpanding \<Rightarrow> Some UpDraining
     | UpDraining \<Rightarrow> Some UpContracting
     | UpContracting \<Rightarrow> Some UpComplete
     | _ \<Rightarrow> None)"

text \<open>The registration row, with the default stabilization window.\<close>

definition start_row :: "string \<Rightarrow> start_options \<Rightarrow> string \<Rightarrow> go_time \<Rightarrow> upgrade_row" where
  "start_row pool opts spec now =
    \<lparr>rw_Pool = pool, rw_Phase = UpPending, rw_PriorPhase = UpEmpty,
     rw_NewImage = so_NewImage opts, rw_PreviousPoolSpec = spec,
     rw_SchemaVersion = so_SchemaVersion opts, rw_DrainFirst = so_DrainFirst opts,
     rw_CanaryPercent = so_CanaryPercent opts,
     rw_StabilizationWindowSeconds =
       (if so_StabilizationWindowSeconds opts \<le> 0 then 120 else so_StabilizationWindowSeconds opts),
     rw_DrainTimeoutSeconds = so_DrainTimeoutSeconds opts, rw_AutoAdvance = so_AutoAdvance opts,
     rw_PauseReason = '''', rw_PausedAt = 0, rw_PhaseEnteredAt = now, rw_DrainingSessions = 0,
     rw_Version = 0, rw_CreatedAt = 0, rw_UpdatedAt = 0\<rparr>"

definition manager_Start ::
  "(string \<Rightarrow> pool_read) option \<Rightarrow> upgrade_mem \<Rightarrow> string \<Rightarrow> start_options \<Rightarrow> go_time \<Rightarrow> go_time \<Rightarrow> manager_result" where
  "manager_Start pools m pool opts now clock =
    (if so_NewImage opts = '''' then Inl ErrInvalidImage
     else if so_CanaryPercent opts < 0 \<or> so_CanaryPercent opts > 100 then Inl ErrCanaryPercent
     else case (case pools of None \<Rightarrow> Inr ''''
                | Some rd \<Rightarrow> (case rd pool of PoolReadError \<Rightarrow> Inl ErrPoolRead
                              | PoolMissing \<Rightarrow> Inl ErrPoolNotFound
                              | PoolSpec s \<Rightarrow> Inr s)) of
            Inl e \<Rightarrow> Inl e
          | Inr spec \<Rightarrow>
              (case mem_Get m pool of
                 Some existing \<Rightarrow>
                   if rw_Phase existing \<noteq> UpComplete then Inl ErrUpgradeActive
                   else mem_Put m (start_row pool opts spec now) (rw_Version existing) clock
               | None \<Rightarrow> mem_Put m (start_row pool opts spec now) 0 clock))"

definition manager_mutate ::
  "upgrade_mem \<Rightarrow> string \<Rightarrow> (upgrade_row \<Rightarrow> upgrade_error + upgrade_row) \<Rightarrow> go_time \<Rightarrow> manager_result" where
  "manager_mutate m pool fn clock =
    (case mem_Get m pool of
       None \<Rightarrow> Inl ErrUpgradeNotFound
     | Some rec \<Rightarrow>
         (case fn rec of Inl e \<Rightarrow> Inl e | Inr rec' \<Rightarrow> mem_Put m rec' (rw_Version rec) clock))"

definition pause_row :: "upgrade_row \<Rightarrow> string \<Rightarrow> go_time \<Rightarrow> upgrade_error + upgrade_row" where
  "pause_row rec reason now =
    (if rw_Phase rec = UpPaused then Inl ErrAlreadyPaused
     else if rw_Phase rec = UpComplete then Inl ErrCannotPauseTerminal
     else Inr (rec\<lparr>rw_PriorPhase := rw_Phase rec, rw_Phase := UpPaused,
                   rw_PauseReason := reason, rw_PausedAt := now\<rparr>))"

definition proceed_row :: "upgrade_row \<Rightarrow> go_time \<Rightarrow> upgrade_error + upgrade_row" where
  "proceed_row rec now =
    (if rw_Phase rec = UpPaused then Inl ErrPaused
     else if rw_Phase rec = UpComplete then Inl ErrTerminal
     else case nextLinear (rw_Phase rec) of
            None \<Rightarrow> Inl ErrTerminal
          | Some next \<Rightarrow>
              (case upgrade_IsValid (rw_Phase rec) next of
                 Some e \<Rightarrow> Inl e
               | None \<Rightarrow>
                   (let rec' = rec\<lparr>rw_Phase := next, rw_PhaseEnteredAt := now\<rparr>
                    in Inr (if next \<noteq> UpDraining then rec'\<lparr>rw_DrainingSessions := 0\<rparr> else rec'))))"

definition resume_row :: "upgrade_row \<Rightarrow> go_time \<Rightarrow> upgrade_error + upgrade_row" where
  "resume_row rec now =
    (if rw_Phase rec \<noteq> UpPaused then Inl ErrNotPaused
     else Inr (rec\<lparr>rw_Phase := rw_PriorPhase rec, rw_PriorPhase := UpEmpty,
                   rw_PauseReason := '''', rw_PausedAt := 0, rw_PhaseEnteredAt := now\<rparr>))"

definition rollback_row :: "bool \<Rightarrow> upgrade_row \<Rightarrow> go_time \<Rightarrow> upgrade_error + upgrade_row" where
  "rollback_row restoreOldPool rec now =
    (case rw_Phase rec of
       UpExpanding \<Rightarrow> pause_row rec ''rollback'' now
     | UpDraining \<Rightarrow>
         if \<not> restoreOldPool then Inl ErrRollbackNotAllowed
         else if rw_PreviousPoolSpec rec = '''' then Inl ErrRollbackNotAllowed
         else pause_row rec ''rollback (restore-old-pool)'' now
     | UpContracting \<Rightarrow>
         if \<not> restoreOldPool then Inl ErrRollbackNotAllowed
         else if rw_PreviousPoolSpec rec = '''' then Inl ErrRollbackNotAllowed
         else pause_row rec ''rollback (restore-old-pool)'' now
     | _ \<Rightarrow> Inl ErrRollbackNotAllowed)"

definition manager_Proceed :: "upgrade_mem \<Rightarrow> string \<Rightarrow> go_time \<Rightarrow> go_time \<Rightarrow> manager_result" where
  "manager_Proceed m pool now clock = manager_mutate m pool (\<lambda>rec. proceed_row rec now) clock"

definition manager_Pause :: "upgrade_mem \<Rightarrow> string \<Rightarrow> string \<Rightarrow> go_time \<Rightarrow> go_time \<Rightarrow> manager_result" where
  "manager_Pause m pool reason now clock = manager_mutate m pool (\<lambda>rec. pause_row rec reason now) clock"

definition manager_Resume :: "upgrade_mem \<Rightarrow> string \<Rightarrow> go_time \<Rightarrow> go_time \<Rightarrow> manager_result" where
  "manager_Resume m pool now clock = manager_mutate m pool (\<lambda>rec. resume_row rec now) clock"

definition manager_Rollback :: "upgrade_mem \<Rightarrow> string \<Rightarrow> bool \<Rightarrow> go_time \<Rightarrow> go_time \<Rightarrow> manager_result" where
  "manager_Rollback m pool restoreOldPool now clock =
    manager_mutate m pool (\<lambda>rec. rollback_row restoreOldPool rec now) clock"

section \<open>Specification\<close>

text \<open>The phase machine a row stands for.\<close>

definition row_record :: "upgrade_row \<Rightarrow> upgrade_record" where
  "row_record r = \<lparr>ur_current = rw_Phase r, ur_priorPaused = rw_PriorPhase r\<rparr>"

definition row_inv :: "upgrade_row \<Rightarrow> bool" where
  "row_inv r \<longleftrightarrow> NewRecordAt (rw_Phase r) (rw_PriorPhase r) = Inr (row_record r)"

text \<open>The progress of an upgrade: its phase, or the phase it was paused in.\<close>

definition progress_of :: "upgrade_row \<Rightarrow> nat" where
  "progress_of r =
    (case (if rw_Phase r = UpPaused then rw_PriorPhase r else rw_Phase r) of
       UpExpanding \<Rightarrow> 1 | UpDraining \<Rightarrow> 2 | UpContracting \<Rightarrow> 3 | UpComplete \<Rightarrow> 4 | _ \<Rightarrow> 0)"

text \<open>Any successful manager call, by any replica.\<close>

inductive manager_step :: "upgrade_mem \<Rightarrow> upgrade_mem \<Rightarrow> bool" where
  step_start: "manager_Start pools m pool opts now clock = Inr (row, m') \<Longrightarrow> manager_step m m'"
| step_proceed: "manager_Proceed m pool now clock = Inr (row, m') \<Longrightarrow> manager_step m m'"
| step_pause: "manager_Pause m pool reason now clock = Inr (row, m') \<Longrightarrow> manager_step m m'"
| step_resume: "manager_Resume m pool now clock = Inr (row, m') \<Longrightarrow> manager_step m m'"
| step_rollback: "manager_Rollback m pool restore now clock = Inr (row, m') \<Longrightarrow> manager_step m m'"

definition mem_inv :: "upgrade_mem \<Rightarrow> bool" where
  "mem_inv m \<longleftrightarrow> wf_map m \<and> (\<forall>pool row. mem_Get m pool = Some row \<longrightarrow> rw_Pool row = pool \<and> row_inv row)"

text \<open>What one successful call does to the row of a pool.\<close>

definition row_changed :: "upgrade_mem \<Rightarrow> upgrade_mem \<Rightarrow> string \<Rightarrow> bool" where
  "row_changed m m' pool \<longleftrightarrow>
    (\<exists>row. mem_Get m' pool = Some row \<and> rw_Pool row = pool \<and> row_inv row
       \<and> (\<forall>old. mem_Get m pool = Some old \<longrightarrow>
            (progress_of row = progress_of old \<or> progress_of row = progress_of old + 1)
            \<or> (rw_Phase old = UpComplete \<and> rw_Phase row = UpPending)))"

text \<open>The write of a row under its own pool, as the contract's \<open>put\<close>.\<close>

definition put_row :: "upgrade_mem \<Rightarrow> string \<Rightarrow> upgrade_row \<times> go_time \<Rightarrow> int \<Rightarrow> (upgrade_row \<times> upgrade_mem) option" where
  "put_row m pool rc v =
    (case mem_Put m ((fst rc)\<lparr>rw_Pool := pool\<rparr>) v (snd rc) of Inl _ \<Rightarrow> None | Inr p \<Rightarrow> Some p)"

text \<open>A write another replica tries in between; a conflict leaves the store as it was.\<close>

definition try_put :: "string \<times> (upgrade_row \<times> go_time) \<times> int \<Rightarrow> upgrade_mem \<Rightarrow> upgrade_mem" where
  "try_put q m = (case q of (pool, rc, v) \<Rightarrow>
     (case put_row m pool rc v of None \<Rightarrow> m | Some (_, m') \<Rightarrow> m'))"

text \<open>A registration used as example.\<close>

definition demo_opts :: start_options where
  "demo_opts = \<lparr>so_NewImage = ''img'', so_CanaryPercent = 0, so_SchemaVersion = '''', so_DrainFirst = False,
     so_AutoAdvance = False, so_StabilizationWindowSeconds = 0, so_DrainTimeoutSeconds = 0\<rparr>"

definition demo_row :: upgrade_row where
  "demo_row = (start_row ''p'' demo_opts ''spec'' 5)\<lparr>rw_CreatedAt := 5, rw_Version := 1, rw_UpdatedAt := 5\<rparr>"

lemmas manager_defs = manager_Proceed_def manager_Pause_def manager_Resume_def manager_Rollback_def
lemmas row_op_defs = pause_row_def proceed_row_def resume_row_def rollback_row_def

section \<open>The store contract\<close>

text \<open>
  A store with an optimistic version guard: what a write requires, and what a lookup
  returns after it.
\<close>

locale versioned_store =
  fixes get :: "'s \<Rightarrow> 'k \<Rightarrow> 'r option"
    and put :: "'s \<Rightarrow> 'k \<Rightarrow> 'w \<Rightarrow> int \<Rightarrow> ('r \<times> 's) option"
    and version :: "'r \<Rightarrow> int"
  assumes put_guard: "put s k r v = Some (r', s') \<Longrightarrow>
      (case get s k of None \<Rightarrow> v = 0 | Some r0 \<Rightarrow> version r0 = v)"
    and get_put_same: "put s k r v = Some (r', s') \<Longrightarrow> get s' k = Some r'"
    and get_put_other: "put s k r v = Some (r', s') \<Longrightarrow> k' \<noteq> k \<Longrightarrow> get s' k' = get s k'"
    and version_put: "put s k r v = Some (r', s') \<Longrightarrow> version r' = w64 (v + 1)"
begin

definition attempt :: "'k \<times> 'w \<times> int \<Rightarrow> 's \<Rightarrow> 's" where
  "attempt q s = (case q of (k, w, v) \<Rightarrow> (case put s k w v of None \<Rightarrow> s | Some (_, s') \<Rightarrow> s'))"

lemma version_grows:
  assumes "get s k = Some r" "0 \<le> version r" "version r + int (length qs) \<le> max_int64"
  shows "\<exists>r'. get (fold attempt qs s) k = Some r' \<and> (r' = r \<or> version r < version r')"
  using assms
proof (induction qs arbitrary: s r)
  case Nil
  then show ?case by simp
next
  case (Cons q qs)
  obtain k' w v where q: "q = (k', w, v)" by (cases q)
  show ?case
  proof (cases "put s k' w v")
    case None
    then show ?thesis using Cons.IH[OF Cons.prems(1,2)] Cons.prems(3) by (simp add: q attempt_def)
  next
    case (Some p)
    then obtain r1 s1 where put: "put s k' w v = Some (r1, s1)" by (cases p) auto
    show ?thesis
    proof (cases "k' = k")
      case True
      have "version r = v" using put_guard[OF put] Cons.prems(1) True by simp
      moreover have "version r1 = version r + 1"
        using version_put[OF put] calculation Cons.prems(2,3)
        by (simp add: w64_id is_int64_def max_int64_def min_int64_def)
      moreover have "get s1 k = Some r1" using get_put_same[OF put] True by simp
      ultimately show ?thesis
        using Cons.IH[of s1 r1] Cons.prems(2,3) put by (auto simp: q attempt_def)
    next
      case False
      then have "get s1 k = Some r" using get_put_other[OF put] Cons.prems(1) by simp
      then show ?thesis
        using Cons.IH[of s1 r] Cons.prems(2,3) put by (auto simp: q attempt_def)
    qed
  qed
qed

lemma no_lost_update:
  assumes "get s k = Some r" "0 \<le> version r" "version r + int (length qs) \<le> max_int64"
    and "put (fold attempt qs s) k w (version r) = Some (r2, s'')"
  shows "get (fold attempt qs s) k = Some r"
  using version_grows[OF assms(1-3)] put_guard[OF assms(4)] by auto

end

interpretation upgrade_store: versioned_store mem_Get put_row rw_Version
proof unfold_locales
  fix m k and rc :: "upgrade_row \<times> go_time" and v r' m'
  assume p: "put_row m k rc v = Some (r', m')"
  show "case mem_Get m k of None \<Rightarrow> v = 0 | Some r0 \<Rightarrow> rw_Version r0 = v"
    using p by (auto simp: put_row_def mem_Put_def mem_Get_def Let_def split: option.splits sum.splits if_splits)
  show "mem_Get m' k = Some r'" "rw_Version r' = w64 (v + 1)"
    using p by (auto simp: put_row_def mem_Put_def mem_Get_def Let_def split: option.splits sum.splits if_splits)
  fix k' assume "k' \<noteq> k"
  then show "mem_Get m' k' = mem_Get m k'"
    using p by (auto simp: put_row_def mem_Put_def mem_Get_def Let_def split: option.splits sum.splits if_splits)
qed

section \<open>Lemmas\<close>

lemma isKnown_iff [simp]: "isKnown s \<longleftrightarrow> s \<in> set upgrade_All"
  by (auto simp: isKnown_def list_ex_iff)

lemma row_inv_iff:
  "row_inv r \<longleftrightarrow>
    (rw_Phase r = UpPaused \<and> rw_PriorPhase r \<in> {UpPending, UpExpanding, UpDraining, UpContracting})
    \<or> (rw_Phase r \<in> {UpPending, UpExpanding, UpDraining, UpContracting, UpComplete} \<and> rw_PriorPhase r = UpEmpty)"
  by (auto simp: row_inv_def NewRecordAt_def row_record_def upgrade_All_def)

lemma mem_Put_Inr:
  assumes "mem_Put m rec v clock = Inr (row, m')"
  shows "m' = AList.update (rw_Pool rec) row m \<and> rw_Pool row = rw_Pool rec
       \<and> rw_Phase row = rw_Phase rec \<and> rw_PriorPhase row = rw_PriorPhase rec
       \<and> rw_Version row = w64 (v + 1)
       \<and> (case map_of m (rw_Pool rec) of None \<Rightarrow> v = 0 | Some old \<Rightarrow> rw_Version old = v)"
  using assms by (auto simp: mem_Put_def Let_def split: option.splits sum.splits if_splits)

lemma mem_Put_ok:
  assumes "map_of m (rw_Pool rec) = Some old" "rw_Version old = v"
  shows "\<exists>row. mem_Put m rec v clock = Inr (row, AList.update (rw_Pool rec) row m)
           \<and> row = rec\<lparr>rw_CreatedAt := rw_CreatedAt old, rw_Version := w64 (v + 1), rw_UpdatedAt := clock\<rparr>"
  using assms by (simp add: mem_Put_def Let_def)

lemma row_ops_inv:
  "row_inv r \<Longrightarrow> pause_row r reason now = Inr r' \<Longrightarrow> row_inv r' \<and> rw_Pool r' = rw_Pool r \<and> progress_of r' = progress_of r"
  "row_inv r \<Longrightarrow> resume_row r now = Inr r' \<Longrightarrow> row_inv r' \<and> rw_Pool r' = rw_Pool r \<and> progress_of r' = progress_of r"
  "row_inv r \<Longrightarrow> proceed_row r now = Inr r' \<Longrightarrow> row_inv r' \<and> rw_Pool r' = rw_Pool r \<and> progress_of r' = progress_of r + 1"
  by (auto simp: row_inv_iff row_op_defs nextLinear_def upgrade_IsValid_def upgrade_ValidTransitions_def
      progress_of_def Let_def split: if_splits)

lemma rollback_row_pause:
  "rollback_row restore r now = Inr r' \<Longrightarrow>
    rw_Phase r \<in> {UpExpanding, UpDraining, UpContracting} \<and> (\<exists>reason. pause_row r reason now = Inr r')"
  by (auto simp: rollback_row_def split: upgrade_state.splits if_splits)

lemma manager_mutate_Inr:
  assumes "manager_mutate m pool fn clock = Inr (row, m')"
  obtains old new where "mem_Get m pool = Some old" "fn old = Inr new" "mem_Put m new (rw_Version old) clock = Inr (row, m')"
  using assms by (auto simp: manager_mutate_def split: option.splits sum.splits)

lemma mutate_changes:
  assumes inv: "mem_inv m" and mut: "manager_mutate m pool fn clock = Inr (row, m')"
    and fn: "\<And>old new. row_inv old \<Longrightarrow> fn old = Inr new \<Longrightarrow>
        row_inv new \<and> rw_Pool new = rw_Pool old \<and> (progress_of new = progress_of old \<or> progress_of new = progress_of old + 1)"
  shows "m' = AList.update pool row m \<and> row_changed m m' pool"
proof -
  obtain old new where o: "mem_Get m pool = Some old" "fn old = Inr new"
      and p: "mem_Put m new (rw_Version old) clock = Inr (row, m')"
    using manager_mutate_Inr[OF mut] by blast
  have old: "rw_Pool old = pool" "row_inv old" using inv o(1) by (auto simp: mem_inv_def)
  note n = fn[OF old(2) o(2)]
  note q = mem_Put_Inr[OF p]
  have "row_inv row" "progress_of row = progress_of new"
    using n q by (auto simp: row_inv_iff progress_of_def)
  then show ?thesis
    using n q old o(1) by (auto simp: row_changed_def mem_Get_def)
qed

lemma manager_step_changes:
  assumes "manager_step m m'" "mem_inv m"
  shows "\<exists>pool row. m' = AList.update pool row m \<and> row_changed m m' pool"
  using assms
proof (induction rule: manager_step.induct)
  case (step_start pools m pool opts now clock row m')
  then obtain spec v where p: "mem_Put m (start_row pool opts spec now) v clock = Inr (row, m')"
      and c: "\<And>old. mem_Get m pool = Some old \<Longrightarrow> rw_Phase old = UpComplete"
    by (auto simp: manager_Start_def split: if_splits option.splits sum.splits pool_read.splits)
  have "m' = AList.update pool row m \<and> row_changed m m' pool"
    using mem_Put_Inr[OF p] c by (auto simp: row_changed_def start_row_def row_inv_iff mem_Get_def)
  then show ?case by blast
next
  case (step_proceed m pool now clock row m')
  then show ?case
    using mutate_changes[OF step_proceed(2), of pool _ clock row m'] row_ops_inv(3)
    unfolding manager_defs by blast
next
  case (step_pause m pool reason now clock row m')
  then show ?case
    using mutate_changes[OF step_pause(2), of pool _ clock row m'] row_ops_inv(1)
    unfolding manager_defs by blast
next
  case (step_resume m pool now clock row m')
  then show ?case
    using mutate_changes[OF step_resume(2), of pool _ clock row m'] row_ops_inv(2)
    unfolding manager_defs by blast
next
  case (step_rollback m pool restore now clock row m')
  then show ?case
    using mutate_changes[OF step_rollback(2), of pool _ clock row m'] row_ops_inv(1) rollback_row_pause
    unfolding manager_defs by meson
qed

lemma mem_inv_step:
  assumes "manager_step m m'" "mem_inv m"
  shows "mem_inv m'"
proof -
  obtain pool row where "m' = AList.update pool row m" "row_changed m m' pool"
    using manager_step_changes[OF assms] by blast
  then show ?thesis
    using assms(2) by (auto simp: mem_inv_def row_changed_def mem_Get_def)
qed

lemma mem_inv_reachable: "manager_step\<^sup>*\<^sup>* [] m \<Longrightarrow> mem_inv m"
proof (induction rule: rtranclp_induct)
  case base
  then show ?case by (simp add: mem_inv_def mem_Get_def)
next
  case (step y z)
  then show ?case using mem_inv_step by blast
qed

lemma try_put_attempt: "try_put = upgrade_store.attempt"
  by (intro ext) (simp add: try_put_def upgrade_store.attempt_def)

lemma demo_step: "manager_step [] [(''p'', demo_row)]"
  by (rule step_start[of "Some (\<lambda>_. PoolSpec ''spec'')" _ "''p''" demo_opts 5 5 demo_row])
     (simp add: manager_Start_def demo_opts_def mem_Get_def mem_Put_def demo_row_def start_row_def w64_def Let_def)

lemma demo_step2:
  "manager_step [(''p'', demo_row)] [(''p'', demo_row\<lparr>rw_Phase := UpExpanding, rw_PhaseEnteredAt := 6, rw_Version := 2, rw_UpdatedAt := 6\<rparr>)]"
  by (rule step_proceed[of _ "''p''" 6 6])
     (simp add: manager_Proceed_def manager_mutate_def proceed_row_def mem_Get_def mem_Put_def demo_row_def
       start_row_def demo_opts_def nextLinear_def upgrade_IsValid_def upgrade_ValidTransitions_def w64_def Let_def)

section \<open>Properties\<close>

text \<open>
  C28. Whatever the interleaving of manager calls, every stored upgrade row can be
  rehydrated into a phase record, and a call moves an upgrade forward by at most one
  phase and never back; only a new registration over a completed upgrade starts
  again.
\<close>

theorem upgrade_never_moves_back:
  assumes "manager_step\<^sup>*\<^sup>* [] m" "manager_step m m'" "mem_Get m pool = Some old"
  shows "\<exists>row. mem_Get m' pool = Some row
      \<and> NewRecordAt (rw_Phase row) (rw_PriorPhase row) = Inr (row_record row)
      \<and> (progress_of row \<in> {progress_of old, progress_of old + 1}
         \<or> (rw_Phase old = UpComplete \<and> rw_Phase row = UpPending))"
proof -
  have inv: "mem_inv m" by (rule mem_inv_reachable[OF assms(1)])
  obtain p row where m': "m' = AList.update p row m" and ch: "row_changed m m' p"
    using manager_step_changes[OF assms(2) inv] by blast
  show ?thesis
  proof (cases "p = pool")
    case True
    then show ?thesis using ch assms(3) by (auto simp: row_changed_def row_inv_def)
  next
    case False
    then have "mem_Get m' pool = Some old" using m' assms(3) by (simp add: mem_Get_def)
    then show ?thesis using inv assms(3) by (auto simp: mem_inv_def row_inv_def)
  qed
qed

theorem upgrade_never_moves_back_witness:
  "\<exists>row. mem_Get [(''p'', demo_row\<lparr>rw_Phase := UpExpanding, rw_PhaseEnteredAt := 6, rw_Version := 2, rw_UpdatedAt := 6\<rparr>)] ''p'' = Some row
      \<and> NewRecordAt (rw_Phase row) (rw_PriorPhase row) = Inr (row_record row)
      \<and> (progress_of row \<in> {progress_of demo_row, progress_of demo_row + 1}
         \<or> (rw_Phase demo_row = UpComplete \<and> rw_Phase row = UpPending))"
  using upgrade_never_moves_back[OF r_into_rtranclp[of manager_step, OF demo_step] demo_step2, of "''p''" demo_row]
  by (simp add: mem_Get_def)

text \<open>
  C10. No lost update: if a replica reads a row, other replicas try any writes in
  between, and the replica's own write then passes the version guard, the row had not
  changed, and the call has the effect of an atomic one on the current store.
\<close>

theorem mutate_linearizes:
  assumes "mem_Get m pool = Some rec" "0 \<le> rw_Version rec"
    and "rw_Version rec + int (length qs) \<le> max_int64"
    and "fn rec = Inr rec'" "rw_Pool rec' = pool"
    and "mem_Put (fold try_put qs m) rec' (rw_Version rec) clock = Inr (row, m')"
  shows "manager_mutate (fold try_put qs m) pool fn clock = Inr (row, m')"
proof -
  have "put_row (fold try_put qs m) pool (rec', clock) (rw_Version rec) = Some (row, m')"
    using assms(5,6) by (auto simp: put_row_def)
  then have "mem_Get (fold try_put qs m) pool = Some rec"
    using upgrade_store.no_lost_update[OF assms(1-3)] by (simp add: try_put_attempt)
  then show ?thesis using assms(4,6) by (simp add: manager_mutate_def)
qed

theorem mutate_linearizes_witness:
  "\<exists>row m'. manager_mutate (fold try_put [(''q'', (demo_row, 7), 0)] [(''p'', demo_row)]) ''p''
      (\<lambda>rec. pause_row rec ''halt'' 8) 9 = Inr (row, m')"
proof -
  let ?new = "demo_row\<lparr>rw_PriorPhase := UpPending, rw_Phase := UpPaused, rw_PauseReason := ''halt'', rw_PausedAt := 8\<rparr>"
  let ?m = "fold try_put [(''q'', (demo_row, 7), 0)] [(''p'', demo_row)]"
  let ?row = "?new\<lparr>rw_Version := 2, rw_UpdatedAt := 9\<rparr>"
  have put: "mem_Put ?m ?new (rw_Version demo_row) 9 = Inr (?row, AList.update ''p'' ?row ?m)"
    by (simp add: try_put_def put_row_def mem_Put_def demo_row_def start_row_def demo_opts_def w64_def Let_def)
  have "manager_mutate ?m ''p'' (\<lambda>rec. pause_row rec ''halt'' 8) 9 = Inr (?row, AList.update ''p'' ?row ?m)"
    by (rule mutate_linearizes[OF _ _ _ _ _ put])
       (simp_all add: mem_Get_def demo_row_def start_row_def pause_row_def max_int64_def)
  then show ?thesis by blast
qed





end
