(* ===== verification/Warm_Plan.thy ===== *)
theory Warm_Plan
  imports Pod_State "HOL-Library.Char_ord" "HOL-Library.List_Lexorder"
begin

text \<open>
  The sizing planner of a warm pool (\<^verbatim>\<open>pkg/controller/warmpool/plan/plan.go\<close>): a
  pure function from the pool bounds and the observed pods to the number of pods to
  create and the names to drain. Go sorts names bytewise, which is the order of
  strings here. \<open>apply_plan\<close> is the effect the plan asks for, used to state that
  one pass converges.
\<close>

section \<open>Data\<close>

record plan_pod =
  pp_Name :: string
  pp_Phase :: pod_phase
  pp_Pinned :: bool

record plan_inputs =
  in_MinWarm :: int
  in_MaxWarm :: int
  in_Pods :: "plan_pod list"

record plan =
  pl_Create :: int
  pl_Drain :: "string list"
  pl_WarmCount :: int
  pl_ReadyCount :: int
  pl_ReservedCount :: int
  pl_PinnedIdleCount :: int
  pl_DrainPinned :: "string list"

section \<open>The planner\<close>

definition isWarming :: "pod_phase \<Rightarrow> bool" where
  "isWarming s \<longleftrightarrow> s = PhWarming \<or> s = PhSDKConnecting"

definition clampZero :: "int \<Rightarrow> int" where
  "clampZero n = (if n < 0 then 0 else n)"

definition warmTarget :: "int \<Rightarrow> int \<Rightarrow> int" where
  "warmTarget minWarm maxWarm =
    (let minWarm = (if minWarm < 0 then 0 else minWarm);
         maxWarm = (if maxWarm < 0 then 0 else maxWarm)
     in if minWarm > maxWarm then maxWarm else minWarm)"

definition pinnedOverBound :: "string list \<Rightarrow> int \<Rightarrow> string list" where
  "pinnedOverBound pinned bound =
    (let bound = (if bound < 0 then 0 else bound)
     in if int (length pinned) \<le> bound then []
        else take (nat (int (length pinned) - bound)) (sort pinned))"

text \<open>The counters and name lists the loop over the pods accumulates.\<close>

record tally =
  ta_warm :: int
  ta_ready :: int
  ta_reserved :: int
  ta_idle :: "string list"
  ta_pinned :: "string list"

definition tally_pod :: "tally \<Rightarrow> plan_pod \<Rightarrow> tally" where
  "tally_pod t p =
    (if pp_Phase p = PhIdle \<and> pp_Pinned p then t\<lparr>ta_pinned := ta_pinned t @ [pp_Name p]\<rparr>
     else if pp_Phase p = PhIdle then
       t\<lparr>ta_warm := ta_warm t + 1, ta_ready := ta_ready t + 1, ta_idle := ta_idle t @ [pp_Name p]\<rparr>
     else if isWarming (pp_Phase p) then t\<lparr>ta_warm := ta_warm t + 1\<rparr>
     else if pp_Phase p = PhReserved then t\<lparr>ta_reserved := ta_reserved t + 1\<rparr>
     else t)"

definition tally_pods :: "plan_pod list \<Rightarrow> tally" where
  "tally_pods pods = foldl tally_pod
     \<lparr>ta_warm = 0, ta_ready = 0, ta_reserved = 0, ta_idle = [], ta_pinned = []\<rparr> pods"

definition Compute :: "plan_inputs \<Rightarrow> plan" where
  "Compute i =
    (let target = warmTarget (in_MinWarm i) (in_MaxWarm i);
         t = tally_pods (in_Pods i);
         base = \<lparr>pl_Create = 0, pl_Drain = [], pl_WarmCount = ta_warm t, pl_ReadyCount = ta_ready t,
                 pl_ReservedCount = ta_reserved t, pl_PinnedIdleCount = int (length (ta_pinned t)),
                 pl_DrainPinned = []\<rparr>;
         sized =
           (if ta_warm t < target then base\<lparr>pl_Create := target - ta_warm t\<rparr>
            else if ta_warm t > target then
              (let excess = ta_warm t - target;
                   excess = (if excess > int (length (ta_idle t)) then int (length (ta_idle t)) else excess)
               in base\<lparr>pl_Drain := take (nat excess) (sort (ta_idle t))\<rparr>)
            else base)
     in sized\<lparr>pl_DrainPinned := pinnedOverBound (ta_pinned t) (clampZero (in_MaxWarm i) - target)\<rparr>)"

section \<open>The effect of a plan\<close>

definition drain_pod :: "plan \<Rightarrow> plan_pod \<Rightarrow> plan_pod" where
  "drain_pod pl p =
    (if pp_Name p \<in> set (pl_Drain pl) \<or> pp_Name p \<in> set (pl_DrainPinned pl) then p\<lparr>pp_Phase := PhDraining\<rparr> else p)"

definition apply_plan :: "plan \<Rightarrow> string list \<Rightarrow> plan_pod list \<Rightarrow> plan_pod list" where
  "apply_plan pl fresh pods =
     map (drain_pod pl) pods @ map (\<lambda>n. \<lparr>pp_Name = n, pp_Phase = PhWarming, pp_Pinned = False\<rparr>) fresh"

section \<open>Lemmas\<close>

definition idle_names :: "plan_pod list \<Rightarrow> string list" where
  "idle_names pods = map pp_Name (filter (\<lambda>p. pp_Phase p = PhIdle \<and> \<not> pp_Pinned p) pods)"

definition pinned_names :: "plan_pod list \<Rightarrow> string list" where
  "pinned_names pods = map pp_Name (filter (\<lambda>p. pp_Phase p = PhIdle \<and> pp_Pinned p) pods)"

definition warming_pods :: "plan_pod list \<Rightarrow> plan_pod list" where
  "warming_pods pods = filter (\<lambda>p. isWarming (pp_Phase p)) pods"

lemma tally_foldl:
  "foldl tally_pod t pods =
    \<lparr>ta_warm = ta_warm t + int (length (idle_names pods)) + int (length (warming_pods pods)),
     ta_ready = ta_ready t + int (length (idle_names pods)),
     ta_reserved = ta_reserved t + int (length (filter (\<lambda>p. pp_Phase p = PhReserved) pods)),
     ta_idle = ta_idle t @ idle_names pods,
     ta_pinned = ta_pinned t @ pinned_names pods\<rparr>"
  by (induction pods arbitrary: t)
     (auto simp: tally_pod_def idle_names_def pinned_names_def warming_pods_def isWarming_def)

lemma tally_pods_simps [simp]:
  "ta_warm (tally_pods pods) = int (length (idle_names pods)) + int (length (warming_pods pods))"
  "ta_ready (tally_pods pods) = int (length (idle_names pods))"
  "ta_reserved (tally_pods pods) = int (length (filter (\<lambda>p. pp_Phase p = PhReserved) pods))"
  "ta_idle (tally_pods pods) = idle_names pods"
  "ta_pinned (tally_pods pods) = pinned_names pods"
  by (simp_all add: tally_pods_def tally_foldl)

lemma warmTarget_bounds [simp]: "0 \<le> warmTarget a b" "warmTarget a b \<le> clampZero b"
  by (simp_all add: warmTarget_def clampZero_def Let_def)

lemma set_take_sort: "set (take n (sort xs)) \<subseteq> set xs"
  using set_take_subset by fastforce

lemma Compute_simps:
  "pl_Create (Compute i) = max 0 (warmTarget (in_MinWarm i) (in_MaxWarm i) - ta_warm (tally_pods (in_Pods i)))"
  "pl_Drain (Compute i) = take (nat (ta_warm (tally_pods (in_Pods i)) - warmTarget (in_MinWarm i) (in_MaxWarm i)))
       (sort (idle_names (in_Pods i)))"
  "pl_DrainPinned (Compute i) = pinnedOverBound (pinned_names (in_Pods i))
       (clampZero (in_MaxWarm i) - warmTarget (in_MinWarm i) (in_MaxWarm i))"
  by (auto simp: Compute_def Let_def)

lemma pinnedOverBound_subset: "set (pinnedOverBound xs b) \<subseteq> set xs"
  by (auto simp: pinnedOverBound_def Let_def dest: set_take_sort[THEN subsetD] split: if_splits)

lemma length_pinnedOverBound: "length (pinnedOverBound xs b) = length xs - nat b"
  by (auto simp: pinnedOverBound_def Let_def)

lemma names_disjoint:
  assumes "distinct (map pp_Name pods)"
  shows "set (idle_names pods) \<inter> set (pinned_names pods) = {}"
    and "distinct (idle_names pods)" "distinct (pinned_names pods)"
    and "p \<in> set pods \<Longrightarrow> pp_Name p \<in> set (idle_names pods) \<Longrightarrow> pp_Phase p = PhIdle \<and> \<not> pp_Pinned p"
    and "p \<in> set pods \<Longrightarrow> pp_Name p \<in> set (pinned_names pods) \<Longrightarrow> pp_Phase p = PhIdle \<and> pp_Pinned p"
  using assms
  by (auto simp: idle_names_def pinned_names_def distinct_map inj_on_def intro: distinct_filter)

lemma idle_after_drain:
  assumes d: "distinct (map pp_Name pods)" and D: "set D \<subseteq> set (idle_names pods)"
    and P: "set P \<subseteq> set (pinned_names pods)" and pl: "pl_Drain pl = D" "pl_DrainPinned pl = P"
  shows "idle_names (map (drain_pod pl) pods) = filter (\<lambda>n. n \<notin> set D) (idle_names pods)"
    and "pinned_names (map (drain_pod pl) pods) = filter (\<lambda>n. n \<notin> set P) (pinned_names pods)"
    and "length (warming_pods (map (drain_pod pl) pods)) = length (warming_pods pods)"
proof -
  note nd = names_disjoint[OF d]
  have id: "pp_Phase (drain_pod pl p) = PhIdle \<and> \<not> pp_Pinned (drain_pod pl p)
      \<longleftrightarrow> (pp_Phase p = PhIdle \<and> \<not> pp_Pinned p) \<and> pp_Name p \<notin> set D"
    and pi: "pp_Phase (drain_pod pl p) = PhIdle \<and> pp_Pinned (drain_pod pl p)
      \<longleftrightarrow> (pp_Phase p = PhIdle \<and> pp_Pinned p) \<and> pp_Name p \<notin> set P"
    and wa: "isWarming (pp_Phase (drain_pod pl p)) \<longleftrightarrow> isWarming (pp_Phase p)" if "p \<in> set pods" for p
    using nd(4,5)[OF that] D P pl by (auto simp: drain_pod_def isWarming_def)
  have nm: "pp_Name (drain_pod pl p) = pp_Name p" for p by (simp add: drain_pod_def)
  show "idle_names (map (drain_pod pl) pods) = filter (\<lambda>n. n \<notin> set D) (idle_names pods)"
    unfolding idle_names_def using id
    by (simp add: filter_map o_def nm cong: filter_cong)
  show "pinned_names (map (drain_pod pl) pods) = filter (\<lambda>n. n \<notin> set P) (pinned_names pods)"
    unfolding pinned_names_def using pi
    by (simp add: filter_map o_def nm cong: filter_cong)
  show "length (warming_pods (map (drain_pod pl) pods)) = length (warming_pods pods)"
    unfolding warming_pods_def using wa by (simp add: filter_map o_def cong: filter_cong)
qed

lemma length_filter_notin:
  assumes "distinct xs" "distinct ys" "set ys \<subseteq> set xs"
  shows "length (filter (\<lambda>n. n \<notin> set ys) xs) = length xs - length ys"
proof -
  have "set (filter (\<lambda>n. n \<notin> set ys) xs) = set xs - set ys" by auto
  then have "length (filter (\<lambda>n. n \<notin> set ys) xs) = card (set xs - set ys)"
    using assms(1) by (metis distinct_card distinct_filter)
  also have "\<dots> = length xs - length ys"
    using assms by (simp add: card_Diff_subset distinct_card)
  finally show ?thesis .
qed

lemma drain_lists:
  assumes "distinct (map pp_Name (in_Pods i))"
  shows "set (pl_Drain (Compute i)) \<subseteq> set (idle_names (in_Pods i))"
    and "set (pl_DrainPinned (Compute i)) \<subseteq> set (pinned_names (in_Pods i))"
    and "distinct (pl_Drain (Compute i))" "distinct (pl_DrainPinned (Compute i))"
  using names_disjoint(2,3)[OF assms] set_take_sort pinnedOverBound_subset
  by (auto simp: Compute_simps pinnedOverBound_def Let_def)

lemma plan_arith:
  fixes t :: int and x w f :: nat
  assumes "0 \<le> t" "int f = max 0 (t - (int x + int w))"
  shows "int (x - min x (nat (int x + int w - t))) + int (w + f) = max t (int w)"
  using assms by arith

text \<open>The pools of pods after a plan is applied.\<close>

lemma after_plan:
  fixes i :: plan_inputs and fresh :: "string list"
  assumes d: "distinct (map pp_Name (in_Pods i))" and fr: "int (length fresh) = pl_Create (Compute i)"
  defines "pods' \<equiv> apply_plan (Compute i) fresh (in_Pods i)"
  shows "length (idle_names pods') = length (idle_names (in_Pods i)) - length (pl_Drain (Compute i))"
    and "length (pinned_names pods') = length (pinned_names (in_Pods i)) - length (pl_DrainPinned (Compute i))"
    and "length (warming_pods pods') = length (warming_pods (in_Pods i)) + length fresh"
proof -
  note dl = drain_lists[OF d]
  note nd = names_disjoint[OF d]
  note after = idle_after_drain[OF d dl(1,2) refl refl]
  have fresh: "idle_names (xs @ map (\<lambda>n. \<lparr>pp_Name = n, pp_Phase = PhWarming, pp_Pinned = False\<rparr>) fresh) = idle_names xs"
    "pinned_names (xs @ map (\<lambda>n. \<lparr>pp_Name = n, pp_Phase = PhWarming, pp_Pinned = False\<rparr>) fresh) = pinned_names xs"
    "length (warming_pods (xs @ map (\<lambda>n. \<lparr>pp_Name = n, pp_Phase = PhWarming, pp_Pinned = False\<rparr>) fresh))
       = length (warming_pods xs) + length fresh" for xs
    by (simp_all add: idle_names_def pinned_names_def warming_pods_def isWarming_def filter_map o_def)
  show "length (idle_names pods') = length (idle_names (in_Pods i)) - length (pl_Drain (Compute i))"
    "length (pinned_names pods') = length (pinned_names (in_Pods i)) - length (pl_DrainPinned (Compute i))"
    "length (warming_pods pods') = length (warming_pods (in_Pods i)) + length fresh"
    using after dl nd(2,3) by (simp_all add: pods'_def apply_plan_def fresh length_filter_notin)
qed

section \<open>Properties\<close>

text \<open>
  C30. One pass converges: once the planned pods are created (as warming pods) and the
  listed pods drained, planning again with the same bounds asks for nothing, and the
  warm count is the target, or the pods still warming when those alone exceed it;
  the pinned idle pods that remain fit between the target and the ceiling.
\<close>

theorem plan_converges:
  assumes "distinct (map pp_Name (in_Pods i))" and "int (length fresh) = pl_Create (Compute i)"
  shows "let pods' = apply_plan (Compute i) fresh (in_Pods i);
             again = Compute (i\<lparr>in_Pods := pods'\<rparr>);
             target = warmTarget (in_MinWarm i) (in_MaxWarm i)
         in pl_Create again = 0 \<and> pl_Drain again = [] \<and> pl_DrainPinned again = []
          \<and> pl_WarmCount again = max target (int (length (warming_pods (in_Pods i))))
          \<and> target + pl_PinnedIdleCount again \<le> clampZero (in_MaxWarm i)"
proof -
  note a = after_plan[OF assms]
  let ?t = "warmTarget (in_MinWarm i) (in_MaxWarm i)"
  let ?idle = "length (idle_names (in_Pods i))" and ?warming = "length (warming_pods (in_Pods i))"
  let ?pods = "apply_plan (Compute i) fresh (in_Pods i)"
  let ?b = "clampZero (in_MaxWarm i) - ?t"
  have D: "length (pl_Drain (Compute i)) = min ?idle (nat (int ?idle + int ?warming - ?t))"
    by (simp add: Compute_simps min.commute)
  have F: "int (length fresh) = max 0 (?t - (int ?idle + int ?warming))"
    using assms(2) by (simp add: Compute_simps)
  have warm: "int (length (idle_names ?pods)) + int (length (warming_pods ?pods)) = max ?t (int ?warming)"
    unfolding a(1,3) D by (rule plan_arith[OF warmTarget_bounds(1) F])
  have noidle: "?t < int ?warming \<Longrightarrow> idle_names ?pods = []"
    using a(1) D by (simp add: min_def nat_le_iff split: if_splits)
  have pin: "int (length (pinned_names ?pods)) \<le> ?b"
    using warmTarget_bounds(2)[of "in_MinWarm i" "in_MaxWarm i"]
    unfolding a(2) Compute_simps(3) length_pinnedOverBound by arith
  have "pinnedOverBound (pinned_names ?pods) ?b = []"
    using pin by (simp add: pinnedOverBound_def)
  moreover have "take (nat (max ?t (int ?warming) - ?t)) (sort (idle_names ?pods)) = []"
    using noidle by (cases "?t < int ?warming") simp_all
  ultimately show ?thesis
    using warm pin by (simp add: Let_def Compute_simps) (simp add: Compute_def Let_def)
qed

theorem plan_converges_witness:
  "let i = \<lparr>in_MinWarm = 1, in_MaxWarm = 2, in_Pods =
        [\<lparr>pp_Name = ''b'', pp_Phase = PhIdle, pp_Pinned = False\<rparr>, \<lparr>pp_Name = ''a'', pp_Phase = PhIdle, pp_Pinned = False\<rparr>]\<rparr>;
       again = Compute (i\<lparr>in_Pods := apply_plan (Compute i) [] (in_Pods i)\<rparr>)
   in pl_Drain (Compute i) = [''a''] \<and> pl_Drain again = [] \<and> pl_WarmCount again = 1"
proof -
  let ?i = "\<lparr>in_MinWarm = 1, in_MaxWarm = 2, in_Pods =
        [\<lparr>pp_Name = ''b'', pp_Phase = PhIdle, pp_Pinned = False\<rparr>, \<lparr>pp_Name = ''a'', pp_Phase = PhIdle, pp_Pinned = False\<rparr>]\<rparr>"
  have "pl_Create (Compute ?i) = 0 \<and> pl_Drain (Compute ?i) = [''a''] \<and> warming_pods (in_Pods ?i) = []
      \<and> warmTarget (in_MinWarm ?i) (in_MaxWarm ?i) = 1"
    by (simp add: Compute_def tally_pods_def tally_pod_def warmTarget_def warming_pods_def isWarming_def
        Let_def)
  then show ?thesis using plan_converges[of ?i "[]"] by (simp add: Let_def)
qed



end
