(* ===== verification/Delegation_Lease.thy ===== *)
theory Delegation_Lease
  imports Session_State "HOL-Library.Sublist"
begin

text \<open>
  The pure delegation arithmetic: the isolation profiles
  (\<^verbatim>\<open>pkg/sandbox/isolation/profile.go\<close>), the lease slice, the depth precedence chain,
  the approval and credential-propagation enumerations and the provider intersection
  (\<^verbatim>\<open>pkg/delegation/lease/lease.go\<close>), and the cycle gate
  (\<^verbatim>\<open>pkg/delegation/cycle/cycle.go\<close>). An error value keeps the fields of the Go error,
  with the violated axis in place of its message text.
\<close>

section \<open>Isolation profiles\<close>

datatype isolation_profile = ProfileStandard | ProfileSandboxed | ProfileMicrovm | ProfileUnset | ProfileOther string

definition AllProfiles :: "isolation_profile list" where
  "AllProfiles = [ProfileStandard, ProfileSandboxed, ProfileMicrovm]"

definition DefaultForMode :: "bool \<Rightarrow> isolation_profile" where
  "DefaultForMode devMode = (if devMode then ProfileStandard else ProfileSandboxed)"

definition isolation_IsValid :: "isolation_profile \<Rightarrow> bool" where
  "isolation_IsValid p \<longleftrightarrow> list_ex (\<lambda>q. p = q) AllProfiles"

definition RuntimeClass :: "isolation_profile \<Rightarrow> string" where
  "RuntimeClass p = (case p of ProfileStandard \<Rightarrow> ''runc'' | ProfileSandboxed \<Rightarrow> ''gvisor''
     | ProfileMicrovm \<Rightarrow> ''kata'' | _ \<Rightarrow> '''')"

definition Rank :: "isolation_profile \<Rightarrow> int" where
  "Rank p = (case p of ProfileStandard \<Rightarrow> 0 | ProfileSandboxed \<Rightarrow> 1 | ProfileMicrovm \<Rightarrow> 2 | _ \<Rightarrow> - 1)"

definition isolation_Compare :: "isolation_profile \<Rightarrow> isolation_profile \<Rightarrow> int" where
  "isolation_Compare a b = (if Rank a < Rank b then - 1 else if Rank a > Rank b then 1 else 0)"

definition AtLeastAsRestrictive :: "isolation_profile \<Rightarrow> isolation_profile \<Rightarrow> bool" where
  "AtLeastAsRestrictive target source =
    (if \<not> isolation_IsValid target \<or> \<not> isolation_IsValid source then False
     else Rank target \<ge> Rank source)"

section \<open>Lease slices\<close>

record lease_slice =
  ls_MaxTokenBudget :: int
  ls_MaxChildrenTotal :: int
  ls_MaxTreeSize :: int
  ls_MaxTreeMemoryBytes :: int
  ls_MaxParallelChildren :: int
  ls_PerChildMaxAge :: int

datatype lease_axis =
  AxisTokenBudget | AxisChildrenTotal | AxisTreeSize | AxisParallelChildren | AxisPerChildMaxAge

text \<open>A violation carries the axis, the requested value and the value it exceeds.\<close>

type_synonym slice_violation = "lease_axis \<times> int \<times> int"

datatype lease_error =
    BudgetExceededError "slice_violation list"
  | ErrUnresolvedMaxDepth
  | DepthExceededError int int
  | InvalidApprovalModeError string
  | InvalidCredentialPropagationError string

definition slice_check :: "lease_axis \<Rightarrow> int \<Rightarrow> int \<Rightarrow> int \<Rightarrow> slice_violation list" where
  "slice_check axis parent child limit =
    (if parent > 0 \<and> child > 0 then (if child > limit then [(axis, child, limit)] else []) else [])"

definition ValidateChildSlice ::
  "lease_slice \<Rightarrow> lease_slice \<Rightarrow> int \<Rightarrow> int \<Rightarrow> int \<Rightarrow> lease_error option" where
  "ValidateChildSlice parent child remainingTokenBudget remainingChildren remainingTreeSize =
    (let violations =
        slice_check AxisTokenBudget (ls_MaxTokenBudget parent) (ls_MaxTokenBudget child) remainingTokenBudget
      @ slice_check AxisChildrenTotal (ls_MaxChildrenTotal parent) (ls_MaxChildrenTotal child) remainingChildren
      @ slice_check AxisTreeSize (ls_MaxTreeSize parent) (ls_MaxTreeSize child) remainingTreeSize
      @ slice_check AxisParallelChildren (ls_MaxParallelChildren parent) (ls_MaxParallelChildren child)
          (ls_MaxParallelChildren parent)
      @ slice_check AxisPerChildMaxAge (ls_PerChildMaxAge parent) (ls_PerChildMaxAge child)
          (ls_PerChildMaxAge parent)
     in if violations = [] then None else Some (BudgetExceededError violations))"

section \<open>The depth precedence chain\<close>

record max_depth_inputs =
  md_ExplicitClient :: int
  md_PresetEntry :: int
  md_RuntimeDefault :: int
  md_PolicyCeiling :: int
  md_HelmFallback :: int

definition ResolveMaxDepth :: "max_depth_inputs \<Rightarrow> lease_error + int" where
  "ResolveMaxDepth d =
    (case List.find (\<lambda>v. v > 0)
        [md_ExplicitClient d, md_PresetEntry d, md_RuntimeDefault d, md_PolicyCeiling d, md_HelmFallback d]
     of Some v \<Rightarrow> Inr v | None \<Rightarrow> Inl ErrUnresolvedMaxDepth)"

definition EnforcePolicyCeiling :: "int \<Rightarrow> int \<Rightarrow> int" where
  "EnforcePolicyCeiling resolved policyCeiling =
    (if policyCeiling \<le> 0 then resolved
     else if resolved < policyCeiling then resolved
     else policyCeiling)"

definition CheckDepth :: "int \<Rightarrow> int \<Rightarrow> lease_error option" where
  "CheckDepth currentDepth maxDepth =
    (if maxDepth \<le> 0 then Some ErrUnresolvedMaxDepth
     else if w64 (currentDepth + 1) > maxDepth then Some (DepthExceededError currentDepth maxDepth)
     else None)"

section \<open>Closed enumerations of the lease\<close>

datatype approval_mode = ApprovalModePolicy | ApprovalModeApproval | ApprovalModeDeny | ApprovalModeEmpty
  | ApprovalModeOther string

definition ValidateApprovalMode :: "approval_mode \<Rightarrow> lease_error option" where
  "ValidateApprovalMode m = (case m of ApprovalModeOther v \<Rightarrow> Some (InvalidApprovalModeError v) | _ \<Rightarrow> None)"

definition EffectiveApprovalMode :: "approval_mode \<Rightarrow> approval_mode" where
  "EffectiveApprovalMode declared =
    (case declared of ApprovalModeDeny \<Rightarrow> ApprovalModeDeny | _ \<Rightarrow> ApprovalModePolicy)"

datatype credential_propagation = CredentialPropagationInherit | CredentialPropagationIndependent
  | CredentialPropagationDeny | CredentialPropagationEmpty | CredentialPropagationOther string

definition ValidateCredentialPropagation :: "credential_propagation \<Rightarrow> lease_error option" where
  "ValidateCredentialPropagation m =
    (case m of CredentialPropagationOther v \<Rightarrow> Some (InvalidCredentialPropagationError v) | _ \<Rightarrow> None)"

text \<open>The loop of \<^verbatim>\<open>IntersectProviders\<close>: \<open>seen\<close> and the output grow together.\<close>

fun intersect_loop :: "string list \<Rightarrow> string list \<Rightarrow> string list \<Rightarrow> string list \<Rightarrow> string list" where
  "intersect_loop inB seen out [] = out"
| "intersect_loop inB seen out (p # ps) =
    (if p \<notin> set inB then intersect_loop inB seen out ps
     else if p \<in> set seen then intersect_loop inB seen out ps
     else intersect_loop inB (p # seen) (out @ [p]) ps)"

definition IntersectProviders :: "string list \<Rightarrow> string list \<Rightarrow> string list" where
  "IntersectProviders a b = intersect_loop b [] [] a"

section \<open>The cycle gate\<close>

datatype cycle_mode = ModeEnforce | ModeWarn | ModePermissive | ModeOther string

definition AllModes :: "cycle_mode list" where
  "AllModes = [ModeEnforce, ModeWarn, ModePermissive]"

definition mode_IsValid :: "cycle_mode \<Rightarrow> bool" where
  "mode_IsValid m \<longleftrightarrow> list_ex (\<lambda>v. m = v) AllModes"

datatype layer = LayerPlatform | LayerRuntime | LayerPolicy | LayerNone

record identity =
  id_RuntimeName :: string
  id_PoolName :: string

definition identity_Equals :: "identity \<Rightarrow> identity \<Rightarrow> bool" where
  "identity_Equals i j \<longleftrightarrow> id_RuntimeName i = id_RuntimeName j \<and> id_PoolName i = id_PoolName j"

type_synonym lineage = "identity list"

definition lineage_Contains :: "lineage \<Rightarrow> identity \<Rightarrow> bool" where
  "lineage_Contains l target \<longleftrightarrow> list_ex (\<lambda>x. identity_Equals x target) l"

record cycle_settings =
  cs_Mode :: cycle_mode
  cs_PlatformAllowSelfRec :: bool
  cs_RuntimeAllowSelfRec :: bool
  cs_PolicyAllowSelfRec :: bool

datatype outcome = OutcomeAdmitted | OutcomeWouldHaveBlocked | OutcomeRejected

record cycle_decision =
  cd_Outcome :: outcome
  cd_IsSelfRecursive :: bool
  cd_BlockedBy :: layer
  cd_WouldHaveBlockedLayers :: "layer list"
  cd_EffectiveSettings :: cycle_settings

definition whichLayersWouldBlock :: "cycle_settings \<Rightarrow> layer list" where
  "whichLayersWouldBlock s =
     (if \<not> cs_PlatformAllowSelfRec s then [LayerPlatform] else [])
   @ (if \<not> cs_RuntimeAllowSelfRec s then [LayerRuntime] else [])
   @ (if \<not> cs_PolicyAllowSelfRec s then [LayerPolicy] else [])"

definition blocked_decision :: "outcome \<Rightarrow> layer list \<Rightarrow> cycle_settings \<Rightarrow> cycle_decision" where
  "blocked_decision oc failing settings =
    \<lparr>cd_Outcome = oc, cd_IsSelfRecursive = True,
     cd_BlockedBy = (case failing of [] \<Rightarrow> LayerNone | f # _ \<Rightarrow> f),
     cd_WouldHaveBlockedLayers = failing, cd_EffectiveSettings = settings\<rparr>"

definition cycle_Decide :: "lineage \<Rightarrow> identity \<Rightarrow> cycle_settings \<Rightarrow> cycle_decision" where
  "cycle_Decide l target settings =
    (let admitted = \<lparr>cd_Outcome = OutcomeAdmitted, cd_IsSelfRecursive = False, cd_BlockedBy = LayerNone,
           cd_WouldHaveBlockedLayers = [], cd_EffectiveSettings = settings\<rparr>;
         failing = whichLayersWouldBlock settings
     in if \<not> lineage_Contains l target then admitted
        else (case cs_Mode settings of
            ModePermissive \<Rightarrow> admitted\<lparr>cd_IsSelfRecursive := True\<rparr>
          | ModeWarn \<Rightarrow>
              (if failing = [] then admitted\<lparr>cd_IsSelfRecursive := True\<rparr>
               else blocked_decision OutcomeWouldHaveBlocked failing settings)
          | ModeEnforce \<Rightarrow>
              (if failing = [] then admitted\<lparr>cd_IsSelfRecursive := True\<rparr>
               else blocked_decision OutcomeRejected failing settings)
          | ModeOther _ \<Rightarrow> blocked_decision OutcomeRejected failing settings))"

record cycle_rejection =
  cr_BlockedBy :: layer
  cr_EffectiveSettings :: cycle_settings
  cr_CycleRuntimeName :: string
  cr_CyclePoolName :: string

definition cycle_ToError :: "cycle_decision \<Rightarrow> identity \<Rightarrow> cycle_rejection option" where
  "cycle_ToError d target =
    (if cd_Outcome d \<noteq> OutcomeRejected then None
     else Some \<lparr>cr_BlockedBy = cd_BlockedBy d, cr_EffectiveSettings = cd_EffectiveSettings d,
                cr_CycleRuntimeName = id_RuntimeName target, cr_CyclePoolName = id_PoolName target\<rparr>)"

text \<open>A chain of hops, each decided against the lineage of the ones before it.\<close>

fun admit_hops :: "cycle_settings \<Rightarrow> lineage \<Rightarrow> identity list \<Rightarrow> lineage option" where
  "admit_hops s l [] = Some l"
| "admit_hops s l (t # ts) =
    (if cd_Outcome (cycle_Decide l t s) = OutcomeRejected then None else admit_hops s (l @ [t]) ts)"

section \<open>Lemmas\<close>

lemma identity_Equals_iff [simp]: "identity_Equals i j \<longleftrightarrow> i = j"
  by (auto simp: identity_Equals_def identity.equality)

lemma lineage_Contains_iff [simp]: "lineage_Contains l t \<longleftrightarrow> t \<in> set l"
  by (auto simp: lineage_Contains_def list_ex_iff)

lemma blocked_decision_simps [simp]:
  "cd_Outcome (blocked_decision oc f s) = oc"
  "cd_IsSelfRecursive (blocked_decision oc f s)"
  "cd_WouldHaveBlockedLayers (blocked_decision oc f s) = f"
  "cd_EffectiveSettings (blocked_decision oc f s) = s"
  by (simp_all add: blocked_decision_def)

lemma whichLayers_empty_iff:
  "whichLayersWouldBlock s = [] \<longleftrightarrow>
     cs_PlatformAllowSelfRec s \<and> cs_RuntimeAllowSelfRec s \<and> cs_PolicyAllowSelfRec s"
  by (simp add: whichLayersWouldBlock_def)

lemma cycle_rejected_iff:
  "cd_Outcome (cycle_Decide l t s) = OutcomeRejected \<longleftrightarrow>
     t \<in> set l \<and> (case cs_Mode s of ModeEnforce \<Rightarrow> whichLayersWouldBlock s \<noteq> []
                   | ModeOther _ \<Rightarrow> True | _ \<Rightarrow> False)"
  by (simp add: cycle_Decide_def Let_def split: cycle_mode.splits)

lemma admit_hops_enforced:
  assumes "cs_Mode s = ModeEnforce" "whichLayersWouldBlock s \<noteq> []" "distinct l"
  shows "admit_hops s l ts = Some l' \<longleftrightarrow> l' = l @ ts \<and> distinct (l @ ts)"
  using assms(3)
proof (induction ts arbitrary: l)
  case Nil
  then show ?case by auto
next
  case (Cons t ts)
  show ?case
  proof (cases "t \<in> set l")
    case True
    then show ?thesis using assms by (auto simp: cycle_rejected_iff)
  next
    case False
    then have "distinct (l @ [t])" using Cons.prems by simp
    from Cons.IH[OF this] False show ?thesis by (auto simp: cycle_rejected_iff)
  qed
qed

lemma intersect_loop_spec:
  assumes "set seen = set out"
  shows "\<exists>rest. intersect_loop inB seen out a = out @ rest \<and> subseq rest a \<and> distinct rest
      \<and> set rest = (set a \<inter> set inB) - set out"
  using assms
proof (induction a arbitrary: seen out)
  case Nil
  then show ?case by simp
next
  case (Cons p ps)
  show ?case
  proof (cases "p \<in> set inB \<and> p \<notin> set seen")
    case True
    have "set (p # seen) = set (out @ [p])" using Cons.prems by auto
    from Cons.IH[OF this] obtain rest where r:
      "intersect_loop inB (p # seen) (out @ [p]) ps = (out @ [p]) @ rest" "subseq rest ps" "distinct rest"
      "set rest = (set ps \<inter> set inB) - set (out @ [p])" by blast
    show ?thesis
      using r True Cons.prems by (intro exI[of _ "p # rest"]) auto
  next
    case False
    from Cons.IH[OF Cons.prems] obtain rest where r:
      "intersect_loop inB seen out ps = out @ rest" "subseq rest ps" "distinct rest"
      "set rest = (set ps \<inter> set inB) - set out" by blast
    show ?thesis
      using r False Cons.prems by (intro exI[of _ rest]) auto
  qed
qed

lemma slice_check_Nil: "slice_check axis p c lim = [] \<longleftrightarrow> (p > 0 \<and> c > 0 \<longrightarrow> c \<le> lim)"
  by (auto simp: slice_check_def)

lemma ValidateChildSlice_None:
  "ValidateChildSlice p c tok ch sz = None \<longleftrightarrow>
     (ls_MaxTokenBudget p > 0 \<and> ls_MaxTokenBudget c > 0 \<longrightarrow> ls_MaxTokenBudget c \<le> tok)
   \<and> (ls_MaxChildrenTotal p > 0 \<and> ls_MaxChildrenTotal c > 0 \<longrightarrow> ls_MaxChildrenTotal c \<le> ch)
   \<and> (ls_MaxTreeSize p > 0 \<and> ls_MaxTreeSize c > 0 \<longrightarrow> ls_MaxTreeSize c \<le> sz)
   \<and> (ls_MaxParallelChildren p > 0 \<and> ls_MaxParallelChildren c > 0 \<longrightarrow>
        ls_MaxParallelChildren c \<le> ls_MaxParallelChildren p)
   \<and> (ls_PerChildMaxAge p > 0 \<and> ls_PerChildMaxAge c > 0 \<longrightarrow> ls_PerChildMaxAge c \<le> ls_PerChildMaxAge p)"
  by (simp add: ValidateChildSlice_def Let_def slice_check_Nil)

lemma ResolveMaxDepth_pos: "ResolveMaxDepth d = Inr v \<Longrightarrow> 0 < v"
  by (auto simp: ResolveMaxDepth_def split: option.splits if_splits)

lemma EnforcePolicyCeiling_min:
  "EnforcePolicyCeiling r c = (if c > 0 then min r c else r)"
  by (simp add: EnforcePolicyCeiling_def min_def)

lemma AtLeastAsRestrictive_trans:
  "AtLeastAsRestrictive a b \<Longrightarrow> AtLeastAsRestrictive b c \<Longrightarrow> AtLeastAsRestrictive a c"
  by (auto simp: AtLeastAsRestrictive_def split: if_splits)

lemma AtLeastAsRestrictive_refl: "isolation_IsValid p \<Longrightarrow> AtLeastAsRestrictive p p"
  by (simp add: AtLeastAsRestrictive_def)

section \<open>Properties\<close>

text \<open>
  C32. In enforce mode with at least one layer closed to self-recursion, a chain of
  delegation hops is admitted exactly when no (runtime, pool) identity repeats in the
  lineage, so with finitely many identities the depth of an admitted chain is bounded
  by their number.
\<close>

theorem enforced_lineage_distinct:
  assumes "cs_Mode s = ModeEnforce" "whichLayersWouldBlock s \<noteq> []"
  shows "(admit_hops s [] ts = Some l \<longleftrightarrow> l = ts \<and> distinct ts)
       \<and> (finite ids \<and> admit_hops s [] ts = Some l \<and> set ts \<subseteq> ids \<longrightarrow> length l \<le> card ids)"
proof -
  have *: "admit_hops s [] ts = Some l \<longleftrightarrow> l = ts \<and> distinct ts"
    using admit_hops_enforced[OF assms, of "[]" ts l] by simp
  then show ?thesis by (auto simp: card_mono simp flip: distinct_card)
qed

theorem enforced_lineage_distinct_witness:
  "admit_hops \<lparr>cs_Mode = ModeEnforce, cs_PlatformAllowSelfRec = True, cs_RuntimeAllowSelfRec = False,
      cs_PolicyAllowSelfRec = True\<rparr> []
      [\<lparr>id_RuntimeName = ''r'', id_PoolName = ''a''\<rparr>, \<lparr>id_RuntimeName = ''r'', id_PoolName = ''b''\<rparr>]
    = Some [\<lparr>id_RuntimeName = ''r'', id_PoolName = ''a''\<rparr>, \<lparr>id_RuntimeName = ''r'', id_PoolName = ''b''\<rparr>]"
  using enforced_lineage_distinct[of "\<lparr>cs_Mode = ModeEnforce, cs_PlatformAllowSelfRec = True,
      cs_RuntimeAllowSelfRec = False, cs_PolicyAllowSelfRec = True\<rparr>"
      "[\<lparr>id_RuntimeName = ''r'', id_PoolName = ''a''\<rparr>, \<lparr>id_RuntimeName = ''r'', id_PoolName = ''b''\<rparr>]"
      "[\<lparr>id_RuntimeName = ''r'', id_PoolName = ''a''\<rparr>, \<lparr>id_RuntimeName = ''r'', id_PoolName = ''b''\<rparr>]"]
  by (simp add: whichLayersWouldBlock_def)



text \<open>
  The provider intersection is exactly the set intersection, without duplicates,
  in the order of the first list, and intersecting again with the same list changes
  nothing.
\<close>

lemma IntersectProviders_spec:
  "set (IntersectProviders a b) = set a \<inter> set b
   \<and> distinct (IntersectProviders a b)
   \<and> subseq (IntersectProviders a b) a
   \<and> IntersectProviders (IntersectProviders a b) b = IntersectProviders a b"
proof -
  have spec: "set (IntersectProviders a b) = set a \<inter> set b \<and> distinct (IntersectProviders a b)
      \<and> subseq (IntersectProviders a b) a" for a b
    using intersect_loop_spec[of "[]" "[]" b a] unfolding IntersectProviders_def by force
  let ?x = "IntersectProviders a b"
  have "card (set (IntersectProviders ?x b)) = card (set ?x)"
    using spec[of ?x b] spec[of a b] by (metis Int_assoc Int_absorb)
  then have "length (IntersectProviders ?x b) = length ?x"
    using spec[of ?x b] spec[of a b] by (metis distinct_card)
  then have "IntersectProviders ?x b = ?x"
    using spec[of ?x b] by (metis subseq_same_length)
  then show ?thesis using spec[of a b] by simp
qed

end
