(* ===== verification/Float64.thy ===== *)
theory Float64
  imports Complex_Main "HOL-Library.Log_Nat"
begin

text \<open>
  IEEE double-precision rounding on the rationals, for the two places where the
  program computes with doubles: the accrued session age in seconds of the session
  store, and the Lua numbers of the Redis scripts of the tree budget. A double is the
  rational it denotes; every operation is the exact one followed by \<open>f64\<close>, round to
  nearest with ties to even on a 53-bit significand. The values involved are zero or
  between \<open>2\<^sup>-\<^sup>3\<^sup>0\<close> and \<open>2\<^sup>6\<^sup>4\<close> in absolute value, so subnormals and overflow do not
  arise.
\<close>

section \<open>Rounding\<close>

definition round_half_even :: "rat \<Rightarrow> int" where
  "round_half_even q =
    (let f = \<lfloor>q\<rfloor>; r = q - of_int f
     in if r < 1/2 \<or> (r = 1/2 \<and> even f) then f else f + 1)"

text \<open>The exponent of the leading binary digit of a positive rational.\<close>

definition f64_exponent :: "rat \<Rightarrow> int" where
  "f64_exponent q =
    (case quotient_of q of (n, d) \<Rightarrow>
       let k = int (floorlog 2 (nat n)) - int (floorlog 2 (nat d))
       in if 2 powi k \<le> q then k else k - 1)"

definition f64 :: "rat \<Rightarrow> rat" where
  "f64 q =
    (if q = 0 then 0
     else let e = f64_exponent \<bar>q\<bar> - 52
          in sgn q * (of_int (round_half_even (\<bar>q\<bar> / 2 powi e)) * 2 powi e))"

text \<open>The sum of two doubles, and a 64-bit integer converted to a double.\<close>

definition f64_add :: "rat \<Rightarrow> rat \<Rightarrow> rat" where
  "f64_add x y = f64 (x + y)"

definition f64_of_int :: "int \<Rightarrow> rat" where
  "f64_of_int n = f64 (of_int n)"

section \<open>Exactness and lower bounds\<close>

lemma round_half_even_int [simp]: "round_half_even (of_int n) = n"
  by (simp add: round_half_even_def)

lemma round_half_even_ge: "of_int n \<le> q \<Longrightarrow> n \<le> round_half_even q"
proof -
  assume "of_int n \<le> q"
  then have "n \<le> \<lfloor>q\<rfloor>" by (simp add: le_floor_iff)
  then show ?thesis by (simp add: round_half_even_def Let_def)
qed

lemma floorlog2_bounds:
  assumes "0 < n"
  shows "(2::rat) powi (int (floorlog 2 (nat n)) - 1) \<le> of_int n"
    and "of_int n < (2::rat) powi int (floorlog 2 (nat n))"
proof -
  have b: "2 ^ (floorlog 2 (nat n) - 1) \<le> nat n" "nat n < 2 ^ floorlog 2 (nat n)"
    using floorlog_bounds[of "nat n" 2] assms by auto
  have pos: "0 < floorlog 2 (nat n)"
    using b(2) assms by (cases "floorlog 2 (nat n)") auto
  have "(2::int) ^ (floorlog 2 (nat n) - 1) \<le> n" "n < 2 ^ floorlog 2 (nat n)"
    using b assms by (metis nat_0_le of_nat_le_iff of_nat_numeral of_nat_power less_imp_le,
        metis nat_less_numeral_power_cancel_iff)
  then have "(of_int (2 ^ (floorlog 2 (nat n) - 1)) :: rat) \<le> of_int n" "of_int n < (of_int (2 ^ floorlog 2 (nat n)) :: rat)"
    by (simp_all only: of_int_le_iff of_int_less_iff)
  then show "(2::rat) powi (int (floorlog 2 (nat n)) - 1) \<le> of_int n"
    and "of_int n < (2::rat) powi int (floorlog 2 (nat n))"
    using pos by (simp_all add: power_int_def nat_diff_distrib)
qed

lemma frac_less: "(x::rat) * d < n * y \<Longrightarrow> 0 < d \<Longrightarrow> 0 < y \<Longrightarrow> x / y < n / d"
  by (simp add: field_simps)

lemma powi2_diff: "(2::rat) powi (i - j) = 2 powi i / 2 powi j"
  by (rule power_int_diff) simp

lemma f64_exponent_bounds:
  assumes "0 < q"
  shows "2 powi f64_exponent q \<le> q" and "q < 2 powi (f64_exponent q + 1)"
proof -
  obtain n d where nd: "quotient_of q = (n, d)" by fastforce
  have q: "q = of_int n / of_int d" and d: "0 < d" and n: "0 < n"
    using nd quotient_of_div[OF nd] quotient_of_denom_pos[OF nd] assms
    by (auto simp: zero_less_divide_iff)
  define a b where "a = int (floorlog 2 (nat n))" and "b = int (floorlog 2 (nat d))"
  note na = floorlog2_bounds[OF n, folded a_def] and db = floorlog2_bounds[OF d, folded b_def]
  have d0: "(0::rat) < of_int d" using d by simp
  have "(2::rat) powi (a - 1) * of_int d < of_int n * 2 powi b"
    using na(1) db(2) d0 n by (intro mult_le_less_imp_less) auto
  then have lo: "2 powi (a - 1 - b) \<le> q"
    unfolding q powi2_diff[of "a - 1" b] by (intro less_imp_le frac_less d0 zero_less_power_int) auto
  have "of_int n * (2::rat) powi (b - 1) < 2 powi a * of_int d"
    using na(2) db(1) by (intro mult_less_le_imp_less) (auto simp: n less_imp_le)
  then have hi: "q < 2 powi (a - (b - 1))"
    unfolding q powi2_diff[of a "b - 1"] by (intro frac_less d0 zero_less_power_int) (auto simp: mult.commute)
  have e: "f64_exponent q = (if 2 powi (a - b) \<le> q then a - b else a - b - 1)"
    by (simp add: f64_exponent_def nd a_def b_def Let_def)
  show "2 powi f64_exponent q \<le> q" "q < 2 powi (f64_exponent q + 1)"
    using lo hi by (auto simp: e algebra_simps)
qed

lemma f64_scaled:
  assumes "0 < q"
  shows "2 ^ 52 \<le> q / 2 powi (f64_exponent q - 52)"
  using f64_exponent_bounds(1)[OF assms] by (simp add: powi2_diff field_simps)

text \<open>An integer of at most 53 bits is a double.\<close>

lemma f64_exact_pos:
  assumes "0 < n" "n \<le> 2 ^ 53"
  shows "f64 (of_int n) = of_int n"
proof -
  define e where "e = f64_exponent (of_int n) - 52"
  have n_le: "(of_int n :: rat) \<le> of_int (2 ^ 53)" using assms(2) by (simp only: of_int_le_iff)
  have "(2::rat) powi f64_exponent (of_int n) \<le> 2 powi 53"
    using order_trans[OF f64_exponent_bounds(1) n_le] assms(1) by simp
  then have "f64_exponent (of_int n) \<le> 53"
    by (rule contrapos_pp) (simp only: not_le not_less, rule power_int_strict_increasing, simp_all)
  then have "e \<le> 1" by (simp add: e_def)
  have "\<exists>k. (of_int n :: rat) / 2 powi e = of_int k"
  proof (cases "e \<le> 0")
    case True
    then have "(of_int n :: rat) / 2 powi e = of_int (n * 2 ^ nat (- e))"
      by (simp add: power_int_def power_one_over inverse_eq_divide)
    then show ?thesis by blast
  next
    case False
    then have e1: "e = 1" using \<open>e \<le> 1\<close> by simp
    then have "(2::rat) powi 53 \<le> of_int n"
      using f64_exponent_bounds(1)[of "of_int n"] assms(1) by (simp add: e_def)
    then have "(of_int (2 ^ 53) :: rat) \<le> of_int n" by simp
    then have "n = 2 ^ 53" using assms(2) by (simp only: of_int_le_iff)
    then show ?thesis using e1 by (intro exI[of _ "2 ^ 52"]) simp
  qed
  then obtain k where k: "(of_int n :: rat) / 2 powi e = of_int k" by blast
  have "f64 (of_int n) = of_int (round_half_even (of_int n / 2 powi e)) * 2 powi e"
    using assms(1) by (simp add: f64_def e_def Let_def)
  also have "\<dots> = of_int k * 2 powi e" by (simp add: k)
  also have "\<dots> = of_int n" using k by (simp add: field_simps)
  finally show ?thesis .
qed

lemma f64_exact: "\<bar>n\<bar> \<le> 2 ^ 53 \<Longrightarrow> f64_of_int n = of_int n"
proof -
  have neg: "f64 (- q) = - f64 q" for q by (simp add: f64_def sgn_minus Let_def)
  assume "\<bar>n\<bar> \<le> 2 ^ 53"
  then show ?thesis
    using f64_exact_pos[of n] f64_exact_pos[of "- n"] neg[of "of_int (- n)"]
    by (cases "n = 0 \<or> 0 < n") (auto simp: f64_of_int_def f64_def)
qed

text \<open>Rounding never crosses a power of two downwards.\<close>

lemma f64_ge_power:
  assumes "2 ^ k \<le> q"
  shows "2 ^ k \<le> f64 q"
proof -
  have q: "0 < q" using assms by (rule less_le_trans[rotated]) simp
  define E where "E = f64_exponent q"
  have "(2::rat) powi int k < 2 powi (E + 1)"
    using f64_exponent_bounds(2)[OF q] assms unfolding E_def by simp
  then have kE: "int k \<le> E"
    by (rule contrapos_pp) (simp only: not_le not_less, rule power_int_increasing, simp_all)
  have "2 ^ 52 \<le> round_half_even (q / 2 powi (E - 52))"
    using f64_scaled[OF q] by (intro round_half_even_ge) (simp add: E_def)
  then have "(of_int (2 ^ 52) :: rat) \<le> of_int (round_half_even (q / 2 powi (E - 52)))"
    by (simp only: of_int_le_iff)
  then have "(2::rat) ^ 52 * 2 powi (E - 52) \<le> of_int (round_half_even (q / 2 powi (E - 52))) * 2 powi (E - 52)"
    by (intro mult_right_mono) simp_all
  moreover have "(2::rat) ^ 52 * 2 powi (E - 52) = 2 powi E"
    by (simp add: powi2_diff)
  moreover have "(2::rat) ^ k \<le> 2 powi E"
    using kE power_int_increasing[of "int k" E "2::rat"] by simp
  moreover have "f64 q = of_int (round_half_even (q / 2 powi (E - 52))) * 2 powi (E - 52)"
    using q by (simp add: f64_def E_def Let_def)
  ultimately show ?thesis by linarith
qed

lemma f64_of_int_ge: "2 ^ 53 \<le> n \<Longrightarrow> 2 ^ 53 \<le> f64_of_int n"
proof -
  assume "2 ^ 53 \<le> n"
  then have "(of_int (2 ^ 53) :: rat) \<le> of_int n" by (simp only: of_int_le_iff)
  then show ?thesis unfolding f64_of_int_def by (intro f64_ge_power) simp
qed

lemma f64_of_int_above:
  assumes "0 \<le> c" "c < 2 ^ 53" "c < n"
  shows "of_int c < f64_of_int n"
proof (cases "n \<le> 2 ^ 53")
  case True
  then show ?thesis using f64_exact[of n] assms by simp
next
  case False
  then have "(2::rat) ^ 53 \<le> f64_of_int n" by (intro f64_of_int_ge) simp
  moreover have "(of_int c :: rat) < of_int (2 ^ 53)"
    using assms(2) by (simp only: of_int_less_iff)
  ultimately show ?thesis by simp
qed

text \<open>Integers within the mantissa compute without rounding.\<close>

lemma f64_of_int_code [code]:
  "f64_of_int n = (if - 9007199254740992 \<le> n \<and> n \<le> 9007199254740992 then of_int n else f64 (of_int n))"
  using f64_exact[of n] by (auto simp: f64_of_int_def abs_if)

lemma f64_add_code [code]:
  "f64_add x y = (let q = x + y; n = \<lfloor>q\<rfloor> in
     if q = of_int n \<and> - 9007199254740992 \<le> n \<and> n \<le> 9007199254740992 then q else f64 q)"
  using f64_exact[of "\<lfloor>x + y\<rfloor>"] by (auto simp: f64_add_def f64_of_int_def Let_def)

end
