(* ===== verification/Session_Row.thy ===== *)
theory Session_Row
  imports Delegation_Lease Float64 "HOL-Library.Word"
begin

text \<open>
  The session row and the pure functions over it
  (\<^verbatim>\<open>pkg/gateway/session/sessionstore\<close>: \<^verbatim>\<open>sessionstore.go\<close>, \<^verbatim>\<open>terminal_mark.go\<close>,
  \<^verbatim>\<open>creation_fence.go\<close>, \<^verbatim>\<open>marker_reader.go\<close>): the creation-fence rules, the terminal and
  pod-release markers with the post-terminal window, the active-age accrual, and the
  visible part of a delegation tree. The record has the fields of the Go struct that
  the session store, the delegation service and these functions read or write; the
  remaining fields are opaque payload that only the API layer touches.
\<close>

section \<open>Rows\<close>

record delegation_lease =
  dl_MaxTokenBudget :: int
  dl_MaxChildrenTotal :: int
  dl_MaxTreeSize :: int
  dl_MaxTreeMemoryBytes :: int
  dl_MaxParallelChildren :: int
  dl_PerChildMaxAge :: int
  dl_DelegationPolicyRef :: string
  dl_MaxDelegationPolicy :: string
  dl_ContentPolicyRef :: string
  dl_ContentMaxInputSize :: int
  dl_ContentScanExportedFiles :: bool
  dl_ContentMaxExportedFileSize :: int
  dl_SnapshottedPoolIDs :: "string list"

text \<open>\<open>None\<close> is the nil pointer.\<close>

definition lease_IsZero :: "delegation_lease option \<Rightarrow> bool" where
  "lease_IsZero dl =
    (case dl of None \<Rightarrow> True
     | Some l \<Rightarrow>
         dl_MaxTokenBudget l = 0 \<and> dl_MaxChildrenTotal l = 0 \<and> dl_MaxTreeSize l = 0
       \<and> dl_MaxTreeMemoryBytes l = 0 \<and> dl_MaxParallelChildren l = 0 \<and> dl_PerChildMaxAge l = 0
       \<and> dl_DelegationPolicyRef l = '''' \<and> dl_MaxDelegationPolicy l = ''''
       \<and> dl_ContentPolicyRef l = '''' \<and> dl_ContentMaxInputSize l = 0
       \<and> \<not> dl_ContentScanExportedFiles l \<and> dl_ContentMaxExportedFileSize l = 0
       \<and> dl_SnapshottedPoolIDs l = [])"

record experiment_context =
  ec_ExperimentID :: string
  ec_VariantID :: string
  ec_Inherited :: bool

definition Enrollment :: "experiment_context option \<Rightarrow> string \<times> string" where
  "Enrollment c = (case c of None \<Rightarrow> ('''', '''') | Some e \<Rightarrow> (ec_ExperimentID e, ec_VariantID e))"

record session_row =
  se_ID :: string
  se_TenantID :: string
  se_UserID :: string
  se_State :: session_state
  se_CreatedAt :: go_time
  se_UpdatedAt :: go_time
  se_FailureClass :: string
  se_FailureReason :: string
  se_TerminatedAt :: go_time
  se_TerminatedReason :: string
  se_PodReleasedAt :: go_time
  se_RuntimeRef :: string
  se_PoolRef :: string
  se_IsolationProfile :: isolation_profile
  se_ScrubPolicy :: string
  se_WorkspacePlan :: "string option"
  se_ParentSessionID :: string
  se_RootSessionID :: string
  se_CredentialOriginSessionID :: string
  se_CredentialDeny :: bool
  se_DelegationDepth :: "32 word"
  se_DelegationLease :: "delegation_lease option"
  se_TracingContext :: "(string, string) go_map"
  se_ExperimentContext :: "experiment_context option"
  se_PodAssignment :: string
  se_RecoveryGeneration :: int
  se_CoordinationGeneration :: int
  se_SchemaVersion :: int
  se_RetryCount :: int
  se_AccumulatedSessionAgeSeconds :: rat
  se_StateEnteredAt :: go_time
  se_Labels :: "(string, string) go_map"
  se_LastSeq :: int
  se_TreeVisibility :: tree_visibility

text \<open>Go's zero value of the struct.\<close>

definition zero_session :: session_row where
  "zero_session = \<lparr>se_ID = '''', se_TenantID = '''', se_UserID = '''', se_State = OtherState '''', se_CreatedAt = 0,
     se_UpdatedAt = 0, se_FailureClass = '''', se_FailureReason = '''', se_TerminatedAt = 0, se_TerminatedReason = '''',
     se_PodReleasedAt = 0, se_RuntimeRef = '''', se_PoolRef = '''', se_IsolationProfile = ProfileUnset,
     se_ScrubPolicy = '''', se_WorkspacePlan = None, se_ParentSessionID = '''', se_RootSessionID = '''',
     se_CredentialOriginSessionID = '''', se_CredentialDeny = False, se_DelegationDepth = 0, se_DelegationLease = None,
     se_TracingContext = [], se_ExperimentContext = None, se_PodAssignment = '''', se_RecoveryGeneration = 0,
     se_CoordinationGeneration = 0, se_SchemaVersion = 0, se_RetryCount = 0, se_AccumulatedSessionAgeSeconds = 0,
     se_StateEnteredAt = 0, se_Labels = [], se_LastSeq = 0, se_TreeVisibility = VisibilityOther ''''\<rparr>"

section \<open>The creation fence\<close>

record creation_markers =
  cm_TenantFound :: bool
  cm_TenantSuspended :: bool
  cm_TenantState :: string
  cm_UserFound :: bool
  cm_UserDisabled :: bool
  cm_UserDeleted :: bool
  cm_ProcessingRestricted :: bool
  cm_ErasureJobID :: string
  cm_IsDelegatedChild :: bool
  cm_ParentSessionID :: string
  cm_ParentTerminal :: bool

definition no_markers :: creation_markers where
  "no_markers = \<lparr>cm_TenantFound = False, cm_TenantSuspended = False, cm_TenantState = '''', cm_UserFound = False,
     cm_UserDisabled = False, cm_UserDeleted = False, cm_ProcessingRestricted = False, cm_ErasureJobID = '''',
     cm_IsDelegatedChild = False, cm_ParentSessionID = '''', cm_ParentTerminal = False\<rparr>"

text \<open>A refusal is its code with the values of its details map.\<close>

datatype creation_refusal =
    RefusalUserInvalidated
  | RefusalErasureInProgress string "string option"
  | RefusalTenantSuspended string
  | RefusalTenantNotActive string string
  | RefusalDelegationParentRevoked string

definition AcceptsNewWork :: "string \<Rightarrow> bool" where
  "AcceptsNewWork state \<longleftrightarrow> state = '''' \<or> state = ''active''"

definition Refusal :: "creation_markers \<Rightarrow> string \<Rightarrow> string \<Rightarrow> creation_refusal option" where
  "Refusal m tenantID userID =
    (if cm_UserFound m \<and> (cm_UserDeleted m \<or> (cm_UserDisabled m \<and> \<not> cm_IsDelegatedChild m))
       then Some RefusalUserInvalidated
     else if cm_UserFound m \<and> cm_ProcessingRestricted m
       then Some (RefusalErasureInProgress userID (Some (cm_ErasureJobID m)))
     else if cm_TenantFound m \<and> cm_TenantSuspended m
       then Some (RefusalTenantSuspended tenantID)
     else if cm_TenantFound m \<and> \<not> AcceptsNewWork (cm_TenantState m)
       then Some (RefusalTenantNotActive tenantID (cm_TenantState m))
     else if cm_IsDelegatedChild m \<and> cm_ParentTerminal m
       then Some (RefusalDelegationParentRevoked (cm_ParentSessionID m))
     else None)"

definition ReservationEndedRefusal :: "string \<Rightarrow> creation_refusal" where
  "ReservationEndedRefusal userID = RefusalErasureInProgress userID None"

text \<open>
  The marker reader over a tenant store and a user store. A read is a row, a missing
  row or an error; \<open>None\<close> for a store is the nil store.
\<close>

record tenant_row =
  te_Suspended :: bool
  te_State :: string

record user_row =
  us_Disabled :: bool
  us_DeletedAt :: go_time
  us_ProcessingRestricted :: bool
  us_ErasureJobID :: string

datatype 'a store_read = ReadRow 'a | ReadMissing | ReadError string

definition StoreMarkers ::
  "(string \<Rightarrow> tenant_row store_read) option \<Rightarrow> (string \<Rightarrow> string \<Rightarrow> user_row store_read) option
   \<Rightarrow> string \<Rightarrow> string \<Rightarrow> string + creation_markers" where
  "StoreMarkers tenants users tenantID userID =
    (case (case tenants of None \<Rightarrow> Inr no_markers
           | Some get \<Rightarrow> (case get tenantID of
                 ReadMissing \<Rightarrow> Inr no_markers
               | ReadError e \<Rightarrow> Inl e
               | ReadRow t \<Rightarrow> Inr (no_markers\<lparr>cm_TenantFound := True, cm_TenantSuspended := te_Suspended t,
                                            cm_TenantState := te_State t\<rparr>)))
     of Inl e \<Rightarrow> Inl e
      | Inr m \<Rightarrow>
          (if userID = '''' then Inr m
           else case users of None \<Rightarrow> Inr m
             | Some get \<Rightarrow> (case get tenantID userID of
                   ReadMissing \<Rightarrow> Inr m
                 | ReadError e \<Rightarrow> Inl e
                 | ReadRow u \<Rightarrow> Inr (m\<lparr>cm_UserFound := True, cm_UserDisabled := us_Disabled u,
                      cm_UserDeleted := \<not> is_zero_time (us_DeletedAt u),
                      cm_ProcessingRestricted := us_ProcessingRestricted u,
                      cm_ErasureJobID := us_ErasureJobID u\<rparr>))))"

section \<open>Terminal and release markers\<close>

definition terminatedReason :: "session_state \<Rightarrow> string" where
  "terminatedReason st = (case st of Completed \<Rightarrow> ''Completed'' | Failed \<Rightarrow> ''Failed''
     | Cancelled \<Rightarrow> ''Cancelled'' | Expired \<Rightarrow> ''Expired'' | _ \<Rightarrow> '''')"

definition MarkTerminated :: "session_row \<Rightarrow> session_state \<Rightarrow> go_time \<Rightarrow> session_row" where
  "MarkTerminated r from now =
    (let reason = terminatedReason (se_State r)
     in if reason = '''' then r
        else let r = (if is_zero_time (se_TerminatedAt r) then r\<lparr>se_TerminatedAt := now\<rparr> else r);
                 r = r\<lparr>se_TerminatedReason := reason\<rparr>
             in if from = Resuming then r\<lparr>se_CoordinationGeneration := w64 (se_CoordinationGeneration r + 1)\<rparr>
                else r)"

definition InPostTerminalWindow :: "session_row \<Rightarrow> go_time \<Rightarrow> duration \<Rightarrow> bool" where
  "InPostTerminalWindow s now cap =
    (if cap \<le> 0 \<or> \<not> api_IsTerminal (se_State s) then False
     else if se_PodAssignment s = '''' \<or> \<not> is_zero_time (se_PodReleasedAt s) \<or> is_zero_time (se_TerminatedAt s)
     then False
     else time_before now (time_add (se_TerminatedAt s) cap))"

definition HoldsPod :: "session_row \<Rightarrow> go_time \<Rightarrow> duration \<Rightarrow> bool" where
  "HoldsPod s now cap =
    (if se_PodAssignment s = '''' then False
     else \<not> api_IsTerminal (se_State s) \<or> InPostTerminalWindow s now cap)"

datatype store_error =
    ErrNotFound | ErrAlreadyExists | ErrGenerationAdvanced | ErrSuperseded | ErrTranscriptCopierUnwired
  | ErrMarkerRead string | ErrCopyTranscript string | ErrRefused creation_refusal
  | ErrMaxConcurrent | ErrSlotSession | ErrMutator string

type_synonym mutator = "session_row \<Rightarrow> store_error + session_row"

definition MarkPodReleased :: "go_time \<Rightarrow> mutator" where
  "MarkPodReleased now r =
    (if \<not> api_IsTerminal (se_State r) \<or> \<not> is_zero_time (se_PodReleasedAt r) then Inl ErrSuperseded
     else Inr (r\<lparr>se_PodReleasedAt := now\<rparr>))"

section \<open>Active age\<close>

definition SessionAgeCounts :: "session_state \<Rightarrow> bool" where
  "SessionAgeCounts st \<longleftrightarrow> st = Starting \<or> st = Running \<or> st = InputRequired"

text \<open>\<^verbatim>\<open>Duration.Seconds\<close> of a non-negative duration.\<close>

definition duration_Seconds :: "duration \<Rightarrow> rat" where
  "duration_Seconds d = f64_add (f64_of_int (d div second)) (f64 (f64_of_int (d mod second) / 1000000000))"

definition AccrueSessionAge :: "session_state \<Rightarrow> go_time \<Rightarrow> session_row \<Rightarrow> go_time \<Rightarrow> session_row" where
  "AccrueSessionAge prev prevUpdatedAt row now =
    (if \<not> SessionAgeCounts prev \<or> \<not> time_after now prevUpdatedAt then row
     else row\<lparr>se_AccumulatedSessionAgeSeconds :=
            f64_add (se_AccumulatedSessionAgeSeconds row) (duration_Seconds (time_sub now prevUpdatedAt))\<rparr>)"

definition StampStateEntry :: "session_state \<Rightarrow> go_time \<Rightarrow> session_row \<Rightarrow> go_time \<Rightarrow> session_row" where
  "StampStateEntry prev prevEntered row now =
    (if se_State row \<noteq> prev then row\<lparr>se_StateEnteredAt := now\<rparr> else row\<lparr>se_StateEnteredAt := prevEntered\<rparr>)"

text \<open>The conversion of a double to an integer truncates towards zero.\<close>

definition ActiveAge :: "session_row \<Rightarrow> go_time \<Rightarrow> duration" where
  "ActiveAge row now =
    (let scaled = f64 (se_AccumulatedSessionAgeSeconds row * 1000000000);
         age = (if scaled < 0 then \<lceil>scaled\<rceil> else \<lfloor>scaled\<rfloor>)
     in if SessionAgeCounts (se_State row) \<and> time_after now (se_UpdatedAt row)
        then w64 (age + time_sub now (se_UpdatedAt row)) else age)"

section \<open>The visible tree and the node projection\<close>

text \<open>The second result is the allowed set, \<open>None\<close> for no restriction.\<close>

definition VisibleTree ::
  "session_row \<Rightarrow> session_row list \<Rightarrow> tree_visibility \<Rightarrow> session_row \<times> string set option" where
  "VisibleTree caller rows vis =
    (case visibility_OrDefault vis of
       VisibilitySelfOnly \<Rightarrow> (caller, Some {se_ID caller})
     | VisibilityParentAndSelf \<Rightarrow>
         (if se_ParentSessionID caller = '''' then (caller, Some {se_ID caller})
          else case List.find (\<lambda>s. se_ID s = se_ParentSessionID caller) rows of
                 Some s \<Rightarrow> (s, Some {se_ID s, se_ID caller})
               | None \<Rightarrow> (caller, Some {se_ID caller}))
     | _ \<Rightarrow>
         (let apexID = (if se_RootSessionID caller = '''' then se_ID caller else se_RootSessionID caller)
          in case List.find (\<lambda>s. se_ID s = apexID) rows of
               Some s \<Rightarrow> (s, None)
             | None \<Rightarrow> (caller, None)))"

record failure_history =
  fh_RetryCount :: int
  fh_FailureClass :: string
  fh_FailureReason :: string

record node_attributes =
  na_Generation :: int
  na_Pod :: string
  na_Lease :: "delegation_lease option"
  na_FailureHistory :: "failure_history option"

definition ProjectNodeAttributes :: "session_row \<Rightarrow> node_attributes" where
  "ProjectNodeAttributes s =
    \<lparr>na_Generation = se_RecoveryGeneration s, na_Pod = se_PodAssignment s, na_Lease = se_DelegationLease s,
     na_FailureHistory =
       (if se_RetryCount s > 0 \<or> se_FailureClass s \<noteq> '''' \<or> se_FailureReason s \<noteq> ''''
        then Some \<lparr>fh_RetryCount = se_RetryCount s, fh_FailureClass = se_FailureClass s,
                   fh_FailureReason = se_FailureReason s\<rparr>
        else None)\<rparr>"

end
