(* ===== verification/Session_Store.thy ===== *)
theory Session_Store
  imports Session_Row
begin

text \<open>
  The in-memory session store (\<^verbatim>\<open>pkg/gateway/session/sessionstore/memstore\<close>:
  \<^verbatim>\<open>memstore.go\<close> and \<^verbatim>\<open>fence.go\<close>), every operation, with the helpers of
  \<^verbatim>\<open>last_seq.go\<close>, \<^verbatim>\<open>terminal_mark.go\<close> and \<^verbatim>\<open>cascade_listing.go\<close> that run on it. Each Go
  method holds the store's mutex for its whole body, so an operation is one function
  of the store; the clock reading it makes is its argument \<open>now\<close>. The result of a
  fallible operation is \<open>Inl\<close> an error, which leaves the store as it was, or \<open>Inr\<close> the
  result with the new store. A Go map is an association list whose order is arbitrary,
  and the sorts break ties by that order.
\<close>

section \<open>State\<close>

record reservation =
  rv_TenantID :: string
  rv_SessionID :: string
  rv_UserID :: string
  rv_CreatedAt :: go_time

text \<open>
  The marker reader and the transcript copier are the wired functions, \<open>None\<close> when
  unwired; the copier reports its error.
\<close>

record store =
  ms_sessions :: "(string, session_row) go_map"
  ms_reservations :: "(string, reservation) go_map"
  ms_markers :: "(string \<Rightarrow> string \<Rightarrow> string + creation_markers) option"
  ms_copyTranscript :: "(string \<Rightarrow> string \<Rightarrow> string \<Rightarrow> string option) option"
  ms_slotReservations :: "(string, (string, go_time) go_map) go_map"
  ms_postTerminalCap :: duration

definition NewWithClock :: "(string \<Rightarrow> string \<Rightarrow> string + creation_markers) option
   \<Rightarrow> (string \<Rightarrow> string \<Rightarrow> string \<Rightarrow> string option) option \<Rightarrow> duration \<Rightarrow> store" where
  "NewWithClock markers copier cap =
    \<lparr>ms_sessions = [], ms_reservations = [], ms_markers = markers, ms_copyTranscript = copier,
     ms_slotReservations = [], ms_postTerminalCap = cap\<rparr>"

definition holdsPodLocked :: "store \<Rightarrow> go_time \<Rightarrow> session_row \<Rightarrow> bool" where
  "holdsPodLocked s now row = HoldsPod row now (ms_postTerminalCap s)"

section \<open>The creation fence\<close>

definition reservationKey :: "string \<Rightarrow> string \<Rightarrow> string" where
  "reservationKey tenantID sessionID = tenantID @ ''/'' @ sessionID"

definition parentTerminalLocked :: "store \<Rightarrow> string \<Rightarrow> string \<Rightarrow> bool" where
  "parentTerminalLocked s tenantID parentSessionID =
    (if parentSessionID = '''' then True
     else case map_of (ms_sessions s) parentSessionID of
            None \<Rightarrow> True
          | Some parent \<Rightarrow> se_TenantID parent \<noteq> tenantID \<or> api_IsTerminal (se_State parent))"

definition fenceLocked ::
  "store \<Rightarrow> string \<Rightarrow> string \<Rightarrow> bool \<Rightarrow> bool \<Rightarrow> string \<Rightarrow> store_error option" where
  "fenceLocked s tenantID ownerUserID delegatedChild checkParent parentSessionID =
    (case (case ms_markers s of None \<Rightarrow> Inr no_markers | Some rd \<Rightarrow> rd tenantID ownerUserID) of
       Inl e \<Rightarrow> Some (ErrMarkerRead e)
     | Inr m \<Rightarrow>
         (let m = m\<lparr>cm_IsDelegatedChild := delegatedChild\<rparr>;
              m = (if delegatedChild \<and> checkParent
                   then m\<lparr>cm_ParentSessionID := parentSessionID,
                          cm_ParentTerminal := parentTerminalLocked s tenantID parentSessionID\<rparr>
                   else m)
          in map_option ErrRefused (Refusal m tenantID ownerUserID)))"

definition deleteOwnReservationLocked :: "store \<Rightarrow> session_row \<Rightarrow> store" where
  "deleteOwnReservationLocked s sess =
    (if se_UserID sess = '''' then s
     else let k = reservationKey (se_TenantID sess) (se_ID sess)
          in case map_of (ms_reservations s) k of
               None \<Rightarrow> s
             | Some r \<Rightarrow> if rv_UserID r \<noteq> se_UserID sess then s
                         else s\<lparr>ms_reservations := AList.delete k (ms_reservations s)\<rparr>)"

definition requireReservationLocked :: "store \<Rightarrow> session_row \<Rightarrow> store_error option" where
  "requireReservationLocked s row =
    (if se_UserID row = '''' then None
     else case map_of (ms_reservations s) (reservationKey (se_TenantID row) (se_ID row)) of
            None \<Rightarrow> Some (ErrRefused (ReservationEndedRefusal (se_UserID row)))
          | Some r \<Rightarrow> if rv_UserID r \<noteq> se_UserID row
                      then Some (ErrRefused (ReservationEndedRefusal (se_UserID row))) else None)"

section \<open>Creation\<close>

text \<open>The defaults \<^verbatim>\<open>createLocked\<close> fills in before it stores the row.\<close>

definition create_root :: "store \<Rightarrow> session_row \<Rightarrow> string" where
  "create_root s sess =
    (if se_RootSessionID sess \<noteq> '''' then se_RootSessionID sess
     else let inherited =
            (if se_ParentSessionID sess \<noteq> '''' then
               (case map_of (ms_sessions s) (se_ParentSessionID sess) of
                  None \<Rightarrow> ''''
                | Some parent \<Rightarrow>
                    if se_TenantID parent = se_TenantID sess
                    then (if se_RootSessionID parent = '''' then se_ID parent else se_RootSessionID parent)
                    else '''')
             else '''')
          in if inherited = '''' then se_ID sess else inherited)"

definition create_defaults :: "store \<Rightarrow> session_row \<Rightarrow> go_time \<Rightarrow> session_row" where
  "create_defaults s sess now =
    (let sess = (if is_zero_time (se_CreatedAt sess) then sess\<lparr>se_CreatedAt := now\<rparr> else sess);
         sess = (if is_zero_time (se_UpdatedAt sess) then sess\<lparr>se_UpdatedAt := se_CreatedAt sess\<rparr> else sess);
         sess = sess\<lparr>se_StateEnteredAt := se_CreatedAt sess\<rparr>;
         sess = (if se_SchemaVersion sess = 0 then sess\<lparr>se_SchemaVersion := 1\<rparr> else sess);
         sess = (if se_CoordinationGeneration sess = 0 then sess\<lparr>se_CoordinationGeneration := 1\<rparr> else sess)
     in sess\<lparr>se_RootSessionID := create_root s sess\<rparr>)"

definition createLocked ::
  "store \<Rightarrow> session_row \<Rightarrow> (session_row \<Rightarrow> store_error option) \<Rightarrow> go_time \<Rightarrow> store_error + store" where
  "createLocked s sess before now =
    (case fenceLocked s (se_TenantID sess) (se_UserID sess) (se_DelegationDepth sess > 0) True (se_ParentSessionID sess) of
       Some e \<Rightarrow> Inl e
     | None \<Rightarrow>
         (case map_of (ms_sessions s) (se_ID sess) of
            Some _ \<Rightarrow> Inl ErrAlreadyExists
          | None \<Rightarrow>
              (let row = create_defaults s sess now
               in case before row of
                    Some e \<Rightarrow> Inl e
                  | None \<Rightarrow>
                      (let s' = deleteOwnReservationLocked s row
                       in Inr (s'\<lparr>ms_sessions := AList.update (se_ID row) row (ms_sessions s')\<rparr>)))))"

definition store_Create :: "store \<Rightarrow> session_row \<Rightarrow> go_time \<Rightarrow> store_error + store" where
  "store_Create s sess now = createLocked s sess (\<lambda>_. None) now"

definition CreateIfGeneration ::
  "store \<Rightarrow> session_row \<Rightarrow> string \<Rightarrow> string \<Rightarrow> int \<Rightarrow> go_time \<Rightarrow> store_error + store" where
  "CreateIfGeneration s sess sourceTenantID sourceID wantGen now =
    createLocked s sess
      (\<lambda>_. case map_of (ms_sessions s) sourceID of
             None \<Rightarrow> Some ErrNotFound
           | Some src \<Rightarrow>
               if se_TenantID src \<noteq> sourceTenantID then Some ErrNotFound
               else if se_CoordinationGeneration src \<noteq> wantGen then Some ErrGenerationAdvanced
               else None) now"

definition CreateReserved :: "store \<Rightarrow> session_row \<Rightarrow> go_time \<Rightarrow> store_error + store" where
  "CreateReserved s sess now = createLocked s sess (requireReservationLocked s) now"

definition CreateWithTranscript :: "store \<Rightarrow> session_row \<Rightarrow> string \<Rightarrow> go_time \<Rightarrow> store_error + store" where
  "CreateWithTranscript s sess transcriptSourceID now =
    (case ms_copyTranscript s of
       None \<Rightarrow> Inl ErrTranscriptCopierUnwired
     | Some copy \<Rightarrow>
         createLocked s sess
           (\<lambda>row. case requireReservationLocked s row of
                    Some e \<Rightarrow> Some e
                  | None \<Rightarrow> map_option ErrCopyTranscript (copy (se_TenantID row) transcriptSourceID (se_ID row))) now)"

definition store_Reserve :: "store \<Rightarrow> string \<Rightarrow> string \<Rightarrow> string \<Rightarrow> bool \<Rightarrow> go_time \<Rightarrow> store_error + store" where
  "store_Reserve s tenantID ownerUserID sessionID delegatedChild now =
    (case fenceLocked s tenantID ownerUserID delegatedChild False '''' of
       Some e \<Rightarrow> Inl e
     | None \<Rightarrow>
         (if ownerUserID = '''' then Inr s
          else let k = reservationKey tenantID sessionID
               in if map_of (ms_reservations s) k \<noteq> None then Inl ErrAlreadyExists
                  else Inr (s\<lparr>ms_reservations := AList.update k
                        \<lparr>rv_TenantID = tenantID, rv_SessionID = sessionID, rv_UserID = ownerUserID, rv_CreatedAt = now\<rparr>
                        (ms_reservations s)\<rparr>)))"

definition ReleaseReservation :: "store \<Rightarrow> string \<Rightarrow> string \<Rightarrow> store" where
  "ReleaseReservation s tenantID sessionID =
    s\<lparr>ms_reservations := AList.delete (reservationKey tenantID sessionID) (ms_reservations s)\<rparr>"

definition ReservedSessionIDs :: "store \<Rightarrow> string \<Rightarrow> string \<Rightarrow> string list" where
  "ReservedSessionIDs s tenantID userID =
    map rv_SessionID (sort_key rv_CreatedAt (sort_key rv_SessionID
      (filter (\<lambda>r. rv_TenantID r = tenantID \<and> rv_UserID r = userID) (map snd (ms_reservations s)))))"

section \<open>Reads and writes of one row\<close>

definition store_Get :: "store \<Rightarrow> string \<Rightarrow> string \<Rightarrow> store_error + session_row" where
  "store_Get s tenantID sid =
    (case map_of (ms_sessions s) sid of
       None \<Rightarrow> Inl ErrNotFound
     | Some row \<Rightarrow> if se_TenantID row \<noteq> tenantID then Inl ErrNotFound else Inr row)"

definition GetByID :: "store \<Rightarrow> string \<Rightarrow> store_error + session_row" where
  "GetByID s sid = (case map_of (ms_sessions s) sid of None \<Rightarrow> Inl ErrNotFound | Some row \<Rightarrow> Inr row)"

definition monotonicNext :: "go_time \<Rightarrow> go_time \<Rightarrow> go_time" where
  "monotonicNext prev now = (if \<not> time_after now prev then time_add prev 1 else now)"

definition store_Update ::
  "store \<Rightarrow> string \<Rightarrow> string \<Rightarrow> mutator \<Rightarrow> go_time \<Rightarrow> store_error + (session_row \<times> store)" where
  "store_Update s tenantID sid mutate clock =
    (case store_Get s tenantID sid of
       Inl e \<Rightarrow> Inl e
     | Inr prev \<Rightarrow>
         (case mutate prev of
            Inl e \<Rightarrow> Inl e
          | Inr row \<Rightarrow>
              (let row = row\<lparr>se_RecoveryGeneration := max (se_RecoveryGeneration row) (se_RecoveryGeneration prev)\<rparr>;
                   row = row\<lparr>se_CoordinationGeneration := max (se_CoordinationGeneration row) (se_CoordinationGeneration prev)\<rparr>;
                   row = row\<lparr>se_RetryCount := max (se_RetryCount row) (se_RetryCount prev)\<rparr>;
                   row = row\<lparr>se_LastSeq := max (se_LastSeq row) (se_LastSeq prev)\<rparr>;
                   row = (if se_SchemaVersion row = 0 then row\<lparr>se_SchemaVersion := 1\<rparr> else row);
                   now = monotonicNext (se_UpdatedAt prev) clock;
                   row = row\<lparr>se_AccumulatedSessionAgeSeconds := se_AccumulatedSessionAgeSeconds prev\<rparr>;
                   row = AccrueSessionAge (se_State prev) (se_UpdatedAt prev) row now;
                   row = StampStateEntry (se_State prev) (se_StateEnteredAt prev) row now;
                   row = row\<lparr>se_UpdatedAt := now\<rparr>
               in Inr (row, s\<lparr>ms_sessions := AList.update sid row (ms_sessions s)\<rparr>))))"

definition store_Delete :: "store \<Rightarrow> string \<Rightarrow> string \<Rightarrow> store_error + store" where
  "store_Delete s tenantID sid =
    (case store_Get s tenantID sid of Inl e \<Rightarrow> Inl e
     | Inr _ \<Rightarrow> Inr (s\<lparr>ms_sessions := AList.delete sid (ms_sessions s)\<rparr>))"

definition DeleteByUser :: "store \<Rightarrow> string \<Rightarrow> string \<Rightarrow> int \<times> store" where
  "DeleteByUser s tenantID userID =
    (let hit = (\<lambda>(k, r). se_TenantID r = tenantID \<and> se_UserID r = userID)
     in (int (length (filter hit (ms_sessions s))),
         s\<lparr>ms_sessions := filter (\<lambda>e. \<not> hit e) (ms_sessions s),
           ms_reservations := filter (\<lambda>(k, r). \<not> (rv_TenantID r = tenantID \<and> rv_UserID r = userID)) (ms_reservations s)\<rparr>))"

definition DeleteByTenant :: "store \<Rightarrow> string \<Rightarrow> int \<times> store" where
  "DeleteByTenant s tenantID =
    (let hit = (\<lambda>(k, r). se_TenantID r = tenantID)
     in (int (length (filter hit (ms_sessions s))),
         s\<lparr>ms_sessions := filter (\<lambda>e. \<not> hit e) (ms_sessions s),
           ms_reservations := filter (\<lambda>(k, r). rv_TenantID r \<noteq> tenantID) (ms_reservations s)\<rparr>))"

definition RecordPodRelease :: "store \<Rightarrow> string \<Rightarrow> string \<Rightarrow> go_time \<Rightarrow> go_time \<Rightarrow> store_error option \<times> store" where
  "RecordPodRelease s tenantID sessionID now clock =
    (case store_Update s tenantID sessionID (MarkPodReleased now) clock of
       Inr (_, s') \<Rightarrow> (None, s')
     | Inl e \<Rightarrow> (if e = ErrNotFound \<or> e = ErrSuperseded then None else Some e, s))"

definition LoadLastSeq :: "store \<Rightarrow> string \<Rightarrow> string \<Rightarrow> store_error + int" where
  "LoadLastSeq s tenantID sessionID =
    (case store_Get s tenantID sessionID of
       Inr sess \<Rightarrow> Inr (se_LastSeq sess)
     | Inl e \<Rightarrow> if e = ErrNotFound then Inr 0 else Inl e)"

definition AdvanceLastSeq :: "store \<Rightarrow> string \<Rightarrow> string \<Rightarrow> int \<Rightarrow> go_time \<Rightarrow> store_error option \<times> store" where
  "AdvanceLastSeq s tenantID sessionID seq clock =
    (case store_Update s tenantID sessionID
            (\<lambda>row. Inr (if seq > se_LastSeq row then row\<lparr>se_LastSeq := seq\<rparr> else row)) clock of
       Inr (_, s') \<Rightarrow> (None, s')
     | Inl e \<Rightarrow> (if e = ErrNotFound then None else Some e, s))"

section \<open>Listings and counts\<close>

abbreviation rows :: "store \<Rightarrow> session_row list" where
  "rows s \<equiv> map snd (ms_sessions s)"

record list_filter =
  lf_State :: "session_state option"
  lf_RuntimeRef :: string
  lf_FailureClass :: string
  lf_UserID :: string
  lf_Labels :: "(string, string) go_map"
  lf_ExcludeDeriveFailures :: bool

definition labelsContain :: "(string, string) go_map \<Rightarrow> (string, string) go_map \<Rightarrow> bool" where
  "labelsContain have want \<longleftrightarrow> list_all (\<lambda>(k, v). map_of have k = Some v) want"

definition store_List :: "store \<Rightarrow> string \<Rightarrow> list_filter \<Rightarrow> session_row list" where
  "store_List s tenantID f =
    sort_key (\<lambda>r. - se_CreatedAt r)
      (filter (\<lambda>row. se_TenantID row = tenantID
        \<and> (case lf_State f of None \<Rightarrow> True | Some st \<Rightarrow> se_State row = st)
        \<and> (lf_RuntimeRef f = '''' \<or> se_RuntimeRef row = lf_RuntimeRef f)
        \<and> (lf_FailureClass f = '''' \<or> se_FailureClass row = lf_FailureClass f)
        \<and> (lf_UserID f = '''' \<or> se_UserID row = lf_UserID f)
        \<and> labelsContain (se_Labels row) (lf_Labels f)
        \<and> \<not> (lf_ExcludeDeriveFailures f \<and> se_FailureClass row = ''derive_failure'')) (rows s))"

definition no_filter :: list_filter where
  "no_filter = \<lparr>lf_State = None, lf_RuntimeRef = '''', lf_FailureClass = '''', lf_UserID = '''', lf_Labels = [],
     lf_ExcludeDeriveFailures = False\<rparr>"

definition ChildrenByParent :: "store \<Rightarrow> string \<Rightarrow> string \<Rightarrow> session_row list" where
  "ChildrenByParent s tenantID parentID =
    filter (\<lambda>row. se_ParentSessionID row \<noteq> '''' \<and> se_ParentSessionID row = parentID) (store_List s tenantID no_filter)"

definition ListByRoot :: "store \<Rightarrow> string \<Rightarrow> string \<Rightarrow> session_row list" where
  "ListByRoot s tenantID rootSessionID =
    (if rootSessionID = '''' then []
     else sort_key se_CreatedAt
       (filter (\<lambda>row. se_TenantID row = tenantID
         \<and> (if se_RootSessionID row = '''' then se_ID row else se_RootSessionID row) = rootSessionID) (rows s)))"

definition PoolDrainStats :: "store \<Rightarrow> string \<Rightarrow> int \<times> go_time" where
  "PoolDrainStats s poolRef =
    (if poolRef = '''' then (0, 0)
     else fold (\<lambda>row (count, oldest).
            if se_PoolRef row \<noteq> poolRef \<or> api_IsTerminal (se_State row) then (count, oldest)
            else (count + 1, if is_zero_time oldest \<or> time_before (se_CreatedAt row) oldest
                             then se_CreatedAt row else oldest)) (rows s) (0, 0))"

definition count_rows :: "store \<Rightarrow> (session_row \<Rightarrow> bool) \<Rightarrow> int" where
  "count_rows s P = int (length (filter P (rows s)))"

definition CountActiveSessions :: "store \<Rightarrow> string \<Rightarrow> int" where
  "CountActiveSessions s tenantID =
    (if tenantID = '''' then 0
     else count_rows s (\<lambda>r. se_TenantID r = tenantID \<and> CountsTowardConcurrencyCaps (se_State r)))"

definition CountActiveSessionsByUser :: "store \<Rightarrow> string \<Rightarrow> string \<Rightarrow> int" where
  "CountActiveSessionsByUser s tenantID userID =
    (if tenantID = '''' \<or> userID = '''' then 0
     else count_rows s (\<lambda>r. se_TenantID r = tenantID \<and> se_UserID r = userID \<and> CountsTowardConcurrencyCaps (se_State r)))"

definition CountActiveSessionsByRuntime :: "store \<Rightarrow> string \<Rightarrow> string \<Rightarrow> int" where
  "CountActiveSessionsByRuntime s tenantID runtimeRef =
    (if tenantID = '''' \<or> runtimeRef = '''' then 0
     else count_rows s (\<lambda>r. se_TenantID r = tenantID \<and> se_RuntimeRef r = runtimeRef \<and> CountsTowardConcurrencyCaps (se_State r)))"

definition CountActiveSessionsGlobal :: "store \<Rightarrow> int" where
  "CountActiveSessionsGlobal s = count_rows s (\<lambda>r. CountsTowardConcurrencyCaps (se_State r))"

definition CountActiveSessionsInRecoveryGlobal :: "store \<Rightarrow> int" where
  "CountActiveSessionsInRecoveryGlobal s = count_rows s (\<lambda>r. IsRecovery (se_State r))"

definition CountActiveDelegatedChildrenByUser :: "store \<Rightarrow> string \<Rightarrow> string \<Rightarrow> int" where
  "CountActiveDelegatedChildrenByUser s tenantID userID =
    (if tenantID = '''' \<or> userID = '''' then 0
     else count_rows s (\<lambda>r. se_TenantID r = tenantID \<and> se_UserID r = userID
                          \<and> se_ParentSessionID r \<noteq> '''' \<and> \<not> api_IsTerminal (se_State r)))"

text \<open>\<open>uuid_ok\<close> stands for the UUID parser of the package \<^verbatim>\<open>github.com/google/uuid\<close>.\<close>

definition ListStaleTerminalSessions :: "(string \<Rightarrow> bool) \<Rightarrow> store \<Rightarrow> string list \<Rightarrow> go_time \<Rightarrow> string list" where
  "ListStaleTerminalSessions uuid_ok s ids terminatedBefore =
    filter (\<lambda>sid. uuid_ok sid \<and>
      (case map_of (ms_sessions s) sid of None \<Rightarrow> False
       | Some row \<Rightarrow> api_IsTerminal (se_State row) \<and> \<not> is_zero_time (se_TerminatedAt row)
                     \<and> time_before (se_TerminatedAt row) terminatedBefore)) ids"

definition ListAbsentSessions :: "store \<Rightarrow> string list \<Rightarrow> string list" where
  "ListAbsentSessions s ids = filter (\<lambda>sid. map_of (ms_sessions s) sid = None) ids"

section \<open>Slots\<close>

text \<open>A Go \<^verbatim>\<open>int32\<close> conversion.\<close>

definition w32 :: "int \<Rightarrow> int" where
  "w32 n = sint (word_of_int n :: 32 word)"

definition pod_slots :: "store \<Rightarrow> string \<Rightarrow> (string, go_time) go_map" where
  "pod_slots s podID = (case map_of (ms_slotReservations s) podID of None \<Rightarrow> [] | Some m \<Rightarrow> m)"

definition pod_holders :: "store \<Rightarrow> go_time \<Rightarrow> string \<Rightarrow> string list" where
  "pod_holders s now podID =
    remdups (map se_ID (filter (\<lambda>r. se_PodAssignment r = podID \<and> holdsPodLocked s now r) (rows s))
             @ map fst (pod_slots s podID))"

definition occupancyLocked :: "store \<Rightarrow> go_time \<Rightarrow> string \<Rightarrow> string \<Rightarrow> int" where
  "occupancyLocked s now podID sessionID = w32 (int (length (removeAll sessionID (pod_holders s now podID))))"

definition recordSlotReservationLocked :: "store \<Rightarrow> string \<Rightarrow> string \<Rightarrow> go_time \<Rightarrow> bool \<times> store" where
  "recordSlotReservationLocked s podID sessionID now =
    (let byPod = pod_slots s podID
     in if map_of byPod sessionID \<noteq> None then (False, s)
        else (True, s\<lparr>ms_slotReservations :=
                AList.update podID (AList.update sessionID now byPod) (ms_slotReservations s)\<rparr>))"

definition ReserveSlotUnderLock ::
  "store \<Rightarrow> string \<Rightarrow> string \<Rightarrow> int \<Rightarrow> go_time \<Rightarrow> store_error + (int \<times> bool \<times> store)" where
  "ReserveSlotUnderLock s podID sessionID maxConcurrent now =
    (if podID = '''' then Inr (0, False, s)
     else if maxConcurrent < 1 then Inl ErrMaxConcurrent
     else if sessionID = '''' then Inl ErrSlotSession
     else let current = occupancyLocked s now podID sessionID
          in if current \<ge> maxConcurrent then Inr (current, False, s)
             else Inr (w32 (current + 1), True, snd (recordSlotReservationLocked s podID sessionID now)))"

definition RecordSlotReservation :: "store \<Rightarrow> string \<Rightarrow> string \<Rightarrow> go_time \<Rightarrow> store_error + (bool \<times> store)" where
  "RecordSlotReservation s podID sessionID now =
    (if podID = '''' \<or> sessionID = '''' then Inl ErrSlotSession
     else Inr (recordSlotReservationLocked s podID sessionID now))"

definition DeleteSlotReservation :: "store \<Rightarrow> string \<Rightarrow> string \<Rightarrow> store" where
  "DeleteSlotReservation s podID sessionID =
    (case map_of (ms_slotReservations s) podID of
       None \<Rightarrow> s
     | Some byPod \<Rightarrow>
         (let byPod = AList.delete sessionID byPod
          in s\<lparr>ms_slotReservations :=
               (if byPod = [] then AList.delete podID (ms_slotReservations s)
                else AList.update podID byPod (ms_slotReservations s))\<rparr>))"

definition reservationSessionLive :: "store \<Rightarrow> string \<Rightarrow> string \<Rightarrow> go_time \<Rightarrow> bool" where
  "reservationSessionLive s pod sid cutoff =
    (case map_of (ms_sessions s) sid of
       None \<Rightarrow> False
     | Some row \<Rightarrow>
         if \<not> api_IsTerminal (se_State row) then se_PodAssignment row = '''' \<or> se_PodAssignment row = pod
         else is_zero_time (se_TerminatedAt row) \<or> \<not> time_before (se_TerminatedAt row) cutoff)"

definition ReclaimSlotReservations :: "store \<Rightarrow> go_time \<Rightarrow> int \<times> store" where
  "ReclaimSlotReservations s cutoff =
    (let stale = (\<lambda>pod (sid, recorded). time_before recorded cutoff \<and> \<not> reservationSessionLive s pod sid cutoff);
         kept = map (\<lambda>(pod, byPod). (pod, filter (\<lambda>e. \<not> stale pod e) byPod)) (ms_slotReservations s);
         deleted = sum_list (map (\<lambda>(pod, byPod). int (length (filter (stale pod) byPod))) (ms_slotReservations s))
     in (deleted, s\<lparr>ms_slotReservations := filter (\<lambda>(pod, byPod). byPod \<noteq> []) kept\<rparr>))"

definition GetActiveSlotsByPod :: "store \<Rightarrow> string \<Rightarrow> go_time \<Rightarrow> string list" where
  "GetActiveSlotsByPod s podID now =
    (if podID = '''' then []
     else sort (map se_ID (filter (\<lambda>r. se_PodAssignment r = podID \<and> holdsPodLocked s now r) (rows s))))"

definition ListPodsWithActiveSlots :: "store \<Rightarrow> go_time \<Rightarrow> string list" where
  "ListPodsWithActiveSlots s now =
    sort (remdups (map se_PodAssignment
      (filter (\<lambda>r. se_ScrubPolicy r = ''best-effort-per-slot'' \<and> holdsPodLocked s now r) (rows s))))"

definition ListPodlessSuspended :: "store \<Rightarrow> string \<Rightarrow> string \<Rightarrow> int \<Rightarrow> session_row list" where
  "ListPodlessSuspended s tenantID afterID limit =
    (let out = sort_key se_ID
        (filter (\<lambda>r. se_TenantID r = tenantID \<and> se_State r = Suspended \<and> se_PodAssignment r = ''''
           \<and> (afterID = '''' \<or> afterID < se_ID r)) (rows s))
     in if limit > 0 \<and> int (length out) > limit then take (nat limit) out else out)"

section \<open>Snapshots\<close>

text \<open>The exported pair; its JSON encoding is the library's.\<close>

definition ExportState :: "store \<Rightarrow> (string, session_row) go_map \<times> (string, reservation) go_map" where
  "ExportState s = (ms_sessions s, ms_reservations s)"

definition ImportState :: "store \<Rightarrow> (string, session_row) go_map \<times> (string, reservation) go_map \<Rightarrow> store" where
  "ImportState s snap = s\<lparr>ms_sessions := fst snap, ms_reservations := snd snap\<rparr>"

section \<open>Sequences of operations\<close>

datatype store_op =
    OpCreate session_row go_time
  | OpCreateIfGeneration session_row string string int go_time
  | OpCreateReserved session_row go_time
  | OpCreateWithTranscript session_row string go_time
  | OpReserve string string string bool go_time
  | OpRelease string string
  | OpUpdate string string mutator go_time
  | OpDelete string string
  | OpDeleteByUser string string
  | OpDeleteByTenant string
  | OpSlotReserve string string int go_time
  | OpSlotRecord string string go_time
  | OpSlotDelete string string
  | OpSlotReclaim go_time

definition settle :: "store \<Rightarrow> store_error + store \<Rightarrow> store" where
  "settle s r = (case r of Inl _ \<Rightarrow> s | Inr s' \<Rightarrow> s')"

primrec apply_op :: "store_op \<Rightarrow> store \<Rightarrow> store" where
  "apply_op (OpCreate sess now) s = settle s (store_Create s sess now)"
| "apply_op (OpCreateIfGeneration sess t src gen now) s = settle s (CreateIfGeneration s sess t src gen now)"
| "apply_op (OpCreateReserved sess now) s = settle s (CreateReserved s sess now)"
| "apply_op (OpCreateWithTranscript sess src now) s = settle s (CreateWithTranscript s sess src now)"
| "apply_op (OpReserve t u sid child now) s = settle s (store_Reserve s t u sid child now)"
| "apply_op (OpRelease t sid) s = ReleaseReservation s t sid"
| "apply_op (OpUpdate t sid m now) s = settle s (map_sum id snd (store_Update s t sid m now))"
| "apply_op (OpDelete t sid) s = settle s (store_Delete s t sid)"
| "apply_op (OpDeleteByUser t u) s = snd (DeleteByUser s t u)"
| "apply_op (OpDeleteByTenant t) s = snd (DeleteByTenant s t)"
| "apply_op (OpSlotReserve pod sid mx now) s =
     settle s (map_sum id (\<lambda>(_, _, s'). s') (ReserveSlotUnderLock s pod sid mx now))"
| "apply_op (OpSlotRecord pod sid now) s = settle s (map_sum id snd (RecordSlotReservation s pod sid now))"
| "apply_op (OpSlotDelete pod sid) s = DeleteSlotReservation s pod sid"
| "apply_op (OpSlotReclaim cutoff) s = snd (ReclaimSlotReservations s cutoff)"

text \<open>The tenant an operation is issued for, and the row it may insert.\<close>

definition op_row :: "store_op \<Rightarrow> session_row option" where
  "op_row op = (case op of OpCreate sess _ \<Rightarrow> Some sess | OpCreateIfGeneration sess _ _ _ _ \<Rightarrow> Some sess
     | OpCreateReserved sess _ \<Rightarrow> Some sess | OpCreateWithTranscript sess _ _ \<Rightarrow> Some sess | _ \<Rightarrow> None)"

definition op_tenant :: "store_op \<Rightarrow> string option" where
  "op_tenant op = (case op of OpReserve t _ _ _ _ \<Rightarrow> Some t | OpRelease t _ \<Rightarrow> Some t
     | OpUpdate t _ _ _ \<Rightarrow> Some t | OpDelete t _ \<Rightarrow> Some t | OpDeleteByUser t _ \<Rightarrow> Some t
     | OpDeleteByTenant t \<Rightarrow> Some t | _ \<Rightarrow> map_option se_TenantID (op_row op))"

text \<open>
  What every mutator of the gateway does: it leaves the identity of the row alone, and
  it changes the state along the session state table.
\<close>

definition keeps_identity :: "mutator \<Rightarrow> bool" where
  "keeps_identity m \<longleftrightarrow> (\<forall>r r'. m r = Inr r' \<longrightarrow>
     se_ID r' = se_ID r \<and> se_TenantID r' = se_TenantID r \<and> se_UserID r' = se_UserID r
     \<and> se_ParentSessionID r' = se_ParentSessionID r \<and> se_DelegationDepth r' = se_DelegationDepth r)"

definition follows_table :: "mutator \<Rightarrow> bool" where
  "follows_table m \<longleftrightarrow> (\<forall>r r'. m r = Inr r' \<longrightarrow>
     se_State r' = se_State r \<or> session_IsValid (se_State r) (se_State r') = None)"

definition lawful_op :: "store_op \<Rightarrow> bool" where
  "lawful_op op = (case op of OpUpdate _ _ m _ \<Rightarrow> keeps_identity m \<and> follows_table m | _ \<Rightarrow> True)"

text \<open>What tenant \<open>t\<close> has in the store.\<close>

definition tenant_rows :: "store \<Rightarrow> string \<Rightarrow> (string \<times> session_row) set" where
  "tenant_rows s t = {(sid, r). map_of (ms_sessions s) sid = Some r \<and> se_TenantID r = t}"

definition tenant_reservations :: "store \<Rightarrow> string \<Rightarrow> reservation set" where
  "tenant_reservations s t = {r. \<exists>k. map_of (ms_reservations s) k = Some r \<and> rv_TenantID r = t}"

definition store_inv :: "store \<Rightarrow> bool" where
  "store_inv s \<longleftrightarrow> wf_map (ms_sessions s) \<and> wf_map (ms_reservations s)
    \<and> (\<forall>k r. map_of (ms_sessions s) k = Some r \<longrightarrow> se_ID r = k)
    \<and> (\<forall>k r. map_of (ms_reservations s) k = Some r \<longrightarrow> k = reservationKey (rv_TenantID r) (rv_SessionID r))"

text \<open>
  What may happen around one pod's slots: time passes, sessions reserve slots of the
  pod through the capacity gate with its limit \<open>mx\<close> or slots of other pods, slots are
  released and reclaimed, rows are deleted, and a row is updated so that it holds the
  pod only if its session already held it or has a slot reserved on it.
\<close>

inductive slot_step :: "string \<Rightarrow> int \<Rightarrow> go_time \<times> store \<Rightarrow> go_time \<times> store \<Rightarrow> bool" for pod mx where
  tick: "now \<le> now' \<Longrightarrow> slot_step pod mx (now, s) (now', s)"
| reserve: "ReserveSlotUnderLock s p sid m now = Inr (n, granted, s') \<Longrightarrow> (p = pod \<longrightarrow> m = mx)
    \<Longrightarrow> slot_step pod mx (now, s) (now, s')"
| release: "slot_step pod mx (now, s) (now, DeleteSlotReservation s p sid)"
| reclaim: "slot_step pod mx (now, s) (now, snd (ReclaimSlotReservations s cutoff))"
| update: "store_Update s t sid m clock = Inr (row, s') \<Longrightarrow> se_ID row = sid
    \<Longrightarrow> (se_PodAssignment row = pod \<and> holdsPodLocked s now row \<longrightarrow> sid \<in> set (pod_holders s now pod))
    \<Longrightarrow> slot_step pod mx (now, s) (now, s')"
| delete: "store_Delete s t sid = Inr s' \<Longrightarrow> slot_step pod mx (now, s) (now, s')"

text \<open>The delegated children of a session.\<close>

definition children_of :: "store \<Rightarrow> string \<Rightarrow> string \<Rightarrow> string set" where
  "children_of s t p = {sid. \<exists>r. map_of (ms_sessions s) sid = Some r \<and> se_TenantID r = t
     \<and> se_ParentSessionID r = p \<and> 0 < se_DelegationDepth r}"

text \<open>The demonstration rows of the witnesses.\<close>

definition demo_session :: "string \<Rightarrow> string \<Rightarrow> session_row" where
  "demo_session tenant sid = zero_session\<lparr>se_ID := sid, se_TenantID := tenant, se_UserID := ''u'', se_State := Running, se_CreatedAt := 1,
     se_UpdatedAt := 1\<rparr>"

section \<open>Lemmas on the operations\<close>

lemma create_defaults_keeps [simp]:
  "se_ID (create_defaults s sess now) = se_ID sess"
  "se_TenantID (create_defaults s sess now) = se_TenantID sess"
  "se_UserID (create_defaults s sess now) = se_UserID sess"
  "se_ParentSessionID (create_defaults s sess now) = se_ParentSessionID sess"
  "se_DelegationDepth (create_defaults s sess now) = se_DelegationDepth sess"
  "se_State (create_defaults s sess now) = se_State sess"
  by (simp_all add: create_defaults_def Let_def)

lemma deleteOwnReservation_sessions [simp]: "ms_sessions (deleteOwnReservationLocked s r) = ms_sessions s"
  by (simp add: deleteOwnReservationLocked_def Let_def split: option.splits)

lemma deleteOwnReservation_cases:
  "ms_reservations (deleteOwnReservationLocked s r) = ms_reservations s
   \<or> ms_reservations (deleteOwnReservationLocked s r)
       = AList.delete (reservationKey (se_TenantID r) (se_ID r)) (ms_reservations s)"
  by (simp add: deleteOwnReservationLocked_def Let_def split: option.splits)

lemma createLocked_Inr:
  assumes "createLocked s sess before now = Inr s'"
  shows "fenceLocked s (se_TenantID sess) (se_UserID sess) (se_DelegationDepth sess > 0) True (se_ParentSessionID sess) = None"
    and "map_of (ms_sessions s) (se_ID sess) = None"
    and "before (create_defaults s sess now) = None"
    and "s' = (deleteOwnReservationLocked s (create_defaults s sess now))
            \<lparr>ms_sessions := AList.update (se_ID sess) (create_defaults s sess now) (ms_sessions s)\<rparr>"
  using assms by (auto simp: createLocked_def Let_def split: option.splits)

lemma store_Get_Inr: "store_Get s t sid = Inr r \<longleftrightarrow> map_of (ms_sessions s) sid = Some r \<and> se_TenantID r = t"
  by (auto simp: store_Get_def split: option.splits)

lemma StampStateEntry_simps [simp]:
  "se_ID (StampStateEntry p e r n) = se_ID r"
  "se_TenantID (StampStateEntry p e r n) = se_TenantID r"
  "se_UserID (StampStateEntry p e r n) = se_UserID r"
  "se_ParentSessionID (StampStateEntry p e r n) = se_ParentSessionID r"
  "se_DelegationDepth (StampStateEntry p e r n) = se_DelegationDepth r"
  "se_State (StampStateEntry p e r n) = se_State r"
  "se_RecoveryGeneration (StampStateEntry p e r n) = se_RecoveryGeneration r"
  "se_CoordinationGeneration (StampStateEntry p e r n) = se_CoordinationGeneration r"
  "se_RetryCount (StampStateEntry p e r n) = se_RetryCount r"
  "se_LastSeq (StampStateEntry p e r n) = se_LastSeq r"
  by (simp_all add: StampStateEntry_def)

lemma AccrueSessionAge_simps [simp]:
  "se_ID (AccrueSessionAge p u r n) = se_ID r"
  "se_TenantID (AccrueSessionAge p u r n) = se_TenantID r"
  "se_UserID (AccrueSessionAge p u r n) = se_UserID r"
  "se_ParentSessionID (AccrueSessionAge p u r n) = se_ParentSessionID r"
  "se_DelegationDepth (AccrueSessionAge p u r n) = se_DelegationDepth r"
  "se_State (AccrueSessionAge p u r n) = se_State r"
  "se_RecoveryGeneration (AccrueSessionAge p u r n) = se_RecoveryGeneration r"
  "se_CoordinationGeneration (AccrueSessionAge p u r n) = se_CoordinationGeneration r"
  "se_RetryCount (AccrueSessionAge p u r n) = se_RetryCount r"
  "se_LastSeq (AccrueSessionAge p u r n) = se_LastSeq r"
  by (simp_all add: AccrueSessionAge_def)

lemma monotonicNext_less: "prev < monotonicNext prev now"
  by (simp add: monotonicNext_def time_after_def time_add_def)

lemma store_Update_Inr:
  assumes "store_Update s t sid m clock = Inr (row, s')"
  obtains prev r where "map_of (ms_sessions s) sid = Some prev" "se_TenantID prev = t" "m prev = Inr r"
    "s' = s\<lparr>ms_sessions := AList.update sid row (ms_sessions s)\<rparr>"
    "se_ID row = se_ID r" "se_TenantID row = se_TenantID r" "se_UserID row = se_UserID r"
    "se_ParentSessionID row = se_ParentSessionID r" "se_DelegationDepth row = se_DelegationDepth r"
    "se_State row = se_State r"
    "se_RecoveryGeneration row = max (se_RecoveryGeneration r) (se_RecoveryGeneration prev)"
    "se_CoordinationGeneration row = max (se_CoordinationGeneration r) (se_CoordinationGeneration prev)"
    "se_RetryCount row = max (se_RetryCount r) (se_RetryCount prev)"
    "se_LastSeq row = max (se_LastSeq r) (se_LastSeq prev)"
    "se_UpdatedAt row = monotonicNext (se_UpdatedAt prev) clock"
    "se_StateEnteredAt row = (if se_State r = se_State prev then se_StateEnteredAt prev else se_UpdatedAt row)"
proof -
  obtain prev where p: "store_Get s t sid = Inr prev"
    using assms by (cases "store_Get s t sid") (auto simp: store_Update_def)
  obtain r where r: "m prev = Inr r"
    using assms p by (cases "m prev") (auto simp: store_Update_def)
  have row: "row = (let row = r\<lparr>se_RecoveryGeneration := max (se_RecoveryGeneration r) (se_RecoveryGeneration prev)\<rparr>;
                   row = row\<lparr>se_CoordinationGeneration := max (se_CoordinationGeneration row) (se_CoordinationGeneration prev)\<rparr>;
                   row = row\<lparr>se_RetryCount := max (se_RetryCount row) (se_RetryCount prev)\<rparr>;
                   row = row\<lparr>se_LastSeq := max (se_LastSeq row) (se_LastSeq prev)\<rparr>;
                   row = (if se_SchemaVersion row = 0 then row\<lparr>se_SchemaVersion := 1\<rparr> else row);
                   now = monotonicNext (se_UpdatedAt prev) clock;
                   row = row\<lparr>se_AccumulatedSessionAgeSeconds := se_AccumulatedSessionAgeSeconds prev\<rparr>;
                   row = AccrueSessionAge (se_State prev) (se_UpdatedAt prev) row now;
                   row = StampStateEntry (se_State prev) (se_StateEnteredAt prev) row now
               in row\<lparr>se_UpdatedAt := now\<rparr>)"
    and s': "s' = s\<lparr>ms_sessions := AList.update sid row (ms_sessions s)\<rparr>"
    using assms by (auto simp: store_Update_def p r Let_def)
  show thesis
    by (rule that[of prev r])
      (use p in \<open>simp_all add: store_Get_Inr r s' row Let_def\<close>, simp_all add: StampStateEntry_def)
qed

lemma settle_Inl [simp]: "settle s (Inl e) = s" and settle_Inr [simp]: "settle s (Inr s') = s'"
  by (simp_all add: settle_def)

lemma created_settle:
  "ms_sessions (settle s (createLocked s sess before now)) = ms_sessions s
   \<or> (fenceLocked s (se_TenantID sess) (se_UserID sess) (se_DelegationDepth sess > 0) True (se_ParentSessionID sess) = None
     \<and> map_of (ms_sessions s) (se_ID sess) = None
     \<and> ms_sessions (settle s (createLocked s sess before now))
        = AList.update (se_ID sess) (create_defaults s sess now) (ms_sessions s))"
proof (cases "createLocked s sess before now")
  case (Inr s')
  from createLocked_Inr[OF this] show ?thesis by (simp add: Inr)
qed simp

lemma slot_ops_keep [simp]:
  "ms_sessions (snd (recordSlotReservationLocked s pod sid now)) = ms_sessions s"
  "ms_reservations (snd (recordSlotReservationLocked s pod sid now)) = ms_reservations s"
  "ms_sessions (DeleteSlotReservation s pod sid) = ms_sessions s"
  "ms_reservations (DeleteSlotReservation s pod sid) = ms_reservations s"
  "ms_sessions (snd (ReclaimSlotReservations s cutoff)) = ms_sessions s"
  "ms_reservations (snd (ReclaimSlotReservations s cutoff)) = ms_reservations s"
  by (simp_all add: recordSlotReservationLocked_def DeleteSlotReservation_def ReclaimSlotReservations_def Let_def
      split: option.splits)

lemma slot_reserve_keep [simp]:
  "ms_sessions (settle s (map_sum id (\<lambda>(_, _, s'). s') (ReserveSlotUnderLock s pod sid mx now))) = ms_sessions s"
  "ms_reservations (settle s (map_sum id (\<lambda>(_, _, s'). s') (ReserveSlotUnderLock s pod sid mx now))) = ms_reservations s"
  "ms_sessions (settle s (map_sum id snd (RecordSlotReservation s pod sid now))) = ms_sessions s"
  "ms_reservations (settle s (map_sum id snd (RecordSlotReservation s pod sid now))) = ms_reservations s"
  by (simp_all add: ReserveSlotUnderLock_def RecordSlotReservation_def Let_def)

lemma op_row_create:
  assumes "op_row op = Some sess"
  shows "\<exists>before now. apply_op op s = settle s (createLocked s sess before now)"
proof (cases op)
  case (OpCreate sess' now)
  then have "apply_op op s = settle s (createLocked s sess (\<lambda>_. None) now)"
    using assms by (simp add: op_row_def store_Create_def)
  then show ?thesis by blast
next
  case (OpCreateIfGeneration sess' t src gen now)
  then have "sess' = sess" using assms by (simp add: op_row_def)
  then show ?thesis unfolding OpCreateIfGeneration apply_op.simps CreateIfGeneration_def by blast
next
  case (OpCreateReserved sess' now)
  then have "sess' = sess" using assms by (simp add: op_row_def)
  then show ?thesis unfolding OpCreateReserved apply_op.simps CreateReserved_def by blast
next
  case (OpCreateWithTranscript sess' src now)
  then have sess: "sess' = sess" using assms by (simp add: op_row_def)
  show ?thesis
  proof (cases "ms_copyTranscript s")
    case None
    have "settle s (createLocked s sess (\<lambda>_. Some ErrTranscriptCopierUnwired) 0) = s"
      by (simp add: createLocked_def settle_def Let_def split: option.splits)
    moreover have "apply_op op s = s"
      by (simp add: OpCreateWithTranscript CreateWithTranscript_def None)
    ultimately show ?thesis by metis
  next
    case (Some copy)
    show ?thesis
      unfolding OpCreateWithTranscript apply_op.simps CreateWithTranscript_def Some sess option.case by blast
  qed
qed (use assms in \<open>simp_all add: op_row_def\<close>)

text \<open>The ways an operation changes the session map.\<close>

lemma apply_op_sessions:
  obtains (same) "ms_sessions (apply_op op s) = ms_sessions s"
  | (created) sess now where "op_row op = Some sess" "map_of (ms_sessions s) (se_ID sess) = None"
      "fenceLocked s (se_TenantID sess) (se_UserID sess) (se_DelegationDepth sess > 0) True (se_ParentSessionID sess) = None"
      "ms_sessions (apply_op op s) = AList.update (se_ID sess) (create_defaults s sess now) (ms_sessions s)"
  | (updated) t sid m clock row where "op = OpUpdate t sid m clock"
      "store_Update s t sid m clock = Inr (row, apply_op op s)"
  | (removed) P where "\<And>k r. op_tenant op \<noteq> Some (se_TenantID r) \<Longrightarrow> P (k, r)"
      "ms_sessions (apply_op op s) = filter P (ms_sessions s)" "op_row op = None"
  | (deleted) t sid row where "op = OpDelete t sid" "store_Get s t sid = Inr row"
      "ms_sessions (apply_op op s) = AList.delete sid (ms_sessions s)"
proof (cases "op_row op")
  case (Some sess)
  then obtain before now where "apply_op op s = settle s (createLocked s sess before now)"
    using op_row_create by blast
  then show thesis
    using created_settle[of s sess before now] same created[OF Some] by metis
next
  case None
  show thesis
  proof (cases op)
    case (OpUpdate t sid m clock)
    show thesis
    proof (cases "store_Update s t sid m clock")
      case (Inl e)
      then show thesis using OpUpdate same by simp
    next
      case (Inr p)
      then show thesis using OpUpdate updated[of t sid m clock "fst p"] by (cases p) simp
    qed
  next
    case (OpDelete t sid)
    then show thesis
      using same deleted[of t sid] by (cases "store_Get s t sid") (simp_all add: store_Delete_def)
  next
    case (OpDeleteByUser t u)
    show thesis
      by (rule removed[of "\<lambda>e. \<not> (case e of (k, r) \<Rightarrow> se_TenantID r = t \<and> se_UserID r = u)"])
        (use OpDeleteByUser in \<open>auto simp: DeleteByUser_def Let_def op_tenant_def op_row_def\<close>)
  next
    case (OpDeleteByTenant t)
    show thesis
      by (rule removed[of "\<lambda>e. \<not> (case e of (k, r) \<Rightarrow> se_TenantID r = t)"])
        (use OpDeleteByTenant in \<open>auto simp: DeleteByTenant_def Let_def op_tenant_def op_row_def\<close>)
  next
    case (OpReserve t u sid c now)
    then show thesis using same
      by (auto simp: store_Reserve_def Let_def split: option.splits)
  qed (use None in \<open>simp_all add: same ReleaseReservation_def op_row_def\<close>)
qed

text \<open>Reservations are only added by \<^verbatim>\<open>Reserve\<close>, and only removed for the tenant of the operation.\<close>

lemma created_reservations:
  "ms_reservations (settle s (createLocked s sess before now)) = ms_reservations s
   \<or> ms_reservations (settle s (createLocked s sess before now))
      = AList.delete (reservationKey (se_TenantID sess) (se_ID sess)) (ms_reservations s)"
proof (cases "createLocked s sess before now")
  case (Inr s')
  from createLocked_Inr(4)[OF this] show ?thesis
    using deleteOwnReservation_cases[of s "create_defaults s sess now"] by (auto simp: Inr)
qed simp

lemma apply_op_reservations:
  obtains (same) "ms_reservations (apply_op op s) = ms_reservations s"
  | (dropped) t sid where "op_tenant op = Some t"
      "ms_reservations (apply_op op s) = AList.delete (reservationKey t sid) (ms_reservations s)"
  | (filtered) P where "\<And>k r. op_tenant op \<noteq> Some (rv_TenantID r) \<Longrightarrow> P (k, r)"
      "ms_reservations (apply_op op s) = filter P (ms_reservations s)"
  | (reserved) t u sid c now where "op = OpReserve t u sid c now" "u \<noteq> ''''"
      "map_of (ms_reservations s) (reservationKey t sid) = None"
      "ms_reservations (apply_op op s) = AList.update (reservationKey t sid)
         \<lparr>rv_TenantID = t, rv_SessionID = sid, rv_UserID = u, rv_CreatedAt = now\<rparr> (ms_reservations s)"
proof (cases "op_row op")
  case (Some sess)
  then obtain before now where "apply_op op s = settle s (createLocked s sess before now)"
    using op_row_create by blast
  moreover have "op_tenant op = Some (se_TenantID sess)"
    using Some by (cases op) (simp_all add: op_tenant_def op_row_def)
  ultimately show thesis
    using created_reservations[of s sess before now] same dropped by metis
next
  case None
  show thesis
  proof (cases op)
    case (OpUpdate t sid m clock)
    then show thesis
      using same by (cases "store_Update s t sid m clock") (auto elim: store_Update_Inr)
  next
    case (OpRelease t sid)
    show thesis
      by (rule dropped[of t sid]) (use OpRelease in \<open>simp_all add: ReleaseReservation_def op_tenant_def\<close>)
  next
    case (OpDelete t sid)
    then show thesis
      using same by (cases "store_Get s t sid") (simp_all add: store_Delete_def)
  next
    case (OpDeleteByUser t u)
    show thesis
      by (rule filtered[of "\<lambda>(k, r). \<not> (rv_TenantID r = t \<and> rv_UserID r = u)"])
        (use OpDeleteByUser in \<open>auto simp: DeleteByUser_def Let_def op_tenant_def op_row_def\<close>)
  next
    case (OpDeleteByTenant t)
    show thesis
      by (rule filtered[of "\<lambda>(k, r). rv_TenantID r \<noteq> t"])
        (use OpDeleteByTenant in \<open>auto simp: DeleteByTenant_def Let_def op_tenant_def op_row_def\<close>)
  next
    case (OpReserve t u sid c now)
    show thesis
    proof (cases "fenceLocked s t u c False '''' = None \<and> u \<noteq> ''''
        \<and> map_of (ms_reservations s) (reservationKey t sid) = None")
      case True
      then show thesis by (intro reserved[OF OpReserve]) (simp_all add: OpReserve store_Reserve_def Let_def)
    next
      case False
      then show thesis by (intro same) (auto simp: OpReserve store_Reserve_def Let_def split: option.splits)
    qed
  qed (use None in \<open>simp_all add: same op_row_def\<close>)
qed

lemma takeWhile_until: "c \<notin> set t \<Longrightarrow> takeWhile (\<lambda>x. x \<noteq> c) (t @ c # r) = t"
  by (induction t) auto

lemma reservationKey_inj:
  assumes "CHR ''/'' \<notin> set t" "CHR ''/'' \<notin> set t'" "reservationKey t sid = reservationKey t' sid'"
  shows "t = t' \<and> sid = sid'"
proof -
  have "takeWhile (\<lambda>c. c \<noteq> CHR ''/'') (reservationKey t sid) = t"
       "takeWhile (\<lambda>c. c \<noteq> CHR ''/'') (reservationKey t' sid') = t'"
    using assms(1,2) by (simp_all add: reservationKey_def takeWhile_until)
  then have "t = t'" using assms(3) by simp
  then show ?thesis using assms(3) by (simp add: reservationKey_def)
qed

lemma MarkPodReleased_lawful: "keeps_identity (MarkPodReleased now)" "follows_table (MarkPodReleased now)"
  by (auto simp: keeps_identity_def follows_table_def MarkPodReleased_def split: if_splits)

lemma store_inv_New: "store_inv (NewWithClock markers copier cap)"
  by (simp add: store_inv_def NewWithClock_def)

lemma store_inv_apply:
  assumes inv: "store_inv s" and lawful: "lawful_op op"
  shows "store_inv (apply_op op s)"
proof -
  have wf: "wf_map (ms_sessions s)" "wf_map (ms_reservations s)" using inv by (simp_all add: store_inv_def)
  have ids: "se_ID r = k" if "map_of (ms_sessions s) k = Some r" for k r
    using inv that by (simp add: store_inv_def)
  have keys: "k = reservationKey (rv_TenantID r) (rv_SessionID r)" if "map_of (ms_reservations s) k = Some r" for k r
    using inv that by (simp add: store_inv_def)
  have "wf_map (ms_sessions (apply_op op s))
      \<and> (\<forall>k r. map_of (ms_sessions (apply_op op s)) k = Some r \<longrightarrow> se_ID r = k)"
  proof (cases rule: apply_op_sessions[of op s])
    case (updated t sid m clock row)
    from updated(2) obtain prev r where "map_of (ms_sessions s) sid = Some prev" "m prev = Inr r"
        "se_ID row = se_ID r" "apply_op op s = s\<lparr>ms_sessions := AList.update sid row (ms_sessions s)\<rparr>"
      by (rule store_Update_Inr) simp
    moreover have "keeps_identity m" using lawful updated(1) by (simp add: lawful_op_def)
    ultimately have "se_ID row = sid" "ms_sessions (apply_op op s) = AList.update sid row (ms_sessions s)"
      using ids by (simp_all add: keeps_identity_def)
    then show ?thesis using wf ids by simp
  qed (use wf ids in \<open>auto simp: map_of_filter split: option.splits if_splits\<close>)
  moreover have "wf_map (ms_reservations (apply_op op s))
      \<and> (\<forall>k r. map_of (ms_reservations (apply_op op s)) k = Some r \<longrightarrow> k = reservationKey (rv_TenantID r) (rv_SessionID r))"
    by (cases rule: apply_op_reservations[of op s])
      (use wf keys in \<open>auto simp: map_of_filter split: option.splits if_splits\<close>)
  ultimately show ?thesis by (simp add: store_inv_def)
qed

lemma store_inv_fold: "store_inv s \<Longrightarrow> list_all lawful_op ops \<Longrightarrow> store_inv (fold apply_op ops s)"
  by (induction ops arbitrary: s) (simp_all add: store_inv_apply)

lemma tenant_rows_frame:
  assumes inv: "store_inv s" and lawful: "lawful_op op" and other: "op_tenant op \<noteq> Some t"
  shows "tenant_rows (apply_op op s) t = tenant_rows s t"
proof -
  have wf: "wf_map (ms_sessions s)" using inv by (simp add: store_inv_def)
  show ?thesis
  proof (cases rule: apply_op_sessions[of op s])
    case (created sess now)
    have "op_tenant op = Some (se_TenantID sess)"
      using created(1) by (cases op) (simp_all add: op_tenant_def op_row_def)
    then show ?thesis
      using created other by (auto simp: tenant_rows_def split: if_splits)
  next
    case (updated t' sid m clock row)
    from updated(2) obtain prev r where p: "map_of (ms_sessions s) sid = Some prev" "se_TenantID prev = t'" "m prev = Inr r"
        "se_TenantID row = se_TenantID r" "apply_op op s = s\<lparr>ms_sessions := AList.update sid row (ms_sessions s)\<rparr>"
      by (rule store_Update_Inr) simp
    have "keeps_identity m" using lawful updated(1) by (simp add: lawful_op_def)
    then have "se_TenantID row = t'" using p by (simp add: keeps_identity_def)
    moreover have "t' \<noteq> t" using other updated(1) by (simp add: op_tenant_def)
    ultimately show ?thesis using p by (auto simp: tenant_rows_def split: if_splits)
  next
    case (removed P)
    then show ?thesis
      using other wf by (auto simp: tenant_rows_def map_of_filter split: option.splits if_splits)
  next
    case (deleted t' sid row)
    then show ?thesis
      using other by (auto simp: tenant_rows_def store_Get_Inr op_tenant_def split: if_splits)
  qed (simp add: tenant_rows_def)
qed

lemma tenant_reservations_frame:
  assumes inv: "store_inv s" and other: "op_tenant op \<noteq> Some t"
    and slash: "CHR ''/'' \<notin> set t" "\<And>t'. op_tenant op = Some t' \<Longrightarrow> CHR ''/'' \<notin> set t'"
  shows "tenant_reservations (apply_op op s) t = tenant_reservations s t"
proof -
  have wf: "wf_map (ms_reservations s)" using inv by (simp add: store_inv_def)
  have keys: "k = reservationKey (rv_TenantID r) (rv_SessionID r)" if "map_of (ms_reservations s) k = Some r" for k r
    using inv that by (simp add: store_inv_def)
  have "map_of (ms_reservations (apply_op op s)) k = Some r \<longleftrightarrow> map_of (ms_reservations s) k = Some r"
    if t: "rv_TenantID r = t" for k r
  proof (cases rule: apply_op_reservations[of op s])
    case (dropped t' sid)
    have "k \<noteq> reservationKey t' sid" if "map_of (ms_reservations s) k = Some r"
      using keys[OF that] t reservationKey_inj[of t t'] slash(1) slash(2)[OF dropped(1)] dropped(1) other by auto
    then show ?thesis using dropped(2) by auto
  next
    case (filtered P)
    have "P (k, r)" using filtered(1)[of r k] other t by simp
    then show ?thesis
      using filtered(2) wf by (auto simp: map_of_filter split: option.splits)
  next
    case (reserved t' u sid c now)
    then have "t' \<noteq> t" using other by (simp add: op_tenant_def)
    then show ?thesis using reserved(3,4) t by auto
  qed simp
  then show ?thesis by (auto simp: tenant_reservations_def)
qed

lemma tenant_frame_fold:
  assumes "store_inv s" "list_all lawful_op ops" "CHR ''/'' \<notin> set t"
    and "list_all (\<lambda>op. case op_tenant op of None \<Rightarrow> True | Some t' \<Rightarrow> t' \<noteq> t \<and> CHR ''/'' \<notin> set t') ops"
  shows "tenant_rows (fold apply_op ops s) t = tenant_rows s t
      \<and> tenant_reservations (fold apply_op ops s) t = tenant_reservations s t"
  using assms
proof (induction ops arbitrary: s)
  case (Cons op ops)
  have o: "op_tenant op \<noteq> Some t" "\<And>t'. op_tenant op = Some t' \<Longrightarrow> CHR ''/'' \<notin> set t'"
    using Cons.prems(4) by (auto split: option.splits)
  show ?case
    using Cons.IH[of "apply_op op s"] Cons.prems store_inv_apply[of s op]
      tenant_rows_frame[OF _ _ o(1), of s] tenant_reservations_frame[OF _ o(1) Cons.prems(3) o(2), of s]
    by simp
qed simp

lemma fence_parent_live:
  assumes "fenceLocked s t u (d > 0) True p = None" "0 < (d :: 32 word)"
  shows "\<not> parentTerminalLocked s t p"
  using assms by (auto simp: fenceLocked_def Let_def Refusal_def split: sum.splits option.splits if_splits)

lemma terminal_stays:
  assumes "follows_table m" "m r = Inr r'" "api_IsTerminal (se_State r)"
  shows "se_State r' = se_State r"
proof -
  have "\<not> edge session_ValidTransitions (se_State r) (se_State r')"
    using session_table.edge_source[of "se_State r" "se_State r'"] assms(3) by auto
  then show ?thesis using assms(1,2) by (auto simp: follows_table_def session_IsValid_edge)
qed

lemma parentTerminal_step:
  assumes inv: "store_inv s" and lawful: "lawful_op op" and dead: "parentTerminalLocked s t p"
    and no: "\<And>sess. op_row op = Some sess \<Longrightarrow> se_ID sess \<noteq> p"
  shows "parentTerminalLocked (apply_op op s) t p"
proof (cases rule: apply_op_sessions[of op s])
  case same
  then show ?thesis using dead by (simp add: parentTerminalLocked_def)
next
  case (created sess now)
  then show ?thesis using dead no by (simp add: parentTerminalLocked_def)
next
  case (updated t' sid m clock row)
  from updated(2) obtain prev r where u: "map_of (ms_sessions s) sid = Some prev" "m prev = Inr r"
      "se_TenantID row = se_TenantID r" "se_State row = se_State r"
      "apply_op op s = s\<lparr>ms_sessions := AList.update sid row (ms_sessions s)\<rparr>"
    by (rule store_Update_Inr) simp
  have m: "keeps_identity m" "follows_table m" using lawful updated(1) by (simp_all add: lawful_op_def)
  have "se_TenantID row = se_TenantID prev" using m(1) u(2,3) by (simp add: keeps_identity_def)
  moreover have "api_IsTerminal (se_State prev) \<Longrightarrow> se_State row = se_State prev"
    using terminal_stays[OF m(2) u(2)] u(4) by simp
  ultimately show ?thesis
    using dead u(1) unfolding u(5) by (auto simp: parentTerminalLocked_def split: option.splits if_splits)
next
  case (removed P)
  then show ?thesis
    using dead inv by (auto simp: parentTerminalLocked_def store_inv_def map_of_filter split: option.splits if_splits)
next
  case (deleted t' sid row)
  then show ?thesis using dead by (auto simp: parentTerminalLocked_def split: option.splits if_splits)
qed

lemma children_step:
  assumes inv: "store_inv s" and lawful: "lawful_op op" and dead: "parentTerminalLocked s t p"
  shows "children_of (apply_op op s) t p \<subseteq> children_of s t p"
proof (cases rule: apply_op_sessions[of op s])
  case same
  then show ?thesis by (simp add: children_of_def)
next
  case (created sess now)
  then have "\<not> (se_TenantID sess = t \<and> se_ParentSessionID sess = p \<and> 0 < se_DelegationDepth sess)"
    using fence_parent_live[OF created(3)] dead by auto
  then show ?thesis using created(4) by (auto simp: children_of_def split: if_splits)
next
  case (updated t' sid m clock row)
  from updated(2) obtain prev r where u: "map_of (ms_sessions s) sid = Some prev" "m prev = Inr r"
      "se_TenantID row = se_TenantID r" "se_ParentSessionID row = se_ParentSessionID r"
      "se_DelegationDepth row = se_DelegationDepth r"
      "apply_op op s = s\<lparr>ms_sessions := AList.update sid row (ms_sessions s)\<rparr>"
    by (rule store_Update_Inr) simp
  have "keeps_identity m" using lawful updated(1) by (simp add: lawful_op_def)
  then have "se_TenantID row = se_TenantID prev" "se_ParentSessionID row = se_ParentSessionID prev"
      "se_DelegationDepth row = se_DelegationDepth prev"
    using u(2-5) by (simp_all add: keeps_identity_def)
  then show ?thesis using u(1) unfolding u(6) by (auto simp: children_of_def split: if_splits)
next
  case (removed P)
  then show ?thesis
    using inv by (auto simp: children_of_def store_inv_def map_of_filter split: option.splits if_splits)
next
  case (deleted t' sid row)
  then show ?thesis by (auto simp: children_of_def split: if_splits)
qed

lemma children_fold:
  assumes "store_inv s" "list_all lawful_op ops" "parentTerminalLocked s t p"
    and "list_all (\<lambda>op. case op_row op of None \<Rightarrow> True | Some sess \<Rightarrow> se_ID sess \<noteq> p) ops"
  shows "children_of (fold apply_op ops s) t p \<subseteq> children_of s t p"
  using assms
proof (induction ops arbitrary: s)
  case (Cons op ops)
  have no: "se_ID sess \<noteq> p" if "op_row op = Some sess" for sess using Cons.prems(4) that by simp
  have l: "lawful_op op" using Cons.prems(2) by simp
  show ?case
    using Cons.IH[OF store_inv_apply[OF Cons.prems(1) l] _ parentTerminal_step[OF Cons.prems(1) l Cons.prems(3) no]]
      children_step[OF Cons.prems(1) l Cons.prems(3)] Cons.prems(2,4) by auto
qed simp

text \<open>Slots.\<close>

lemma w32_id: "0 \<le> n \<Longrightarrow> n < 2 ^ 31 \<Longrightarrow> w32 n = n"
  unfolding w32_def sint_sbintrunc' by (rule signed_take_bit_int_eq_self) simp_all

lemma set_pod_holders:
  "set (pod_holders s now pod) =
     {se_ID r | r. r \<in> set (rows s) \<and> se_PodAssignment r = pod \<and> holdsPodLocked s now r} \<union> fst ` set (pod_slots s pod)"
  by (auto simp: pod_holders_def)

lemma distinct_pod_holders: "distinct (pod_holders s now pod)"
  by (simp add: pod_holders_def)

lemma length_removeAll_distinct:
  "distinct xs \<Longrightarrow> length (removeAll x xs) = card (set xs - {x})"
  by (simp add: distinct_card[symmetric] distinct_removeAll)

lemma HoldsPod_antimono: "now \<le> now' \<Longrightarrow> HoldsPod r now' cap \<Longrightarrow> HoldsPod r now cap"
  by (auto simp: HoldsPod_def InPostTerminalWindow_def time_before_def split: if_splits)

lemma pod_slots_record:
  "set (map fst (pod_slots (snd (recordSlotReservationLocked s p sid now)) pod))
     = set (map fst (pod_slots s pod)) \<union> (if p = pod then {sid} else {})"
  by (auto simp: recordSlotReservationLocked_def pod_slots_def Let_def dom_update image_iff
      split: option.splits) (force dest: map_of_SomeD)

lemma set_delete_subset: "set (AList.delete k m) \<subseteq> set m"
  by (auto simp: AList.delete_eq)

lemma pod_slots_delete:
  "set (pod_slots (DeleteSlotReservation s p sid) pod) \<subseteq> set (pod_slots s pod)"
  by (auto simp: DeleteSlotReservation_def pod_slots_def Let_def split: option.splits if_splits
      dest: subsetD[OF set_delete_subset])

lemma map_of_map_val: "map_of (map (\<lambda>(p, m). (p, f p m)) xs) k = map_option (f k) (map_of xs k)"
  by (induction xs) auto

lemma pod_slots_reclaim:
  assumes "wf_map (ms_slotReservations s)"
  shows "set (pod_slots (snd (ReclaimSlotReservations s cutoff)) pod) \<subseteq> set (pod_slots s pod)"
proof -
  have "wf_map (map (\<lambda>(p, m). (p, f p m)) (ms_slotReservations s))" for f :: "string \<Rightarrow> (string, go_time) go_map \<Rightarrow> (string, go_time) go_map"
    using assms by (simp add: wf_map_def comp_def case_prod_beta)
  then show ?thesis
    by (auto simp: ReclaimSlotReservations_def pod_slots_def Let_def map_of_filter map_of_map_val
        split: option.splits if_splits)
qed

lemma wf_slots_step:
  assumes "slot_step pod mx (now, s) (now', s')" "wf_map (ms_slotReservations s)"
  shows "wf_map (ms_slotReservations s')"
  using assms
proof cases
  case (reserve p sid m n granted)
  then show ?thesis using assms(2)
    by (auto simp: ReserveSlotUnderLock_def recordSlotReservationLocked_def Let_def split: if_splits)
next
  case (release p sid)
  then show ?thesis using assms(2)
    by (auto simp: DeleteSlotReservation_def Let_def split: option.splits)
next
  case (reclaim cutoff)
  then show ?thesis using assms(2)
    by (auto simp: ReclaimSlotReservations_def Let_def wf_map_def comp_def case_prod_beta intro!: distinct_map_filter)
next
  case (update t sid m clock row)
  then show ?thesis using assms(2) by (auto elim: store_Update_Inr)
next
  case (delete t sid)
  then show ?thesis using assms(2) by (auto simp: store_Delete_def split: sum.splits)
qed simp

lemma holders_mono:
  assumes "\<And>r. r \<in> set (rows s') \<Longrightarrow> se_PodAssignment r = pod \<Longrightarrow> holdsPodLocked s' now' r \<Longrightarrow>
        r \<in> set (rows s) \<and> holdsPodLocked s now r \<or> se_ID r \<in> set (pod_holders s now pod)"
    and "set (map fst (pod_slots s' pod)) \<subseteq> set (map fst (pod_slots s pod))"
  shows "set (pod_holders s' now' pod) \<subseteq> set (pod_holders s now pod)"
proof
  fix x assume "x \<in> set (pod_holders s' now' pod)"
  then consider r where "x = se_ID r" "r \<in> set (rows s')" "se_PodAssignment r = pod" "holdsPodLocked s' now' r"
    | "x \<in> set (map fst (pod_slots s' pod))"
    unfolding set_pod_holders by auto
  then show "x \<in> set (pod_holders s now pod)"
  proof cases
    case 1
    with assms(1)[OF 1(2-4)] show ?thesis unfolding set_pod_holders by blast
  next
    case 2
    with assms(2) show ?thesis unfolding set_pod_holders by auto
  qed
qed

lemma rows_update_subset:
  assumes "wf_map (ms_sessions s)"
  shows "set (rows (s\<lparr>ms_sessions := AList.update sid row (ms_sessions s)\<rparr>)) \<subseteq> insert row (set (rows s))"
  using assms by (auto simp: set_update)

lemma holders_reserve:
  assumes "ReserveSlotUnderLock s pod sid mx now = Inr (n, granted, s')" "mx < 2 ^ 31"
    and "card (set (pod_holders s now pod)) \<le> nat mx"
  shows "card (set (pod_holders s' now pod)) \<le> nat mx"
proof -
  let ?h = "set (pod_holders s now pod)"
  have small: "int (card (?h - {sid})) < 2 ^ 31"
  proof -
    have "card (?h - {sid}) \<le> card ?h" by (simp add: card_mono)
    then have "int (card (?h - {sid})) \<le> int (nat mx)" using assms(3) by (intro of_nat_mono) (rule order_trans)
    moreover have "int (nat mx) < 2 ^ 31" using assms(2) by simp
    ultimately show ?thesis by (rule order_le_less_trans)
  qed
  have occ: "occupancyLocked s now pod sid = int (card (?h - {sid}))"
    unfolding occupancyLocked_def length_removeAll_distinct[OF distinct_pod_holders] by (rule w32_id) (use small in simp_all)
  show ?thesis
  proof (cases "s' = s")
    case False
    then have s': "s' = snd (recordSlotReservationLocked s pod sid now)" and "int (card (?h - {sid})) < mx"
      using assms(1) by (auto simp: ReserveSlotUnderLock_def Let_def occ split: if_splits)
    have r: "rows s' = rows s" "ms_postTerminalCap s' = ms_postTerminalCap s"
      by (simp_all add: s' recordSlotReservationLocked_def Let_def)
    have "card (set (pod_holders s' now pod)) = card (insert sid ?h)"
      using pod_slots_record[of s pod sid now pod] unfolding set_pod_holders r holdsPodLocked_def s'[symmetric] by simp
    also have "\<dots> = Suc (card (?h - {sid}))" by (rule card.insert_remove) simp
    finally have "card (set (pod_holders s' now pod)) = Suc (card (?h - {sid}))" .
    then show ?thesis using \<open>int (card (?h - {sid})) < mx\<close> by linarith
  qed (use assms(3) in simp)
qed

lemma slot_step_bound:
  assumes st: "slot_step pod mx (now, s) (now', s')" and mx: "mx < 2 ^ 31" "pod \<noteq> ''''"
    and wf: "wf_map (ms_slotReservations s)" "wf_map (ms_sessions s)"
    and le: "card (set (pod_holders s now pod)) \<le> nat mx"
  shows "card (set (pod_holders s' now' pod)) \<le> nat mx"
proof -
  have mono: ?thesis if "set (pod_holders s' now' pod) \<subseteq> set (pod_holders s now pod)"
    using card_mono[OF finite_set that] le by simp
  from st show ?thesis
  proof cases
    case tick
    then show ?thesis
      by (intro mono holders_mono) (auto simp: holdsPodLocked_def intro: HoldsPod_antimono)
  next
    case (reserve p sid m n granted)
    show ?thesis
    proof (cases "p = pod")
      case True
      then show ?thesis using reserve holders_reserve mx(1) le by blast
    next
      case False
      have "rows s' = rows s \<and> ms_postTerminalCap s' = ms_postTerminalCap s
          \<and> set (map fst (pod_slots s' pod)) \<subseteq> set (map fst (pod_slots s pod))"
        using reserve(2) pod_slots_record[of s p sid now pod] False
        by (auto simp: ReserveSlotUnderLock_def Let_def recordSlotReservationLocked_def split: if_splits)
      then show ?thesis
        using reserve(1) by (intro mono holders_mono) (auto simp: holdsPodLocked_def)
    qed
  next
    case (release p sid)
    then show ?thesis
      using image_mono[OF pod_slots_delete[of s p sid pod], of fst]
      by (intro mono holders_mono) (auto simp: holdsPodLocked_def DeleteSlotReservation_def Let_def split: option.splits)
  next
    case (reclaim cutoff)
    then show ?thesis
      using image_mono[OF pod_slots_reclaim[OF wf(1), of cutoff pod], of fst]
      by (intro mono holders_mono) (auto simp: holdsPodLocked_def ReclaimSlotReservations_def Let_def)
  next
    case (update t sid m clock row)
    from update(2) have s': "s' = s\<lparr>ms_sessions := AList.update sid row (ms_sessions s)\<rparr>"
      by (rule store_Update_Inr) simp
    show ?thesis
      using update rows_update_subset[OF wf(2), of sid row]
      by (intro mono holders_mono) (auto simp: s' holdsPodLocked_def pod_slots_def)
  next
    case (delete t sid)
    then have s': "s' = s\<lparr>ms_sessions := AList.delete sid (ms_sessions s)\<rparr>"
      by (auto simp: store_Delete_def split: sum.splits)
    show ?thesis
      using delete subsetD[OF set_delete_subset, of _ sid "ms_sessions s"]
      by (intro mono holders_mono) (force simp: s' holdsPodLocked_def pod_slots_def)+
  qed
qed

lemma slot_steps_bound:
  assumes "(slot_step pod mx)\<^sup>*\<^sup>* c c'" "mx < 2 ^ 31" "pod \<noteq> ''''"
    and "wf_map (ms_slotReservations (snd c))" "wf_map (ms_sessions (snd c))"
    and "card (set (pod_holders (snd c) (fst c) pod)) \<le> nat mx"
  shows "card (set (pod_holders (snd c') (fst c') pod)) \<le> nat mx
       \<and> wf_map (ms_slotReservations (snd c')) \<and> wf_map (ms_sessions (snd c'))"
  using assms(1)
proof (induction rule: rtranclp_induct)
  case base
  then show ?case using assms by simp
next
  case (step c1 c2)
  obtain n1 s1 n2 s2 where c: "c1 = (n1, s1)" "c2 = (n2, s2)" by (cases c1, cases c2)
  have "wf_map (ms_sessions s2)"
    using step.hyps(2) step.IH unfolding c
    by cases (auto elim!: store_Update_Inr simp: store_Delete_def ReserveSlotUnderLock_def Let_def split: sum.splits if_splits)
  then show ?case
    using step.hyps(2) step.IH slot_step_bound[OF _ assms(2,3)] wf_slots_step unfolding c by auto
qed

lemma reservationKey_one_slash:
  assumes "CHR ''/'' \<notin> set t" "CHR ''/'' \<notin> set sid" "reservationKey t sid = reservationKey t' sid'"
  shows "t' = t \<and> sid' = sid"
proof -
  have "count_list (reservationKey t sid) (CHR ''/'') = 1"
    using assms(1,2) by (simp add: reservationKey_def count_list_0_iff)
  then have "count_list t' (CHR ''/'') = 0"
    unfolding assms(3) by (simp add: reservationKey_def)
  then show ?thesis using reservationKey_inj[OF assms(1) _ assms(3)] by (auto simp: count_list_0_iff)
qed

lemma no_reservation_step:
  assumes "wf_map (ms_reservations s)" "\<And>sid c now. op \<noteq> OpReserve t u sid c now"
    and "\<And>k r. map_of (ms_reservations s) k = Some r \<Longrightarrow> \<not> (rv_TenantID r = t \<and> rv_UserID r = u)"
    and "map_of (ms_reservations (apply_op op s)) k = Some r"
  shows "\<not> (rv_TenantID r = t \<and> rv_UserID r = u)"
proof (cases rule: apply_op_reservations[of op s])
  case (reserved t' u' sid c now)
  then show ?thesis using assms(2)[of sid c now] assms(3,4) by (auto split: if_splits)
qed (use assms in \<open>auto simp: map_of_filter split: option.splits if_splits\<close>)

lemma no_reservation_fold:
  assumes "store_inv s" "list_all lawful_op ops" "\<And>sid c now. OpReserve t u sid c now \<notin> set ops"
    and "\<And>k r. map_of (ms_reservations s) k = Some r \<Longrightarrow> \<not> (rv_TenantID r = t \<and> rv_UserID r = u)"
    and "map_of (ms_reservations (fold apply_op ops s)) k = Some r"
  shows "\<not> (rv_TenantID r = t \<and> rv_UserID r = u)"
  using assms
proof (induction ops arbitrary: s)
  case (Cons op ops)
  have wf: "wf_map (ms_reservations s)" using Cons.prems(1) by (simp add: store_inv_def)
  have no: "op \<noteq> OpReserve t u sid c now" for sid c now using Cons.prems(3)[of sid c now] by auto
  have "\<not> (rv_TenantID r' = t \<and> rv_UserID r' = u)" if "map_of (ms_reservations (apply_op op s)) k' = Some r'" for k' r'
    by (rule no_reservation_step[OF wf no Cons.prems(4) that])
  then show ?case
    using Cons.IH[of "apply_op op s"] Cons.prems store_inv_apply[of s op] by simp
qed auto

lemma requireReservation_refuses:
  assumes "store_inv s" "CHR ''/'' \<notin> set (se_TenantID row)" "CHR ''/'' \<notin> set (se_ID row)" "se_UserID row \<noteq> ''''"
    and "\<And>k r. map_of (ms_reservations s) k = Some r \<Longrightarrow>
          \<not> (rv_TenantID r = se_TenantID row \<and> rv_UserID r = se_UserID row)"
  shows "requireReservationLocked s row = Some (ErrRefused (ReservationEndedRefusal (se_UserID row)))"
proof (cases "map_of (ms_reservations s) (reservationKey (se_TenantID row) (se_ID row))")
  case None
  then show ?thesis using assms(4) by (simp add: requireReservationLocked_def)
next
  case (Some r)
  then have "reservationKey (se_TenantID row) (se_ID row) = reservationKey (rv_TenantID r) (rv_SessionID r)"
    using assms(1) by (simp add: store_inv_def)
  from reservationKey_one_slash[OF assms(2,3) this] assms(5)[OF Some] Some assms(4)
  show ?thesis by (simp add: requireReservationLocked_def)
qed

lemma store_Update_progress:
  assumes "store_Update s t sid m clock = Inr (row, s')" "map_of (ms_sessions s) sid = Some r"
  shows "se_RecoveryGeneration r \<le> se_RecoveryGeneration row \<and> se_CoordinationGeneration r \<le> se_CoordinationGeneration row
       \<and> se_RetryCount r \<le> se_RetryCount row \<and> se_LastSeq r \<le> se_LastSeq row
       \<and> se_UpdatedAt r < se_UpdatedAt row
       \<and> se_StateEnteredAt row = (if se_State row = se_State r then se_StateEnteredAt r else se_UpdatedAt row)"
  using assms(1) by (rule store_Update_Inr) (use assms(2) in \<open>simp add: monotonicNext_less\<close>)

section \<open>Properties\<close>



text \<open>
  C5. No delegated child is ever inserted under a dead parent: once a parent row is
  terminal (or gone), the set of its delegated children can only shrink under any
  further operations whose mutators follow the session state table, as long as the
  parent's identifier is not created again.
\<close>

theorem no_child_after_parent_terminal:
  assumes "list_all lawful_op (before @ ops)"
    and "s = fold apply_op before (NewWithClock markers copier cap)"
    and "parentTerminalLocked s t p"
    and "list_all (\<lambda>op. case op_row op of None \<Rightarrow> True | Some sess \<Rightarrow> se_ID sess \<noteq> p) ops"
  shows "children_of (fold apply_op ops s) t p \<subseteq> children_of s t p"
  using children_fold[OF _ _ assms(3,4)] store_inv_fold[OF store_inv_New, of before] assms(1,2) by simp

theorem no_child_after_parent_terminal_witness:
  "children_of (fold apply_op [OpCreate ((demo_session ''a'' ''c'')\<lparr>se_ParentSessionID := ''p'', se_DelegationDepth := 1\<rparr>) 7]
      (apply_op (OpCreate ((demo_session ''a'' ''p'')\<lparr>se_State := Completed\<rparr>) 5) (NewWithClock None None 0))) ''a'' ''p''
   \<subseteq> children_of (apply_op (OpCreate ((demo_session ''a'' ''p'')\<lparr>se_State := Completed\<rparr>) 5) (NewWithClock None None 0)) ''a'' ''p''"
proof (rule no_child_after_parent_terminal[where before = "[OpCreate ((demo_session ''a'' ''p'')\<lparr>se_State := Completed\<rparr>) 5]"
      and markers = None and copier = None and cap = 0])
  show "parentTerminalLocked (apply_op (OpCreate ((demo_session ''a'' ''p'')\<lparr>se_State := Completed\<rparr>) 5) (NewWithClock None None 0)) ''a'' ''p''"
    by (simp add: store_Create_def createLocked_def fenceLocked_def NewWithClock_def Refusal_def no_markers_def
        parentTerminalLocked_def demo_session_def zero_session_def Let_def deleteOwnReservationLocked_def create_defaults_def)
qed (simp_all add: lawful_op_def op_row_def demo_session_def zero_session_def)







end
