(* ===== verification/Tree_Budget.thy ===== *)
theory Tree_Budget
  imports Lenny_Prelude Float64
begin

text \<open>
  The Redis-backed tree budget (\<^verbatim>\<open>pkg/gateway/mcpfabric/delegationtree/treebudget\<close>:
  \<^verbatim>\<open>treebudget.go\<close> with its two Lua scripts, and \<^verbatim>\<open>checkpoint.go\<close>). Redis itself is not
  part of the repository: its commands are the fields of the record \<open>redis\<close>, an
  argument of every definition that talks to it, and what the scripts rely on is the
  predicate \<open>redis_laws\<close>, the documented behaviour of the commands on integer keys. A
  script runs atomically, but Redis does not roll back a script that fails half way, so
  a failed script returns the keyspace as it was at the failing command. Lua numbers are
  doubles: the comparisons round through \<open>f64\<close>. A numeric command argument is printed
  with 17 significant digits, so an argument of magnitude \<open>10\<^sup>1\<^sup>7\<close> or more is not an
  integer for Redis.
\<close>

section \<open>Redis\<close>

record 'r redis =
  rd_get :: "'r \<Rightarrow> string \<Rightarrow> int option"
  rd_set_nx_ex :: "'r \<Rightarrow> string \<Rightarrow> int \<Rightarrow> int \<Rightarrow> 'r option"
  rd_set_ex :: "'r \<Rightarrow> string \<Rightarrow> int \<Rightarrow> int \<Rightarrow> 'r option"
  rd_set :: "'r \<Rightarrow> string \<Rightarrow> int \<Rightarrow> 'r"
  rd_set_keepttl :: "'r \<Rightarrow> string \<Rightarrow> int \<Rightarrow> 'r"
  rd_incrby :: "'r \<Rightarrow> string \<Rightarrow> int \<Rightarrow> ('r \<times> int) option"
  rd_decrby :: "'r \<Rightarrow> string \<Rightarrow> int \<Rightarrow> ('r \<times> int) option"
  rd_ttl :: "'r \<Rightarrow> string \<Rightarrow> int"
  rd_expire :: "'r \<Rightarrow> string \<Rightarrow> int \<Rightarrow> 'r"
  rd_del :: "'r \<Rightarrow> string \<Rightarrow> 'r"
  rd_scan :: "'r \<Rightarrow> string list"

definition rd_val :: "'r redis \<Rightarrow> 'r \<Rightarrow> string \<Rightarrow> int" where
  "rd_val R s k = (case rd_get R s k of None \<Rightarrow> 0 | Some v \<Rightarrow> v)"

text \<open>
  The documented behaviour: \<^verbatim>\<open>EXISTS\<close> is \<^verbatim>\<open>GET\<close> answering a value; \<^verbatim>\<open>SET\<close> writes and
  leaves other keys alone, with \<^verbatim>\<open>NX\<close> only on an absent key; \<^verbatim>\<open>INCRBY\<close> and \<^verbatim>\<open>DECRBY\<close>
  take an absent key as zero and refuse a result outside the 64-bit range; a positive
  expiry changes no value; a scan lists the keys that exist.
\<close>

definition redis_laws :: "'r redis \<Rightarrow> bool" where
  "redis_laws R \<longleftrightarrow>
     (\<forall>s k v t. 0 < t \<longrightarrow> (\<exists>s'. rd_set_nx_ex R s k v t = Some s'
         \<and> rd_get R s' = (rd_get R s)(k := (case rd_get R s k of None \<Rightarrow> Some v | Some w \<Rightarrow> Some w))))
   \<and> (\<forall>s k v t. 0 < t \<longrightarrow> (\<exists>s'. rd_set_ex R s k v t = Some s' \<and> rd_get R s' = (rd_get R s)(k := Some v)))
   \<and> (\<forall>s k v. rd_get R (rd_set R s k v) = (rd_get R s)(k := Some v))
   \<and> (\<forall>s k v. rd_get R (rd_set_keepttl R s k v) = (rd_get R s)(k := Some v))
   \<and> (\<forall>s k d. rd_incrby R s k d = None \<longleftrightarrow> \<not> is_int64 (rd_val R s k + d))
   \<and> (\<forall>s k d s' v. rd_incrby R s k d = Some (s', v) \<longrightarrow>
         v = rd_val R s k + d \<and> rd_get R s' = (rd_get R s)(k := Some v))
   \<and> (\<forall>s k d. rd_decrby R s k d = None \<longleftrightarrow> \<not> is_int64 (rd_val R s k - d))
   \<and> (\<forall>s k d s' v. rd_decrby R s k d = Some (s', v) \<longrightarrow>
         v = rd_val R s k - d \<and> rd_get R s' = (rd_get R s)(k := Some v))
   \<and> (\<forall>s k t. 0 < t \<longrightarrow> rd_get R (rd_expire R s k t) = rd_get R s)
   \<and> (\<forall>s k. rd_get R (rd_del R s k) = (rd_get R s)(k := None))
   \<and> (\<forall>s k. k \<in> set (rd_scan R s) \<longleftrightarrow> rd_get R s k \<noteq> None)"

section \<open>Reservations\<close>

definition DefaultMaxTreeMemoryBytes :: int where
  "DefaultMaxTreeMemoryBytes = 2097152"

definition PerNodeMemoryBytes :: int where
  "PerNodeMemoryBytes = 12 * 1024"

record tree_reservation =
  tr_RootSessionID :: string
  tr_ParentSessionID :: string
  tr_TreeSizeCap :: int
  tr_TreeSizeDelta :: int
  tr_TreeMemoryCap :: int
  tr_TreeMemoryDelta :: int
  tr_ParallelChildrenCap :: int
  tr_ParallelChildrenDelta :: int
  tr_ChildrenTotalCap :: int
  tr_ChildrenTotalDelta :: int
  tr_TokenCap :: int
  tr_TokenDelta :: int
  tr_CreateTree :: bool

record tree_totals =
  tt_TreeSize :: int
  tt_TreeMemory :: int
  tt_ParallelChildren :: int
  tt_ChildrenTotal :: int
  tt_Tokens :: int

definition axisName :: "string list" where
  "axisName = [''maxTreeSize'', ''maxTreeMemoryBytes'', ''maxParallelChildren'', ''maxChildrenTotal'', ''maxTokenBudget'']"

datatype budget_error =
    ErrEmptyRoot
  | BudgetExhaustedError string int int int
  | ErrTreeBudgetUnavailable
  | ErrTreeBudgetKeysExpired
  | ErrRedis

record reserver =
  rs_ttl :: duration

definition DefaultTTL :: duration where
  "DefaultTTL = 8 * 24 * 3600 * second"

definition NewReserver :: "duration \<Rightarrow> reserver" where
  "NewReserver ttl = \<lparr>rs_ttl = (if ttl \<le> 0 then DefaultTTL else ttl)\<rparr>"

definition root_prefix :: "string \<Rightarrow> string" where
  "root_prefix rootID = ''{'' @ rootID @ ''}:dlg:''"

definition tree_keys :: "tree_reservation \<Rightarrow> string list" where
  "tree_keys r =
    (let p = root_prefix (tr_RootSessionID r)
     in [p @ ''tree_size'', p @ ''tree_memory'', p @ ''parallel_children:'' @ tr_ParentSessionID r,
         p @ ''children_total:'' @ tr_ParentSessionID r, p @ ''tokens''])"

definition hwmKey :: "string \<Rightarrow> string" where
  "hwmKey rootID = root_prefix rootID @ ''parallel_children_hwm''"

definition tree_caps :: "tree_reservation \<Rightarrow> int list" where
  "tree_caps r = [tr_TreeSizeCap r, tr_TreeMemoryCap r, tr_ParallelChildrenCap r, tr_ChildrenTotalCap r, tr_TokenCap r]"

definition tree_deltas :: "tree_reservation \<Rightarrow> int list" where
  "tree_deltas r = [tr_TreeSizeDelta r, tr_TreeMemoryDelta r, tr_ParallelChildrenDelta r, tr_ChildrenTotalDelta r, tr_TokenDelta r]"

definition axisDelta :: "tree_reservation \<Rightarrow> nat \<Rightarrow> int" where
  "axisDelta r idx = (if 1 \<le> idx \<and> idx \<le> 5 then tree_deltas r ! (idx - 1) else 0)"

section \<open>The scripts\<close>

datatype script_result =
    ScriptError
  | StatusKeysExpired
  | StatusRejected nat int int
  | StatusAdmitted "int list"

text \<open>The integer a script prints for a Lua number argument.\<close>

definition lua_arg :: "int \<Rightarrow> int option" where
  "lua_arg d = (if \<bar>f64_of_int d\<bar> < 10 ^ 17 then Some \<lfloor>f64_of_int d\<rfloor> else None)"

text \<open>A Lua number returned to the client is truncated to an integer.\<close>

definition lua_ret :: "int \<Rightarrow> int" where
  "lua_ret v = \<lfloor>f64_of_int v\<rfloor>"

definition axis_over :: "int \<Rightarrow> int \<Rightarrow> int \<Rightarrow> bool" where
  "axis_over cur cap delta \<longleftrightarrow>
     cap > 0 \<and> delta > 0 \<and> f64_add (f64_of_int cur) (f64_of_int delta) > f64_of_int cap"

fun set_tree_keys :: "'r redis \<Rightarrow> int \<Rightarrow> string list \<Rightarrow> 'r \<Rightarrow> 'r option \<times> 'r" where
  "set_tree_keys R ttl [] s = (Some s, s)"
| "set_tree_keys R ttl (k # ks) s =
    (case rd_set_nx_ex R s k 0 ttl of None \<Rightarrow> (None, s) | Some s' \<Rightarrow> set_tree_keys R ttl ks s')"

fun first_over :: "nat \<Rightarrow> (int \<times> int \<times> int) list \<Rightarrow> (nat \<times> int \<times> int) option" where
  "first_over i [] = None"
| "first_over i ((cur, cap, delta) # xs) =
    (if axis_over cur cap delta then Some (i, cur, cap) else first_over (Suc i) xs)"

fun bump_axes :: "'r redis \<Rightarrow> int \<Rightarrow> (string \<times> int \<times> int) list \<Rightarrow> 'r \<Rightarrow> int list \<Rightarrow> int list option \<times> 'r" where
  "bump_axes R ttl [] s out = (Some out, s)"
| "bump_axes R ttl ((k, cur, delta) # xs) s out =
    (if delta = 0 then bump_axes R ttl xs s (out @ [cur])
     else case Option.bind (lua_arg delta) (rd_incrby R s k) of
            None \<Rightarrow> (None, s)
          | Some (s1, v) \<Rightarrow>
              (let s2 = (if rd_ttl R s1 k = - 1 then rd_expire R s1 k ttl else s1)
               in bump_axes R ttl xs s2 (out @ [v])))"

definition track_hwm :: "'r redis \<Rightarrow> int \<Rightarrow> string \<Rightarrow> int \<Rightarrow> 'r \<Rightarrow> 'r" where
  "track_hwm R ttl hwm pc s =
    (if f64_of_int pc > f64_of_int (rd_val R s hwm) then rd_expire R (rd_set R s hwm (lua_ret pc)) hwm ttl else s)"

definition reserveScript ::
  "'r redis \<Rightarrow> string list \<Rightarrow> string \<Rightarrow> int list \<Rightarrow> int list \<Rightarrow> int \<Rightarrow> bool \<Rightarrow> 'r \<Rightarrow> script_result \<times> 'r" where
  "reserveScript R keys hwm caps deltas ttl create s =
    (if rd_get R s (keys ! 4) = None \<and> \<not> create then (StatusKeysExpired, s)
     else case (if rd_get R s (keys ! 4) = None then set_tree_keys R ttl [keys ! 0, keys ! 1, keys ! 4] s else (Some s, s)) of
            (None, s') \<Rightarrow> (ScriptError, s')
          | (Some s0, _) \<Rightarrow>
              (let cur = map (rd_val R s0) keys
               in case first_over 1 (zip cur (zip caps deltas)) of
                    Some (i, c, cap) \<Rightarrow> (StatusRejected i (lua_ret c) (lua_ret cap), s0)
                  | None \<Rightarrow>
                      (case bump_axes R ttl (zip keys (zip cur deltas)) s0 [] of
                         (None, s1) \<Rightarrow> (ScriptError, s1)
                       | (Some out, s1) \<Rightarrow>
                           (StatusAdmitted (map lua_ret out), track_hwm R ttl hwm (out ! 2) s1))))"

fun drop_axes :: "'r redis \<Rightarrow> (string \<times> int) list \<Rightarrow> 'r \<Rightarrow> bool \<times> 'r" where
  "drop_axes R [] s = (True, s)"
| "drop_axes R ((k, delta) # xs) s =
    (if delta \<noteq> 0 \<and> rd_get R s k \<noteq> None then
       (case Option.bind (lua_arg delta) (rd_decrby R s k) of
          None \<Rightarrow> (False, s)
        | Some (s1, v) \<Rightarrow> drop_axes R xs (if v < 0 then rd_set_keepttl R s1 k 0 else s1))
     else drop_axes R xs s)"

definition returnScript :: "'r redis \<Rightarrow> string list \<Rightarrow> int list \<Rightarrow> 'r \<Rightarrow> script_result \<times> 'r" where
  "returnScript R keys deltas s =
    (if rd_get R s (keys ! 4) = None then (StatusKeysExpired, s)
     else case drop_axes R (zip keys deltas) s of
            (False, s') \<Rightarrow> (ScriptError, s')
          | (True, s') \<Rightarrow> (StatusAdmitted [], s'))"

section \<open>The reserver\<close>

text \<open>\<open>up\<close> is false when the client cannot reach Redis: the run fails and writes nothing.\<close>

definition ttl_seconds :: "reserver \<Rightarrow> int" where
  "ttl_seconds rs = rs_ttl rs div second"

definition budget_Reserve ::
  "'r redis \<Rightarrow> reserver \<Rightarrow> bool \<Rightarrow> tree_reservation \<Rightarrow> 'r \<Rightarrow> (budget_error + tree_totals) \<times> 'r" where
  "budget_Reserve R rs up r s =
    (if tr_RootSessionID r = '''' then (Inl ErrEmptyRoot, s)
     else if \<not> up then (Inl ErrTreeBudgetUnavailable, s)
     else case reserveScript R (tree_keys r) (hwmKey (tr_RootSessionID r)) (tree_caps r) (tree_deltas r)
                 (ttl_seconds rs) (tr_CreateTree r) s of
            (ScriptError, s') \<Rightarrow> (Inl ErrTreeBudgetUnavailable, s')
          | (StatusKeysExpired, s') \<Rightarrow> (Inl ErrTreeBudgetKeysExpired, s')
          | (StatusRejected idx cur cap, s') \<Rightarrow>
              (Inl (BudgetExhaustedError (if 1 \<le> idx \<and> idx \<le> length axisName then axisName ! (idx - 1) else ''unknown'')
                      cur cap (axisDelta r idx)), s')
          | (StatusAdmitted out, s') \<Rightarrow>
              (if length out < 5 then (Inl ErrTreeBudgetUnavailable, s')
               else (Inr \<lparr>tt_TreeSize = out ! 0, tt_TreeMemory = out ! 1, tt_ParallelChildren = out ! 2,
                          tt_ChildrenTotal = out ! 3, tt_Tokens = out ! 4\<rparr>, s')))"

definition budget_Return ::
  "'r redis \<Rightarrow> bool \<Rightarrow> tree_reservation \<Rightarrow> 'r \<Rightarrow> budget_error option \<times> 'r" where
  "budget_Return R up r s =
    (if tr_RootSessionID r = '''' then (Some ErrEmptyRoot, s)
     else if \<not> up then (Some ErrTreeBudgetUnavailable, s)
     else case returnScript R (tree_keys r) (tree_deltas r) s of
            (ScriptError, s') \<Rightarrow> (Some ErrTreeBudgetUnavailable, s')
          | (StatusKeysExpired, s') \<Rightarrow> (Some ErrTreeBudgetKeysExpired, s')
          | (_, s') \<Rightarrow> (None, s'))"

definition ObserveHighWatermark ::
  "'r redis \<Rightarrow> bool \<Rightarrow> string \<Rightarrow> 'r \<Rightarrow> (budget_error + (int \<times> bool)) \<times> 'r" where
  "ObserveHighWatermark R up rootID s =
    (if rootID = '''' then (Inl ErrEmptyRoot, s)
     else if \<not> up then (Inl ErrRedis, s)
     else case rd_get R s (hwmKey rootID) of
            None \<Rightarrow> (Inr (0, False), s)
          | Some v \<Rightarrow> (Inr (v, True), rd_del R s (hwmKey rootID)))"

definition RearmTree :: "'r redis \<Rightarrow> reserver \<Rightarrow> bool \<Rightarrow> string \<Rightarrow> string list \<Rightarrow> 'r \<Rightarrow> budget_error option \<times> 'r" where
  "RearmTree R rs up rootID parentIDs s =
    (if rootID = '''' then (Some ErrEmptyRoot, s)
     else if \<not> up then (Some ErrRedis, s)
     else let p = root_prefix rootID;
              keys = [p @ ''tree_size'', p @ ''tree_memory'', p @ ''tokens'', hwmKey rootID]
                   @ concat (map (\<lambda>q. [p @ ''parallel_children:'' @ q, p @ ''children_total:'' @ q]) parentIDs)
          in (None, fold (\<lambda>k s. rd_expire R s k (ttl_seconds rs)) keys s))"

definition PurgeRoot :: "'r redis \<Rightarrow> bool \<Rightarrow> string \<Rightarrow> 'r \<Rightarrow> (budget_error + int) \<times> 'r" where
  "PurgeRoot R up rootID s =
    (if rootID = '''' then (Inl ErrEmptyRoot, s)
     else if \<not> up then (Inl ErrRedis, s)
     else let doomed = remdups (filter (\<lambda>k. take (length (root_prefix rootID)) k = root_prefix rootID) (rd_scan R s))
          in (Inr (int (length doomed)), fold (\<lambda>k s. rd_del R s k) doomed s))"

section \<open>Checkpoints\<close>

record tree_counters =
  tc_TreeSize :: int
  tc_Tokens :: int
  tc_TreeMemory :: int

definition treeWideKeys :: "string \<Rightarrow> string list" where
  "treeWideKeys rootID = [root_prefix rootID @ ''tree_size'', root_prefix rootID @ ''tree_memory'', root_prefix rootID @ ''tokens'']"

definition budget_Snapshot :: "'r redis \<Rightarrow> bool \<Rightarrow> string \<Rightarrow> 'r \<Rightarrow> budget_error + tree_counters" where
  "budget_Snapshot R up rootID s =
    (if rootID = '''' then Inl ErrEmptyRoot
     else if \<not> up then Inl ErrRedis
     else let vals = map (rd_val R s) (treeWideKeys rootID)
          in Inr \<lparr>tc_TreeSize = vals ! 0, tc_Tokens = vals ! 2, tc_TreeMemory = vals ! 1\<rparr>)"

text \<open>The three writes are one transaction.\<close>

definition budget_Restore ::
  "'r redis \<Rightarrow> reserver \<Rightarrow> bool \<Rightarrow> string \<Rightarrow> tree_counters \<Rightarrow> 'r \<Rightarrow> budget_error option \<times> 'r" where
  "budget_Restore R rs up rootID c s =
    (if rootID = '''' then (Some ErrEmptyRoot, s)
     else if \<not> up then (Some ErrRedis, s)
     else let keys = treeWideKeys rootID; ttl = ttl_seconds rs
          in case Option.bind (rd_set_ex R s (keys ! 0) (tc_TreeSize c) ttl)
                    (\<lambda>s. Option.bind (rd_set_ex R s (keys ! 1) (tc_TreeMemory c) ttl)
                      (\<lambda>s. rd_set_ex R s (keys ! 2) (tc_Tokens c) ttl)) of
               None \<Rightarrow> (Some ErrRedis, s)
             | Some s' \<Rightarrow> (None, s'))"

section \<open>Specification\<close>

text \<open>What a reservation adds to a key, and the cap it carries for it.\<close>

definition delta_of :: "tree_reservation \<Rightarrow> string \<Rightarrow> int" where
  "delta_of r k = (case map_of (zip (tree_keys r) (tree_deltas r)) k of None \<Rightarrow> 0 | Some d \<Rightarrow> d)"

definition cap_of :: "tree_reservation \<Rightarrow> string \<Rightarrow> int" where
  "cap_of r k = (case map_of (zip (tree_keys r) (tree_caps r)) k of None \<Rightarrow> 0 | Some c \<Rightarrow> c)"

definition small_deltas :: "tree_reservation \<Rightarrow> bool" where
  "small_deltas r \<longleftrightarrow> list_all (\<lambda>d. 0 \<le> d \<and> d \<le> 2 ^ 53) (tree_deltas r)"

text \<open>
  What may happen to a keyspace: a reservation or a return through the reserver (or a
  failed attempt, with Redis down), a re-arm of the expiries, or the expiry of keys. A
  reservation carries, for every key with a bound, a positive cap within the bound.
\<close>

inductive budget_step :: "'r redis \<Rightarrow> reserver \<Rightarrow> (string \<Rightarrow> int) \<Rightarrow> 'r \<Rightarrow> 'r \<Rightarrow> bool" for R rs B where
  reserve: "budget_Reserve R rs up r s = (res, s') \<Longrightarrow> small_deltas r
    \<Longrightarrow> (\<And>k. k \<in> set (tree_keys r) \<Longrightarrow> 0 < B k \<Longrightarrow> 0 < cap_of r k \<and> cap_of r k \<le> B k)
    \<Longrightarrow> B (hwmKey (tr_RootSessionID r)) \<le> 0 \<Longrightarrow> budget_step R rs B s s'"
| return: "budget_Return R up r s = (res, s') \<Longrightarrow> small_deltas r \<Longrightarrow> budget_step R rs B s s'"
| rearm: "RearmTree R rs up rt parents s = (res, s') \<Longrightarrow> budget_step R rs B s s'"
| expire: "(\<And>k. rd_get R s' k = rd_get R s k \<or> rd_get R s' k = None) \<Longrightarrow> budget_step R rs B s s'"

text \<open>An in-memory Redis: each key has a value and an expiry, \<open>-1\<close> for none.\<close>

definition mem_redis :: "(string, int \<times> int) go_map redis" where
  "mem_redis =
    \<lparr>rd_get = (\<lambda>s k. map_option fst (map_of s k)),
     rd_set_nx_ex = (\<lambda>s k v t. if t \<le> 0 then None else Some (if map_of s k = None then AList.update k (v, t) s else s)),
     rd_set_ex = (\<lambda>s k v t. if t \<le> 0 then None else Some (AList.update k (v, t) s)),
     rd_set = (\<lambda>s k v. AList.update k (v, - 1) s),
     rd_set_keepttl = (\<lambda>s k v. AList.update k (v, case map_of s k of None \<Rightarrow> - 1 | Some (_, t) \<Rightarrow> t) s),
     rd_incrby = (\<lambda>s k d. let v = (case map_of s k of None \<Rightarrow> 0 | Some (x, _) \<Rightarrow> x) + d
        in if is_int64 v then Some (AList.update k (v, case map_of s k of None \<Rightarrow> - 1 | Some (_, t) \<Rightarrow> t) s, v) else None),
     rd_decrby = (\<lambda>s k d. let v = (case map_of s k of None \<Rightarrow> 0 | Some (x, _) \<Rightarrow> x) - d
        in if is_int64 v then Some (AList.update k (v, case map_of s k of None \<Rightarrow> - 1 | Some (_, t) \<Rightarrow> t) s, v) else None),
     rd_ttl = (\<lambda>s k. case map_of s k of None \<Rightarrow> - 2 | Some (_, t) \<Rightarrow> t),
     rd_expire = (\<lambda>s k t. case map_of s k of None \<Rightarrow> s | Some (v, _) \<Rightarrow> if t \<le> 0 then AList.delete k s else AList.update k (v, t) s),
     rd_del = (\<lambda>s k. AList.delete k s),
     rd_scan = (\<lambda>s. map fst s)\<rparr>"

text \<open>A reservation for the first child of a tree that may hold one.\<close>

definition demo_reservation :: tree_reservation where
  "demo_reservation = \<lparr>tr_RootSessionID = ''r'', tr_ParentSessionID = ''p'', tr_TreeSizeCap = 1, tr_TreeSizeDelta = 1,
     tr_TreeMemoryCap = DefaultMaxTreeMemoryBytes, tr_TreeMemoryDelta = PerNodeMemoryBytes,
     tr_ParallelChildrenCap = 0, tr_ParallelChildrenDelta = 1, tr_ChildrenTotalCap = 0, tr_ChildrenTotalDelta = 1,
     tr_TokenCap = 0, tr_TokenDelta = 5, tr_CreateTree = True\<rparr>"

section \<open>Lemmas\<close>

lemma redis_lawsD:
  assumes "redis_laws R"
  shows "\<forall>s k v t. 0 < t \<longrightarrow> (\<exists>s'. rd_set_nx_ex R s k v t = Some s'
         \<and> rd_get R s' = (rd_get R s)(k := (case rd_get R s k of None \<Rightarrow> Some v | Some w \<Rightarrow> Some w)))"
    and "\<forall>s k v t. 0 < t \<longrightarrow> (\<exists>s'. rd_set_ex R s k v t = Some s' \<and> rd_get R s' = (rd_get R s)(k := Some v))"
    and "\<forall>s k v. rd_get R (rd_set R s k v) = (rd_get R s)(k := Some v)"
    and "\<forall>s k v. rd_get R (rd_set_keepttl R s k v) = (rd_get R s)(k := Some v)"
    and "\<forall>s k d. rd_incrby R s k d = None \<longleftrightarrow> \<not> is_int64 (rd_val R s k + d)"
    and "\<forall>s k d s' v. rd_incrby R s k d = Some (s', v) \<longrightarrow>
         v = rd_val R s k + d \<and> rd_get R s' = (rd_get R s)(k := Some v)"
    and "\<forall>s k d. rd_decrby R s k d = None \<longleftrightarrow> \<not> is_int64 (rd_val R s k - d)"
    and "\<forall>s k d s' v. rd_decrby R s k d = Some (s', v) \<longrightarrow>
         v = rd_val R s k - d \<and> rd_get R s' = (rd_get R s)(k := Some v)"
    and "\<forall>s k t. 0 < t \<longrightarrow> rd_get R (rd_expire R s k t) = rd_get R s"
    and "\<forall>s k. rd_get R (rd_del R s k) = (rd_get R s)(k := None)"
    and "\<forall>s k. k \<in> set (rd_scan R s) \<longleftrightarrow> rd_get R s k \<noteq> None"
  by (insert assms[unfolded redis_laws_def]) (elim conjE, assumption)+

lemma redis_set_nx:
  "redis_laws R \<Longrightarrow> 0 < t \<Longrightarrow> \<exists>s'. rd_set_nx_ex R s k v t = Some s'
     \<and> rd_get R s' = (rd_get R s)(k := (case rd_get R s k of None \<Rightarrow> Some v | Some w \<Rightarrow> Some w))"
  by (metis redis_lawsD(1))

lemma redis_set_ex:
  "redis_laws R \<Longrightarrow> 0 < t \<Longrightarrow> \<exists>s'. rd_set_ex R s k v t = Some s' \<and> rd_get R s' = (rd_get R s)(k := Some v)"
  by (metis redis_lawsD(2))

lemma redis_set: "redis_laws R \<Longrightarrow> rd_get R (rd_set R s k v) = (rd_get R s)(k := Some v)"
  by (metis redis_lawsD(3))

lemma redis_keepttl: "redis_laws R \<Longrightarrow> rd_get R (rd_set_keepttl R s k v) = (rd_get R s)(k := Some v)"
  by (metis redis_lawsD(4))

lemma redis_incrby:
  "redis_laws R \<Longrightarrow> rd_incrby R s k d = Some (s', v) \<Longrightarrow> v = rd_val R s k + d \<and> rd_get R s' = (rd_get R s)(k := Some v)"
  by (metis redis_lawsD(6))

lemma redis_decrby:
  "redis_laws R \<Longrightarrow> rd_decrby R s k d = Some (s', v) \<Longrightarrow> v = rd_val R s k - d \<and> rd_get R s' = (rd_get R s)(k := Some v)"
  by (metis redis_lawsD(8))

lemma redis_decrby_total:
  "redis_laws R \<Longrightarrow> is_int64 (rd_val R s k - d) \<Longrightarrow> \<exists>s' v. rd_decrby R s k d = Some (s', v)"
  by (metis redis_lawsD(7) not_Some_eq surj_pair)

lemma redis_expire: "redis_laws R \<Longrightarrow> 0 < t \<Longrightarrow> rd_get R (rd_expire R s k t) = rd_get R s"
  by (metis redis_lawsD(9))

lemma redis_del: "redis_laws R \<Longrightarrow> rd_get R (rd_del R s k) = (rd_get R s)(k := None)"
  by (metis redis_lawsD(10))

lemma redis_scan: "redis_laws R \<Longrightarrow> k \<in> set (rd_scan R s) \<longleftrightarrow> rd_get R s k \<noteq> None"
  by (metis redis_lawsD(11))

lemma rd_val_cong: "rd_get R s k = rd_get R s' k \<Longrightarrow> rd_val R s k = rd_val R s' k"
  by (simp add: rd_val_def)

lemma in_keys_iff: "k \<in> fst ` set m \<longleftrightarrow> (\<exists>v. map_of m k = Some v)"
  by (metis map_of_eq_None_iff not_Some_eq)

lemma mem_redis_laws: "redis_laws mem_redis"
  unfolding redis_laws_def mem_redis_def rd_val_def
  by (auto simp: fun_eq_iff Let_def in_keys_iff split: option.splits prod.splits if_splits)

lemma distinct_tree_keys: "distinct (tree_keys r)" and hwm_not_key: "hwmKey (tr_RootSessionID r) \<notin> set (tree_keys r)"
  by (simp_all add: tree_keys_def hwmKey_def Let_def)

lemma length_tree [simp]: "length (tree_keys r) = 5" "length (tree_caps r) = 5" "length (tree_deltas r) = 5"
  by (simp_all add: tree_keys_def tree_caps_def tree_deltas_def Let_def)

text \<open>Lua arithmetic.\<close>

lemma f64_of_int_nonneg: "0 \<le> n \<Longrightarrow> 0 \<le> f64_of_int n"
proof (cases "n = 0")
  case False
  assume "0 \<le> n"
  then have "(2::rat) ^ 0 \<le> of_int n" using False by simp
  from f64_ge_power[OF this] show ?thesis by (simp add: f64_of_int_def)
qed (simp add: f64_of_int_def f64_def)

lemma axis_over_complete:
  assumes "0 \<le> cur" "0 < delta" "0 < cap" "cap < 2 ^ 53" "cap < cur + delta"
  shows "axis_over cur cap delta"
proof -
  have cap: "f64_of_int cap = of_int cap" using assms by (intro f64_exact) simp
  have "of_int cap < f64_add (f64_of_int cur) (f64_of_int delta)"
  proof (cases "cur \<le> 2 ^ 53 \<and> delta \<le> 2 ^ 53")
    case True
    then have "f64_add (f64_of_int cur) (f64_of_int delta) = f64_of_int (cur + delta)"
      using f64_exact[of cur] f64_exact[of delta] assms by (simp add: f64_add_def f64_of_int_def)
    then show ?thesis using f64_of_int_above[of cap "cur + delta"] assms by simp
  next
    case False
    then have "2 ^ 53 \<le> f64_of_int cur + f64_of_int delta"
      using f64_of_int_ge[of cur] f64_of_int_ge[of delta] f64_of_int_nonneg[of cur] f64_of_int_nonneg[of delta] assms
      by auto
    from f64_ge_power[OF this] have "2 ^ 53 \<le> f64_add (f64_of_int cur) (f64_of_int delta)" by (simp add: f64_add_def)
    moreover have "(of_int cap :: rat) < of_int (2 ^ 53)" using assms(4) by (simp only: of_int_less_iff)
    ultimately show ?thesis by simp
  qed
  then show ?thesis using assms cap by (simp add: axis_over_def)
qed

lemma lua_arg_small: "0 \<le> d \<Longrightarrow> d \<le> 2 ^ 53 \<Longrightarrow> lua_arg d = Some d"
proof -
  assume d: "0 \<le> d" "d \<le> 2 ^ 53"
  have "(of_int d :: rat) \<le> of_int (2 ^ 53)" using d(2) by (simp only: of_int_le_iff)
  then show ?thesis using f64_exact[of d] d by (simp add: lua_arg_def)
qed

lemma set_tree_keys_val:
  assumes "redis_laws R" "0 < ttl"
  shows "\<exists>s0. set_tree_keys R ttl ks s = (Some s0, s0) \<and> (\<forall>k. rd_val R s0 k = rd_val R s k)"
proof (induction ks arbitrary: s)
  case (Cons a ks)
  obtain s1 where s1: "rd_set_nx_ex R s a 0 ttl = Some s1"
      "rd_get R s1 = (rd_get R s)(a := (case rd_get R s a of None \<Rightarrow> Some 0 | Some w \<Rightarrow> Some w))"
    using redis_set_nx[OF assms] by blast
  have "rd_val R s1 k = rd_val R s k" for k by (simp add: rd_val_def s1(2) split: option.splits)
  then show ?case using Cons.IH[of s1] s1(1) by simp
qed simp

lemma first_over_None: "first_over i xs = None \<longleftrightarrow> (\<forall>(c, cap, d) \<in> set xs. \<not> axis_over c cap d)"
  by (induction i xs rule: first_over.induct) auto

lemma bump_axes_effect:
  assumes "redis_laws R" "0 < ttl" "distinct (map fst xs)"
    and "list_all (\<lambda>(k, c, d). 0 \<le> d \<and> d \<le> 2 ^ 53) xs"
    and "bump_axes R ttl xs s out = (Some out', s')"
  shows "rd_val R s' k = rd_val R s k + (case map_of xs k of None \<Rightarrow> 0 | Some (c, d) \<Rightarrow> d)
       \<and> (rd_get R s k \<noteq> None \<longrightarrow> rd_get R s' k \<noteq> None)"
  using assms(3-5)
proof (induction xs arbitrary: s out)
  case (Cons x xs)
  obtain a c d where x: "x = (a, c, d)" by (cases x)
  have tl: "distinct (map fst xs)" "list_all (\<lambda>(k, c, d). 0 \<le> d \<and> d \<le> 2 ^ 53) xs"
    using Cons.prems(1,2) by auto
  have a: "map_of xs a = None" using Cons.prems(1) x by (auto simp: map_of_eq_None_iff)
  show ?case
  proof (cases "d = 0")
    case True
    then have "bump_axes R ttl xs s (out @ [c]) = (Some out', s')" using Cons.prems(3) x by simp
    from Cons.IH[OF tl this] show ?thesis using a x True by auto
  next
    case False
    have "lua_arg d = Some d" using Cons.prems(2) x by (intro lua_arg_small) auto
    then obtain s1 v where i: "rd_incrby R s a d = Some (s1, v)"
        "bump_axes R ttl xs (if rd_ttl R s1 a = - 1 then rd_expire R s1 a ttl else s1) (out @ [v]) = (Some out', s')"
      using Cons.prems(3) x False by (auto simp: Let_def split: option.splits prod.splits)
    let ?s2 = "if rd_ttl R s1 a = - 1 then rd_expire R s1 a ttl else s1"
    have g: "rd_get R ?s2 = (rd_get R s)(a := Some (rd_val R s a + d))"
      using redis_incrby[OF assms(1) i(1)] redis_expire[OF assms(1,2)] by simp
    from Cons.IH[OF tl i(2)] show ?thesis
      using a x by (auto simp: rd_val_def g split: option.splits)
  qed
qed simp

lemma map_of_axes:
  assumes "length ks = length cs" "length cs = length ds"
  shows "(case map_of (zip ks (zip cs ds)) k of None \<Rightarrow> 0 | Some (c, d) \<Rightarrow> d)
       = (case map_of (zip ks ds) k of None \<Rightarrow> 0 | Some d \<Rightarrow> (d::int))"
  using assms by (induction ks cs ds rule: list_induct3) auto

lemma small_deltasD: "small_deltas r \<Longrightarrow> d \<in> set (tree_deltas r) \<Longrightarrow> 0 \<le> d \<and> d \<le> 2 ^ 53"
  by (simp add: small_deltas_def list_all_iff)

lemma delta_of_bounds: "small_deltas r \<Longrightarrow> 0 \<le> delta_of r k \<and> delta_of r k \<le> 2 ^ 53"
  using small_deltasD by (fastforce simp: delta_of_def split: option.splits dest: map_of_SomeD set_zip_rightD)

lemma delta_of_key: "i < 5 \<Longrightarrow> delta_of r (tree_keys r ! i) = tree_deltas r ! i"
  and cap_of_key: "i < 5 \<Longrightarrow> cap_of r (tree_keys r ! i) = tree_caps r ! i"
  using distinct_tree_keys[of r] by (simp_all add: delta_of_def cap_of_def map_of_zip_nth)

lemma delta_of_notin: "k \<notin> set (tree_keys r) \<Longrightarrow> delta_of r k = 0"
  by (auto simp: delta_of_def split: option.splits dest: map_of_SomeD set_zip_leftD)

lemma track_hwm_val:
  assumes "redis_laws R" "0 < ttl"
  shows "k \<noteq> hwm \<Longrightarrow> rd_get R (track_hwm R ttl hwm pc s) k = rd_get R s k"
  using redis_expire[OF assms] redis_set[OF assms(1)] by (simp add: track_hwm_def)

lemma bump_axes_le:
  assumes "redis_laws R" "0 < ttl" "distinct (map fst xs)"
    and "list_all (\<lambda>(k, c, d). 0 \<le> d \<and> d \<le> 2 ^ 53) xs"
    and "bump_axes R ttl xs s out = (res, s')"
  shows "rd_val R s k \<le> rd_val R s' k
       \<and> rd_val R s' k \<le> rd_val R s k + (case map_of xs k of None \<Rightarrow> 0 | Some (c, d) \<Rightarrow> d)"
  using assms(3-5)
proof (induction xs arbitrary: s out)
  case (Cons x xs)
  obtain a c d where x: "x = (a, c, d)" by (cases x)
  have tl: "distinct (map fst xs)" "list_all (\<lambda>(k, c, d). 0 \<le> d \<and> d \<le> 2 ^ 53) xs"
    using Cons.prems(1,2) by auto
  have a: "map_of xs a = None" using Cons.prems(1) x by (auto simp: map_of_eq_None_iff)
  have d: "0 \<le> d" "lua_arg d = Some d" using Cons.prems(2) x by (auto intro: lua_arg_small)
  show ?case
  proof (cases "d = 0 \<or> rd_incrby R s a d = None")
    case True
    then consider "d = 0" "bump_axes R ttl xs s (out @ [c]) = (res, s')" | "s' = s"
      using Cons.prems(3) x d(2) by (cases "d = 0") auto
    then show ?thesis
    proof cases
      case 1
      from Cons.IH[OF tl 1(2)] show ?thesis using a x 1(1) by auto
    next
      case 2
      have "0 \<le> (case map_of (x # xs) k of None \<Rightarrow> 0 | Some (c, d) \<Rightarrow> d)"
        using Cons.prems(2) d(1) x by (fastforce simp: list_all_iff split: option.splits dest: map_of_SomeD)
      then show ?thesis using 2 by simp
    qed
  next
    case False
    then obtain s1 v where i: "rd_incrby R s a d = Some (s1, v)"
        "bump_axes R ttl xs (if rd_ttl R s1 a = - 1 then rd_expire R s1 a ttl else s1) (out @ [v]) = (res, s')"
      using Cons.prems(3) x d(2) by (auto simp: Let_def)
    let ?s2 = "if rd_ttl R s1 a = - 1 then rd_expire R s1 a ttl else s1"
    have g: "rd_get R ?s2 = (rd_get R s)(a := Some (rd_val R s a + d))"
      using redis_incrby[OF assms(1) i(1)] redis_expire[OF assms(1,2)] by simp
    have v: "rd_val R ?s2 k = (if k = a then rd_val R s a + d else rd_val R s k)"
      by (simp add: rd_val_def g)
    from Cons.IH[OF tl i(2)] show ?thesis
      using a x d(1) unfolding v by (auto split: if_splits)
  qed
qed auto


text \<open>
  The keyspace the reserve script works on once the tree-wide keys are in place, and
  the three ways it can go on.
\<close>

lemma reserveScript_cases:
  assumes "redis_laws R" "0 < ttl"
    and "reserveScript R (tree_keys r) hwm (tree_caps r) (tree_deltas r) ttl create s = (res, s')"
  obtains (quiet) "\<And>k. rd_val R s' k = rd_val R s k" "\<And>out. res \<noteq> StatusAdmitted out"
  | (bumped) s0 out s1 cur where "\<And>k. rd_val R s0 k = rd_val R s k" "cur = map (rd_val R s0) (tree_keys r)"
      "first_over 1 (zip cur (zip (tree_caps r) (tree_deltas r))) = None"
      "bump_axes R ttl (zip (tree_keys r) (zip cur (tree_deltas r))) s0 [] = (out, s1)"
      "out = None \<and> res = ScriptError \<and> s' = s1
       \<or> (\<exists>o'. out = Some o' \<and> res = StatusAdmitted (map lua_ret o') \<and> s' = track_hwm R ttl hwm (o' ! 2) s1)"
proof (cases "rd_get R s (tree_keys r ! 4) = None \<and> \<not> create")
  case True
  then show thesis using assms(3) quiet by (auto simp: reserveScript_def)
next
  case False
  obtain s0 where s0: "(if rd_get R s (tree_keys r ! 4) = None
        then set_tree_keys R ttl [tree_keys r ! 0, tree_keys r ! 1, tree_keys r ! 4] s else (Some s, s)) = (Some s0, s0)"
      "\<And>k. rd_val R s0 k = rd_val R s k"
    using set_tree_keys_val[OF assms(1,2), of "[tree_keys r ! 0, tree_keys r ! 1, tree_keys r ! 4]" s]
    by (cases "rd_get R s (tree_keys r ! 4) = None") auto
  define cur where "cur = map (rd_val R s0) (tree_keys r)"
  have res: "(case first_over 1 (zip cur (zip (tree_caps r) (tree_deltas r))) of
                    Some (i, c, cap) \<Rightarrow> (StatusRejected i (lua_ret c) (lua_ret cap), s0)
                  | None \<Rightarrow>
                      (case bump_axes R ttl (zip (tree_keys r) (zip cur (tree_deltas r))) s0 [] of
                         (None, s1) \<Rightarrow> (ScriptError, s1)
                       | (Some out, s1) \<Rightarrow>
                           (StatusAdmitted (map lua_ret out), track_hwm R ttl hwm (out ! 2) s1))) = (res, s')"
    using assms(3) False unfolding reserveScript_def s0(1) cur_def by (simp only: Let_def if_False prod.case option.case)
  show thesis
  proof (cases "first_over 1 (zip cur (zip (tree_caps r) (tree_deltas r)))")
    case None
    obtain out s1 where b: "bump_axes R ttl (zip (tree_keys r) (zip cur (tree_deltas r))) s0 [] = (out, s1)" by fastforce
    show thesis
      by (rule bumped[OF s0(2) cur_def None b]) (use res None b in \<open>auto split: option.splits\<close>)
  next
    case (Some v)
    then show thesis using res quiet s0(2) by (cases v) auto
  qed
qed

lemma reserveScript_effect:
  assumes "redis_laws R" "0 < ttl" "small_deltas r" "\<And>k. 0 \<le> rd_val R s k"
    and "reserveScript R (tree_keys r) hwm (tree_caps r) (tree_deltas r) ttl create s = (res, s')"
    and "k \<noteq> hwm"
  shows "rd_val R s k \<le> rd_val R s' k \<and> rd_val R s' k \<le> rd_val R s k + delta_of r k
       \<and> (rd_val R s' k = rd_val R s k \<or> \<not> (0 < cap_of r k \<and> cap_of r k < 2 ^ 53) \<or> rd_val R s' k \<le> cap_of r k)
       \<and> ((\<exists>out. res = StatusAdmitted out) \<longrightarrow> rd_val R s' k = rd_val R s k + delta_of r k)"
proof (cases rule: reserveScript_cases[OF assms(1,2,5)])
  case 1
  then show ?thesis using delta_of_bounds[OF assms(3), of k] by auto
next
  case (2 s0 out s1 cur)
  let ?xs = "zip (tree_keys r) (zip cur (tree_deltas r))"
  have len: "length cur = 5" by (simp add: 2(2))
  have d: "distinct (map fst ?xs)" using distinct_tree_keys len by simp
  have sm: "list_all (\<lambda>(k, c, d). 0 \<le> d \<and> d \<le> 2 ^ 53) ?xs"
    using small_deltasD[OF assms(3)] by (auto simp: list_all_iff dest: set_zip_rightD)
  have delta: "(case map_of ?xs k of None \<Rightarrow> 0 | Some (c, d) \<Rightarrow> d) = delta_of r k"
    unfolding delta_of_def by (rule map_of_axes) (simp_all add: len)
  have s': "rd_val R s' k = rd_val R s1 k"
    using 2(5) track_hwm_val[OF assms(1,2,6)] by (auto intro!: rd_val_cong)
  note le = bump_axes_le[OF assms(1,2) d sm 2(4), of k, unfolded delta 2(1)]
  have cap: "rd_val R s k + delta_of r k \<le> cap_of r k"
    if c: "0 < cap_of r k" "cap_of r k < 2 ^ 53" "0 < delta_of r k"
  proof -
    have "k \<in> set (tree_keys r)" using c(3) delta_of_notin[of k r] by fastforce
    then obtain i where i: "i < 5" "k = tree_keys r ! i" by (auto simp: in_set_conv_nth)
    have "(cur ! i, tree_caps r ! i, tree_deltas r ! i) \<in> set (zip cur (zip (tree_caps r) (tree_deltas r)))"
      unfolding set_zip using i(1) len by (auto intro!: exI[of _ i])
    then have "\<not> axis_over (rd_val R s k) (cap_of r k) (delta_of r k)"
      using 2(3) i unfolding first_over_None by (auto simp: 2(1,2) delta_of_key cap_of_key)
    then show ?thesis using axis_over_complete[OF assms(4)[of k] c(3,1,2)] by (meson not_le)
  qed
  have "(\<exists>o'. res = StatusAdmitted o') \<longrightarrow> rd_val R s' k = rd_val R s k + delta_of r k"
    using 2(5) bump_axes_effect[OF assms(1,2) d sm, of s0 "[]" _ s1 k] 2(4) unfolding s' delta 2(1) by auto
  then show ?thesis
    using le cap s' delta_of_bounds[OF assms(3), of k] by (cases "delta_of r k = 0") auto
qed

lemma drop_axes_effect:
  assumes "redis_laws R" "distinct (map fst xs)" "list_all (\<lambda>(k, d). 0 \<le> d \<and> d \<le> 2 ^ 53) xs"
    and "\<And>k. 0 \<le> rd_val R s k" "drop_axes R xs s = (ok, s')"
  shows "0 \<le> rd_val R s' k \<and> rd_val R s' k \<le> rd_val R s k
       \<and> (ok \<longrightarrow> rd_val R s' k = max 0 (rd_val R s k - (case map_of xs k of None \<Rightarrow> 0 | Some d \<Rightarrow> d)))"
  using assms(2-5)
proof (induction xs arbitrary: s)
  case Nil
  then show ?case by (simp add: max_def)
next
  case (Cons x xs)
  obtain a d where x: "x = (a, d)" by (cases x)
  have tl: "distinct (map fst xs)" "list_all (\<lambda>(k, d). 0 \<le> d \<and> d \<le> 2 ^ 53) xs" using Cons.prems(1,2) by auto
  have a: "map_of xs a = None" using Cons.prems(1) x by (auto simp: map_of_eq_None_iff)
  have d: "0 \<le> d" "lua_arg d = Some d" using Cons.prems(2) x by (auto intro: lua_arg_small)
  show ?case
  proof (cases "d \<noteq> 0 \<and> rd_get R s a \<noteq> None")
    case False
    then have "drop_axes R xs s = (ok, s')" using Cons.prems(4) x by auto
    from Cons.IH[OF tl Cons.prems(3) this] show ?thesis
      using a x False d(1) Cons.prems(3)[of a] by (auto simp: rd_val_def)
  next
    case True
    show ?thesis
    proof (cases "rd_decrby R s a d")
      case None
      then show ?thesis using Cons.prems(3,4) x True d(2) by auto
    next
      case (Some p)
      obtain s1 v where p: "p = (s1, v)" by (cases p)
      let ?s2 = "if v < 0 then rd_set_keepttl R s1 a 0 else s1"
      have run: "drop_axes R xs ?s2 = (ok, s')" using Cons.prems(4) x True d(2) Some p by simp
      have "rd_get R ?s2 = (rd_get R s)(a := Some (max 0 (rd_val R s a - d)))"
        using redis_decrby[OF assms(1), of s a d s1 v] redis_keepttl[OF assms(1), of s1 a 0] Some p by auto
      then have v: "rd_val R ?s2 k = (if k = a then max 0 (rd_val R s a - d) else rd_val R s k)" for k
        by (simp add: rd_val_def)
      have nn: "0 \<le> rd_val R ?s2 k" for k using v[of k] Cons.prems(3)[of k] by simp
      from Cons.IH[OF tl nn run] show ?thesis
        using a x d(1) Cons.prems(3)[of k] unfolding v by (auto split: if_splits)
    qed
  qed
qed

lemma budget_Return_effect:
  assumes "redis_laws R" "small_deltas r" "\<And>k. 0 \<le> rd_val R s k" "budget_Return R up r s = (res, s')"
  shows "0 \<le> rd_val R s' k \<and> rd_val R s' k \<le> rd_val R s k
       \<and> (res = None \<longrightarrow> rd_val R s' k = max 0 (rd_val R s k - delta_of r k))"
proof (cases "tr_RootSessionID r = '''' \<or> \<not> up \<or> rd_get R s (tree_keys r ! 4) = None")
  case True
  then show ?thesis using assms(3,4) by (auto simp: budget_Return_def returnScript_def split: if_splits)
next
  case False
  let ?xs = "zip (tree_keys r) (tree_deltas r)"
  obtain ok s1 where d: "drop_axes R ?xs s = (ok, s1)" by fastforce
  have "s' = s1" "ok \<longleftrightarrow> res = None"
    using assms(4) False d by (cases ok; auto simp: budget_Return_def returnScript_def)+
  moreover have "list_all (\<lambda>(k, d). 0 \<le> d \<and> d \<le> 2 ^ 53) ?xs"
    using small_deltasD[OF assms(2)] by (auto simp: list_all_iff dest: set_zip_rightD)
  moreover have "distinct (map fst ?xs)" using distinct_tree_keys by simp
  ultimately show ?thesis
    using drop_axes_effect[OF assms(1) _ _ assms(3) d, of k] by (simp add: delta_of_def)
qed

lemma budget_Reserve_effect:
  assumes "redis_laws R" "second \<le> rs_ttl rs" "small_deltas r" "\<And>k. 0 \<le> rd_val R s k"
    and "budget_Reserve R rs up r s = (res, s')" "k \<noteq> hwmKey (tr_RootSessionID r)"
  shows "rd_val R s k \<le> rd_val R s' k \<and> rd_val R s' k \<le> rd_val R s k + delta_of r k
       \<and> (rd_val R s' k = rd_val R s k \<or> \<not> (0 < cap_of r k \<and> cap_of r k < 2 ^ 53) \<or> rd_val R s' k \<le> cap_of r k)
       \<and> ((\<exists>t. res = Inr t) \<longrightarrow> rd_val R s' k = rd_val R s k + delta_of r k)"
proof (cases "tr_RootSessionID r = '''' \<or> \<not> up")
  case True
  then show ?thesis using assms(5) delta_of_bounds[OF assms(3), of k] by (auto simp: budget_Reserve_def split: if_splits)
next
  case False
  have ttl: "0 < ttl_seconds rs" using assms(2) by (simp add: ttl_seconds_def second_def)
  obtain sr s1 where sc: "reserveScript R (tree_keys r) (hwmKey (tr_RootSessionID r)) (tree_caps r) (tree_deltas r)
      (ttl_seconds rs) (tr_CreateTree r) s = (sr, s1)" by fastforce
  have "s' = s1 \<and> ((\<exists>t. res = Inr t) \<longrightarrow> (\<exists>out. sr = StatusAdmitted out))"
    using assms(5) False sc by (cases sr) (auto simp: budget_Reserve_def split: if_splits)
  then show ?thesis
    using reserveScript_effect[OF assms(1) ttl assms(3,4) sc assms(6)] by blast
qed

lemma track_hwm_nonneg:
  assumes "redis_laws R" "0 < ttl" "\<And>k. 0 \<le> rd_val R s k"
  shows "0 \<le> rd_val R (track_hwm R ttl hwm pc s) k"
proof (cases "k = hwm \<and> f64_of_int pc > f64_of_int (rd_val R s hwm)")
  case True
  then have "0 < f64_of_int pc" using f64_of_int_nonneg[OF assms(3)[of hwm]] by linarith
  then have "0 \<le> lua_ret pc" by (simp add: lua_ret_def)
  then show ?thesis
    using True redis_expire[OF assms(1,2)] redis_set[OF assms(1)] by (simp add: track_hwm_def rd_val_def)
next
  case False
  then have "rd_get R (track_hwm R ttl hwm pc s) k = rd_get R s k"
    using track_hwm_val[OF assms(1,2), of k hwm pc s] by (cases "k = hwm") (auto simp: track_hwm_def)
  then show ?thesis using assms(3)[of k] by (simp add: rd_val_def)
qed

lemma budget_Reserve_nonneg:
  assumes "redis_laws R" "second \<le> rs_ttl rs" "small_deltas r" "\<And>k. 0 \<le> rd_val R s k"
    and "budget_Reserve R rs up r s = (res, s')"
  shows "0 \<le> rd_val R s' k"
proof (cases "tr_RootSessionID r = '''' \<or> \<not> up")
  case True
  then show ?thesis using assms(4,5) by (auto simp: budget_Reserve_def split: if_splits)
next
  case False
  have ttl: "0 < ttl_seconds rs" using assms(2) by (simp add: ttl_seconds_def second_def)
  obtain sr where sc: "reserveScript R (tree_keys r) (hwmKey (tr_RootSessionID r)) (tree_caps r) (tree_deltas r)
      (ttl_seconds rs) (tr_CreateTree r) s = (sr, s')"
    using assms(5) False by (auto simp: budget_Reserve_def split: script_result.splits prod.splits if_splits)
  show ?thesis
  proof (cases rule: reserveScript_cases[OF assms(1) ttl sc])
    case 1
    then show ?thesis using assms(4)[of k] by simp
  next
    case (2 s0 out s1 cur)
    let ?xs = "zip (tree_keys r) (zip cur (tree_deltas r))"
    have d: "distinct (map fst ?xs)" using distinct_tree_keys 2(2) by simp
    have sm: "list_all (\<lambda>(k, c, d). 0 \<le> d \<and> d \<le> 2 ^ 53) ?xs"
      using small_deltasD[OF assms(3)] by (auto simp: list_all_iff dest: set_zip_rightD)
    have "0 \<le> rd_val R s1 k" for k
      using bump_axes_le[OF assms(1) ttl d sm 2(4), of k] assms(4)[of k] unfolding 2(1) by linarith
    then show ?thesis using 2(5) track_hwm_nonneg[OF assms(1) ttl] by auto
  qed
qed

lemma RearmTree_val:
  assumes "redis_laws R" "second \<le> rs_ttl rs" "RearmTree R rs up rt parents s = (res, s')"
  shows "rd_val R s' k = rd_val R s k"
proof -
  have ttl: "0 < ttl_seconds rs" using assms(2) by (simp add: ttl_seconds_def second_def)
  have "rd_get R (fold (\<lambda>k s. rd_expire R s k (ttl_seconds rs)) ks s) = rd_get R s" for ks s
    by (induction ks arbitrary: s) (simp_all add: redis_expire[OF assms(1) ttl])
  then show ?thesis
    using assms(3) by (auto simp: RearmTree_def Let_def rd_val_def redis_expire[OF assms(1) ttl] split: if_splits)
qed

lemma budget_steps_bound:
  assumes "redis_laws R" "second \<le> rs_ttl rs" "\<And>k. B k < 2 ^ 53"
    and "(budget_step R rs B)\<^sup>*\<^sup>* s s'"
    and "\<And>k. 0 \<le> rd_val R s k" "\<And>k. 0 < B k \<Longrightarrow> rd_val R s k \<le> B k"
  shows "(\<forall>k. 0 \<le> rd_val R s' k) \<and> (\<forall>k. 0 < B k \<longrightarrow> rd_val R s' k \<le> B k)"
  using assms(4)
proof (induction rule: rtranclp_induct)
  case base
  then show ?case using assms(5,6) by blast
next
  case (step s1 s2)
  have nn: "\<And>k. 0 \<le> rd_val R s1 k" and le: "\<And>k. 0 < B k \<Longrightarrow> rd_val R s1 k \<le> B k" using step.IH by auto
  from step.hyps(2) show ?case
  proof cases
    case (reserve up r res)
    have "rd_val R s2 k \<le> B k" if "0 < B k" for k
    proof -
      have kh: "k \<noteq> hwmKey (tr_RootSessionID r)" using that reserve(4) by auto
      note e = budget_Reserve_effect[OF assms(1,2) reserve(2) nn reserve(1) kh]
      show ?thesis
      proof (cases "k \<in> set (tree_keys r)")
        case True
        then show ?thesis using e reserve(3)[OF True that] le[OF that] assms(3)[of k] by linarith
      next
        case False
        then show ?thesis using e le[OF that] delta_of_notin[OF False] by linarith
      qed
    qed
    then show ?thesis using budget_Reserve_nonneg[OF assms(1,2) reserve(2) nn reserve(1)] by blast
  next
    case (return up r res)
    show ?thesis
      using budget_Return_effect[OF assms(1) return(2) nn return(1)] le by (meson order_trans)
  next
    case (rearm up rt parents res)
    then show ?thesis using RearmTree_val[OF assms(1,2) rearm] nn le by simp
  next
    case expire
    have "rd_val R s2 k = rd_val R s1 k \<or> rd_val R s2 k = 0" for k
      using expire[of k] by (auto simp: rd_val_def)
    then have "0 \<le> rd_val R s2 k \<and> (0 < B k \<longrightarrow> rd_val R s2 k \<le> B k)" for k
      using nn[of k] le[of k] by (metis less_imp_le order_refl)
    then show ?thesis by blast
  qed
qed

lemma purge_fold:
  assumes "redis_laws R"
  shows "rd_get R (fold (\<lambda>k s. rd_del R s k) ks s) k = (if k \<in> set ks then None else rd_get R s k)"
  by (induction ks arbitrary: s) (auto simp: redis_del[OF assms])

lemma budget_Reserve_quiet:
  assumes "redis_laws R" "second \<le> rs_ttl rs" "budget_Reserve R rs up r s = (res, s')"
    and "(\<exists>a c cap d. res = Inl (BudgetExhaustedError a c cap d)) \<or> res = Inl ErrTreeBudgetKeysExpired"
  shows "rd_val R s' k = rd_val R s k"
proof -
  have ttl: "0 < ttl_seconds rs" using assms(2) by (simp add: ttl_seconds_def second_def)
  obtain sr where sc: "reserveScript R (tree_keys r) (hwmKey (tr_RootSessionID r)) (tree_caps r) (tree_deltas r)
      (ttl_seconds rs) (tr_CreateTree r) s = (sr, s')" "sr \<noteq> ScriptError" "\<And>out. sr \<noteq> StatusAdmitted out"
    using assms(3,4) by (auto simp: budget_Reserve_def split: script_result.splits prod.splits if_splits)
  show ?thesis
    by (cases rule: reserveScript_cases[OF assms(1) ttl sc(1)]) (use sc(2,3) in auto)
qed

lemma demo_small: "small_deltas demo_reservation"
  by (simp add: small_deltas_def tree_deltas_def demo_reservation_def PerNodeMemoryBytes_def)

lemma demo_ttl: "second \<le> rs_ttl (NewReserver 0)"
  by (simp add: NewReserver_def DefaultTTL_def second_def)

lemma mem_redis_empty: "rd_get mem_redis [] k = None"
  by (simp add: mem_redis_def)

lemma axis_over_small:
  "\<bar>cur\<bar> \<le> 2 ^ 53 \<Longrightarrow> \<bar>cap\<bar> \<le> 2 ^ 53 \<Longrightarrow> \<bar>delta\<bar> \<le> 2 ^ 53 \<Longrightarrow> \<bar>cur + delta\<bar> \<le> 2 ^ 53
    \<Longrightarrow> axis_over cur cap delta \<longleftrightarrow> 0 < cap \<and> 0 < delta \<and> cap < cur + delta"
proof -
  assume b: "\<bar>cur\<bar> \<le> 2 ^ 53" "\<bar>cap\<bar> \<le> 2 ^ 53" "\<bar>delta\<bar> \<le> 2 ^ 53" "\<bar>cur + delta\<bar> \<le> 2 ^ 53"
  have "f64_add (f64_of_int cur) (f64_of_int delta) = f64_of_int (cur + delta)"
    using f64_exact[OF b(1)] f64_exact[OF b(3)] by (simp add: f64_add_def f64_of_int_def)
  then show ?thesis unfolding axis_over_def f64_exact[OF b(2)] f64_exact[OF b(4)] by (simp only: of_int_less_iff)
qed

lemma demo_run:
  "\<exists>t s1 s2. budget_Reserve mem_redis (NewReserver 0) True demo_reservation [] = (Inr t, s1)
     \<and> budget_Return mem_redis True demo_reservation s1 = (None, s2)"
  by (simp add: budget_Reserve_def budget_Return_def reserveScript_def returnScript_def mem_redis_def demo_reservation_def
      NewReserver_def DefaultTTL_def second_def ttl_seconds_def tree_keys_def tree_caps_def tree_deltas_def hwmKey_def
      root_prefix_def rd_val_def Let_def axis_over_small lua_arg_small track_hwm_def f64_exact lua_ret_def
      PerNodeMemoryBytes_def DefaultMaxTreeMemoryBytes_def is_int64_def max_int64_def min_int64_def)

section \<open>Properties\<close>



text \<open>
  C14. Returning an admitted reservation restores every counter of the tree, the
  high-watermark aside; a refused reservation changes no counter at all.
\<close>

theorem reserve_return_roundtrip:
  assumes "redis_laws R" "second \<le> rs_ttl rs" "small_deltas r" "\<And>k. 0 \<le> rd_val R s k"
    and "budget_Reserve R rs up r s = (res, s1)" "k \<noteq> hwmKey (tr_RootSessionID r)"
  shows "((\<exists>t. res = Inr t) \<and> budget_Return R up' r s1 = (None, s2) \<longrightarrow> rd_val R s2 k = rd_val R s k)
       \<and> ((\<exists>a c cap d. res = Inl (BudgetExhaustedError a c cap d)) \<or> res = Inl ErrTreeBudgetKeysExpired
           \<longrightarrow> rd_val R s1 k = rd_val R s k)"
proof -
  have nn: "0 \<le> rd_val R s1 k" for k by (rule budget_Reserve_nonneg[OF assms(1-5)])
  have "rd_val R s2 k = rd_val R s k" if "res = Inr t" "budget_Return R up' r s1 = (None, s2)" for t
    using budget_Return_effect[OF assms(1,3) nn that(2), of k] budget_Reserve_effect[OF assms] that(1) assms(4)[of k]
    by simp
  moreover have "rd_val R s1 k = rd_val R s k"
    if "(\<exists>a c cap d. res = Inl (BudgetExhaustedError a c cap d)) \<or> res = Inl ErrTreeBudgetKeysExpired"
    using budget_Reserve_quiet[OF assms(1,2,5) that] .
  ultimately show ?thesis by blast
qed

theorem reserve_return_roundtrip_witness:
  "\<exists>t s1 s2. budget_Reserve mem_redis (NewReserver 0) True demo_reservation [] = (Inr t, s1)
     \<and> budget_Return mem_redis True demo_reservation s1 = (None, s2)
     \<and> rd_val mem_redis s2 (tree_keys demo_reservation ! 4) = 0"
proof -
  obtain t s1 s2 where run: "budget_Reserve mem_redis (NewReserver 0) True demo_reservation [] = (Inr t, s1)"
      "budget_Return mem_redis True demo_reservation s1 = (None, s2)" using demo_run by blast
  have nn: "0 \<le> rd_val mem_redis [] k" for k by (simp add: rd_val_def mem_redis_empty)
  have "tree_keys demo_reservation ! 4 \<noteq> hwmKey (tr_RootSessionID demo_reservation)"
    by (simp add: tree_keys_def hwmKey_def Let_def)
  from reserve_return_roundtrip[OF mem_redis_laws demo_ttl demo_small nn run(1) this, of True s2] run
  show ?thesis by (auto simp: rd_val_def mem_redis_empty)
qed



end
