(* ===== verification/Delegation_Policy.thy ===== *)
theory Delegation_Policy
  imports Session_Row "HOL-Library.Product_Lexorder"
begin

text \<open>
  The delegation-policy registry
  (\<^verbatim>\<open>pkg/gateway/mcpfabric/delegationpolicystore\<close>: \<^verbatim>\<open>delegationpolicystore.go\<close>,
  \<^verbatim>\<open>evaluate.go\<close> and \<^verbatim>\<open>isolationaudit.go\<close>): the policy record with its validation and
  defaults, the rule evaluation, the in-memory registry and the isolation audit over
  the registered pools. The registry is a map of maps, as in the code; a read across
  all tenants returns the first hit in the arbitrary iteration order.
\<close>

section \<open>Policies\<close>

record dp_target =
  tg_MatchLabels :: "(string, string) go_map"
  tg_IDs :: "string list"
  tg_Types :: "string list"

record dp_rule =
  ru_Target :: dp_target
  ru_Allow :: bool

record content_policy =
  cp_MaxInputSize :: int
  cp_InterceptorRef :: string
  cp_ScanExportedFiles :: bool
  cp_MaxExportedFileSize :: int

record delegation_policy =
  dp_TenantID :: string
  dp_Name :: string
  dp_Rules :: "dp_rule list"
  dp_ContentPolicy :: content_policy
  dp_AllowSelfRecursion :: bool
  dp_ScanExportedFilesWeakenedAt :: go_time
  dp_CreatedAt :: go_time
  dp_UpdatedAt :: go_time
  dp_DeletedAt :: go_time
  dp_Version :: int

definition AllTenantsSentinel :: string where
  "AllTenantsSentinel = ''__all__''"

definition policy_IsActive :: "delegation_policy \<Rightarrow> bool" where
  "policy_IsActive p \<longleftrightarrow> is_zero_time (dp_DeletedAt p)"

definition DefaultMaxInputSize :: int where
  "DefaultMaxInputSize = 128 * 1024"

definition DefaultMaxExportedFileSize :: int where
  "DefaultMaxExportedFileSize = 10 * 1024 * 1024"

definition policy_ApplyDefaults :: "delegation_policy \<Rightarrow> delegation_policy" where
  "policy_ApplyDefaults p =
    (let cp = dp_ContentPolicy p;
         cp = (if cp_MaxInputSize cp = 0 then cp\<lparr>cp_MaxInputSize := DefaultMaxInputSize\<rparr> else cp);
         cp = (if cp_MaxExportedFileSize cp = 0 then cp\<lparr>cp_MaxExportedFileSize := DefaultMaxExportedFileSize\<rparr> else cp)
     in p\<lparr>dp_ContentPolicy := cp\<rparr>)"

datatype policy_error =
    ErrPolicyNotFound
  | ErrPolicyExists
  | ErrScanRequiresInterceptor
  | ErrTenantRequired
  | ErrNameRequired
  | ErrNamePattern
  | ErrNegativeSize
  | ErrConcreteTenant
  | ErrMutate string

text \<open>The pattern \<^verbatim>\<open>^[a-z0-9][a-z0-9_-]{0,127}$\<close>.\<close>

definition name_start :: "char \<Rightarrow> bool" where
  "name_start c \<longleftrightarrow> CHR ''a'' \<le> c \<and> c \<le> CHR ''z'' \<or> CHR ''0'' \<le> c \<and> c \<le> CHR ''9''"

definition name_char :: "char \<Rightarrow> bool" where
  "name_char c \<longleftrightarrow> name_start c \<or> c = CHR ''_'' \<or> c = CHR ''-''"

definition policy_ValidateName :: "string \<Rightarrow> policy_error option" where
  "policy_ValidateName name =
    (case name of [] \<Rightarrow> Some ErrNameRequired
     | c # cs \<Rightarrow> if name_start c \<and> list_all name_char cs \<and> length cs \<le> 127 then None else Some ErrNamePattern)"

definition policy_Validate :: "delegation_policy \<Rightarrow> policy_error option" where
  "policy_Validate p =
    (if dp_TenantID p = '''' then Some ErrTenantRequired
     else case policy_ValidateName (dp_Name p) of
            Some e \<Rightarrow> Some e
          | None \<Rightarrow>
              (let cp = dp_ContentPolicy p
               in if cp_MaxInputSize cp < 0 then Some ErrNegativeSize
                  else if cp_MaxExportedFileSize cp < 0 then Some ErrNegativeSize
                  else if cp_ScanExportedFiles cp \<and> cp_InterceptorRef cp = '''' then Some ErrScanRequiresInterceptor
                  else None))"

section \<open>Evaluation\<close>

record candidate =
  ca_ID :: string
  ca_Type :: string
  ca_Labels :: "(string, string) go_map"

text \<open>A label that is absent reads as the empty string.\<close>

definition target_Matches :: "dp_target \<Rightarrow> candidate \<Rightarrow> bool" where
  "target_Matches t c =
    (if \<not> list_all (\<lambda>(k, v). (case map_of (ca_Labels c) k of None \<Rightarrow> '''' | Some w \<Rightarrow> w) = v) (tg_MatchLabels t) then False
     else if tg_IDs t \<noteq> [] \<and> ca_ID c \<notin> set (tg_IDs t) then False
     else if tg_Types t \<noteq> [] \<and> ca_Type c \<notin> set (tg_Types t) then False
     else True)"

fun evaluate_loop :: "bool \<Rightarrow> dp_rule list \<Rightarrow> candidate \<Rightarrow> bool" where
  "evaluate_loop allowed [] c = allowed"
| "evaluate_loop allowed (r # rs) c =
    (if \<not> target_Matches (ru_Target r) c then evaluate_loop allowed rs c
     else if \<not> ru_Allow r then False
     else evaluate_loop True rs c)"

definition policy_Evaluate :: "delegation_policy \<Rightarrow> candidate \<Rightarrow> bool" where
  "policy_Evaluate p c = evaluate_loop False (dp_Rules p) c"

section \<open>The in-memory registry\<close>

type_synonym policy_mem = "(string, (string, delegation_policy) go_map) go_map"

text \<open>The row of a tenant under a name; an absent tenant has no rows.\<close>

definition policy_row :: "policy_mem \<Rightarrow> string \<Rightarrow> string \<Rightarrow> delegation_policy option" where
  "policy_row m tenantID name = Option.bind (map_of m tenantID) (\<lambda>tenant. map_of tenant name)"

definition put_policy :: "policy_mem \<Rightarrow> string \<Rightarrow> string \<Rightarrow> delegation_policy \<Rightarrow> policy_mem" where
  "put_policy m tenantID name p =
    AList.update tenantID (AList.update name p (case map_of m tenantID of None \<Rightarrow> [] | Some t \<Rightarrow> t)) m"

definition policy_Create :: "policy_mem \<Rightarrow> delegation_policy \<Rightarrow> go_time \<Rightarrow> policy_error + policy_mem" where
  "policy_Create m p now =
    (case policy_Validate p of
       Some e \<Rightarrow> Inl e
     | None \<Rightarrow>
         (if policy_row m (dp_TenantID p) (dp_Name p) \<noteq> None then Inl ErrPolicyExists
          else let p = (if is_zero_time (dp_CreatedAt p) then p\<lparr>dp_CreatedAt := now\<rparr> else p);
                   p = (if is_zero_time (dp_UpdatedAt p) then p\<lparr>dp_UpdatedAt := dp_CreatedAt p\<rparr> else p);
                   p = (if dp_Version p = 0 then p\<lparr>dp_Version := 1\<rparr> else p)
               in Inr (put_policy m (dp_TenantID p) (dp_Name p) p)))"

definition policy_Get :: "policy_mem \<Rightarrow> string \<Rightarrow> string \<Rightarrow> policy_error + delegation_policy" where
  "policy_Get m tenantID name =
    (case (if tenantID = AllTenantsSentinel
           then List.find (\<lambda>r. r \<noteq> None) (map (\<lambda>(_, tenant). map_of tenant name) m)
           else Some (policy_row m tenantID name)) of
       Some (Some row) \<Rightarrow> Inr row
     | _ \<Rightarrow> Inl ErrPolicyNotFound)"

definition policy_Update ::
  "policy_mem \<Rightarrow> string \<Rightarrow> string \<Rightarrow> (delegation_policy \<Rightarrow> string + delegation_policy) \<Rightarrow> go_time
   \<Rightarrow> policy_error + (delegation_policy \<times> policy_mem)" where
  "policy_Update m tenantID name mutate now =
    (if tenantID = '''' \<or> tenantID = AllTenantsSentinel then Inl ErrConcreteTenant
     else case policy_row m tenantID name of
            None \<Rightarrow> Inl ErrPolicyNotFound
          | Some prev \<Rightarrow>
              (case mutate prev of
                 Inl e \<Rightarrow> Inl (ErrMutate e)
               | Inr row \<Rightarrow>
                   (let row = row\<lparr>dp_TenantID := tenantID\<rparr>
                    in case policy_Validate row of
                         Some e \<Rightarrow> Inl e
                       | None \<Rightarrow>
                           (let at_time = (if \<not> time_after now (dp_UpdatedAt prev) then time_add (dp_UpdatedAt prev) 1 else now);
                                row = row\<lparr>dp_UpdatedAt := at_time, dp_Version := w64 (dp_Version row + 1)\<rparr>
                            in Inr (row, put_policy m tenantID name row)))))"

definition policy_List :: "policy_mem \<Rightarrow> string \<Rightarrow> bool \<Rightarrow> delegation_policy list" where
  "policy_List m tenantID includeDeleted =
    (let emit = (\<lambda>tenant. filter (\<lambda>row. includeDeleted \<or> policy_IsActive row) (map snd tenant));
         out = (if tenantID = AllTenantsSentinel then concat (map (\<lambda>(_, tenant). emit tenant) m)
                else case map_of m tenantID of None \<Rightarrow> [] | Some tenant \<Rightarrow> emit tenant)
     in sort_key (\<lambda>p. (dp_TenantID p, dp_Name p)) out)"

definition policy_SoftDelete :: "policy_mem \<Rightarrow> string \<Rightarrow> string \<Rightarrow> go_time \<Rightarrow> policy_error + policy_mem" where
  "policy_SoftDelete m tenantID name when =
    (if tenantID = '''' \<or> tenantID = AllTenantsSentinel then Inl ErrConcreteTenant
     else case policy_row m tenantID name of
            None \<Rightarrow> Inl ErrPolicyNotFound
          | Some row \<Rightarrow>
              (if \<not> is_zero_time (dp_DeletedAt row) then Inr m
               else Inr (put_policy m tenantID name (row\<lparr>dp_DeletedAt := when, dp_UpdatedAt := when\<rparr>))))"

section \<open>The isolation audit\<close>

record pool_candidate =
  pc_PoolName :: string
  pc_IsolationProfile :: isolation_profile
  pc_IsolationRank :: int
  pc_Candidate :: candidate

record isolation_violation =
  iv_Policy :: string
  iv_TenantID :: string
  iv_RuleIndex :: nat
  iv_SourcePool :: string
  iv_SourceProfile :: isolation_profile
  iv_TargetPool :: string
  iv_TargetProfile :: isolation_profile

text \<open>The two inner loops, over the targets and the sources one allow rule matches.\<close>

definition audit_rule :: "delegation_policy \<Rightarrow> nat \<Rightarrow> dp_rule \<Rightarrow> pool_candidate list \<Rightarrow> isolation_violation list" where
  "audit_rule p i r pools =
    (if \<not> ru_Allow r then []
     else let matched = filter (\<lambda>pc. target_Matches (ru_Target r) (pc_Candidate pc)) pools
          in concat (map (\<lambda>target.
               if pc_IsolationRank target < 0 \<or> \<not> policy_Evaluate p (pc_Candidate target) then []
               else concat (map (\<lambda>source.
                      if pc_PoolName source = pc_PoolName target \<or> pc_IsolationRank source < 0 then []
                      else if pc_IsolationRank source > pc_IsolationRank target
                      then [\<lparr>iv_Policy = dp_Name p, iv_TenantID = dp_TenantID p, iv_RuleIndex = i,
                             iv_SourcePool = pc_PoolName source, iv_SourceProfile = pc_IsolationProfile source,
                             iv_TargetPool = pc_PoolName target, iv_TargetProfile = pc_IsolationProfile target\<rparr>]
                      else []) matched)) matched))"

definition AuditIsolation :: "delegation_policy list \<Rightarrow> pool_candidate list \<Rightarrow> isolation_violation list" where
  "AuditIsolation policies pools =
    sort_key (\<lambda>v. (iv_Policy v, iv_TenantID v, iv_RuleIndex v, iv_SourcePool v, iv_TargetPool v))
      (concat (map (\<lambda>p. concat (map (\<lambda>(i, r). audit_rule p i r pools) (enumerate 0 (dp_Rules p)))) policies))"

definition ProactiveWarningsForPool ::
  "delegation_policy list \<Rightarrow> pool_candidate list \<Rightarrow> string \<Rightarrow> isolation_violation list" where
  "ProactiveWarningsForPool policies pools poolName =
    filter (\<lambda>v. iv_TargetPool v = poolName) (AuditIsolation policies pools)"

section \<open>Specification\<close>

text \<open>The writes a registry sees.\<close>

inductive policy_step :: "policy_mem \<Rightarrow> policy_mem \<Rightarrow> bool" where
  step_create: "policy_Create m p now = Inr m' \<Longrightarrow> policy_step m m'"
| step_update: "policy_Update m tenantID name mutate now = Inr (row, m') \<Longrightarrow> policy_step m m'"
| step_delete: "policy_SoftDelete m tenantID name when = Inr m' \<Longrightarrow> policy_step m m'"

inductive_cases policy_stepE: "policy_step m m'"

definition rows_valid :: "policy_mem \<Rightarrow> bool" where
  "rows_valid m \<longleftrightarrow> (\<forall>t n p. policy_row m t n = Some p \<longrightarrow> policy_Validate p = None \<and> dp_TenantID p = t)"

text \<open>What a rule set permits: some allow rule matches and no deny rule does.\<close>

definition permits :: "dp_rule list \<Rightarrow> candidate \<Rightarrow> bool" where
  "permits rs c \<longleftrightarrow> (\<exists>r\<in>set rs. ru_Allow r \<and> target_Matches (ru_Target r) c)
                \<and> (\<forall>r\<in>set rs. target_Matches (ru_Target r) c \<longrightarrow> ru_Allow r)"

definition violation_of :: "delegation_policy \<Rightarrow> nat \<Rightarrow> pool_candidate \<Rightarrow> pool_candidate \<Rightarrow> isolation_violation" where
  "violation_of p i src tgt =
    \<lparr>iv_Policy = dp_Name p, iv_TenantID = dp_TenantID p, iv_RuleIndex = i,
     iv_SourcePool = pc_PoolName src, iv_SourceProfile = pc_IsolationProfile src,
     iv_TargetPool = pc_PoolName tgt, iv_TargetProfile = pc_IsolationProfile tgt\<rparr>"

text \<open>An open rule for agents and two pools of different isolation.\<close>

definition demo_policy :: delegation_policy where
  "demo_policy =
    \<lparr>dp_TenantID = ''t'', dp_Name = ''p'',
     dp_Rules = [\<lparr>ru_Target = \<lparr>tg_MatchLabels = [], tg_IDs = [], tg_Types = [''agent'']\<rparr>, ru_Allow = True\<rparr>],
     dp_ContentPolicy = \<lparr>cp_MaxInputSize = 0, cp_InterceptorRef = '''', cp_ScanExportedFiles = False, cp_MaxExportedFileSize = 0\<rparr>,
     dp_AllowSelfRecursion = False, dp_ScanExportedFilesWeakenedAt = 0, dp_CreatedAt = 0, dp_UpdatedAt = 0,
     dp_DeletedAt = 0, dp_Version = 0\<rparr>"

definition demo_pool :: "string \<Rightarrow> isolation_profile \<Rightarrow> pool_candidate" where
  "demo_pool name prof = \<lparr>pc_PoolName = name, pc_IsolationProfile = prof, pc_IsolationRank = Rank prof,
     pc_Candidate = \<lparr>ca_ID = name, ca_Type = ''agent'', ca_Labels = []\<rparr>\<rparr>"

section \<open>Lemmas\<close>

lemma evaluate_loop_spec:
  "evaluate_loop allowed rs c \<longleftrightarrow>
    (allowed \<or> (\<exists>r\<in>set rs. ru_Allow r \<and> target_Matches (ru_Target r) c))
    \<and> (\<forall>r\<in>set rs. target_Matches (ru_Target r) c \<longrightarrow> ru_Allow r)"
  by (induction allowed rs c rule: evaluate_loop.induct) auto

lemma policy_Evaluate_permits: "policy_Evaluate p c \<longleftrightarrow> permits (dp_Rules p) c"
  by (simp add: policy_Evaluate_def evaluate_loop_spec permits_def)

lemma policy_row_put [simp]:
  "policy_row (put_policy m t n p) t' n' = (if t' = t \<and> n' = n then Some p else policy_row m t' n')"
  by (auto simp: policy_row_def put_policy_def split: option.splits)

lemma policy_Validate_cong:
  "dp_TenantID p = dp_TenantID q \<Longrightarrow> dp_Name p = dp_Name q \<Longrightarrow> dp_ContentPolicy p = dp_ContentPolicy q
    \<Longrightarrow> policy_Validate p = policy_Validate q"
  by (simp add: policy_Validate_def Let_def cong: option.case_cong)

lemma rows_valid_put:
  "rows_valid m \<Longrightarrow> policy_Validate p = None \<Longrightarrow> dp_TenantID p = t \<Longrightarrow> rows_valid (put_policy m t n p)"
  by (auto simp: rows_valid_def)

lemma policy_Create_put:
  assumes "policy_Create m p now = Inr m'"
  obtains q where "m' = put_policy m (dp_TenantID q) (dp_Name q) q" "policy_Validate q = None"
proof -
  have v: "policy_Validate p = None" using assms by (simp add: policy_Create_def split: option.splits)
  from assms v obtain q where "m' = put_policy m (dp_TenantID q) (dp_Name q) q"
      "dp_TenantID q = dp_TenantID p" "dp_Name q = dp_Name p" "dp_ContentPolicy q = dp_ContentPolicy p"
    by (auto simp: policy_Create_def Let_def split: if_splits)
  with v policy_Validate_cong[of q p] show thesis by (intro that[of q]) auto
qed

lemma policy_Update_put:
  assumes "policy_Update m t n mutate now = Inr (row, m')"
  shows "m' = put_policy m t n row \<and> policy_Validate row = None \<and> dp_TenantID row = t"
proof -
  obtain prev r where r: "policy_row m t n = Some prev" "mutate prev = Inr r" "policy_Validate (r\<lparr>dp_TenantID := t\<rparr>) = None"
    using assms by (auto simp: policy_Update_def Let_def split: if_splits option.splits sum.splits)
  then show ?thesis
    using assms policy_Validate_cong[of row "r\<lparr>dp_TenantID := t\<rparr>"]
    by (auto simp: policy_Update_def Let_def split: if_splits)
qed

lemma rows_valid_step: "policy_step m m' \<Longrightarrow> rows_valid m \<Longrightarrow> rows_valid m'"
proof (erule policy_stepE)
  fix p now assume "policy_Create m p now = Inr m'" "rows_valid m"
  then show ?thesis by (auto elim!: policy_Create_put intro: rows_valid_put)
next
  fix t n mutate now row assume "policy_Update m t n mutate now = Inr (row, m')" "rows_valid m"
  then show ?thesis using policy_Update_put rows_valid_put by metis
next
  fix t n w assume del: "policy_SoftDelete m t n w = Inr m'" and ok: "rows_valid m"
  then consider "m' = m" | row where "policy_row m t n = Some row" "m' = put_policy m t n (row\<lparr>dp_DeletedAt := w, dp_UpdatedAt := w\<rparr>)"
    by (auto simp: policy_SoftDelete_def split: if_splits option.splits)
  then show ?thesis
  proof cases
    case 2
    then have "policy_Validate row = None" "dp_TenantID row = t" using ok by (auto simp: rows_valid_def)
    then show ?thesis
      using 2(2) ok policy_Validate_cong[of "row\<lparr>dp_DeletedAt := w, dp_UpdatedAt := w\<rparr>" row] by (auto intro: rows_valid_put)
  qed (use ok in simp)
qed

lemma rows_valid_steps: "policy_step\<^sup>*\<^sup>* m m' \<Longrightarrow> rows_valid m \<Longrightarrow> rows_valid m'"
  by (induction rule: rtranclp_induct) (auto intro: rows_valid_step)

lemma set_enumerate: "set (enumerate 0 xs) = (\<lambda>i. (i, xs ! i)) ` {..<length xs}"
  by (auto simp: enumerate_eq_zip set_zip) (metis add_0 nth_upt)

lemma audit_rule_set:
  "v \<in> set (audit_rule p i r pools) \<longleftrightarrow>
    (\<exists>src\<in>set pools. \<exists>tgt\<in>set pools. v = violation_of p i src tgt \<and> ru_Allow r
       \<and> target_Matches (ru_Target r) (pc_Candidate src) \<and> target_Matches (ru_Target r) (pc_Candidate tgt)
       \<and> policy_Evaluate p (pc_Candidate tgt) \<and> pc_PoolName src \<noteq> pc_PoolName tgt
       \<and> 0 \<le> pc_IsolationRank tgt \<and> pc_IsolationRank tgt < pc_IsolationRank src)"
proof -
  have rank: "0 \<le> a \<and> a < b \<longleftrightarrow> \<not> a < 0 \<and> \<not> b < 0 \<and> a < b" for a b :: int by auto
  show ?thesis unfolding rank by (simp add: audit_rule_def Let_def flip: violation_of_def) blast
qed

lemma Rank_less_iff:
  "0 \<le> Rank tgt \<and> Rank tgt < Rank src \<longleftrightarrow>
   isolation_IsValid src \<and> isolation_IsValid tgt \<and> \<not> AtLeastAsRestrictive tgt src"
  by (cases src; cases tgt) (simp_all add: Rank_def AtLeastAsRestrictive_def isolation_IsValid_def AllProfiles_def)

section \<open>Properties\<close>

text \<open>
  C35. The isolation audit is exact: on pools that carry the rank of their profile it
  reports a violation for a rule, a source and a target pool exactly when the rule
  allows, both pools match it, the policy as a whole permits the target (some allow
  rule matches it and no deny rule does), and the delegation-time isolation check
  rejects the target's profile against the source's.
\<close>

theorem AuditIsolation_exact:
  assumes "\<forall>pc\<in>set pools. pc_IsolationRank pc = Rank (pc_IsolationProfile pc)"
  shows "v \<in> set (AuditIsolation policies pools) \<longleftrightarrow>
    (\<exists>p\<in>set policies. \<exists>i<length (dp_Rules p). \<exists>src\<in>set pools. \<exists>tgt\<in>set pools.
       v = violation_of p i src tgt \<and> ru_Allow (dp_Rules p ! i)
       \<and> target_Matches (ru_Target (dp_Rules p ! i)) (pc_Candidate src)
       \<and> target_Matches (ru_Target (dp_Rules p ! i)) (pc_Candidate tgt)
       \<and> permits (dp_Rules p) (pc_Candidate tgt) \<and> pc_PoolName src \<noteq> pc_PoolName tgt
       \<and> isolation_IsValid (pc_IsolationProfile src) \<and> isolation_IsValid (pc_IsolationProfile tgt)
       \<and> \<not> AtLeastAsRestrictive (pc_IsolationProfile tgt) (pc_IsolationProfile src))"
proof -
  have "v \<in> set (AuditIsolation policies pools) \<longleftrightarrow>
      (\<exists>p\<in>set policies. \<exists>i<length (dp_Rules p). v \<in> set (audit_rule p i (dp_Rules p ! i) pools))"
    by (simp add: AuditIsolation_def set_enumerate) blast
  also have "\<dots> \<longleftrightarrow> (\<exists>p\<in>set policies. \<exists>i<length (dp_Rules p). \<exists>src\<in>set pools. \<exists>tgt\<in>set pools.
       v = violation_of p i src tgt \<and> ru_Allow (dp_Rules p ! i)
       \<and> target_Matches (ru_Target (dp_Rules p ! i)) (pc_Candidate src)
       \<and> target_Matches (ru_Target (dp_Rules p ! i)) (pc_Candidate tgt)
       \<and> permits (dp_Rules p) (pc_Candidate tgt) \<and> pc_PoolName src \<noteq> pc_PoolName tgt
       \<and> isolation_IsValid (pc_IsolationProfile src) \<and> isolation_IsValid (pc_IsolationProfile tgt)
       \<and> \<not> AtLeastAsRestrictive (pc_IsolationProfile tgt) (pc_IsolationProfile src))"
    unfolding audit_rule_set policy_Evaluate_permits using assms by (simp add: Rank_less_iff cong: bex_cong)
  finally show ?thesis .
qed

theorem AuditIsolation_exact_witness:
  "violation_of demo_policy 0 (demo_pool ''vm'' ProfileMicrovm) (demo_pool ''std'' ProfileStandard)
     \<in> set (AuditIsolation [demo_policy] [demo_pool ''vm'' ProfileMicrovm, demo_pool ''std'' ProfileStandard])"
  using AuditIsolation_exact[of "[demo_pool ''vm'' ProfileMicrovm, demo_pool ''std'' ProfileStandard]"
      "violation_of demo_policy 0 (demo_pool ''vm'' ProfileMicrovm) (demo_pool ''std'' ProfileStandard)" "[demo_policy]"]
  by (simp add: demo_policy_def demo_pool_def permits_def target_Matches_def isolation_IsValid_def AllProfiles_def
      AtLeastAsRestrictive_def Rank_def)

text \<open>
  C36. Whatever writes a policy registry has seen, every stored row belongs to the
  tenant it is stored under and passes the structural validation; in particular a
  policy that requires export scanning names an interceptor.
\<close>

theorem policy_rows_valid:
  assumes "policy_step\<^sup>*\<^sup>* [] m" "policy_row m t n = Some p"
  shows "policy_Validate p = None \<and> dp_TenantID p = t
       \<and> (cp_ScanExportedFiles (dp_ContentPolicy p) \<longrightarrow> cp_InterceptorRef (dp_ContentPolicy p) \<noteq> '''')
       \<and> 0 \<le> cp_MaxInputSize (dp_ContentPolicy p) \<and> 0 \<le> cp_MaxExportedFileSize (dp_ContentPolicy p)"
proof -
  have "rows_valid []" by (simp add: rows_valid_def policy_row_def)
  then have "policy_Validate p = None" "dp_TenantID p = t"
    using rows_valid_steps[OF assms(1)] assms(2) by (auto simp: rows_valid_def)
  then show ?thesis by (auto simp: policy_Validate_def Let_def split: if_splits option.splits)
qed

theorem policy_rows_valid_witness:
  "\<exists>m p. policy_Create [] demo_policy 5 = Inr m \<and> policy_row m ''t'' ''p'' = Some p \<and> policy_Validate p = None"
proof -
  define p where "p = demo_policy\<lparr>dp_CreatedAt := 5, dp_UpdatedAt := 5, dp_Version := 1\<rparr>"
  have c: "policy_Create [] demo_policy 5 = Inr (put_policy [] ''t'' ''p'' p)"
    by (simp add: policy_Create_def demo_policy_def p_def policy_Validate_def policy_ValidateName_def name_start_def
        policy_row_def is_zero_time_def less_eq_char_def)
  have "policy_row (put_policy [] ''t'' ''p'' p) ''t'' ''p'' = Some p" by simp
  then show ?thesis
    using policy_rows_valid[OF r_into_rtranclp[of policy_step, OF step_create[OF c]], of "''t''" "''p''" p] c by blast
qed

end
