(* ===== verification/Runtime_Registry.thy ===== *)
theory Runtime_Registry
  imports Delegation_Policy
begin

text \<open>
  The runtime registry (\<^verbatim>\<open>pkg/gateway/runtime/runtimestore\<close>: \<^verbatim>\<open>runtimestore.go\<close>,
  \<^verbatim>\<open>merge.go\<close>, \<^verbatim>\<open>capoverride.go\<close> and \<^verbatim>\<open>workspace_defaults.go\<close>): the runtime record, the
  registration defaults, the in-memory registry, the resolution of a derived runtime
  against its base with the per-field merge rules, the tenant capability override, the
  setup-command policy and the composition of the workspace defaults into a plan.
  Copies made to avoid sharing are the identity here. A pointer is an option. The
  agent-interface descriptor, the session policy and the options schema are opaque to
  this package and kept as strings.
\<close>

section \<open>Blocks of a runtime\<close>

datatype runtime_type = TypeAgent | TypeMCP | TypeUnset | TypeOther string

record injection_capability =
  ij_Supported :: bool
  ij_Modes :: "string list"

record runtime_capabilities =
  rc_Interaction :: string
  rc_Injection :: injection_capability
  rc_PreConnect :: bool
  rc_MidSessionUpload :: bool

record credential_capabilities =
  cc_HotRotation :: bool
  cc_ProxyDialect :: "string list"

definition AllowsProxyDialect :: "credential_capabilities option \<Rightarrow> string \<Rightarrow> bool" where
  "AllowsProxyDialect c dialect = (case c of None \<Rightarrow> False | Some b \<Rightarrow> dialect \<in> set (cc_ProxyDialect b))"

record metadata_entry =
  me_Key :: string
  me_ContentType :: string
  me_Visibility :: string
  me_Content :: string

definition metadata_IsValid :: "string \<Rightarrow> bool" where
  "metadata_IsValid v \<longleftrightarrow> v \<in> set [''internal'', ''tenant'', ''public'']"

definition PublicMetadataRefs :: "metadata_entry list \<Rightarrow> (string \<times> string \<times> string) list" where
  "PublicMetadataRefs entries =
    map (\<lambda>e. (me_Key e, me_ContentType e, me_Visibility e)) (filter (\<lambda>e. me_Visibility e = ''public'') entries)"

datatype metadata_error = EmptyKey nat | DuplicateKey string | BadVisibility string string

fun validate_metadata :: "nat \<Rightarrow> string list \<Rightarrow> metadata_entry list \<Rightarrow> metadata_error option" where
  "validate_metadata i seen [] = None"
| "validate_metadata i seen (e # es) =
    (if me_Key e = '''' then Some (EmptyKey i)
     else if me_Key e \<in> set seen then Some (DuplicateKey (me_Key e))
     else if \<not> metadata_IsValid (me_Visibility e) then Some (BadVisibility (me_Key e) (me_Visibility e))
     else validate_metadata (Suc i) (me_Key e # seen) es)"

definition ValidatePublishedMetadata :: "metadata_entry list \<Rightarrow> metadata_error option" where
  "ValidatePublishedMetadata entries = validate_metadata 0 [] entries"

record setup_policy =
  sp_TimeoutSeconds :: int
  sp_OnTimeout :: string

record runtime_limits =
  li_MaxSessionAgeSeconds :: int
  li_MaxUploadSizeBytes :: int
  li_MaxRequestInputWaitSeconds :: int
  li_MaxElicitationWaitSeconds :: int
  li_MaxElicitationsPerSession :: int

datatype setup_command_mode = ModeAllowlist | ModeBlocklist | ModeUnset | SetupModeOther string

record setup_command_policy =
  sc_Mode :: setup_command_mode
  sc_Shell :: bool
  sc_Allowlist :: "string list"
  sc_Blocklist :: "string list"
  sc_MaxCommands :: int

definition hasCommandPrefix :: "string \<Rightarrow> string \<Rightarrow> bool" where
  "hasCommandPrefix cmd p =
    (if p = '''' then False
     else if cmd = p then True
     else length cmd > length p \<and> take (length p) cmd = p \<and> cmd ! length p = CHR '' '')"

definition PermitsCommand :: "setup_command_policy option \<Rightarrow> string \<Rightarrow> bool" where
  "PermitsCommand pol cmd =
    (case pol of None \<Rightarrow> True
     | Some p \<Rightarrow>
         (case sc_Mode p of
            ModeUnset \<Rightarrow> True
          | ModeAllowlist \<Rightarrow> list_ex (hasCommandPrefix cmd) (sc_Allowlist p)
          | ModeBlocklist \<Rightarrow> \<not> list_ex (hasCommandPrefix cmd) (sc_Blocklist p)
          | SetupModeOther _ \<Rightarrow> True))"

record default_pool_config =
  pl_WarmCount :: int
  pl_ResourceClass :: string
  pl_EgressProfile :: string

record workspace_file =
  wf_Path :: string
  wf_Content :: string
  wf_Ref :: string

record workspace_defaults =
  wd_Files :: "workspace_file list"
  wd_SetupCommands :: "(string \<times> int) list"

record shared_asset =
  sa_Type :: string
  sa_Ref :: string
  sa_Path :: string
  sa_Content :: string
  sa_DestPath :: string

section \<open>Runtimes\<close>

record runtime =
  rt_Name :: string
  rt_Type :: runtime_type
  rt_Image :: string
  rt_ExecutionMode :: string
  rt_IsolationProfile :: isolation_profile
  rt_IntegrationLevel :: string
  rt_WorkspaceTier :: string
  rt_RequireSoPeercred :: "bool option"
  rt_Restartable :: bool
  rt_AllowedResourceClasses :: "string list"
  rt_SupportedProviders :: "string list"
  rt_CredentialCapabilities :: "credential_capabilities option"
  rt_AllowSelfRecursion :: bool
  rt_Description :: string
  rt_DelegationPolicyRef :: string
  rt_Labels :: "(string, string) go_map"
  rt_AgentInterface :: "string option"
  rt_PublishedMetadata :: "metadata_entry list"
  rt_CapabilityInferenceMode :: string
  rt_ToolCapabilityOverrides :: "(string, string list) go_map option"
  rt_SetupPolicy :: "setup_policy option"
  rt_Limits :: "runtime_limits option"
  rt_SetupCommandPolicy :: "setup_command_policy option"
  rt_ArchiveAllowSymlinks :: "bool option"
  rt_DefaultPoolConfig :: "default_pool_config option"
  rt_WorkspaceDefaults :: "workspace_defaults option"
  rt_RuntimeOptionsSchema :: string
  rt_SharedAssets :: "shared_asset list"
  rt_Capabilities :: "runtime_capabilities option"
  rt_SDKWarmBlockingPaths :: "string list"
  rt_MinPlatformVersion :: string
  rt_SessionPolicy :: "string option"
  rt_BaseRuntime :: string
  rt_CreatedAt :: go_time
  rt_UpdatedAt :: go_time
  rt_DeletedAt :: go_time
  rt_Version :: int

definition runtime_IsActive :: "runtime \<Rightarrow> bool" where
  "runtime_IsActive r \<longleftrightarrow> is_zero_time (rt_DeletedAt r)"

definition IsDerived :: "runtime \<Rightarrow> bool" where
  "IsDerived r \<longleftrightarrow> rt_BaseRuntime r \<noteq> ''''"

definition InjectionSupported :: "runtime \<Rightarrow> bool" where
  "InjectionSupported r = (case rt_Capabilities r of None \<Rightarrow> False | Some c \<Rightarrow> ij_Supported (rc_Injection c))"

definition RequiresSoPeercred :: "runtime \<Rightarrow> bool" where
  "RequiresSoPeercred r = (case rt_RequireSoPeercred r of None \<Rightarrow> True | Some b \<Rightarrow> b)"

text \<open>The default inference mode is the constant of \<^verbatim>\<open>capabilityinference\<close>.\<close>

definition runtime_ApplyDefaults :: "runtime \<Rightarrow> bool \<Rightarrow> runtime" where
  "runtime_ApplyDefaults r devMode =
    (let r = (if rt_Type r = TypeUnset then r\<lparr>rt_Type := TypeAgent\<rparr> else r);
         r = (if rt_ExecutionMode r = '''' then r\<lparr>rt_ExecutionMode := ''session''\<rparr> else r);
         r = (if rt_IsolationProfile r = ProfileUnset then r\<lparr>rt_IsolationProfile := DefaultForMode devMode\<rparr> else r);
         r = (if rt_Type r = TypeAgent \<and> rt_IntegrationLevel r = '''' then r\<lparr>rt_IntegrationLevel := ''basic''\<rparr> else r);
         r = (if rt_CapabilityInferenceMode r = '''' then r\<lparr>rt_CapabilityInferenceMode := ''strict''\<rparr> else r);
         r = (if rt_RequireSoPeercred r = None then r\<lparr>rt_RequireSoPeercred := Some True\<rparr> else r)
     in if (case rt_Capabilities r of None \<Rightarrow> False | Some c \<Rightarrow> rc_PreConnect c) \<and> rt_SDKWarmBlockingPaths r = []
        then r\<lparr>rt_SDKWarmBlockingPaths := [''CLAUDE.md'', ''.claude/*'']\<rparr> else r)"

section \<open>The merge of a derived runtime\<close>

text \<open>
  The loop the three keyed lists share: the base entries in order, each replaced by
  the last derived entry of its key, then the derived entries whose key is new.
\<close>

definition merge_keyed :: "('a \<Rightarrow> string) \<Rightarrow> 'a list \<Rightarrow> 'a list \<Rightarrow> 'a list" where
  "merge_keyed key base derived =
    map (\<lambda>f. case List.find (\<lambda>d. key d = key f) (rev derived) of Some d \<Rightarrow> d | None \<Rightarrow> f) base
    @ filter (\<lambda>d. key d \<notin> key ` set base) derived"

definition mergeWorkspaceFiles :: "workspace_file list \<Rightarrow> workspace_file list \<Rightarrow> workspace_file list" where
  "mergeWorkspaceFiles = merge_keyed wf_Path"

definition mergeSharedAssets :: "shared_asset list \<Rightarrow> shared_asset list \<Rightarrow> shared_asset list" where
  "mergeSharedAssets = merge_keyed sa_DestPath"

definition mergePublishedMetadata :: "metadata_entry list \<Rightarrow> metadata_entry list \<Rightarrow> metadata_entry list" where
  "mergePublishedMetadata = merge_keyed me_Key"

definition mergeWorkspaceDefaults ::
  "workspace_defaults option \<Rightarrow> workspace_defaults option \<Rightarrow> workspace_defaults option" where
  "mergeWorkspaceDefaults base derived =
    (case (base, derived) of
       (None, _) \<Rightarrow> derived
     | (_, None) \<Rightarrow> base
     | (Some b, Some d) \<Rightarrow> Some \<lparr>wd_Files = mergeWorkspaceFiles (wd_Files b) (wd_Files d),
                                wd_SetupCommands = wd_SetupCommands b @ wd_SetupCommands d\<rparr>)"

definition mergeLabels :: "(string, string) go_map \<Rightarrow> (string, string) go_map \<Rightarrow> (string, string) go_map" where
  "mergeLabels base derived = fold (\<lambda>(k, v). AList.update k v) derived (fold (\<lambda>(k, v). AList.update k v) base [])"

definition mergeSetupPolicy :: "setup_policy option \<Rightarrow> setup_policy option \<Rightarrow> setup_policy option" where
  "mergeSetupPolicy base derived =
    (case (base, derived) of
       (None, _) \<Rightarrow> derived
     | (_, None) \<Rightarrow> base
     | (Some b, Some d) \<Rightarrow>
         Some \<lparr>sp_TimeoutSeconds =
                 (if sp_TimeoutSeconds b = 0 \<or> sp_TimeoutSeconds d = 0 then 0
                  else if sp_TimeoutSeconds d > sp_TimeoutSeconds b then sp_TimeoutSeconds d
                  else sp_TimeoutSeconds b),
               sp_OnTimeout = (if sp_OnTimeout d \<noteq> '''' then sp_OnTimeout d else sp_OnTimeout b)\<rparr>)"

abbreviation if_unset :: "'a option \<Rightarrow> 'a option \<Rightarrow> 'a option" where
  "if_unset d b \<equiv> (if d = None then b else d)"

definition runtime_Merge :: "runtime \<Rightarrow> runtime \<Rightarrow> runtime" where
  "runtime_Merge base derived =
    derived
      \<lparr>rt_BaseRuntime := '''',
       rt_Image := rt_Image base,
       rt_Type := rt_Type base,
       rt_ExecutionMode := rt_ExecutionMode base,
       rt_IsolationProfile := rt_IsolationProfile base,
       rt_IntegrationLevel := rt_IntegrationLevel base,
       rt_WorkspaceTier := rt_WorkspaceTier base,
       rt_RequireSoPeercred := rt_RequireSoPeercred base,
       rt_Restartable := rt_Restartable base,
       rt_Capabilities := rt_Capabilities base,
       rt_AllowedResourceClasses := rt_AllowedResourceClasses base,
       rt_SDKWarmBlockingPaths := rt_SDKWarmBlockingPaths base,
       rt_AllowSelfRecursion := rt_AllowSelfRecursion derived,
       rt_Description := (if rt_Description derived = '''' then rt_Description base else rt_Description derived),
       rt_DelegationPolicyRef :=
         (if rt_DelegationPolicyRef derived = '''' then rt_DelegationPolicyRef base else rt_DelegationPolicyRef derived),
       rt_AgentInterface := if_unset (rt_AgentInterface derived) (rt_AgentInterface base),
       rt_SessionPolicy := if_unset (rt_SessionPolicy derived) (rt_SessionPolicy base),
       rt_CapabilityInferenceMode :=
         (if rt_CapabilityInferenceMode derived = '''' then rt_CapabilityInferenceMode base
          else rt_CapabilityInferenceMode derived),
       rt_ToolCapabilityOverrides := if_unset (rt_ToolCapabilityOverrides derived) (rt_ToolCapabilityOverrides base),
       rt_MinPlatformVersion :=
         (if rt_MinPlatformVersion derived = '''' then rt_MinPlatformVersion base else rt_MinPlatformVersion derived),
       rt_SupportedProviders :=
         (if rt_SupportedProviders derived = [] then rt_SupportedProviders base else rt_SupportedProviders derived),
       rt_CredentialCapabilities := if_unset (rt_CredentialCapabilities derived) (rt_CredentialCapabilities base),
       rt_Limits := if_unset (rt_Limits derived) (rt_Limits base),
       rt_SetupCommandPolicy := if_unset (rt_SetupCommandPolicy derived) (rt_SetupCommandPolicy base),
       rt_ArchiveAllowSymlinks := if_unset (rt_ArchiveAllowSymlinks derived) (rt_ArchiveAllowSymlinks base),
       rt_DefaultPoolConfig := if_unset (rt_DefaultPoolConfig derived) (rt_DefaultPoolConfig base),
       rt_RuntimeOptionsSchema :=
         (if rt_RuntimeOptionsSchema derived = '''' then rt_RuntimeOptionsSchema base else rt_RuntimeOptionsSchema derived),
       rt_Labels := mergeLabels (rt_Labels base) (rt_Labels derived),
       rt_PublishedMetadata := mergePublishedMetadata (rt_PublishedMetadata base) (rt_PublishedMetadata derived),
       rt_SetupPolicy := mergeSetupPolicy (rt_SetupPolicy base) (rt_SetupPolicy derived),
       rt_WorkspaceDefaults := mergeWorkspaceDefaults (rt_WorkspaceDefaults base) (rt_WorkspaceDefaults derived),
       rt_SharedAssets := mergeSharedAssets (rt_SharedAssets base) (rt_SharedAssets derived)\<rparr>"

section \<open>Tenant capability overrides\<close>

record capability_override =
  co_Interaction :: "string option"
  co_InjectionSupported :: "bool option"
  co_InjectionModes :: "string list option"
  co_PreConnect :: "bool option"
  co_SDKWarmBlockingPaths :: "string list option"

definition override_IsZero :: "capability_override \<Rightarrow> bool" where
  "override_IsZero co \<longleftrightarrow> co_Interaction co = None \<and> co_InjectionSupported co = None \<and> co_InjectionModes co = None
     \<and> co_PreConnect co = None \<and> co_SDKWarmBlockingPaths co = None"

definition AllRuntimeInteractions :: "string list" where
  "AllRuntimeInteractions = [''one_shot'', ''multi_turn'']"

definition AllInjectionModes :: "string list" where
  "AllInjectionModes = [''immediate'', ''queued'']"

datatype override_error = BadInteraction string | BadInjectionMode string

definition override_Validate :: "capability_override \<Rightarrow> override_error option" where
  "override_Validate co =
    (case co_Interaction co of
       Some i \<Rightarrow> if i \<notin> set AllRuntimeInteractions then Some (BadInteraction i)
                 else (case co_InjectionModes co of None \<Rightarrow> None
                       | Some ms \<Rightarrow> map_option BadInjectionMode (List.find (\<lambda>m. m \<notin> set AllInjectionModes) ms))
     | None \<Rightarrow> (case co_InjectionModes co of None \<Rightarrow> None
                | Some ms \<Rightarrow> map_option BadInjectionMode (List.find (\<lambda>m. m \<notin> set AllInjectionModes) ms)))"

definition zero_capabilities :: runtime_capabilities where
  "zero_capabilities = \<lparr>rc_Interaction = '''', rc_Injection = \<lparr>ij_Supported = False, ij_Modes = []\<rparr>,
     rc_PreConnect = False, rc_MidSessionUpload = False\<rparr>"

definition ApplyCapabilityOverride :: "runtime \<Rightarrow> capability_override \<Rightarrow> runtime" where
  "ApplyCapabilityOverride rt co =
    (if override_IsZero co then rt
     else let needCaps = (co_Interaction co \<noteq> None \<or> co_InjectionSupported co \<noteq> None
                \<or> co_InjectionModes co \<noteq> None \<or> co_PreConnect co \<noteq> None);
              caps = (case rt_Capabilities rt of None \<Rightarrow> zero_capabilities | Some c \<Rightarrow> c);
              caps = (case co_Interaction co of None \<Rightarrow> caps | Some i \<Rightarrow> caps\<lparr>rc_Interaction := i\<rparr>);
              caps = (case co_InjectionSupported co of None \<Rightarrow> caps
                      | Some b \<Rightarrow> caps\<lparr>rc_Injection := (rc_Injection caps)\<lparr>ij_Supported := b\<rparr>\<rparr>);
              caps = (case co_InjectionModes co of None \<Rightarrow> caps
                      | Some ms \<Rightarrow> caps\<lparr>rc_Injection := (rc_Injection caps)\<lparr>ij_Modes := ms\<rparr>\<rparr>);
              caps = (case co_PreConnect co of None \<Rightarrow> caps | Some b \<Rightarrow> caps\<lparr>rc_PreConnect := b\<rparr>);
              rt = (if needCaps then rt\<lparr>rt_Capabilities := Some caps\<rparr> else rt)
          in case co_SDKWarmBlockingPaths co of None \<Rightarrow> rt | Some ps \<Rightarrow> rt\<lparr>rt_SDKWarmBlockingPaths := ps\<rparr>)"

section \<open>The in-memory registry\<close>

type_synonym runtime_mem = "(string, runtime) go_map"

datatype runtime_error =
    ErrRuntimeNotFound
  | ErrRuntimeExists
  | ErrRuntimeName
  | ErrRuntimeMutate string
  | ErrRuntimeStore string
  | ErrBaseMissing string
  | ErrBaseStore string string
  | ErrWorkspaceDefaultsLookup string
  | ErrComposeRef nat
  | ErrComposePlan string

definition runtime_ValidateName :: "string \<Rightarrow> runtime_error option" where
  "runtime_ValidateName name = (if policy_ValidateName name = None then None else Some ErrRuntimeName)"

definition runtime_Create :: "runtime_mem \<Rightarrow> runtime \<Rightarrow> go_time \<Rightarrow> runtime_error + runtime_mem" where
  "runtime_Create m r now =
    (case runtime_ValidateName (rt_Name r) of
       Some e \<Rightarrow> Inl e
     | None \<Rightarrow>
         (if map_of m (rt_Name r) \<noteq> None then Inl ErrRuntimeExists
          else let r = (if is_zero_time (rt_CreatedAt r) then r\<lparr>rt_CreatedAt := now\<rparr> else r);
                   r = (if is_zero_time (rt_UpdatedAt r) then r\<lparr>rt_UpdatedAt := rt_CreatedAt r\<rparr> else r);
                   r = (if rt_Version r = 0 then r\<lparr>rt_Version := 1\<rparr> else r)
               in Inr (AList.update (rt_Name r) r m)))"

definition runtime_Get :: "runtime_mem \<Rightarrow> string \<Rightarrow> runtime store_read" where
  "runtime_Get m name = (case map_of m name of None \<Rightarrow> ReadMissing | Some r \<Rightarrow> ReadRow r)"

definition runtime_Update ::
  "runtime_mem \<Rightarrow> string \<Rightarrow> (runtime \<Rightarrow> string + runtime) \<Rightarrow> go_time \<Rightarrow> runtime_error + (runtime \<times> runtime_mem)" where
  "runtime_Update m name mutate now =
    (case map_of m name of
       None \<Rightarrow> Inl ErrRuntimeNotFound
     | Some prev \<Rightarrow>
         (case mutate prev of
            Inl e \<Rightarrow> Inl (ErrRuntimeMutate e)
          | Inr row \<Rightarrow>
              (let stamp = (if \<not> time_after now (rt_UpdatedAt prev) then time_add (rt_UpdatedAt prev) 1 else now);
                   row = row\<lparr>rt_UpdatedAt := stamp, rt_Version := w64 (rt_Version row + 1)\<rparr>
               in Inr (row, AList.update name row m))))"

definition runtime_List :: "runtime_mem \<Rightarrow> bool \<Rightarrow> runtime_type \<Rightarrow> runtime list" where
  "runtime_List m includeDeleted ty =
    sort_key rt_Name (filter (\<lambda>r. (includeDeleted \<or> runtime_IsActive r) \<and> (ty = TypeUnset \<or> rt_Type r = ty)) (map snd m))"

definition runtime_SoftDelete :: "runtime_mem \<Rightarrow> string \<Rightarrow> go_time \<Rightarrow> runtime_error + runtime_mem" where
  "runtime_SoftDelete m name when =
    (case map_of m name of
       None \<Rightarrow> Inl ErrRuntimeNotFound
     | Some row \<Rightarrow>
         (if \<not> is_zero_time (rt_DeletedAt row) then Inr m
          else Inr (AList.update name (row\<lparr>rt_DeletedAt := when, rt_UpdatedAt := when,
                      rt_Version := w64 (rt_Version row + 1)\<rparr>) m)))"

section \<open>Resolution\<close>

text \<open>A registry is read through its \<^verbatim>\<open>Get\<close>, whose answer may be a store error.\<close>

type_synonym runtime_getter = "string \<Rightarrow> runtime store_read"

definition mergeBase :: "runtime_getter \<Rightarrow> string \<Rightarrow> runtime \<Rightarrow> runtime_error + runtime" where
  "mergeBase get name rt =
    (if \<not> IsDerived rt then Inr rt
     else case get (rt_BaseRuntime rt) of
            ReadMissing \<Rightarrow> Inl (ErrBaseMissing name)
          | ReadError e \<Rightarrow> Inl (ErrBaseStore name e)
          | ReadRow base \<Rightarrow> Inr (runtime_Merge base rt))"

definition runtime_Resolve :: "runtime_getter \<Rightarrow> string \<Rightarrow> runtime_error + runtime" where
  "runtime_Resolve get name =
    (case get name of
       ReadMissing \<Rightarrow> Inl ErrRuntimeNotFound
     | ReadError e \<Rightarrow> Inl (ErrRuntimeStore e)
     | ReadRow rt \<Rightarrow> mergeBase get name rt)"

text \<open>\<open>Inr None\<close> is the answer that the name has no entry.\<close>

definition ResolveRegistered :: "runtime_getter \<Rightarrow> string \<Rightarrow> runtime_error + runtime option" where
  "ResolveRegistered get name =
    (case get name of
       ReadMissing \<Rightarrow> Inr None
     | ReadError e \<Rightarrow> Inl (ErrWorkspaceDefaultsLookup name)
     | ReadRow rt \<Rightarrow>
         (case mergeBase get name rt of
            Inr merged \<Rightarrow> Inr (Some merged)
          | Inl (ErrBaseMissing n) \<Rightarrow> Inl (ErrBaseMissing n)
          | Inl _ \<Rightarrow> Inl (ErrWorkspaceDefaultsLookup name)))"

section \<open>Workspace defaults\<close>

datatype plan_source = InlineFile string string string | OtherSource string

record workspace_plan =
  pn_SchemaVersion :: int
  pn_Sources :: "plan_source list"
  pn_SetupCommands :: "(string \<times> int) list"

definition zero_plan :: workspace_plan where
  "zero_plan = \<lparr>pn_SchemaVersion = 0, pn_Sources = [], pn_SetupCommands = []\<rparr>"

fun inlineSources :: "nat \<Rightarrow> workspace_file list \<Rightarrow> runtime_error + plan_source list" where
  "inlineSources i [] = Inr []"
| "inlineSources i (f # fs) =
    (if wf_Ref f \<noteq> '''' then Inl (ErrComposeRef i)
     else case inlineSources (Suc i) fs of
            Inl e \<Rightarrow> Inl e
          | Inr ss \<Rightarrow> Inr (InlineFile (wf_Path f) (wf_Content f) [] # ss))"

text \<open>
  \<open>reparse\<close> is the plan codec of \<^verbatim>\<open>pkg/workspaceplan\<close>: marshal and parse in the stored
  form. \<open>Inr None\<close> is the unchanged plan.
\<close>

definition ComposeInto ::
  "(workspace_plan \<Rightarrow> string + workspace_plan) \<Rightarrow> workspace_defaults option \<Rightarrow> workspace_plan
   \<Rightarrow> runtime_error + workspace_plan option" where
  "ComposeInto reparse w plan =
    (case w of None \<Rightarrow> Inr None
     | Some d \<Rightarrow>
         (if wd_Files d = [] \<and> wd_SetupCommands d = [] then Inr None
          else case inlineSources 0 (wd_Files d) of
                 Inl e \<Rightarrow> Inl e
               | Inr sources \<Rightarrow>
                   (case reparse \<lparr>pn_SchemaVersion = (if pn_SchemaVersion plan = 0 then 1 else pn_SchemaVersion plan),
                                  pn_Sources = sources @ pn_Sources plan,
                                  pn_SetupCommands = wd_SetupCommands d @ pn_SetupCommands plan\<rparr> of
                      Inl e \<Rightarrow> Inl (ErrComposePlan e)
                    | Inr parsed \<Rightarrow> Inr (Some parsed))))"

definition ComposeWorkspaceDefaults ::
  "(workspace_plan \<Rightarrow> string + workspace_plan) \<Rightarrow> runtime_getter option \<Rightarrow> string \<Rightarrow> workspace_plan
   \<Rightarrow> runtime_error + workspace_plan option" where
  "ComposeWorkspaceDefaults reparse runtimes runtimeRef plan =
    (case runtimes of None \<Rightarrow> Inr None
     | Some get \<Rightarrow>
         (if runtimeRef = '''' then Inr None
          else case ResolveRegistered get runtimeRef of
                 Inl e \<Rightarrow> Inl e
               | Inr None \<Rightarrow> Inr None
               | Inr (Some rt) \<Rightarrow> ComposeInto reparse (rt_WorkspaceDefaults rt) plan))"

section \<open>Specification\<close>

text \<open>The entry of a keyed list under a key.\<close>

definition entry :: "('a \<Rightarrow> string) \<Rightarrow> 'a list \<Rightarrow> string \<Rightarrow> 'a option" where
  "entry key xs k = List.find (\<lambda>x. key x = k) xs"

definition replaced :: "('a \<Rightarrow> string) \<Rightarrow> 'a list \<Rightarrow> 'a \<Rightarrow> 'a" where
  "replaced key derived f = (case entry key derived (key f) of Some d \<Rightarrow> d | None \<Rightarrow> f)"

definition metadata_ok :: "metadata_entry list \<Rightarrow> bool" where
  "metadata_ok es \<longleftrightarrow> distinct (map me_Key es) \<and> (\<forall>e\<in>set es. me_Key e \<noteq> '''' \<and> metadata_IsValid (me_Visibility e))"

definition zero_runtime :: runtime where
  "zero_runtime =
    \<lparr>rt_Name = '''', rt_Type = TypeUnset, rt_Image = '''', rt_ExecutionMode = '''', rt_IsolationProfile = ProfileUnset,
     rt_IntegrationLevel = '''', rt_WorkspaceTier = '''', rt_RequireSoPeercred = None, rt_Restartable = False,
     rt_AllowedResourceClasses = [], rt_SupportedProviders = [], rt_CredentialCapabilities = None,
     rt_AllowSelfRecursion = False, rt_Description = '''', rt_DelegationPolicyRef = '''', rt_Labels = [],
     rt_AgentInterface = None, rt_PublishedMetadata = [], rt_CapabilityInferenceMode = '''',
     rt_ToolCapabilityOverrides = None, rt_SetupPolicy = None, rt_Limits = None, rt_SetupCommandPolicy = None,
     rt_ArchiveAllowSymlinks = None, rt_DefaultPoolConfig = None, rt_WorkspaceDefaults = None,
     rt_RuntimeOptionsSchema = '''', rt_SharedAssets = [], rt_Capabilities = None, rt_SDKWarmBlockingPaths = [],
     rt_MinPlatformVersion = '''', rt_SessionPolicy = None, rt_BaseRuntime = '''', rt_CreatedAt = 0, rt_UpdatedAt = 0,
     rt_DeletedAt = 0, rt_Version = 0\<rparr>"

definition demo_base :: runtime where
  "demo_base = zero_runtime\<lparr>rt_Name := ''base'', rt_Type := TypeAgent, rt_IsolationProfile := ProfileMicrovm,
     rt_PublishedMetadata := [\<lparr>me_Key = ''card'', me_ContentType = '''', me_Visibility = ''internal'', me_Content = ''b''\<rparr>]\<rparr>"

definition demo_derived :: runtime where
  "demo_derived = zero_runtime\<lparr>rt_Name := ''d'', rt_BaseRuntime := ''base'', rt_IsolationProfile := ProfileStandard,
     rt_PublishedMetadata := [\<lparr>me_Key = ''card'', me_ContentType = '''', me_Visibility = ''public'', me_Content = ''d''\<rparr>]\<rparr>"

section \<open>Lemmas\<close>

lemma entry_None: "entry key xs k = None \<longleftrightarrow> k \<notin> key ` set xs"
  by (force simp: entry_def find_None_iff)

lemma find_rev_distinct:
  "distinct (map key xs) \<Longrightarrow> List.find (\<lambda>x. key x = k) (rev xs) = entry key xs k"
proof (induction xs)
  case (Cons x xs)
  have "List.find P (ys @ zs) = (case List.find P ys of None \<Rightarrow> List.find P zs | r \<Rightarrow> r)" for P :: "'a \<Rightarrow> bool" and ys zs
    by (induction ys) auto
  moreover have "entry key xs (key x) = None"
    using Cons.prems by (simp add: entry_None)
  ultimately show ?case using Cons by (auto simp: entry_def split: option.splits)
qed (simp add: entry_def)

lemma entry_key: "entry key xs k = Some x \<Longrightarrow> x \<in> set xs \<and> key x = k"
  by (auto simp: entry_def find_Some_iff)

lemma entry_append: "entry key (xs @ ys) k = (case entry key xs k of None \<Rightarrow> entry key ys k | Some x \<Rightarrow> Some x)"
  by (induction xs) (auto simp: entry_def)

lemma entry_filter_new:
  "k \<notin> key ` set base \<Longrightarrow> entry key (filter (\<lambda>d. key d \<notin> key ` set base) ds) k = entry key ds k"
  by (induction ds) (auto simp: entry_def)

lemma entry_replaced:
  assumes "\<And>f. key (g f) = key f"
  shows "entry key (map g xs) k = map_option g (entry key xs k)"
  using assms by (induction xs) (auto simp: entry_def)

lemma replaced_key [simp]: "key (replaced key derived f) = key f"
  by (auto simp: replaced_def dest: entry_key split: option.splits)

lemma merge_keyed_replaced:
  "distinct (map key derived) \<Longrightarrow>
   merge_keyed key base derived = map (replaced key derived) base @ filter (\<lambda>d. key d \<notin> key ` set base) derived"
  by (simp add: merge_keyed_def replaced_def find_rev_distinct cong: option.case_cong)

lemma merge_keyed_entry:
  assumes "distinct (map key derived)"
  shows "entry key (merge_keyed key base derived) k = (case entry key derived k of None \<Rightarrow> entry key base k | Some d \<Rightarrow> Some d)"
proof -
  have m: "entry key (map (replaced key derived) base) k = map_option (replaced key derived) (entry key base k)"
    by (rule entry_replaced) simp
  show ?thesis
  proof (cases "entry key base k")
    case None
  then have "k \<notin> key ` set base" by (simp add: entry_None)
  then show ?thesis
    using None assms by (simp add: merge_keyed_replaced entry_append m entry_filter_new split: option.splits)
next
  case (Some b)
  then show ?thesis
    using assms entry_key[OF Some]
    by (simp add: merge_keyed_replaced entry_append m replaced_def split: option.splits)
qed
qed

lemma merge_keyed_keys:
  assumes "distinct (map key derived)"
  shows "map key (merge_keyed key base derived) = map key base @ filter (\<lambda>k. k \<notin> key ` set base) (map key derived)"
  using assms by (simp add: merge_keyed_replaced filter_map o_def)

lemma merge_keyed_from:
  "distinct (map key derived) \<Longrightarrow> x \<in> set (merge_keyed key base derived) \<Longrightarrow> x \<in> set base \<or> x \<in> set derived"
  by (auto simp: merge_keyed_replaced replaced_def dest: entry_key split: option.splits)

lemma validate_metadata_ok:
  "validate_metadata i seen es = None \<longleftrightarrow> metadata_ok es \<and> set seen \<inter> me_Key ` set es = {}"
  by (induction i seen es rule: validate_metadata.induct) (auto simp: metadata_ok_def)

lemma ValidatePublishedMetadata_ok: "ValidatePublishedMetadata es = None \<longleftrightarrow> metadata_ok es"
  by (simp add: ValidatePublishedMetadata_def validate_metadata_ok)

lemma mergePublishedMetadata_ok:
  assumes "metadata_ok b" "metadata_ok d"
  shows "metadata_ok (mergePublishedMetadata b d)"
proof -
  have dist: "distinct (map me_Key d)" "distinct (map me_Key b)" using assms by (simp_all add: metadata_ok_def)
  have "distinct (map me_Key (merge_keyed me_Key b d))"
    using dist by (auto simp: merge_keyed_keys)
  moreover have "me_Key e \<noteq> '''' \<and> metadata_IsValid (me_Visibility e)" if "e \<in> set (merge_keyed me_Key b d)" for e
    using merge_keyed_from[OF dist(1) that] assms by (auto simp: metadata_ok_def)
  ultimately show ?thesis by (simp add: mergePublishedMetadata_def metadata_ok_def)
qed

lemma mergePublishedMetadata_entry:
  "distinct (map me_Key d) \<Longrightarrow> entry me_Key (mergePublishedMetadata b d) k =
     (case entry me_Key d k of None \<Rightarrow> entry me_Key b k | Some e \<Rightarrow> Some e)"
  unfolding mergePublishedMetadata_def by (rule merge_keyed_entry)

lemma map_of_fold_update:
  "wf_map kvs \<Longrightarrow> map_of (fold (\<lambda>(k, v). AList.update k v) kvs m) k = (case map_of kvs k of None \<Rightarrow> map_of m k | Some v \<Rightarrow> Some v)"
proof (induction kvs arbitrary: m)
  case (Cons kv kvs)
  obtain k' v' where kv: "kv = (k', v')" by (cases kv)
  have "map_of kvs k' = None" using Cons.prems by (simp add: kv map_of_eq_None_iff)
  then show ?case using Cons by (simp add: kv split: option.splits)
qed simp

lemma mergeLabels_lookup:
  "wf_map b \<Longrightarrow> wf_map d \<Longrightarrow> map_of (mergeLabels b d) k = (case map_of d k of None \<Rightarrow> map_of b k | Some v \<Rightarrow> Some v)"
  by (auto simp: mergeLabels_def map_of_fold_update split: option.splits)

text \<open>A setup cap never shrinks in a merge; zero is no cap at all.\<close>

lemma mergeSetupPolicy_ge:
  assumes "mergeSetupPolicy (Some b) d = Some m" "0 \<le> sp_TimeoutSeconds b"
  shows "sp_TimeoutSeconds m = 0 \<or> sp_TimeoutSeconds b \<le> sp_TimeoutSeconds m \<and> sp_TimeoutSeconds b \<noteq> 0"
  using assms by (cases d) (auto simp: mergeSetupPolicy_def)

lemma Resolve_derived:
  assumes "get name = ReadRow d" "IsDerived d" "get (rt_BaseRuntime d) = ReadRow b"
  shows "runtime_Resolve get name = Inr (runtime_Merge b d)"
  using assms by (simp add: runtime_Resolve_def mergeBase_def)

lemma Merge_standalone: "\<not> IsDerived (runtime_Merge b d)"
  by (simp add: IsDerived_def runtime_Merge_def)

lemma Resolve_standalone: "runtime_Resolve get name = Inr eff \<Longrightarrow> \<not> IsDerived eff"
  using Merge_standalone by (auto simp: runtime_Resolve_def mergeBase_def split: store_read.splits if_splits)

section \<open>Properties\<close>

text \<open>
  C37. A derived runtime resolves to a standalone one that keeps the security posture of
  its base (type, image, execution mode, isolation profile, workspace tier, credential
  boundary, capabilities and resource classes), whatever its own row says. When both
  metadata lists pass validation the merged list does, and each key reads the derived
  entry if there is one and the base entry otherwise; labels likewise. A setup cap of
  the base never shrinks.
\<close>

theorem derived_runtime_resolution:
  assumes "get name = ReadRow d" "IsDerived d" "get (rt_BaseRuntime d) = ReadRow b"
    and "ValidatePublishedMetadata (rt_PublishedMetadata b) = None" "ValidatePublishedMetadata (rt_PublishedMetadata d) = None"
    and "wf_map (rt_Labels b)" "wf_map (rt_Labels d)"
  shows "\<exists>eff. runtime_Resolve get name = Inr eff \<and> \<not> IsDerived eff
     \<and> rt_Type eff = rt_Type b \<and> rt_Image eff = rt_Image b \<and> rt_ExecutionMode eff = rt_ExecutionMode b
     \<and> rt_IsolationProfile eff = rt_IsolationProfile b \<and> rt_WorkspaceTier eff = rt_WorkspaceTier b
     \<and> RequiresSoPeercred eff = RequiresSoPeercred b \<and> InjectionSupported eff = InjectionSupported b
     \<and> rt_AllowedResourceClasses eff = rt_AllowedResourceClasses b
     \<and> ValidatePublishedMetadata (rt_PublishedMetadata eff) = None
     \<and> (\<forall>k. entry me_Key (rt_PublishedMetadata eff) k =
             (case entry me_Key (rt_PublishedMetadata d) k of None \<Rightarrow> entry me_Key (rt_PublishedMetadata b) k | Some e \<Rightarrow> Some e))
     \<and> (\<forall>k. map_of (rt_Labels eff) k = (case map_of (rt_Labels d) k of None \<Rightarrow> map_of (rt_Labels b) k | Some v \<Rightarrow> Some v))
     \<and> (\<forall>sb. rt_SetupPolicy b = Some sb \<and> 0 \<le> sp_TimeoutSeconds sb \<longrightarrow>
          (\<exists>se. rt_SetupPolicy eff = Some se
             \<and> (sp_TimeoutSeconds se = 0 \<or> sp_TimeoutSeconds sb \<le> sp_TimeoutSeconds se \<and> sp_TimeoutSeconds sb \<noteq> 0)))"
proof -
  define eff where "eff = runtime_Merge b d"
  have r: "runtime_Resolve get name = Inr eff" unfolding eff_def by (rule Resolve_derived[OF assms(1-3)])
  have dist: "distinct (map me_Key (rt_PublishedMetadata d))"
    using assms(5) by (simp add: ValidatePublishedMetadata_ok metadata_ok_def)
  have posture: "rt_Type eff = rt_Type b" "rt_Image eff = rt_Image b" "rt_ExecutionMode eff = rt_ExecutionMode b"
      "rt_IsolationProfile eff = rt_IsolationProfile b" "rt_WorkspaceTier eff = rt_WorkspaceTier b"
      "RequiresSoPeercred eff = RequiresSoPeercred b" "InjectionSupported eff = InjectionSupported b"
      "rt_AllowedResourceClasses eff = rt_AllowedResourceClasses b"
    by (simp_all add: eff_def runtime_Merge_def RequiresSoPeercred_def InjectionSupported_def)
  have meta: "rt_PublishedMetadata eff = mergePublishedMetadata (rt_PublishedMetadata b) (rt_PublishedMetadata d)"
      "rt_Labels eff = mergeLabels (rt_Labels b) (rt_Labels d)" "rt_SetupPolicy eff = mergeSetupPolicy (rt_SetupPolicy b) (rt_SetupPolicy d)"
    by (simp_all add: eff_def runtime_Merge_def)
  have "\<exists>se. rt_SetupPolicy eff = Some se" if "rt_SetupPolicy b = Some sb" for sb
    using that by (cases "rt_SetupPolicy d") (simp_all add: meta mergeSetupPolicy_def)
  then have caps: "\<exists>se. rt_SetupPolicy eff = Some se
      \<and> (sp_TimeoutSeconds se = 0 \<or> sp_TimeoutSeconds sb \<le> sp_TimeoutSeconds se \<and> sp_TimeoutSeconds sb \<noteq> 0)"
    if "rt_SetupPolicy b = Some sb \<and> 0 \<le> sp_TimeoutSeconds sb" for sb
    using that mergeSetupPolicy_ge[of sb "rt_SetupPolicy d"] meta(3) by metis
  show ?thesis
    using r Resolve_standalone[OF r] posture caps assms(4-7) dist
    by (intro exI[of _ eff] conjI allI impI)
       (simp_all add: meta mergePublishedMetadata_ok ValidatePublishedMetadata_ok mergeLabels_lookup mergePublishedMetadata_entry)
qed

theorem derived_runtime_resolution_witness:
  "\<exists>eff. runtime_Resolve (runtime_Get [(''base'', demo_base), (''d'', demo_derived)]) ''d'' = Inr eff
     \<and> rt_IsolationProfile eff = ProfileMicrovm
     \<and> (\<exists>e. entry me_Key (rt_PublishedMetadata eff) ''card'' = Some e \<and> me_Visibility e = ''public'')"
proof -
  let ?get = "runtime_Get [(''base'', demo_base), (''d'', demo_derived)]"
  have "?get ''d'' = ReadRow demo_derived" "IsDerived demo_derived" "?get (rt_BaseRuntime demo_derived) = ReadRow demo_base"
      "ValidatePublishedMetadata (rt_PublishedMetadata demo_base) = None"
      "ValidatePublishedMetadata (rt_PublishedMetadata demo_derived) = None"
      "wf_map (rt_Labels demo_base)" "wf_map (rt_Labels demo_derived)"
    by (simp_all add: runtime_Get_def IsDerived_def demo_base_def demo_derived_def zero_runtime_def
        ValidatePublishedMetadata_def metadata_IsValid_def)
  from derived_runtime_resolution[OF this] obtain eff where
      "runtime_Resolve ?get ''d'' = Inr eff" "rt_IsolationProfile eff = rt_IsolationProfile demo_base"
      "entry me_Key (rt_PublishedMetadata eff) ''card'' =
         (case entry me_Key (rt_PublishedMetadata demo_derived) ''card'' of
            None \<Rightarrow> entry me_Key (rt_PublishedMetadata demo_base) ''card'' | Some e \<Rightarrow> Some e)" by blast
  then show ?thesis
    by (intro exI[of _ eff]) (simp add: demo_base_def demo_derived_def zero_runtime_def entry_def)
qed

end
