(* ===== verification/Session_ID.thy ===== *)
theory Session_ID
  imports Main "HOL-Library.Word"
begin

text \<open>
  Session identifiers (\<^verbatim>\<open>pkg/api/v1/session/session.go\<close>): the UUID rendering, the
  shard routing prefix and the minting of root and child identifiers. A byte is an
  \<open>8 word\<close>; the 16 bytes read from the random source are the argument \<open>rnd\<close>.
\<close>

unbundle bit_operations_syntax

section \<open>Hexadecimal\<close>

definition hex_digit :: "nat \<Rightarrow> char" where
  "hex_digit n = ''0123456789abcdef'' ! n"

definition hex_byte :: "8 word \<Rightarrow> string" where
  "hex_byte b = [hex_digit (unat b div 16), hex_digit (unat b mod 16)]"

definition hex_bytes :: "8 word list \<Rightarrow> string" where
  "hex_bytes bs = concat (map hex_byte bs)"

definition hex_val :: "char \<Rightarrow> nat option" where
  "hex_val c =
    (let n = (of_char c :: nat)
     in if 48 \<le> n \<and> n \<le> 57 then Some (n - 48)
        else if 97 \<le> n \<and> n \<le> 102 then Some (n - 87)
        else if 65 \<le> n \<and> n \<le> 70 then Some (n - 55)
        else None)"

fun hex_decode :: "string \<Rightarrow> 8 word list option" where
  "hex_decode [] = Some []"
| "hex_decode [c] = None"
| "hex_decode (c # d # cs) =
    (case (hex_val c, hex_val d, hex_decode cs) of
       (Some a, Some b, Some bs) \<Rightarrow> Some (word_of_nat (16 * a + b) # bs)
     | _ \<Rightarrow> None)"

section \<open>Identifiers\<close>

definition formatUUID :: "8 word list \<Rightarrow> string" where
  "formatUUID b = hex_bytes (take 4 b) @ ''-'' @ hex_bytes (take 2 (drop 4 b)) @ ''-'' @ hex_bytes (take 2 (drop 6 b))
     @ ''-'' @ hex_bytes (take 2 (drop 8 b)) @ ''-'' @ hex_bytes (take 6 (drop 10 b))"

definition uuid_bits :: "8 word list \<Rightarrow> 8 word list" where
  "uuid_bits b = (let b = b[6 := (b ! 6 AND 0x0f) OR 0x80] in b[8 := (b ! 8 AND 0x3f) OR 0x80])"

definition NewID :: "8 word list \<Rightarrow> string" where
  "NewID rnd = formatUUID (uuid_bits rnd)"

text \<open>The first hyphen must be at index 8.\<close>

definition routingPrefix :: "string \<Rightarrow> 8 word list option" where
  "routingPrefix sid =
    (if length (takeWhile (\<lambda>c. c \<noteq> CHR ''-'') sid) \<noteq> 8 \<or> length sid \<le> 8 then None
     else hex_decode (take 8 sid))"

definition RoutingPrefix :: "string \<Rightarrow> string option" where
  "RoutingPrefix sid = map_option hex_bytes (routingPrefix sid)"

definition NewChildID :: "8 word list \<Rightarrow> string \<Rightarrow> string option" where
  "NewChildID rnd rootID =
    (case routingPrefix rootID of
       None \<Rightarrow> None
     | Some p \<Rightarrow> Some (formatUUID (uuid_bits (p @ drop 4 rnd))))"

section \<open>Lemmas\<close>

lemma hex_val_digit: "n < 16 \<Longrightarrow> hex_val (hex_digit n) = Some n"
proof -
  assume "n < 16"
  then have "n \<in> set [0..<16]" by simp
  moreover have "list_all (\<lambda>n. hex_val (hex_digit n) = Some n) [0..<16]" by code_simp
  ultimately show ?thesis by (simp only: list_all_iff)
qed

lemma hex_digit_hyphen: "n < 16 \<Longrightarrow> hex_digit n \<noteq> CHR ''-''"
  using hex_val_digit[of n] by (auto simp: hex_val_def)

lemma unat_byte: "unat (b :: 8 word) < 256"
  using unsigned_less[where 'a = nat, of b] by simp

lemma hex_decode_bytes: "hex_decode (hex_bytes bs) = Some bs"
proof (induction bs)
  case (Cons b bs)
  have "unat b div 16 < 16" using unat_byte[of b] by (simp add: less_mult_imp_div_less)
  moreover have "16 * (unat b div 16) + unat b mod 16 = unat b" by simp
  ultimately show ?case using Cons by (simp add: hex_bytes_def hex_byte_def hex_val_digit)
qed (simp add: hex_bytes_def)

lemma length_hex_bytes [simp]: "length (hex_bytes bs) = 2 * length bs"
  by (induction bs) (simp_all add: hex_bytes_def hex_byte_def)

lemma hex_bytes_no_hyphen: "c \<in> set (hex_bytes bs) \<Longrightarrow> c \<noteq> CHR ''-''"
proof (induction bs)
  case (Cons b bs)
  have "unat b div 16 < 16" using unat_byte[of b] by (simp add: less_mult_imp_div_less)
  then show ?case
    using Cons hex_digit_hyphen[of "unat b div 16"] hex_digit_hyphen[of "unat b mod 16"] by (auto simp: hex_bytes_def hex_byte_def)
qed (simp add: hex_bytes_def)

lemma hex_decode_length: "hex_decode cs = Some bs \<Longrightarrow> length cs = 2 * length bs"
  by (induction cs arbitrary: bs rule: hex_decode.induct) (auto split: option.splits prod.splits)

lemma routingPrefix_length: "routingPrefix sid = Some p \<Longrightarrow> length p = 4"
  by (auto simp: routingPrefix_def dest: hex_decode_length split: if_splits)

lemma take_uuid_bits [simp]: "take 4 (uuid_bits b) = take 4 b"
  by (simp add: uuid_bits_def Let_def)

lemma routingPrefix_format:
  assumes "4 \<le> length b"
  shows "routingPrefix (formatUUID b) = Some (take 4 b)"
proof -
  let ?h = "hex_bytes (take 4 b)"
  obtain rest where f: "formatUUID b = ?h @ CHR ''-'' # rest" by (simp add: formatUUID_def)
  have len: "length ?h = 8" using assms by simp
  have "takeWhile (\<lambda>c. c \<noteq> CHR ''-'') (?h @ CHR ''-'' # rest) = ?h"
    by (subst takeWhile_append2) (auto dest: hex_bytes_no_hyphen)
  then show ?thesis using len f by (simp add: routingPrefix_def hex_decode_bytes)
qed

section \<open>Properties\<close>

text \<open>
  C38. Every session of a delegation tree routes to the shard of its root: a minted
  identifier always has a routing prefix, a child of a routable root is always minted,
  and its prefix is the root's, so the same holds along any chain of children.
\<close>

theorem tree_shares_shard:
  assumes "length rnd = 16" "length rnd' = 16"
  shows "(\<exists>p. routingPrefix (NewID rnd) = Some p)
       \<and> (routingPrefix rootID \<noteq> None \<longrightarrow>
            (\<exists>c. NewChildID rnd' rootID = Some c \<and> RoutingPrefix c = RoutingPrefix rootID \<and> routingPrefix c \<noteq> None))"
proof -
  have "routingPrefix (NewID rnd) = Some (take 4 rnd)"
    using assms by (simp add: NewID_def routingPrefix_format uuid_bits_def Let_def)
  moreover have "NewChildID rnd' rootID = Some (formatUUID (uuid_bits (p @ drop 4 rnd')))
      \<and> routingPrefix (formatUUID (uuid_bits (p @ drop 4 rnd'))) = Some p" if "routingPrefix rootID = Some p" for p
    using that routingPrefix_length[OF that] routingPrefix_format[of "uuid_bits (p @ drop 4 rnd')"]
    by (simp add: NewChildID_def) (simp add: uuid_bits_def Let_def)
  ultimately show ?thesis by (auto simp: RoutingPrefix_def)
qed

theorem tree_shares_shard_witness:
  "\<exists>c. NewChildID (replicate 16 7) (NewID (replicate 16 255)) = Some c
     \<and> RoutingPrefix c = RoutingPrefix (NewID (replicate 16 255))"
  using tree_shares_shard[of "replicate 16 255" "replicate 16 7" "NewID (replicate 16 255)"] by auto

end
