(* ===== verification/Delegation_Service.thy ===== *)
theory Delegation_Service
  imports Session_Store Tree_Budget Runtime_Registry Session_ID
begin

text \<open>
  The delegation service (\<^verbatim>\<open>pkg/gateway/mcpfabric/delegation/service.go\<close>): the four
  stages of \<^verbatim>\<open>Delegate\<close> (validation, cycle gate, depth check, insert) with every gate,
  the tree-budget reservation with its expiry detection, the file export, the commit and
  the undo paths, and the policy lookups other handlers use.

  The state \<open>world\<close> holds the session store, the budget counters, the outside world the
  export materializer and the object deleter act on, and the audit and metric events in
  the order they are emitted. The interfaces the Go struct is wired with are the fields
  of \<open>service\<close>; a nil interface is \<open>None\<close>. A request is not atomic: between its steps
  other requests run, and their effect on the world is the argument \<open>env\<close>, applied
  before each access to shared state. The clock readings of one request are one
  argument, and \<open>rnd\<close> are the random bytes of the child identifier.
\<close>

section \<open>Requests and results\<close>

record file_export_limits =
  fl_MaxFiles :: int
  fl_MaxTotalSize :: int

definition DefaultFileExportLimits :: file_export_limits where
  "DefaultFileExportLimits = \<lparr>fl_MaxFiles = 100, fl_MaxTotalSize = 100 * 1024 * 1024\<rparr>"

record delegate_request =
  rq_ParentSessionID :: string
  rq_RuntimeRef :: string
  rq_PoolRef :: string
  rq_IsolationProfile :: isolation_profile
  rq_MaxDepth :: int
  rq_LeaseSlice :: lease_slice
  rq_ApprovalMode :: approval_mode
  rq_CredentialPropagation :: credential_propagation
  rq_TreeVisibility :: tree_visibility
  rq_FileExport :: "(string \<times> string) list"
  rq_FileExportLimits :: file_export_limits
  rq_EffectiveMessagingScope :: messaging_scope

record delegate_result =
  rs_Child :: session_row
  rs_Depth :: int

record cooldown_error =
  ce_PolicyName :: string
  ce_InterceptorRef :: string
  ce_TransitionTs :: go_time
  ce_CooldownSeconds :: int
  ce_RetryAfterSeconds :: int

datatype delegation_error =
    DelLease lease_error
  | ErrDelegationDenied
  | ErrParentNotFound
  | ErrParentNotRunning
  | ErrParentNoUser
  | ErrUnknownProfile isolation_profile
  | IsolationViolationError isolation_profile isolation_profile
  | ErrUnknownVisibility tree_visibility
  | TreeVisibilityWeakeningError tree_visibility tree_visibility
  | TreeVisibilityMessagingScopeError messaging_scope tree_visibility
  | ErrTargetNotAgent
  | InterceptorWeakeningCooldownError cooldown_error
  | ContentPolicyWeakeningError string
  | ContentPolicyInterceptorSubstitutionError string string
  | DelCycle cycle_rejection
  | ErrUserChildrenExhausted
  | DelBudgetExhausted budget_error
  | ErrBudgetUnavailable
  | ErrBudgetKeysExpired
  | DelBudget budget_error
  | ErrChildID
  | ErrExportNotConfigured
  | ErrExportScanUnavailable
  | DelExport string
  | DelRouter string
  | DelPlan string
  | DelRuntime runtime_error
  | DelStore store_error

text \<open>The audit events and the metric samples, with the values that identify them.\<close>

datatype delegation_event =
    EvSelfRecursionAllowed string string string
  | EvCycleWarning string string string layer "layer list"
  | EvWouldHaveBlocked string string layer cycle_mode
  | EvDepth string int
  | EvSpawned string string int bool approval_mode approval_mode

record ('r, 'w) world =
  wo_store :: store
  wo_budget :: 'r
  wo_ext :: 'w
  wo_events :: "delegation_event list"

section \<open>Effective content policies\<close>

record eff_content_policy =
  ef_MaxInputSize :: int
  ef_InterceptorRef :: string
  ef_ScanExportedFiles :: bool
  ef_MaxExportedFileSize :: int

definition normalizeContentPolicy :: "content_policy \<Rightarrow> eff_content_policy" where
  "normalizeContentPolicy cp =
    \<lparr>ef_MaxInputSize = (if cp_MaxInputSize cp \<le> 0 then DefaultMaxInputSize else cp_MaxInputSize cp),
     ef_InterceptorRef = cp_InterceptorRef cp, ef_ScanExportedFiles = cp_ScanExportedFiles cp,
     ef_MaxExportedFileSize =
       (if cp_MaxExportedFileSize cp \<le> 0 then DefaultMaxExportedFileSize else cp_MaxExportedFileSize cp)\<rparr>"

definition platformDefaultContentPolicy :: eff_content_policy where
  "platformDefaultContentPolicy =
    \<lparr>ef_MaxInputSize = DefaultMaxInputSize, ef_InterceptorRef = '''', ef_ScanExportedFiles = False,
     ef_MaxExportedFileSize = DefaultMaxExportedFileSize\<rparr>"

definition tighterThanDefault :: "eff_content_policy \<Rightarrow> bool" where
  "tighterThanDefault e \<longleftrightarrow> ef_InterceptorRef e \<noteq> '''' \<or> ef_ScanExportedFiles e
     \<or> ef_MaxInputSize e < DefaultMaxInputSize \<or> ef_MaxExportedFileSize e < DefaultMaxExportedFileSize"

definition resolveChildContentPolicy ::
  "eff_content_policy \<Rightarrow> content_policy \<Rightarrow> bool \<Rightarrow> delegation_error + eff_content_policy" where
  "resolveChildContentPolicy parentEff child haveChild =
    (if \<not> haveChild then Inr parentEff
     else let declared = normalizeContentPolicy child
          in if ef_MaxInputSize declared > ef_MaxInputSize parentEff
             then Inl (ContentPolicyWeakeningError ''maxInputSize'')
             else if ef_MaxExportedFileSize declared > ef_MaxExportedFileSize parentEff
             then Inl (ContentPolicyWeakeningError ''maxExportedFileSize'')
             else if ef_ScanExportedFiles parentEff \<and> \<not> ef_ScanExportedFiles declared
             then Inl (ContentPolicyWeakeningError ''scanExportedFiles'')
             else if ef_InterceptorRef parentEff = '''' then Inr declared
             else if ef_InterceptorRef declared = ef_InterceptorRef parentEff then Inr declared
             else if ef_InterceptorRef declared = '''' then Inl (ContentPolicyWeakeningError ''interceptorRef'')
             else Inl (ContentPolicyInterceptorSubstitutionError (ef_InterceptorRef parentEff) (ef_InterceptorRef declared)))"

section \<open>Leases\<close>

definition zero_slice :: lease_slice where
  "zero_slice = \<lparr>ls_MaxTokenBudget = 0, ls_MaxChildrenTotal = 0, ls_MaxTreeSize = 0, ls_MaxTreeMemoryBytes = 0,
     ls_MaxParallelChildren = 0, ls_PerChildMaxAge = 0\<rparr>"

definition zero_lease :: delegation_lease where
  "zero_lease = \<lparr>dl_MaxTokenBudget = 0, dl_MaxChildrenTotal = 0, dl_MaxTreeSize = 0, dl_MaxTreeMemoryBytes = 0,
     dl_MaxParallelChildren = 0, dl_PerChildMaxAge = 0, dl_DelegationPolicyRef = '''', dl_MaxDelegationPolicy = '''',
     dl_ContentPolicyRef = '''', dl_ContentMaxInputSize = 0, dl_ContentScanExportedFiles = False,
     dl_ContentMaxExportedFileSize = 0, dl_SnapshottedPoolIDs = []\<rparr>"

definition leaseSliceFromStore :: "delegation_lease option \<Rightarrow> lease_slice" where
  "leaseSliceFromStore l =
    (case l of None \<Rightarrow> zero_slice
     | Some d \<Rightarrow> \<lparr>ls_MaxTokenBudget = dl_MaxTokenBudget d, ls_MaxChildrenTotal = dl_MaxChildrenTotal d,
                  ls_MaxTreeSize = dl_MaxTreeSize d, ls_MaxTreeMemoryBytes = dl_MaxTreeMemoryBytes d,
                  ls_MaxParallelChildren = dl_MaxParallelChildren d, ls_PerChildMaxAge = dl_PerChildMaxAge d\<rparr>)"

definition storeLeaseFromSlice :: "lease_slice \<Rightarrow> delegation_lease option" where
  "storeLeaseFromSlice s =
    (let dl = zero_lease\<lparr>dl_MaxTokenBudget := ls_MaxTokenBudget s, dl_MaxChildrenTotal := ls_MaxChildrenTotal s,
                dl_MaxTreeSize := ls_MaxTreeSize s, dl_MaxTreeMemoryBytes := ls_MaxTreeMemoryBytes s,
                dl_MaxParallelChildren := ls_MaxParallelChildren s, dl_PerChildMaxAge := ls_PerChildMaxAge s\<rparr>
     in if lease_IsZero (Some dl) then None else Some dl)"

definition stampLeasePolicy ::
  "delegation_lease option \<Rightarrow> string \<Rightarrow> delegation_policy option \<Rightarrow> eff_content_policy \<Rightarrow> delegation_lease option" where
  "stampLeasePolicy dl delegationPolicyRef pol contentEff =
    (let stampContent = tighterThanDefault contentEff
     in if delegationPolicyRef = '''' \<and> pol = None \<and> \<not> stampContent then dl
        else let l = (case dl of None \<Rightarrow> zero_lease | Some l \<Rightarrow> l);
                 l = (if delegationPolicyRef \<noteq> '''' then l\<lparr>dl_DelegationPolicyRef := delegationPolicyRef\<rparr> else l);
                 l = (case pol of None \<Rightarrow> l | Some p \<Rightarrow> l\<lparr>dl_MaxDelegationPolicy := dp_Name p\<rparr>);
                 l = (if stampContent
                      then let l = l\<lparr>dl_ContentPolicyRef := ef_InterceptorRef contentEff,
                                     dl_ContentScanExportedFiles := ef_ScanExportedFiles contentEff\<rparr>;
                               l = (if ef_MaxInputSize contentEff < DefaultMaxInputSize
                                    then l\<lparr>dl_ContentMaxInputSize := ef_MaxInputSize contentEff\<rparr> else l)
                           in if ef_MaxExportedFileSize contentEff < DefaultMaxExportedFileSize
                              then l\<lparr>dl_ContentMaxExportedFileSize := ef_MaxExportedFileSize contentEff\<rparr> else l
                      else l)
             in if lease_IsZero (Some l) then None else Some l)"

definition credentialOriginID :: "credential_propagation \<Rightarrow> session_row \<Rightarrow> string \<Rightarrow> string" where
  "credentialOriginID mode parent childID =
    (if mode = CredentialPropagationInherit then
       (if se_CredentialOriginSessionID parent \<noteq> '''' then se_CredentialOriginSessionID parent else se_ID parent)
     else childID)"

definition copyTracingContext :: "(string, string) go_map \<Rightarrow> (string, string) go_map" where
  "copyTracingContext src = src"

definition resolveChildTreeVisibility ::
  "tree_visibility \<Rightarrow> tree_visibility \<Rightarrow> delegation_error + tree_visibility" where
  "resolveChildTreeVisibility parent child =
    (let parentEff = visibility_OrDefault parent
     in if child = VisibilityOther '''' then Inr parentEff
        else if \<not> visibility_IsValid child then Inl (ErrUnknownVisibility child)
        else if \<not> AtLeastAsNarrow child parentEff then Inl (TreeVisibilityWeakeningError parentEff child)
        else Inr child)"

section \<open>The service\<close>

record 'r tree_budget_reserver =
  tb_Reserve :: "tree_reservation \<Rightarrow> 'r \<Rightarrow> (budget_error + tree_totals) \<times> 'r"
  tb_Return :: "tree_reservation \<Rightarrow> 'r \<Rightarrow> budget_error option \<times> 'r"

record content_scan =
  cn_PolicyName :: string
  cn_Pool :: string
  cn_MaxFileSize :: int
  cn_Chain :: string

record export_params =
  ep_ParentSessionID :: string
  ep_ChildSessionID :: string
  ep_TenantID :: string
  ep_Specs :: "(string \<times> string) list"
  ep_Limits :: file_export_limits
  ep_Scan :: "content_scan option"

datatype propagation = PropagationInherit | PropagationControl | PropagationIndependent | PropagationOther string

text \<open>
  The wired interfaces. The materializer answers the plan of the exported files, or the
  error of the export or of rendering that plan; \<open>sv_parsePlan\<close> and \<open>sv_renderPlan\<close> are
  the plan codec; the experiment store answers the propagation mode of an experiment.
\<close>

record ('r, 'w) service =
  sv_experiments :: "(string \<Rightarrow> string \<Rightarrow> propagation option) option"
  sv_runtimes :: "runtime_getter option"
  sv_policies :: "(string \<Rightarrow> string \<Rightarrow> delegation_policy store_read) option"
  sv_metrics :: bool
  sv_auditor :: bool
  sv_experimentRouter :: "(session_row \<Rightarrow> string + session_row) option"
  sv_idFn :: "string option"
  sv_mode :: cycle_mode
  sv_platformAllowSelfRec :: bool
  sv_defaultMaxDepth :: int
  sv_interceptorWeakeningCooldown :: duration
  sv_interceptorCooldown :: "(string \<Rightarrow> (go_time \<times> int) option) option"
  sv_exportMat :: "(export_params \<Rightarrow> 'w \<Rightarrow> (string + string) \<times> 'w) option"
  sv_exportScanResolver :: "(string \<Rightarrow> string \<Rightarrow> string + string) option"
  sv_treeBudget :: "'r tree_budget_reserver option"
  sv_treeGrants :: "(string \<Rightarrow> string \<Rightarrow> string + int) option"
  sv_keysExpired :: "(string \<Rightarrow> string \<Rightarrow> ('r, 'w) world \<Rightarrow> ('r, 'w) world) option"
  sv_maxActiveChildrenPerUser :: int
  sv_sessionObjects :: "(string \<Rightarrow> string \<Rightarrow> 'w \<Rightarrow> bool \<times> 'w) option"
  sv_parsePlan :: "string \<Rightarrow> string + workspace_plan"
  sv_renderPlan :: "workspace_plan \<Rightarrow> string + string"
  sv_reparse :: "workspace_plan \<Rightarrow> string + workspace_plan"

definition DefaultMaxDepth :: int where
  "DefaultMaxDepth = 10"

definition DefaultInterceptorWeakeningCooldown :: duration where
  "DefaultInterceptorWeakeningCooldown = 60 * second"

text \<open>The defaults the constructor resolves; every other field is taken as it is.\<close>

definition NewService :: "('r, 'w) service \<Rightarrow> ('r, 'w) service" where
  "NewService opts =
    opts\<lparr>sv_mode := (if sv_mode opts = ModeOther '''' then ModeEnforce else sv_mode opts),
         sv_defaultMaxDepth := (if sv_defaultMaxDepth opts \<le> 0 then DefaultMaxDepth else sv_defaultMaxDepth opts),
         sv_interceptorWeakeningCooldown :=
           (let cooldown = (if sv_interceptorWeakeningCooldown opts = 0 then DefaultInterceptorWeakeningCooldown
                            else sv_interceptorWeakeningCooldown opts)
            in if cooldown < 0 then 0 else cooldown)\<rparr>"

section \<open>Policy resolution\<close>

text \<open>A policy that resolves to an active row.\<close>

definition active_policy :: "('r, 'w) service \<Rightarrow> string \<Rightarrow> string \<Rightarrow> delegation_policy option" where
  "active_policy s tenantID ref =
    (case sv_policies s of None \<Rightarrow> None
     | Some get \<Rightarrow>
         (if ref = '''' then None
          else case get tenantID ref of
                 ReadRow pol \<Rightarrow> if policy_IsActive pol then Some pol else None
               | _ \<Rightarrow> None))"

text \<open>The policy a runtime names, when registry, runtime and policy all resolve.\<close>

definition runtime_policy :: "('r, 'w) service \<Rightarrow> string \<Rightarrow> string \<Rightarrow> delegation_policy option" where
  "runtime_policy s tenantID runtimeRef =
    (case sv_runtimes s of None \<Rightarrow> None
     | Some get \<Rightarrow>
         (case runtime_Resolve get runtimeRef of
            Inl _ \<Rightarrow> None
          | Inr rt \<Rightarrow> active_policy s tenantID (rt_DelegationPolicyRef rt)))"

definition effectiveParentContentPolicy :: "('r, 'w) service \<Rightarrow> string \<Rightarrow> session_row \<Rightarrow> eff_content_policy" where
  "effectiveParentContentPolicy s tenantID parent =
    (let live = (case runtime_policy s tenantID (se_RuntimeRef parent) of
                   Some pol \<Rightarrow> normalizeContentPolicy (dp_ContentPolicy pol)
                 | None \<Rightarrow> platformDefaultContentPolicy)
     in case se_DelegationLease parent of
          None \<Rightarrow> live
        | Some l \<Rightarrow>
            (if dl_ContentMaxInputSize l > 0 \<or> dl_ContentPolicyRef l \<noteq> '''' \<or> dl_ContentScanExportedFiles l
                \<or> dl_ContentMaxExportedFileSize l > 0
             then \<lparr>ef_MaxInputSize = (if dl_ContentMaxInputSize l \<le> 0 then DefaultMaxInputSize else dl_ContentMaxInputSize l),
                   ef_InterceptorRef = dl_ContentPolicyRef l, ef_ScanExportedFiles = dl_ContentScanExportedFiles l,
                   ef_MaxExportedFileSize = (if dl_ContentMaxExportedFileSize l \<le> 0 then DefaultMaxExportedFileSize
                                             else dl_ContentMaxExportedFileSize l)\<rparr>
             else live))"

section \<open>Policy lookups of other handlers\<close>

definition ResolveContentPolicy :: "('r, 'w) service \<Rightarrow> store \<Rightarrow> string \<Rightarrow> string \<Rightarrow> (int \<times> string) option" where
  "ResolveContentPolicy s st tenantID sessionID =
    (if sessionID = '''' then None
     else case store_Get st tenantID sessionID of
            Inl _ \<Rightarrow> None
          | Inr sess \<Rightarrow>
              (case runtime_policy s tenantID (se_RuntimeRef sess) of
                 None \<Rightarrow> None
               | Some pol \<Rightarrow> Some (cp_MaxInputSize (dp_ContentPolicy pol), cp_InterceptorRef (dp_ContentPolicy pol))))"

definition ResolveMaxInputSize :: "('r, 'w) service \<Rightarrow> store \<Rightarrow> string \<Rightarrow> string \<Rightarrow> int option" where
  "ResolveMaxInputSize s st tenantID parentSessionID =
    (case ResolveContentPolicy s st tenantID parentSessionID of
       None \<Rightarrow> None
     | Some (maxSize, _) \<Rightarrow> if maxSize \<le> 0 then None else Some maxSize)"

definition EffectiveDelegationPolicy ::
  "('r, 'w) service \<Rightarrow> store \<Rightarrow> string \<Rightarrow> string \<Rightarrow> store_error + delegation_policy option" where
  "EffectiveDelegationPolicy s st tenantID sessionID =
    (if sv_policies s = None \<or> sv_runtimes s = None \<or> sessionID = '''' then Inr None
     else case store_Get st tenantID sessionID of
            Inl e \<Rightarrow> if e = ErrNotFound then Inr None else Inl e
          | Inr sess \<Rightarrow> if se_RuntimeRef sess = '''' then Inr None
                        else Inr (runtime_policy s tenantID (se_RuntimeRef sess)))"

definition ResolveActivePolicy :: "('r, 'w) service \<Rightarrow> string \<Rightarrow> string \<Rightarrow> string + delegation_policy option" where
  "ResolveActivePolicy s tenantID name =
    (case sv_policies s of None \<Rightarrow> Inr None
     | Some get \<Rightarrow>
         (if name = '''' then Inr None
          else case get tenantID name of
                 ReadMissing \<Rightarrow> Inr None
               | ReadError e \<Rightarrow> Inl e
               | ReadRow pol \<Rightarrow> Inr (if policy_IsActive pol then Some pol else None)))"

section \<open>Weakening cooldowns\<close>

definition retry_after :: "duration \<Rightarrow> int" where
  "retry_after remaining = (let n = w64 (remaining + second - 1) div second in if n < 1 then 1 else n)"

definition checkInterceptorWeakeningCooldown ::
  "('r, 'w) service \<Rightarrow> delegation_policy \<Rightarrow> go_time \<Rightarrow> delegation_error option" where
  "checkInterceptorWeakeningCooldown s pol now =
    (if sv_interceptorWeakeningCooldown s \<le> 0 \<or> is_zero_time (dp_ScanExportedFilesWeakenedAt pol) then None
     else let elapsed = time_sub now (dp_ScanExportedFilesWeakenedAt pol);
              elapsed = (if elapsed < 0 then 0 else elapsed);
              remaining = w64 (sv_interceptorWeakeningCooldown s - elapsed)
          in if remaining \<le> 0 then None
             else Some (InterceptorWeakeningCooldownError
               \<lparr>ce_PolicyName = dp_Name pol, ce_InterceptorRef = '''', ce_TransitionTs = dp_ScanExportedFilesWeakenedAt pol,
                ce_CooldownSeconds = sv_interceptorWeakeningCooldown s div second,
                ce_RetryAfterSeconds = retry_after remaining\<rparr>))"

definition InterceptorFailPolicyCooldown ::
  "('r, 'w) service \<Rightarrow> string \<Rightarrow> go_time \<Rightarrow> delegation_error option" where
  "InterceptorFailPolicyCooldown s interceptorRef now =
    (case sv_interceptorCooldown s of None \<Rightarrow> None
     | Some failOpen \<Rightarrow>
         (if interceptorRef = '''' then None
          else case failOpen interceptorRef of
                 None \<Rightarrow> None
               | Some (transitionTs, cooldownSeconds) \<Rightarrow>
                   (if is_zero_time transitionTs \<or> cooldownSeconds \<le> 0 then None
                    else let window = w64 (cooldownSeconds * second);
                             elapsed = time_sub now transitionTs;
                             elapsed = (if elapsed < 0 then 0 else elapsed);
                             remaining = w64 (window - elapsed)
                         in if remaining \<le> 0 then None
                            else Some (InterceptorWeakeningCooldownError
                              \<lparr>ce_PolicyName = '''', ce_InterceptorRef = interceptorRef, ce_TransitionTs = transitionTs,
                               ce_CooldownSeconds = cooldownSeconds, ce_RetryAfterSeconds = retry_after remaining\<rparr>))))"

section \<open>Stage 1: validation\<close>

definition lineageWalkSafetyMargin :: int where
  "lineageWalkSafetyMargin = 4"

text \<open>
  The chain from \<open>cur\<close> upwards; \<open>n\<close> counts the rows the walk may still append, and an
  ancestor that is gone ends it.
\<close>

fun lineage_walk :: "store \<Rightarrow> string \<Rightarrow> nat \<Rightarrow> string list \<Rightarrow> session_row \<Rightarrow> store_error + session_row list" where
  "lineage_walk st tenantID 0 visited cur = (if se_ID cur \<in> set visited then Inr [] else Inr [cur])"
| "lineage_walk st tenantID (Suc n) visited cur =
    (if se_ID cur \<in> set visited then Inr []
     else if se_ParentSessionID cur = '''' then Inr [cur]
     else case store_Get st tenantID (se_ParentSessionID cur) of
            Inl e \<Rightarrow> if e = ErrNotFound then Inr [cur] else Inl e
          | Inr parent \<Rightarrow>
              (case lineage_walk st tenantID n (se_ID cur # visited) parent of
                 Inl e \<Rightarrow> Inl e
               | Inr chain \<Rightarrow> Inr (cur # chain)))"

definition row_identity :: "session_row \<Rightarrow> identity" where
  "row_identity r = \<lparr>id_RuntimeName = se_RuntimeRef r, id_PoolName = se_PoolRef r\<rparr>"

definition buildLineage :: "('r, 'w) service \<Rightarrow> store \<Rightarrow> string \<Rightarrow> session_row \<Rightarrow> store_error + lineage \<times> int" where
  "buildLineage s st tenantID parent =
    (let walkCap = w64 (sv_defaultMaxDepth s + lineageWalkSafetyMargin);
         walkCap = (if walkCap \<le> 0 then DefaultMaxDepth + lineageWalkSafetyMargin else walkCap)
     in case lineage_walk st tenantID (nat (walkCap - 1)) [] parent of
          Inl e \<Rightarrow> Inl e
        | Inr chain \<Rightarrow> Inr (map row_identity (rev chain), int (length chain) - 1))"

record admission =
  ad_parent :: session_row
  ad_childProfile :: isolation_profile
  ad_childVis :: tree_visibility
  ad_lineage :: lineage
  ad_depth :: int
  ad_parentContentEff :: eff_content_policy
  ad_decision :: "cycle_decision option"
  ad_effectivePolicy :: "delegation_policy option"
  ad_delegationPolicyRef :: string
  ad_policyCeiling :: int
  ad_childContentEff :: eff_content_policy

definition validateDelegation ::
  "('r, 'w) service \<Rightarrow> store \<Rightarrow> string \<Rightarrow> delegate_request \<Rightarrow> delegation_error + admission" where
  "validateDelegation s st tenantID req =
    (case ValidateApprovalMode (rq_ApprovalMode req) of Some e \<Rightarrow> Inl (DelLease e)
     | None \<Rightarrow>
    (case ValidateCredentialPropagation (rq_CredentialPropagation req) of Some e \<Rightarrow> Inl (DelLease e)
     | None \<Rightarrow>
    (if rq_ApprovalMode req = ApprovalModeDeny then Inl ErrDelegationDenied
     else case store_Get st tenantID (rq_ParentSessionID req) of
       Inl e \<Rightarrow> Inl (if e = ErrNotFound then ErrParentNotFound else DelStore e)
     | Inr parent \<Rightarrow>
    (if se_State parent \<noteq> Running \<and> se_State parent \<noteq> InputRequired then Inl ErrParentNotRunning
     else if se_UserID parent = '''' then Inl ErrParentNoUser
     else let childProfile = (if rq_IsolationProfile req = ProfileUnset then se_IsolationProfile parent
                              else rq_IsolationProfile req)
     in if \<not> isolation_IsValid childProfile then Inl (ErrUnknownProfile childProfile)
     else if se_IsolationProfile parent \<noteq> ProfileUnset
             \<and> \<not> AtLeastAsRestrictive childProfile (se_IsolationProfile parent)
     then Inl (IsolationViolationError (se_IsolationProfile parent) childProfile)
     else case resolveChildTreeVisibility (se_TreeVisibility parent) (rq_TreeVisibility req) of
       Inl e \<Rightarrow> Inl e
     | Inr childVis \<Rightarrow>
    (if scope_OrDefault (rq_EffectiveMessagingScope req) = ScopeSiblings \<and> childVis \<noteq> VisibilityFull
     then Inl (TreeVisibilityMessagingScopeError ScopeSiblings childVis)
     else case buildLineage s st tenantID parent of
       Inl e \<Rightarrow> Inl (DelStore e)
     | Inr (lin, depth) \<Rightarrow>
         Inr \<lparr>ad_parent = parent, ad_childProfile = childProfile, ad_childVis = childVis, ad_lineage = lin,
              ad_depth = depth, ad_parentContentEff = effectiveParentContentPolicy s tenantID parent,
              ad_decision = None, ad_effectivePolicy = None, ad_delegationPolicyRef = '''', ad_policyCeiling = 0,
              ad_childContentEff = platformDefaultContentPolicy\<rparr>)))))"

section \<open>Stage 2: the cycle gate\<close>

definition recordCycleDecision :: "('r, 'w) service \<Rightarrow> string \<Rightarrow> string \<Rightarrow> cycle_decision \<Rightarrow> delegation_event list" where
  "recordCycleDecision s pool tenantID d =
    (if \<not> sv_metrics s \<or> cd_WouldHaveBlockedLayers d = [] then []
     else let mode = cs_Mode (cd_EffectiveSettings d);
              mode = (if mode = ModeOther '''' then ModeEnforce else mode)
          in if mode = ModePermissive then []
             else map (\<lambda>l. EvWouldHaveBlocked pool tenantID l mode) (cd_WouldHaveBlockedLayers d))"

definition recordCycleAudit :: "('r, 'w) service \<Rightarrow> delegate_request \<Rightarrow> cycle_decision \<Rightarrow> delegation_event list" where
  "recordCycleAudit s req d =
    (if \<not> sv_auditor s \<or> \<not> cd_IsSelfRecursive d then []
     else case cd_Outcome d of
            OutcomeAdmitted \<Rightarrow>
              (if cs_Mode (cd_EffectiveSettings d) \<noteq> ModeEnforce then []
               else [EvSelfRecursionAllowed (rq_ParentSessionID req) (rq_RuntimeRef req) (rq_PoolRef req)])
          | OutcomeWouldHaveBlocked \<Rightarrow>
              [EvCycleWarning (rq_ParentSessionID req) (rq_RuntimeRef req) (rq_PoolRef req) (cd_BlockedBy d)
                 (cd_WouldHaveBlockedLayers d)]
          | OutcomeRejected \<Rightarrow> [])"

text \<open>The registry part of the stage: the gate's layers and the target's policy.\<close>

definition target_settings ::
  "('r, 'w) service \<Rightarrow> string \<Rightarrow> delegate_request \<Rightarrow> admission \<Rightarrow> go_time
   \<Rightarrow> delegation_error + cycle_settings \<times> admission" where
  "target_settings s tenantID req adm now =
    (let settings = \<lparr>cs_Mode = sv_mode s, cs_PlatformAllowSelfRec = sv_platformAllowSelfRec s,
                     cs_RuntimeAllowSelfRec = False, cs_PolicyAllowSelfRec = False\<rparr>
     in case sv_runtimes s of None \<Rightarrow> Inr (settings, adm)
        | Some get \<Rightarrow>
            (case runtime_Resolve get (rq_RuntimeRef req) of
               Inl _ \<Rightarrow> Inr (settings, adm)
             | Inr rt \<Rightarrow>
                 (if rt_Type rt = TypeMCP then Inl ErrTargetNotAgent
                  else let settings = settings\<lparr>cs_RuntimeAllowSelfRec := rt_AllowSelfRecursion rt\<rparr>;
                           adm = adm\<lparr>ad_delegationPolicyRef := rt_DelegationPolicyRef rt\<rparr>
                       in case active_policy s tenantID (rt_DelegationPolicyRef rt) of
                            None \<Rightarrow> Inr (settings, adm)
                          | Some pol \<Rightarrow>
                              (case checkInterceptorWeakeningCooldown s pol now of
                                 Some e \<Rightarrow> Inl e
                               | None \<Rightarrow>
                                   (case InterceptorFailPolicyCooldown s (cp_InterceptorRef (dp_ContentPolicy pol)) now of
                                      Some e \<Rightarrow> Inl e
                                    | None \<Rightarrow> Inr (settings\<lparr>cs_PolicyAllowSelfRec := dp_AllowSelfRecursion pol\<rparr>,
                                                   adm\<lparr>ad_effectivePolicy := Some pol, ad_policyCeiling := 0\<rparr>))))))"

definition zero_content_policy :: content_policy where
  "zero_content_policy = \<lparr>cp_MaxInputSize = 0, cp_InterceptorRef = '''', cp_ScanExportedFiles = False, cp_MaxExportedFileSize = 0\<rparr>"

definition detectCycle ::
  "('r, 'w) service \<Rightarrow> string \<Rightarrow> delegate_request \<Rightarrow> admission \<Rightarrow> go_time
   \<Rightarrow> (delegation_error + admission) \<times> delegation_event list" where
  "detectCycle s tenantID req adm now =
    (case target_settings s tenantID req adm now of
       Inl e \<Rightarrow> (Inl e, [])
     | Inr (settings, adm) \<Rightarrow>
         (let childContentInput = (case ad_effectivePolicy adm of None \<Rightarrow> zero_content_policy | Some pol \<Rightarrow> dp_ContentPolicy pol)
          in case resolveChildContentPolicy (ad_parentContentEff adm) childContentInput (ad_effectivePolicy adm \<noteq> None) of
               Inl e \<Rightarrow> (Inl e, [])
             | Inr childContentEff \<Rightarrow>
                 (let adm = adm\<lparr>ad_childContentEff := childContentEff\<rparr>;
                      target = \<lparr>id_RuntimeName = rq_RuntimeRef req, id_PoolName = rq_PoolRef req\<rparr>;
                      decision = cycle_Decide (ad_lineage adm) target settings;
                      evs = recordCycleDecision s (rq_PoolRef req) tenantID decision @ recordCycleAudit s req decision
                  in case cycle_ToError decision target of
                       Some e \<Rightarrow> (Inl (DelCycle e), evs)
                     | None \<Rightarrow> (Inr (adm\<lparr>ad_decision := Some decision\<rparr>), evs))))"

section \<open>Stage 3: the depth check\<close>

definition checkDelegationDepth :: "('r, 'w) service \<Rightarrow> delegate_request \<Rightarrow> admission \<Rightarrow> delegation_error option" where
  "checkDelegationDepth s req adm =
    (case ResolveMaxDepth \<lparr>md_ExplicitClient = rq_MaxDepth req, md_PresetEntry = 0, md_RuntimeDefault = 0,
            md_PolicyCeiling = ad_policyCeiling adm, md_HelmFallback = sv_defaultMaxDepth s\<rparr> of
       Inl e \<Rightarrow> Some (DelLease e)
     | Inr resolved \<Rightarrow>
         map_option DelLease (CheckDepth (ad_depth adm) (EnforcePolicyCeiling resolved (ad_policyCeiling adm))))"

section \<open>Stage 4: the insert\<close>

text \<open>How the service reports an error of the reserver.\<close>

definition budget_failure :: "budget_error \<Rightarrow> delegation_error" where
  "budget_failure e = (case e of
     BudgetExhaustedError _ _ _ _ \<Rightarrow> DelBudgetExhausted e
   | ErrTreeBudgetUnavailable \<Rightarrow> ErrBudgetUnavailable
   | _ \<Rightarrow> DelBudget e)"

definition isFirstReservation :: "store \<Rightarrow> string \<Rightarrow> string \<Rightarrow> bool" where
  "isFirstReservation st tenantID rootSessionID =
    list_all (\<lambda>row. \<not> 0 < se_DelegationDepth row) (ListByRoot st tenantID rootSessionID)"

definition treeTokenCap :: "('r, 'w) service \<Rightarrow> string \<Rightarrow> string \<Rightarrow> int \<Rightarrow> delegation_error + int" where
  "treeTokenCap s tenantID rootSessionID base =
    (case sv_treeGrants s of None \<Rightarrow> Inr base
     | Some grants \<Rightarrow>
         (if base \<le> 0 then Inr base
          else case grants tenantID rootSessionID of
                 Inl _ \<Rightarrow> Inl ErrBudgetUnavailable
               | Inr grant \<Rightarrow> Inr (w64 (base + grant))))"

text \<open>One call of the reserver.\<close>

definition try_reserve ::
  "'r tree_budget_reserver \<Rightarrow> tree_reservation \<Rightarrow> ('r, 'w) world \<Rightarrow> budget_error option \<times> ('r, 'w) world" where
  "try_reserve tb r w =
    (case tb_Reserve tb r (wo_budget w) of
       (Inl e, b) \<Rightarrow> (Some e, w\<lparr>wo_budget := b\<rparr>)
     | (Inr _, b) \<Rightarrow> (None, w\<lparr>wo_budget := b\<rparr>))"

definition reserveDetectingExpiry ::
  "('r, 'w) service \<Rightarrow> (nat \<Rightarrow> ('r, 'w) world \<Rightarrow> ('r, 'w) world) \<Rightarrow> 'r tree_budget_reserver \<Rightarrow> string
   \<Rightarrow> tree_reservation \<Rightarrow> ('r, 'w) world \<Rightarrow> delegation_error option \<times> ('r, 'w) world" where
  "reserveDetectingExpiry s env tb tenantID r w =
    (case try_reserve tb r (env 2 w) of
       (None, w) \<Rightarrow> (None, w)
     | (Some e, w) \<Rightarrow>
         (if e \<noteq> ErrTreeBudgetKeysExpired then (Some (budget_failure e), w)
          else let w = env 3 w;
                   first = isFirstReservation (wo_store w) tenantID (tr_RootSessionID r)
               in case try_reserve tb (r\<lparr>tr_CreateTree := first\<rparr>) (env 4 w) of
                    (None, w) \<Rightarrow> (None, w)
                  | (Some e, w) \<Rightarrow>
                      (if first \<or> e \<noteq> ErrTreeBudgetKeysExpired then (Some (budget_failure e), w)
                       else (Some ErrBudgetKeysExpired,
                             (case sv_keysExpired s of None \<Rightarrow> w
                              | Some handle \<Rightarrow> handle tenantID (tr_RootSessionID r) w)))))"

definition child_reservation :: "session_row \<Rightarrow> string \<Rightarrow> lease_slice \<Rightarrow> int \<Rightarrow> int \<Rightarrow> tree_reservation" where
  "child_reservation parent rootSessionID parentSlice tokenCap tokenDelta =
    \<lparr>tr_RootSessionID = rootSessionID, tr_ParentSessionID = se_ID parent,
     tr_TreeSizeCap = ls_MaxTreeSize parentSlice, tr_TreeSizeDelta = 1,
     tr_TreeMemoryCap = (if ls_MaxTreeMemoryBytes parentSlice = 0 then DefaultMaxTreeMemoryBytes
                         else ls_MaxTreeMemoryBytes parentSlice),
     tr_TreeMemoryDelta = PerNodeMemoryBytes,
     tr_ParallelChildrenCap = ls_MaxParallelChildren parentSlice, tr_ParallelChildrenDelta = 1,
     tr_ChildrenTotalCap = ls_MaxChildrenTotal parentSlice, tr_ChildrenTotalDelta = 1,
     tr_TokenCap = tokenCap, tr_TokenDelta = tokenDelta, tr_CreateTree = False\<rparr>"

text \<open>The result is an error, or the reservation to return if a later step fails.\<close>

definition reserveTreeBudget ::
  "('r, 'w) service \<Rightarrow> (nat \<Rightarrow> ('r, 'w) world \<Rightarrow> ('r, 'w) world) \<Rightarrow> string \<Rightarrow> delegate_request \<Rightarrow> session_row
   \<Rightarrow> string \<Rightarrow> ('r, 'w) world \<Rightarrow> (delegation_error + tree_reservation option) \<times> ('r, 'w) world" where
  "reserveTreeBudget s env tenantID req parent rootSessionID w =
    (let parentSlice = leaseSliceFromStore (se_DelegationLease parent)
     in case ValidateChildSlice parentSlice (rq_LeaseSlice req) (ls_MaxTokenBudget parentSlice)
               (ls_MaxChildrenTotal parentSlice) (ls_MaxTreeSize parentSlice) of
          Some e \<Rightarrow> (Inl (DelLease e), w)
        | None \<Rightarrow>
            (let w = env 1 w
             in if sv_maxActiveChildrenPerUser s > 0
                   \<and> CountActiveDelegatedChildrenByUser (wo_store w) tenantID (se_UserID parent) \<ge> sv_maxActiveChildrenPerUser s
                then (Inl ErrUserChildrenExhausted, w)
                else case sv_treeBudget s of None \<Rightarrow> (Inr None, w)
                | Some tb \<Rightarrow>
                    (case treeTokenCap s tenantID rootSessionID (ls_MaxTokenBudget parentSlice) of
                       Inl e \<Rightarrow> (Inl e, w)
                     | Inr tokenCap \<Rightarrow>
                         (let r = child_reservation parent rootSessionID parentSlice tokenCap (ls_MaxTokenBudget (rq_LeaseSlice req))
                          in case reserveDetectingExpiry s env tb tenantID r w of
                               (Some e, w) \<Rightarrow> (Inl e, w)
                             | (None, w) \<Rightarrow> (Inr (Some r), w)))))"

section \<open>Building the child\<close>

definition newChildID :: "('r, 'w) service \<Rightarrow> 8 word list \<Rightarrow> string \<Rightarrow> delegation_error + string" where
  "newChildID s rnd rootSessionID =
    (case sv_idFn s of
       Some sid \<Rightarrow> Inr sid
     | None \<Rightarrow> (case NewChildID rnd rootSessionID of None \<Rightarrow> Inl ErrChildID | Some sid \<Rightarrow> Inr sid))"

definition ControlVariantID :: string where
  "ControlVariantID = ''control''"

definition PropagateContext :: "string \<Rightarrow> string \<Rightarrow> propagation \<Rightarrow> (string \<times> string) option" where
  "PropagateContext parentExperimentID parentVariantID mode =
    (case mode of
       PropagationInherit \<Rightarrow> Some (parentExperimentID, parentVariantID)
     | PropagationControl \<Rightarrow> Some (parentExperimentID, ControlVariantID)
     | _ \<Rightarrow> None)"

definition propagateExperimentContext :: "('r, 'w) service \<Rightarrow> string \<Rightarrow> session_row \<Rightarrow> experiment_context option" where
  "propagateExperimentContext s tenantID parent =
    (case (sv_experiments s, se_ExperimentContext parent) of
       (Some get, Some c) \<Rightarrow>
         (case get tenantID (ec_ExperimentID c) of
            None \<Rightarrow> None
          | Some mode \<Rightarrow>
              (case PropagateContext (ec_ExperimentID c) (ec_VariantID c) mode of
                 None \<Rightarrow> None
               | Some (e, v) \<Rightarrow> Some \<lparr>ec_ExperimentID = e, ec_VariantID = v, ec_Inherited = True\<rparr>))
     | _ \<Rightarrow> None)"

definition undoChildExport ::
  "('r, 'w) service \<Rightarrow> string \<Rightarrow> string \<Rightarrow> ('r, 'w) world \<Rightarrow> ('r, 'w) world" where
  "undoChildExport s tenantID childID w =
    (case sv_sessionObjects s of None \<Rightarrow> w
     | Some deleteBySession \<Rightarrow>
         (case deleteBySession tenantID childID (wo_ext w) of
            (False, x) \<Rightarrow> w\<lparr>wo_ext := x\<rparr>
          | (True, x) \<Rightarrow> w\<lparr>wo_ext := x, wo_store := ReleaseReservation (wo_store w) tenantID childID\<rparr>))"

definition export_request ::
  "('r, 'w) service \<Rightarrow> string \<Rightarrow> delegate_request \<Rightarrow> session_row \<Rightarrow> string \<Rightarrow> delegation_policy option
   \<Rightarrow> delegation_error + export_params" where
  "export_request s tenantID req parent childID pol =
    (let limits = rq_FileExportLimits req;
         limits = (if fl_MaxFiles limits = 0 \<and> fl_MaxTotalSize limits = 0 then DefaultFileExportLimits else limits);
         params = \<lparr>ep_ParentSessionID = se_ID parent, ep_ChildSessionID = childID, ep_TenantID = tenantID,
                   ep_Specs = rq_FileExport req, ep_Limits = limits, ep_Scan = None\<rparr>
     in case pol of
          None \<Rightarrow> Inr params
        | Some p \<Rightarrow>
            (if \<not> cp_ScanExportedFiles (dp_ContentPolicy p) then Inr params
             else case sv_exportScanResolver s of None \<Rightarrow> Inl ErrExportScanUnavailable
             | Some resolve \<Rightarrow>
                 (case resolve tenantID (cp_InterceptorRef (dp_ContentPolicy p)) of
                    Inl e \<Rightarrow> Inl (DelExport e)
                  | Inr chain \<Rightarrow> Inr (params\<lparr>ep_Scan := Some \<lparr>cn_PolicyName = dp_Name p, cn_Pool = rq_PoolRef req,
                       cn_MaxFileSize = cp_MaxExportedFileSize (dp_ContentPolicy p), cn_Chain = chain\<rparr>\<rparr>))))"

definition materializeExport ::
  "('r, 'w) service \<Rightarrow> string \<Rightarrow> delegate_request \<Rightarrow> session_row \<Rightarrow> string \<Rightarrow> delegation_policy option
   \<Rightarrow> ('r, 'w) world \<Rightarrow> (delegation_error + string) \<times> ('r, 'w) world" where
  "materializeExport s tenantID req parent childID pol w =
    (case sv_exportMat s of None \<Rightarrow> (Inl ErrExportNotConfigured, w)
     | Some mat \<Rightarrow>
         (case export_request s tenantID req parent childID pol of
            Inl e \<Rightarrow> (Inl e, w)
          | Inr params \<Rightarrow>
              (case mat params (wo_ext w) of
                 (Inl e, x) \<Rightarrow> (Inl (DelExport e), w\<lparr>wo_ext := x\<rparr>)
               | (Inr plan, x) \<Rightarrow> (Inr plan, w\<lparr>wo_ext := x\<rparr>))))"

definition composeChildWorkspaceDefaults :: "('r, 'w) service \<Rightarrow> session_row \<Rightarrow> delegation_error + session_row" where
  "composeChildWorkspaceDefaults s child =
    (case (case se_WorkspacePlan child of
             None \<Rightarrow> Inr zero_plan
           | Some raw \<Rightarrow> if raw = '''' then Inr zero_plan else sv_parsePlan s raw) of
       Inl e \<Rightarrow> Inl (DelPlan e)
     | Inr plan \<Rightarrow>
         (case ComposeWorkspaceDefaults (sv_reparse s) (sv_runtimes s) (se_RuntimeRef child) plan of
            Inl e \<Rightarrow> Inl (DelRuntime e)
          | Inr None \<Rightarrow> Inr child
          | Inr (Some composed) \<Rightarrow>
              (case sv_renderPlan s composed of
                 Inl e \<Rightarrow> Inl (DelPlan e)
               | Inr raw \<Rightarrow> Inr (child\<lparr>se_WorkspacePlan := Some raw\<rparr>))))"

text \<open>The row literal of \<^verbatim>\<open>buildChildSession\<close>.\<close>

definition child_row ::
  "('r, 'w) service \<Rightarrow> string \<Rightarrow> delegate_request \<Rightarrow> admission \<Rightarrow> string \<Rightarrow> string \<Rightarrow> string option \<Rightarrow> go_time \<Rightarrow> session_row" where
  "child_row s tenantID req adm rootSessionID childID plan now =
    (let parent = ad_parent adm
     in zero_session\<lparr>se_ID := childID, se_TenantID := tenantID, se_UserID := se_UserID parent,
          se_RuntimeRef := rq_RuntimeRef req, se_PoolRef := rq_PoolRef req, se_State := Created,
          se_IsolationProfile := ad_childProfile adm, se_ParentSessionID := se_ID parent,
          se_RootSessionID := rootSessionID,
          se_CredentialOriginSessionID := credentialOriginID (rq_CredentialPropagation req) parent childID,
          se_CredentialDeny := (rq_CredentialPropagation req = CredentialPropagationDeny),
          se_DelegationDepth := word_of_int (ad_depth adm + 1),
          se_DelegationLease := stampLeasePolicy (storeLeaseFromSlice (rq_LeaseSlice req)) (ad_delegationPolicyRef adm)
             (ad_effectivePolicy adm) (ad_childContentEff adm),
          se_TreeVisibility := ad_childVis adm,
          se_TracingContext := copyTracingContext (se_TracingContext parent),
          se_ExperimentContext := propagateExperimentContext s tenantID parent,
          se_WorkspacePlan := plan, se_CreatedAt := now, se_UpdatedAt := now\<rparr>)"

text \<open>The experiment router and the workspace defaults, on the finished row.\<close>

definition finish_row :: "('r, 'w) service \<Rightarrow> session_row \<Rightarrow> delegation_error + session_row" where
  "finish_row s child =
    (case (case sv_experimentRouter s of None \<Rightarrow> Inr child
           | Some route \<Rightarrow> if se_ExperimentContext child = None then route child else Inr child) of
       Inl e \<Rightarrow> Inl (DelRouter e)
     | Inr child \<Rightarrow> composeChildWorkspaceDefaults s child)"

definition buildChildSession ::
  "('r, 'w) service \<Rightarrow> (nat \<Rightarrow> ('r, 'w) world \<Rightarrow> ('r, 'w) world) \<Rightarrow> string \<Rightarrow> delegate_request \<Rightarrow> admission
   \<Rightarrow> string \<Rightarrow> 8 word list \<Rightarrow> go_time \<Rightarrow> ('r, 'w) world
   \<Rightarrow> (delegation_error + session_row \<times> bool) \<times> ('r, 'w) world" where
  "buildChildSession s env tenantID req adm rootSessionID rnd now w =
    (case newChildID s rnd rootSessionID of
       Inl e \<Rightarrow> (Inl e, w)
     | Inr childID \<Rightarrow>
         (if rq_FileExport req = [] then
            (case finish_row s (child_row s tenantID req adm rootSessionID childID None now) of
               Inl e \<Rightarrow> (Inl e, w)
             | Inr child \<Rightarrow> (Inr (child, False), w))
          else let w = env 5 w
               in case store_Reserve (wo_store w) tenantID (se_UserID (ad_parent adm)) childID True now of
                    Inl e \<Rightarrow> (Inl (DelStore e), w)
                  | Inr st \<Rightarrow>
                      (case materializeExport s tenantID req (ad_parent adm) childID (ad_effectivePolicy adm)
                              (env 6 (w\<lparr>wo_store := st\<rparr>)) of
                         (Inl e, w) \<Rightarrow> (Inl e, undoChildExport s tenantID childID (env 7 w))
                       | (Inr plan, w) \<Rightarrow>
                           (case finish_row s (child_row s tenantID req adm rootSessionID childID (Some plan) now) of
                              Inl e \<Rightarrow> (Inl e, undoChildExport s tenantID childID (env 7 w))
                            | Inr child \<Rightarrow> (Inr (child, True), w)))))"

definition commitChild ::
  "('r, 'w) service \<Rightarrow> (nat \<Rightarrow> ('r, 'w) world \<Rightarrow> ('r, 'w) world) \<Rightarrow> session_row \<Rightarrow> bool \<Rightarrow> go_time
   \<Rightarrow> ('r, 'w) world \<Rightarrow> delegation_error option \<times> ('r, 'w) world" where
  "commitChild s env child reserved now w =
    (let w = env 8 w
     in case (if \<not> reserved then store_Create (wo_store w) child now else CreateReserved (wo_store w) child now) of
          Inr st \<Rightarrow> (None, w\<lparr>wo_store := st\<rparr>)
        | Inl e \<Rightarrow>
            (Some (DelStore e),
             (if reserved \<and> (case e of ErrRefused _ \<Rightarrow> True | _ \<Rightarrow> False)
              then undoChildExport s (se_TenantID child) (se_ID child) (env 9 w) else w)))"

definition emitSpawnedAudit ::
  "('r, 'w) service \<Rightarrow> delegate_request \<Rightarrow> session_row \<Rightarrow> session_row \<Rightarrow> admission \<Rightarrow> int \<Rightarrow> delegation_event list" where
  "emitSpawnedAudit s req parent child adm childDepth =
    (if \<not> sv_auditor s then []
     else let declaredMode = (if rq_ApprovalMode req = ApprovalModeEmpty then ApprovalModePolicy else rq_ApprovalMode req)
          in [EvSpawned (se_ID parent) (se_ID child) childDepth
                (case ad_decision adm of None \<Rightarrow> False | Some d \<Rightarrow> cd_IsSelfRecursive d)
                declaredMode (EffectiveApprovalMode (rq_ApprovalMode req))])"

text \<open>The result carries the reservation the deferred release may have to return.\<close>

definition insertChildSession ::
  "('r, 'w) service \<Rightarrow> (nat \<Rightarrow> ('r, 'w) world \<Rightarrow> ('r, 'w) world) \<Rightarrow> string \<Rightarrow> delegate_request \<Rightarrow> admission
   \<Rightarrow> 8 word list \<Rightarrow> go_time \<Rightarrow> ('r, 'w) world
   \<Rightarrow> (delegation_error + delegate_result) \<times> tree_reservation option \<times> ('r, 'w) world" where
  "insertChildSession s env tenantID req adm rnd now w =
    (let parent = ad_parent adm;
         rootSessionID = (if se_RootSessionID parent = '''' then se_ID parent else se_RootSessionID parent)
     in case reserveTreeBudget s env tenantID req parent rootSessionID w of
          (Inl e, w) \<Rightarrow> (Inl e, None, w)
        | (Inr resv, w) \<Rightarrow>
            (case buildChildSession s env tenantID req adm rootSessionID rnd now w of
               (Inl e, w) \<Rightarrow> (Inl e, resv, w)
             | (Inr (child, reserved), w) \<Rightarrow>
                 (case commitChild s env child reserved now w of
                    (Some e, w) \<Rightarrow> (Inl e, resv, w)
                  | (None, w) \<Rightarrow>
                      (let childDepth = w64 (ad_depth adm + 1);
                           evs = (if sv_metrics s then [EvDepth (rq_PoolRef req) childDepth] else [])
                             @ emitSpawnedAudit s req parent child adm childDepth
                       in (Inr \<lparr>rs_Child = child, rs_Depth = childDepth\<rparr>, resv,
                           w\<lparr>wo_events := wo_events w @ evs\<rparr>)))))"

section \<open>The whole request\<close>

text \<open>The deferred release: an error after the reserve returns the reservation.\<close>

definition release_budget ::
  "('r, 'w) service \<Rightarrow> (nat \<Rightarrow> ('r, 'w) world \<Rightarrow> ('r, 'w) world) \<Rightarrow> tree_reservation option \<Rightarrow> ('r, 'w) world \<Rightarrow> ('r, 'w) world" where
  "release_budget s env resv w =
    (case (resv, sv_treeBudget s) of
       (Some r, Some tb) \<Rightarrow> (let w = env 10 w in w\<lparr>wo_budget := snd (tb_Return tb r (wo_budget w))\<rparr>)
     | _ \<Rightarrow> w)"

definition Delegate ::
  "('r, 'w) service \<Rightarrow> (nat \<Rightarrow> ('r, 'w) world \<Rightarrow> ('r, 'w) world) \<Rightarrow> string \<Rightarrow> delegate_request \<Rightarrow> 8 word list
   \<Rightarrow> go_time \<Rightarrow> ('r, 'w) world \<Rightarrow> (delegation_error + delegate_result) \<times> ('r, 'w) world" where
  "Delegate s env tenantID req rnd now w =
    (let w = env 0 w
     in case validateDelegation s (wo_store w) tenantID req of
          Inl e \<Rightarrow> (Inl e, w)
        | Inr adm \<Rightarrow>
            (case detectCycle s tenantID req adm now of
               (Inl e, evs) \<Rightarrow> (Inl e, w\<lparr>wo_events := wo_events w @ evs\<rparr>)
             | (Inr adm, evs) \<Rightarrow>
                 (let w = w\<lparr>wo_events := wo_events w @ evs\<rparr>
                  in case checkDelegationDepth s req adm of
                       Some e \<Rightarrow> (Inl e, w)
                     | None \<Rightarrow>
                         (case insertChildSession s env tenantID req adm rnd now w of
                            (Inr res, _, w) \<Rightarrow> (Inr res, w)
                          | (Inl e, resv, w) \<Rightarrow> (Inl e, release_budget s env resv w)))))"

end
