(* ===== verification/Delegation_Stages.thy ===== *)
theory Delegation_Stages
  imports Delegation_Service
begin

text \<open>
  What each stage of a delegation establishes when it succeeds and what it leaves alone
  when it fails: inversion lemmas for the four stages of \<^verbatim>\<open>Delegate\<close>, the fact that only
  the commit writes the session table whatever other requests do in between, the shape
  of a committed child, and the lineage walk.
\<close>

section \<open>Vocabulary\<close>

text \<open>
  The contract of the experiment router: it may rewrite the runtime, the pool and the
  experiment context of a row, and nothing else.
\<close>

definition routes_only :: "('r, 'w) service \<Rightarrow> bool" where
  "routes_only s \<longleftrightarrow> (\<forall>route r r'. sv_experimentRouter s = Some route \<longrightarrow> route r = Inr r' \<longrightarrow>
     (\<exists>rt pl ec. r' = r\<lparr>se_RuntimeRef := rt, se_PoolRef := pl, se_ExperimentContext := ec\<rparr>))"

definition declared_content :: "delegation_policy option \<Rightarrow> content_policy" where
  "declared_content pol = (case pol of None \<Rightarrow> zero_content_policy | Some p \<Rightarrow> dp_ContentPolicy p)"

definition root_of :: "session_row \<Rightarrow> string" where
  "root_of parent = (if se_RootSessionID parent = '''' then se_ID parent else se_RootSessionID parent)"

text \<open>A predicate on the session table that other requests and the expiry handler keep.\<close>

definition stable :: "((string, session_row) go_map \<Rightarrow> bool) \<Rightarrow> ('r, 'w) service
   \<Rightarrow> (nat \<Rightarrow> ('r, 'w) world \<Rightarrow> ('r, 'w) world) \<Rightarrow> bool" where
  "stable Q s env \<longleftrightarrow>
     (\<forall>i w. Q (ms_sessions (wo_store w)) \<longrightarrow> Q (ms_sessions (wo_store (env i w))))
   \<and> (\<forall>h t r w. sv_keysExpired s = Some h \<longrightarrow> Q (ms_sessions (wo_store w)) \<longrightarrow> Q (ms_sessions (wo_store (h t r w))))"

section \<open>Inversion of the stages\<close>

lemma validateDelegation_Inr:
  assumes "validateDelegation s st t req = Inr adm"
  shows "store_Get st t (rq_ParentSessionID req) = Inr (ad_parent adm)"
    and "se_State (ad_parent adm) = Running \<or> se_State (ad_parent adm) = InputRequired"
    and "se_UserID (ad_parent adm) \<noteq> ''''"
    and "isolation_IsValid (ad_childProfile adm)"
    and "se_IsolationProfile (ad_parent adm) \<noteq> ProfileUnset
       \<Longrightarrow> AtLeastAsRestrictive (ad_childProfile adm) (se_IsolationProfile (ad_parent adm))"
    and "resolveChildTreeVisibility (se_TreeVisibility (ad_parent adm)) (rq_TreeVisibility req) = Inr (ad_childVis adm)"
    and "buildLineage s st t (ad_parent adm) = Inr (ad_lineage adm, ad_depth adm)"
    and "ad_parentContentEff adm = effectiveParentContentPolicy s t (ad_parent adm)"
    and "ad_effectivePolicy adm = None" "ad_policyCeiling adm = 0"
  using assms unfolding validateDelegation_def Let_def
  by (auto split: option.splits sum.splits if_splits prod.splits)

lemma resolveChildTreeVisibility_narrow:
  "resolveChildTreeVisibility p c = Inr v \<Longrightarrow> AtLeastAsNarrow v p \<and> visibility_IsValid v"
  by (auto simp: resolveChildTreeVisibility_def AtLeastAsNarrow_def visibility_OrDefault_def visibility_IsValid_def Let_def
      split: if_splits tree_visibility.splits)

lemma target_settings_Inr:
  assumes "target_settings s t req adm now = Inr (cs, adm')" "ad_effectivePolicy adm = None" "ad_policyCeiling adm = 0"
  shows "ad_parent adm' = ad_parent adm" "ad_childProfile adm' = ad_childProfile adm" "ad_childVis adm' = ad_childVis adm"
    "ad_lineage adm' = ad_lineage adm" "ad_depth adm' = ad_depth adm" "ad_parentContentEff adm' = ad_parentContentEff adm"
    "ad_effectivePolicy adm' = runtime_policy s t (rq_RuntimeRef req)" "ad_policyCeiling adm' = 0"
    "cs_Mode cs = sv_mode s" "cs_PlatformAllowSelfRec cs = sv_platformAllowSelfRec s"
  using assms unfolding target_settings_def runtime_policy_def Let_def
  by (auto split: option.splits sum.splits if_splits)

lemma detectCycle_Inr:
  assumes "detectCycle s t req adm now = (Inr adm', evs)" "ad_effectivePolicy adm = None" "ad_policyCeiling adm = 0"
  shows "ad_parent adm' = ad_parent adm" "ad_childProfile adm' = ad_childProfile adm" "ad_childVis adm' = ad_childVis adm"
    "ad_lineage adm' = ad_lineage adm" "ad_depth adm' = ad_depth adm" "ad_parentContentEff adm' = ad_parentContentEff adm"
    "ad_effectivePolicy adm' = runtime_policy s t (rq_RuntimeRef req)" "ad_policyCeiling adm' = 0"
    "resolveChildContentPolicy (ad_parentContentEff adm)
       (declared_content (ad_effectivePolicy adm')) (ad_effectivePolicy adm' \<noteq> None) = Inr (ad_childContentEff adm')"
proof -
  obtain cs a where ts: "target_settings s t req adm now = Inr (cs, a)"
    using assms(1) by (auto simp: detectCycle_def split: sum.splits)
  note keep = target_settings_Inr[OF ts assms(2,3)]
  obtain eff where eff: "resolveChildContentPolicy (ad_parentContentEff a) (declared_content (ad_effectivePolicy a))
      (ad_effectivePolicy a \<noteq> None) = Inr eff"
    using assms(1) ts by (auto simp: detectCycle_def declared_content_def Let_def split: sum.splits)
  then obtain d where a': "adm' = a\<lparr>ad_childContentEff := eff, ad_decision := Some d\<rparr>"
    using assms(1) ts by (auto simp: detectCycle_def declared_content_def Let_def split: option.splits)
  show "ad_parent adm' = ad_parent adm" "ad_childProfile adm' = ad_childProfile adm" "ad_childVis adm' = ad_childVis adm"
    "ad_lineage adm' = ad_lineage adm" "ad_depth adm' = ad_depth adm" "ad_parentContentEff adm' = ad_parentContentEff adm"
    "ad_effectivePolicy adm' = runtime_policy s t (rq_RuntimeRef req)" "ad_policyCeiling adm' = 0"
    "resolveChildContentPolicy (ad_parentContentEff adm)
       (declared_content (ad_effectivePolicy adm')) (ad_effectivePolicy adm' \<noteq> None) = Inr (ad_childContentEff adm')"
    using keep eff by (simp_all add: a')
qed

lemma own_plan: "\<exists>p. c = c\<lparr>se_WorkspacePlan := p\<rparr>"
  by (rule exI[of _ "se_WorkspacePlan c"]) simp

lemma composeChildWorkspaceDefaults_Inr:
  "composeChildWorkspaceDefaults s c = Inr c' \<Longrightarrow> \<exists>p. c' = c\<lparr>se_WorkspacePlan := p\<rparr>"
  using own_plan[of c]
  by (auto simp: composeChildWorkspaceDefaults_def split: sum.splits option.splits if_splits)

lemma buildChildSession_Inr:
  assumes "buildChildSession s env t req adm rt rnd now w = (Inr (child, reserved), w')"
  obtains cid plan where "newChildID s rnd rt = Inr cid"
    "finish_row s (child_row s t req adm rt cid plan now) = Inr child" "reserved = (rq_FileExport req \<noteq> [])"
  using assms unfolding buildChildSession_def Let_def
  by (auto split: sum.splits if_splits prod.splits)

lemma commitChild_None:
  assumes "commitChild s env child reserved now w = (None, w')"
  obtains st where "createLocked (wo_store (env 8 w)) child
      (if reserved then requireReservationLocked (wo_store (env 8 w)) else (\<lambda>_. None)) now = Inr st"
    "w' = (env 8 w)\<lparr>wo_store := st\<rparr>"
  using assms unfolding commitChild_def Let_def
  by (auto simp: store_Create_def CreateReserved_def split: sum.splits if_splits)

lemma insertChildSession_Inr:
  assumes "insertChildSession s env t req adm rnd now w = (Inr res, resv, w')"
  obtains wr child reserved wb wc where
    "reserveTreeBudget s env t req (ad_parent adm) (root_of (ad_parent adm)) w = (Inr resv, wr)"
    "buildChildSession s env t req adm (root_of (ad_parent adm)) rnd now wr = (Inr (child, reserved), wb)"
    "commitChild s env child reserved now wb = (None, wc)"
    "res = \<lparr>rs_Child = child, rs_Depth = w64 (ad_depth adm + 1)\<rparr>" "wo_store w' = wo_store wc"
    "wo_budget w' = wo_budget wc"
  using assms unfolding insertChildSession_def Let_def root_of_def[symmetric]
  by (auto split: sum.splits prod.splits option.splits)

lemma Delegate_Inr:
  assumes "Delegate s env t req rnd now w = (Inr res, w')"
  obtains adm0 adm evs resv w'' where
    "validateDelegation s (wo_store (env 0 w)) t req = Inr adm0"
    "detectCycle s t req adm0 now = (Inr adm, evs)"
    "checkDelegationDepth s req adm = None"
    "insertChildSession s env t req adm rnd now ((env 0 w)\<lparr>wo_events := wo_events (env 0 w) @ evs\<rparr>) = (Inr res, resv, w')"
  using assms unfolding Delegate_def Let_def
  by (auto split: sum.splits prod.splits option.splits)

lemma Delegate_Inl:
  assumes "Delegate s env t req rnd now w = (Inl e, w')"
  obtains (early) "wo_store w' = wo_store (env 0 w)" "wo_budget w' = wo_budget (env 0 w)"
  | (late) adm0 adm evs resv w1 where "validateDelegation s (wo_store (env 0 w)) t req = Inr adm0"
      "detectCycle s t req adm0 now = (Inr adm, evs)"
      "insertChildSession s env t req adm rnd now ((env 0 w)\<lparr>wo_events := wo_events (env 0 w) @ evs\<rparr>) = (Inl e, resv, w1)"
      "w' = release_budget s env resv w1"
  using assms unfolding Delegate_def Let_def
  by (auto split: sum.splits prod.splits option.splits)

section \<open>Only the commit writes the session table\<close>

lemma stableD:
  "stable Q s env \<Longrightarrow> Q (ms_sessions (wo_store w)) \<Longrightarrow> Q (ms_sessions (wo_store (env i w)))"
  "stable Q s env \<Longrightarrow> sv_keysExpired s = Some h \<Longrightarrow> Q (ms_sessions (wo_store w)) \<Longrightarrow> Q (ms_sessions (wo_store (h t r w)))"
  by (auto simp: stable_def)

lemma ReleaseReservation_sessions [simp]: "ms_sessions (ReleaseReservation st t c) = ms_sessions st"
  by (simp add: ReleaseReservation_def)

lemma store_Reserve_sessions: "store_Reserve st t u c d now = Inr st' \<Longrightarrow> ms_sessions st' = ms_sessions st"
  by (auto simp: store_Reserve_def Let_def split: option.splits if_splits)

lemma try_reserve_store [simp]: "wo_store (snd (try_reserve tb r w)) = wo_store w"
  by (simp add: try_reserve_def split: prod.splits sum.splits)

lemma materializeExport_store [simp]: "wo_store (snd (materializeExport s t req parent c pol w)) = wo_store w"
  by (simp add: materializeExport_def split: prod.splits sum.splits option.splits)

lemma undoChildExport_sessions [simp]: "ms_sessions (wo_store (undoChildExport s t c w)) = ms_sessions (wo_store w)"
  by (simp add: undoChildExport_def split: prod.splits option.splits bool.splits)

lemma reserveDetectingExpiry_stable:
  assumes "stable Q s env" "Q (ms_sessions (wo_store w))" "reserveDetectingExpiry s env tb t r w = (res, w')"
  shows "Q (ms_sessions (wo_store w'))"
proof -
  have tr: "ms_sessions (wo_store u') = ms_sessions (wo_store u)" if "try_reserve tb r u = (e, u')" for r u e u'
    using try_reserve_store[of tb r u] that by simp
  obtain e1 w1 where 1: "try_reserve tb r (env 2 w) = (e1, w1)" by fastforce
  obtain e2 w2 where 2: "try_reserve tb (r\<lparr>tr_CreateTree := isFirstReservation (wo_store (env 3 w1)) t (tr_RootSessionID r)\<rparr>)
      (env 4 (env 3 w1)) = (e2, w2)" by fastforce
  have q1: "Q (ms_sessions (wo_store w1))" using tr[OF 1] stableD(1)[OF assms(1,2)] by simp
  then have q2: "Q (ms_sessions (wo_store w2))" using tr[OF 2] stableD(1)[OF assms(1)] by simp
  have "w' = w1 \<or> w' = w2 \<or> (\<exists>h. sv_keysExpired s = Some h \<and> w' = h t (tr_RootSessionID r) w2)"
    using assms(3) by (auto simp: reserveDetectingExpiry_def 1 2 Let_def split: option.splits if_splits)
  then show ?thesis using q1 q2 stableD(2)[OF assms(1)] by blast
qed

lemma reserveTreeBudget_stable:
  assumes "stable Q s env" "Q (ms_sessions (wo_store w))" "reserveTreeBudget s env t req parent rt w = (res, w')"
  shows "Q (ms_sessions (wo_store w'))"
proof -
  have "w' = w \<or> w' = env 1 w \<or> (\<exists>tb r res'. reserveDetectingExpiry s env tb t r (env 1 w) = (res', w'))"
    using assms(3) by (auto simp: reserveTreeBudget_def Let_def split: option.splits if_splits sum.splits prod.splits)
  then show ?thesis using assms(2) stableD(1)[OF assms(1)] reserveDetectingExpiry_stable[OF assms(1)] by metis
qed

lemma buildChildSession_stable:
  assumes "stable Q s env" "Q (ms_sessions (wo_store w))" "buildChildSession s env t req adm rt rnd now w = (res, w')"
  shows "Q (ms_sessions (wo_store w'))"
proof -
  have "w' = w \<or> w' = env 5 w \<or> (\<exists>st cid m w1. store_Reserve (wo_store (env 5 w)) t (se_UserID (ad_parent adm)) cid True now = Inr st
      \<and> materializeExport s t req (ad_parent adm) cid (ad_effectivePolicy adm) (env 6 ((env 5 w)\<lparr>wo_store := st\<rparr>)) = (m, w1)
      \<and> (w' = w1 \<or> w' = undoChildExport s t cid (env 7 w1)))"
    using assms(3) by (auto simp: buildChildSession_def Let_def split: option.splits if_splits sum.splits prod.splits)
  then consider (base) "w' = w \<or> w' = env 5 w"
    | (export) st cid m w1 where "store_Reserve (wo_store (env 5 w)) t (se_UserID (ad_parent adm)) cid True now = Inr st"
        "materializeExport s t req (ad_parent adm) cid (ad_effectivePolicy adm) (env 6 ((env 5 w)\<lparr>wo_store := st\<rparr>)) = (m, w1)"
        "w' = w1 \<or> w' = undoChildExport s t cid (env 7 w1)" by blast
  then show ?thesis
  proof cases
    case base
    then show ?thesis using assms(2) stableD(1)[OF assms(1)] by metis
  next
    case export
    have "Q (ms_sessions (wo_store ((env 5 w)\<lparr>wo_store := st\<rparr>)))"
      using stableD(1)[OF assms(1,2)] store_Reserve_sessions[OF export(1)] by simp
    then have "Q (ms_sessions (wo_store w1))"
      using stableD(1)[OF assms(1)] materializeExport_store[of s t req "ad_parent adm" cid "ad_effectivePolicy adm"] export(2)
      by (metis snd_conv)
    then show ?thesis using export(3) stableD(1)[OF assms(1)] by auto
  qed
qed

lemma commitChild_stable:
  assumes "stable Q s env" "Q (ms_sessions (wo_store w))" "commitChild s env child reserved now w = (Some e, w')"
  shows "Q (ms_sessions (wo_store w'))"
proof -
  have "w' = env 8 w \<or> w' = undoChildExport s (se_TenantID child) (se_ID child) (env 9 (env 8 w))"
    using assms(3) by (auto simp: commitChild_def Let_def split: sum.splits if_splits)
  then show ?thesis using assms(2) stableD(1)[OF assms(1)] by (metis undoChildExport_sessions)
qed

lemma release_budget_store: "stable Q s env \<Longrightarrow> Q (ms_sessions (wo_store w)) \<Longrightarrow> Q (ms_sessions (wo_store (release_budget s env resv w)))"
  using stableD(1)[of Q s env w 10] by (simp add: release_budget_def Let_def split: option.splits)

lemma insertChildSession_stable:
  assumes "stable Q s env" "Q (ms_sessions (wo_store w))" "insertChildSession s env t req adm rnd now w = (Inl e, resv, w')"
  shows "Q (ms_sessions (wo_store w'))"
proof -
  obtain r1 w1 where 1: "reserveTreeBudget s env t req (ad_parent adm) (root_of (ad_parent adm)) w = (r1, w1)" by fastforce
  note q1 = reserveTreeBudget_stable[OF assms(1,2) 1]
  obtain r2 w2 where 2: "buildChildSession s env t req adm (root_of (ad_parent adm)) rnd now w1 = (r2, w2)" by fastforce
  note q2 = buildChildSession_stable[OF assms(1) q1 2]
  have "w' = w1 \<or> w' = w2 \<or> (\<exists>c rv e. commitChild s env c rv now w2 = (Some e, w'))"
    using assms(3) unfolding insertChildSession_def Let_def root_of_def[symmetric]
    by (auto simp: 1 2 split: sum.splits prod.splits option.splits)
  then show ?thesis using q1 q2 commitChild_stable[OF assms(1) q2] by blast
qed

lemma Delegate_failed_stable:
  assumes "stable Q s env" "Q (ms_sessions (wo_store w))" "Delegate s env t req rnd now w = (Inl e, w')"
  shows "Q (ms_sessions (wo_store w'))"
proof -
  have q: "Q (ms_sessions (wo_store (env 0 w)))" by (rule stableD(1)[OF assms(1,2)])
  show ?thesis
  proof (cases rule: Delegate_Inl[OF assms(3)])
    case 1 then show ?thesis using q by simp
  next
    case (2 adm0 adm evs resv w1)
    then have "Q (ms_sessions (wo_store w1))" using insertChildSession_stable[OF assms(1) _ 2(3)] q by simp
    then show ?thesis using 2(4) release_budget_store[OF assms(1)] by simp
  qed
qed

section \<open>What a committed child looks like\<close>

lemma finish_row_Inr:
  assumes "routes_only s" "finish_row s c = Inr c'"
  obtains rt pl ec p where "c' = c\<lparr>se_RuntimeRef := rt, se_PoolRef := pl, se_ExperimentContext := ec, se_WorkspacePlan := p\<rparr>"
    "sv_experimentRouter s = None \<longrightarrow> rt = se_RuntimeRef c \<and> pl = se_PoolRef c"
proof -
  obtain m where m: "composeChildWorkspaceDefaults s m = Inr c'"
    and r: "(case sv_experimentRouter s of None \<Rightarrow> Inr c
           | Some route \<Rightarrow> if se_ExperimentContext c = None then route c else Inr c) = Inr m"
    using assms(2) by (auto simp: finish_row_def split: sum.splits)
  have "\<exists>rt pl ec. m = c\<lparr>se_RuntimeRef := rt, se_PoolRef := pl, se_ExperimentContext := ec\<rparr>
      \<and> (sv_experimentRouter s = None \<longrightarrow> rt = se_RuntimeRef c \<and> pl = se_PoolRef c)"
  proof (cases "m = c")
    case True
    then have "m = c\<lparr>se_RuntimeRef := se_RuntimeRef c, se_PoolRef := se_PoolRef c, se_ExperimentContext := se_ExperimentContext c\<rparr>"
      by simp
    then show ?thesis by blast
  next
    case False
    then show ?thesis using r assms(1) by (auto simp: routes_only_def split: option.splits if_splits)
  qed
  then show thesis
  proof (elim exE conjE)
    fix rt pl ec
    assume "m = c\<lparr>se_RuntimeRef := rt, se_PoolRef := pl, se_ExperimentContext := ec\<rparr>"
      and q: "sv_experimentRouter s = None \<longrightarrow> rt = se_RuntimeRef c \<and> pl = se_PoolRef c"
    with composeChildWorkspaceDefaults_Inr[OF m] obtain p where
      "c' = c\<lparr>se_RuntimeRef := rt, se_PoolRef := pl, se_ExperimentContext := ec, se_WorkspacePlan := p\<rparr>" by auto
    from that[OF this q] show thesis .
  qed
qed

lemma create_defaults_posture [simp]:
  "se_IsolationProfile (create_defaults st r now) = se_IsolationProfile r"
  "se_TreeVisibility (create_defaults st r now) = se_TreeVisibility r"
  "se_DelegationLease (create_defaults st r now) = se_DelegationLease r"
  "se_RuntimeRef (create_defaults st r now) = se_RuntimeRef r"
  "se_PoolRef (create_defaults st r now) = se_PoolRef r"
  by (simp_all add: create_defaults_def Let_def)

text \<open>The parent read at the start and the row stored at the end of a committed delegation.\<close>

lemma committed_child:
  assumes "routes_only s" "Delegate s env t req rnd now w = (Inr res, w')"
  obtains adm st where
    "store_Get (wo_store (env 0 w)) t (rq_ParentSessionID req) = Inr (ad_parent adm)"
    "isolation_IsValid (ad_childProfile adm)"
    "se_IsolationProfile (ad_parent adm) \<noteq> ProfileUnset
       \<Longrightarrow> AtLeastAsRestrictive (ad_childProfile adm) (se_IsolationProfile (ad_parent adm))"
    "AtLeastAsNarrow (ad_childVis adm) (se_TreeVisibility (ad_parent adm))"
    "ad_parentContentEff adm = effectiveParentContentPolicy s t (ad_parent adm)"
    "ad_effectivePolicy adm = runtime_policy s t (rq_RuntimeRef req)"
    "resolveChildContentPolicy (ad_parentContentEff adm)
       (declared_content (ad_effectivePolicy adm)) (ad_effectivePolicy adm \<noteq> None) = Inr (ad_childContentEff adm)"
    "\<exists>rt pl ec p cid plan. rs_Child res = (child_row s t req adm (root_of (ad_parent adm)) cid plan now)
       \<lparr>se_RuntimeRef := rt, se_PoolRef := pl, se_ExperimentContext := ec, se_WorkspacePlan := p\<rparr>
       \<and> (sv_experimentRouter s = None \<longrightarrow> rt = rq_RuntimeRef req \<and> pl = rq_PoolRef req)"
    "ms_sessions (wo_store w') = AList.update (se_ID (rs_Child res)) (create_defaults st (rs_Child res) now) (ms_sessions st)"
    "map_of (ms_sessions st) (se_ID (rs_Child res)) = None"
    "buildLineage s (wo_store (env 0 w)) t (ad_parent adm) = Inr (ad_lineage adm, ad_depth adm)"
    "checkDelegationDepth s req adm = None"
    "\<exists>adm0 evs. detectCycle s t req adm0 now = (Inr adm, evs) \<and> ad_lineage adm0 = ad_lineage adm"
    "\<And>Q. stable Q s env \<Longrightarrow> Q (ms_sessions (wo_store w)) \<Longrightarrow> Q (ms_sessions st)"
proof -
  obtain adm0 adm evs resv where v: "validateDelegation s (wo_store (env 0 w)) t req = Inr adm0"
      and d: "detectCycle s t req adm0 now = (Inr adm, evs)" and depth: "checkDelegationDepth s req adm = None"
      and ins: "insertChildSession s env t req adm rnd now ((env 0 w)\<lparr>wo_events := wo_events (env 0 w) @ evs\<rparr>) = (Inr res, resv, w')"
    by (rule Delegate_Inr[OF assms(2)])
  note v' = validateDelegation_Inr[OF v]
  note d' = detectCycle_Inr[OF d v'(9,10)]
  obtain wr child reserved wb wc where rb: "reserveTreeBudget s env t req (ad_parent adm) (root_of (ad_parent adm))
        ((env 0 w)\<lparr>wo_events := wo_events (env 0 w) @ evs\<rparr>) = (Inr resv, wr)"
      and b: "buildChildSession s env t req adm (root_of (ad_parent adm)) rnd now wr = (Inr (child, reserved), wb)"
      and c: "commitChild s env child reserved now wb = (None, wc)"
      and res: "res = \<lparr>rs_Child = child, rs_Depth = w64 (ad_depth adm + 1)\<rparr>" "wo_store w' = wo_store wc"
    by (rule insertChildSession_Inr[OF ins])
  obtain cid plan where fr: "finish_row s (child_row s t req adm (root_of (ad_parent adm)) cid plan now) = Inr child"
    by (rule buildChildSession_Inr[OF b])
  obtain rt pl ec p where ch: "child = (child_row s t req adm (root_of (ad_parent adm)) cid plan now)
       \<lparr>se_RuntimeRef := rt, se_PoolRef := pl, se_ExperimentContext := ec, se_WorkspacePlan := p\<rparr>"
      "sv_experimentRouter s = None \<longrightarrow> rt = rq_RuntimeRef req \<and> pl = rq_PoolRef req"
    by (rule finish_row_Inr[OF assms(1) fr]) (simp add: child_row_def Let_def)
  obtain before st' where cl: "createLocked (wo_store (env 8 wb)) child before now = Inr st'" "wc = (env 8 wb)\<lparr>wo_store := st'\<rparr>"
    by (rule commitChild_None[OF c]) blast
  note cl' = createLocked_Inr[OF cl(1)]
  have stored: "ms_sessions (wo_store w') =
      AList.update (se_ID (rs_Child res)) (create_defaults (wo_store (env 8 wb)) (rs_Child res) now) (ms_sessions (wo_store (env 8 wb)))"
    "map_of (ms_sessions (wo_store (env 8 wb))) (se_ID (rs_Child res)) = None" using cl'(2,4) res cl(2) by simp_all
  have row: "\<exists>rt pl ec p cid plan. rs_Child res = (child_row s t req adm (root_of (ad_parent adm)) cid plan now)
       \<lparr>se_RuntimeRef := rt, se_PoolRef := pl, se_ExperimentContext := ec, se_WorkspacePlan := p\<rparr>
       \<and> (sv_experimentRouter s = None \<longrightarrow> rt = rq_RuntimeRef req \<and> pl = rq_PoolRef req)"
  proof -
    have "rs_Child res = child" using res(1) by simp
    with ch(1) have "rs_Child res = (child_row s t req adm (root_of (ad_parent adm)) cid plan now)
       \<lparr>se_RuntimeRef := rt, se_PoolRef := pl, se_ExperimentContext := ec, se_WorkspacePlan := p\<rparr>" by simp
    with ch(2) show ?thesis by (intro exI conjI)
  qed
  have gate: "\<exists>adm0 evs. detectCycle s t req adm0 now = (Inr adm, evs) \<and> ad_lineage adm0 = ad_lineage adm" using d d'(4) by metis
  have narrow: "AtLeastAsNarrow (ad_childVis adm) (se_TreeVisibility (ad_parent adm))"
    using resolveChildTreeVisibility_narrow[OF v'(6)] d'(1,3) by simp
  show thesis
  proof (rule that[of adm "wo_store (env 8 wb)", OF _ _ _ narrow _ d'(7) _ row stored _ depth gate])
    show "Q (ms_sessions (wo_store (env 8 wb)))" if "stable Q s env" "Q (ms_sessions (wo_store w))" for Q
      using stableD(1)[OF that(1) buildChildSession_stable[OF that(1) reserveTreeBudget_stable[OF that(1) _ rb] b]]
        stableD(1)[OF that] by simp
  qed (use v'(1,4,5,7,8) d' in simp_all)
qed

section \<open>Depth and lineage\<close>

lemma lineage_walk_length: "lineage_walk st t n vis cur = Inr chain \<Longrightarrow> length chain \<le> Suc n"
  by (induction st t n vis cur arbitrary: chain rule: lineage_walk.induct) (auto split: if_splits sum.splits)

lemma lineage_walk_head: "lineage_walk st t n vis cur = Inr chain \<Longrightarrow> chain \<noteq> [] \<Longrightarrow> chain ! 0 = cur"
  by (cases n) (auto split: if_splits sum.splits)

lemma lineage_walk_start: "lineage_walk st t n [] cur = Inr chain \<Longrightarrow> cur \<in> set chain"
  by (cases n) (auto split: if_splits sum.splits)

text \<open>The walk reads stored ancestors only, each the parent of the one before it.\<close>

lemma lineage_walk_linked:
  "lineage_walk st t n vis cur = Inr chain \<Longrightarrow> Suc i < length chain \<Longrightarrow>
   store_Get st t (se_ParentSessionID (chain ! i)) = Inr (chain ! Suc i)"
proof (induction st t n vis cur arbitrary: chain i rule: lineage_walk.induct)
  case (2 st t n vis cur)
  show ?case
  proof (cases i)
    case 0
    then show ?thesis using "2.prems" by (auto dest: lineage_walk_head split: if_splits sum.splits)
  next
    case (Suc j)
    then show ?thesis using "2.prems" "2.IH" by (auto split: if_splits sum.splits)
  qed
qed (auto split: if_splits)

lemma buildLineage_Inr:
  assumes "buildLineage s st t parent = Inr (lin, depth)" "0 < sv_defaultMaxDepth s" "sv_defaultMaxDepth s < 2 ^ 31"
  obtains chain where "lineage_walk st t (nat (3 + sv_defaultMaxDepth s)) [] parent = Inr chain"
    "lin = map row_identity (rev chain)" "depth = int (length chain) - 1" "int (length chain) \<le> sv_defaultMaxDepth s + 4"
proof -
  have "w64 (sv_defaultMaxDepth s + 4) = sv_defaultMaxDepth s + 4"
    using assms(2,3) by (intro w64_id) (simp add: is_int64_def min_int64_def max_int64_def)
  then obtain chain where c: "lineage_walk st t (nat (3 + sv_defaultMaxDepth s)) [] parent = Inr chain"
    "lin = map row_identity (rev chain)" "depth = int (length chain) - 1"
    using assms(1,2) by (auto simp: buildLineage_def lineageWalkSafetyMargin_def Let_def split: sum.splits)
  with lineage_walk_length[OF c(1)] assms(2) that[OF c] show thesis by simp
qed

lemma cycle_gate:
  assumes "detectCycle s t req adm now = (Inr adm', evs)" "sv_mode s = ModeEnforce" "\<not> sv_platformAllowSelfRec s"
  shows "\<lparr>id_RuntimeName = rq_RuntimeRef req, id_PoolName = rq_PoolRef req\<rparr> \<notin> set (ad_lineage adm)"
proof -
  obtain cs a where ts: "target_settings s t req adm now = Inr (cs, a)"
    using assms(1) by (auto simp: detectCycle_def split: sum.splits)
  then have a: "ad_lineage a = ad_lineage adm" "cs_Mode cs = ModeEnforce" "\<not> cs_PlatformAllowSelfRec cs"
    using assms(2,3) by (auto simp: target_settings_def Let_def split: option.splits sum.splits if_splits)
  then have "whichLayersWouldBlock cs \<noteq> []" by (simp add: whichLayersWouldBlock_def)
  then show ?thesis
    using assms(1) ts a by (auto simp: detectCycle_def Let_def cycle_Decide_def cycle_ToError_def split: sum.splits option.splits if_splits)
qed

lemma depth_gate:
  assumes "checkDelegationDepth s req adm = None" "ad_policyCeiling adm = 0" "0 < sv_defaultMaxDepth s"
  shows "w64 (ad_depth adm + 1) \<le> (if 0 < rq_MaxDepth req then rq_MaxDepth req else sv_defaultMaxDepth s)"
  using assms by (auto simp: checkDelegationDepth_def ResolveMaxDepth_def EnforcePolicyCeiling_def CheckDepth_def split: if_splits)

lemma committed_stages:
  assumes "sv_experimentRouter s = None" "Delegate s env t req rnd now w = (Inr res, w')"
  obtains adm0 adm evs where "validateDelegation s (wo_store (env 0 w)) t req = Inr adm0"
    "detectCycle s t req adm0 now = (Inr adm, evs)" "checkDelegationDepth s req adm = None"
    "row_identity (rs_Child res) = \<lparr>id_RuntimeName = rq_RuntimeRef req, id_PoolName = rq_PoolRef req\<rparr>"
    "se_DelegationDepth (rs_Child res) = word_of_int (ad_depth adm + 1)" "rs_Depth res = w64 (ad_depth adm + 1)"
proof -
  have ro: "routes_only s" using assms(1) by (simp add: routes_only_def)
  obtain adm0 adm evs resv where v: "validateDelegation s (wo_store (env 0 w)) t req = Inr adm0"
      and d: "detectCycle s t req adm0 now = (Inr adm, evs)" and depth: "checkDelegationDepth s req adm = None"
      and ins: "insertChildSession s env t req adm rnd now ((env 0 w)\<lparr>wo_events := wo_events (env 0 w) @ evs\<rparr>) = (Inr res, resv, w')"
    by (rule Delegate_Inr[OF assms(2)])
  obtain wr child reserved wb where b: "buildChildSession s env t req adm (root_of (ad_parent adm)) rnd now wr = (Inr (child, reserved), wb)"
      and res: "res = \<lparr>rs_Child = child, rs_Depth = w64 (ad_depth adm + 1)\<rparr>"
    by (rule insertChildSession_Inr[OF ins])
  obtain cid plan where fr: "finish_row s (child_row s t req adm (root_of (ad_parent adm)) cid plan now) = Inr child"
    by (rule buildChildSession_Inr[OF b])
  obtain rt pl ec p where "child = (child_row s t req adm (root_of (ad_parent adm)) cid plan now)
       \<lparr>se_RuntimeRef := rt, se_PoolRef := pl, se_ExperimentContext := ec, se_WorkspacePlan := p\<rparr>"
      "rt = rq_RuntimeRef req" "pl = rq_PoolRef req"
    by (rule finish_row_Inr[OF ro fr]) (simp add: assms(1) child_row_def Let_def)
  then show thesis using that[OF v d depth] res by (simp add: row_identity_def child_row_def Let_def)
qed

end
