(* ===== verification/Delegation_Safety.thy ===== *)
theory Delegation_Safety
  imports Delegation_Stages
begin

text \<open>
  The guarantees of the delegation service over whole trees. An order on what a property
  compares between child and parent, respected by every committed child, holds along
  every chain of a tree under any interleaving that keeps the invariant; the security
  posture and the effective content policy are two such orders. A failed request is
  undone, over the Redis-backed counters. Committed chains are bounded and free of
  repeats. Two closing facts record where the code falls short of its documentation.
\<close>

section \<open>Trees of delegated sessions\<close>

text \<open>
  A node of a delegation tree: the parent link, whether the session was delegated, and
  what a property compares between the two ends of the link. Session identifiers are
  never reused, so one map \<open>\<pi>\<close> from identifiers to nodes describes all rows that exist
  at some time of a run, also those that are gone.
\<close>

record 'p node =
  nd_Parent :: string
  nd_Delegated :: bool
  nd_View :: 'p

definition node_of :: "(session_row \<Rightarrow> 'p) \<Rightarrow> session_row \<Rightarrow> 'p node" where
  "node_of view r = \<lparr>nd_Parent = se_ParentSessionID r, nd_Delegated = (0 < se_DelegationDepth r), nd_View = view r\<rparr>"

text \<open>Every delegated link up to the top session is in the order \<open>le\<close>.\<close>

inductive sound :: "('p \<Rightarrow> 'p \<Rightarrow> bool) \<Rightarrow> (string \<Rightarrow> 'p node) \<Rightarrow> string \<Rightarrow> bool"
  for le :: "'p \<Rightarrow> 'p \<Rightarrow> bool" and \<pi> :: "string \<Rightarrow> 'p node"
where
  sound_top: "\<not> nd_Delegated (\<pi> k) \<Longrightarrow> sound le \<pi> k"
| sound_child: "le (nd_View (\<pi> k)) (nd_View (\<pi> (nd_Parent (\<pi> k)))) \<Longrightarrow> sound le \<pi> (nd_Parent (\<pi> k)) \<Longrightarrow> sound le \<pi> k"

inductive descends :: "(string \<Rightarrow> 'p node) \<Rightarrow> string \<Rightarrow> string \<Rightarrow> bool"
  for \<pi> :: "string \<Rightarrow> 'p node"
where
  descends_self: "descends \<pi> k k"
| descends_up: "nd_Delegated (\<pi> k) \<Longrightarrow> descends \<pi> (nd_Parent (\<pi> k)) a \<Longrightarrow> descends \<pi> k a"

inductive_cases descendsE: "descends \<pi> k a"

definition tree_inv :: "('p \<Rightarrow> 'p \<Rightarrow> bool) \<Rightarrow> (session_row \<Rightarrow> 'p) \<Rightarrow> (string \<Rightarrow> 'p node) \<Rightarrow> store \<Rightarrow> bool" where
  "tree_inv le view \<pi> st \<longleftrightarrow>
     (\<forall>k r. map_of (ms_sessions st) k = Some r \<longrightarrow> node_of view r = \<pi> k \<and> se_ID r = k \<and> sound le \<pi> k)"

text \<open>What other requests, and the handler of expired budget keys, must keep.\<close>

definition rely :: "('p \<Rightarrow> 'p \<Rightarrow> bool) \<Rightarrow> (session_row \<Rightarrow> 'p) \<Rightarrow> (string \<Rightarrow> 'p node) \<Rightarrow> ('r, 'w) service
   \<Rightarrow> (nat \<Rightarrow> ('r, 'w) world \<Rightarrow> ('r, 'w) world) \<Rightarrow> bool" where
  "rely le view \<pi> s env \<longleftrightarrow>
     (\<forall>i w. tree_inv le view \<pi> (wo_store w) \<longrightarrow> tree_inv le view \<pi> (wo_store (env i w)))
   \<and> (\<forall>h t r w. sv_keysExpired s = Some h \<longrightarrow> tree_inv le view \<pi> (wo_store w) \<longrightarrow> tree_inv le view \<pi> (wo_store (h t r w)))"

text \<open>The security posture of a session, and the order between child and parent.\<close>

definition security :: "session_row \<Rightarrow> string \<times> string \<times> isolation_profile \<times> tree_visibility" where
  "security r = (se_TenantID r, se_UserID r, se_IsolationProfile r, se_TreeVisibility r)"

fun not_weaker :: "string \<times> string \<times> isolation_profile \<times> tree_visibility
   \<Rightarrow> string \<times> string \<times> isolation_profile \<times> tree_visibility \<Rightarrow> bool" where
  "not_weaker (t, u, i, v) (t', u', i', v') \<longleftrightarrow>
     t = t' \<and> u = u' \<and> (i' = ProfileUnset \<or> i = i' \<or> AtLeastAsRestrictive i i') \<and> AtLeastAsNarrow v v'"

definition content :: "('r, 'w) service \<Rightarrow> session_row \<Rightarrow> eff_content_policy" where
  "content s r = effectiveParentContentPolicy s (se_TenantID r) r"

definition as_strict :: "eff_content_policy \<Rightarrow> eff_content_policy \<Rightarrow> bool" where
  "as_strict c p \<longleftrightarrow> ef_MaxInputSize c \<le> ef_MaxInputSize p \<and> ef_MaxExportedFileSize c \<le> ef_MaxExportedFileSize p
     \<and> (ef_ScanExportedFiles p \<longrightarrow> ef_ScanExportedFiles c)
     \<and> (ef_InterceptorRef p \<noteq> '''' \<longrightarrow> ef_InterceptorRef c = ef_InterceptorRef p)"

text \<open>The content axes of a stored lease.\<close>

definition lease_content :: "delegation_lease option \<Rightarrow> string \<times> int \<times> bool \<times> int" where
  "lease_content dl = (case dl of None \<Rightarrow> ('''', 0, False, 0)
     | Some l \<Rightarrow> (dl_ContentPolicyRef l, dl_ContentMaxInputSize l, dl_ContentScanExportedFiles l, dl_ContentMaxExportedFileSize l))"

text \<open>Counters that are neither negative nor near the limit of their width.\<close>

definition moderate :: "'r redis \<Rightarrow> 'r \<Rightarrow> bool" where
  "moderate R b \<longleftrightarrow> (\<forall>k. 0 \<le> rd_val R b k \<and> rd_val R b k \<le> 2 ^ 62)"

definition redis_reserver :: "'r redis \<Rightarrow> reserver \<Rightarrow> 'r tree_budget_reserver" where
  "redis_reserver R rs = \<lparr>tb_Reserve = budget_Reserve R rs True, tb_Return = budget_Return R True\<rparr>"

section \<open>A concrete deployment\<close>

definition demo_service :: "('r, 'w) service" where
  "demo_service = NewService
    \<lparr>sv_experiments = None, sv_runtimes = None, sv_policies = None, sv_metrics = True, sv_auditor = True,
     sv_experimentRouter = None, sv_idFn = Some ''c'', sv_mode = ModeOther '''', sv_platformAllowSelfRec = False,
     sv_defaultMaxDepth = 0, sv_interceptorWeakeningCooldown = 0, sv_interceptorCooldown = None, sv_exportMat = None,
     sv_exportScanResolver = None, sv_treeBudget = None, sv_treeGrants = None, sv_keysExpired = None,
     sv_maxActiveChildrenPerUser = 0, sv_sessionObjects = None, sv_parsePlan = (\<lambda>_. Inr zero_plan),
     sv_renderPlan = (\<lambda>_. Inr ''''), sv_reparse = Inr\<rparr>"

definition demo_request :: delegate_request where
  "demo_request =
    \<lparr>rq_ParentSessionID = ''p'', rq_RuntimeRef = ''b'', rq_PoolRef = ''pool'', rq_IsolationProfile = ProfileUnset,
     rq_MaxDepth = 0, rq_LeaseSlice = zero_slice, rq_ApprovalMode = ApprovalModeEmpty,
     rq_CredentialPropagation = CredentialPropagationEmpty, rq_TreeVisibility = VisibilityOther '''', rq_FileExport = [],
     rq_FileExportLimits = \<lparr>fl_MaxFiles = 0, fl_MaxTotalSize = 0\<rparr>, rq_EffectiveMessagingScope = ScopeUnset\<rparr>"

definition demo_parent :: session_row where
  "demo_parent = (demo_session ''t'' ''p'')\<lparr>se_RuntimeRef := ''a'', se_PoolRef := ''pool'', se_IsolationProfile := ProfileSandboxed\<rparr>"

definition demo_world :: "'r \<Rightarrow> 'w \<Rightarrow> ('r, 'w) world" where
  "demo_world b x = \<lparr>wo_store = (NewWithClock None None 0)\<lparr>ms_sessions := [(''p'', demo_parent)]\<rparr>, wo_budget = b, wo_ext = x, wo_events = []\<rparr>"

text \<open>Another request deletes a session before every step.\<close>

definition demo_env :: "nat \<Rightarrow> ('r, 'w) world \<Rightarrow> ('r, 'w) world" where
  "demo_env i w = w\<lparr>wo_store := apply_op (OpDelete ''t'' ''x'') (wo_store w)\<rparr>"

definition child_of :: "(delegation_error + delegate_result) \<times> ('r, 'w) world \<Rightarrow> session_row" where
  "child_of rw = (case fst rw of Inr r \<Rightarrow> rs_Child r | Inl _ \<Rightarrow> zero_session)"

definition demo_tree :: "(session_row \<Rightarrow> 'p) \<Rightarrow> session_row \<Rightarrow> string \<Rightarrow> 'p node" where
  "demo_tree view c k = (if k = se_ID c then node_of view c else node_of view demo_parent)"

text \<open>The parent's runtime has a content policy, the child's runtime none.\<close>

definition demo_registry :: "('r, 'w) service" where
  "demo_registry = demo_service\<lparr>
     sv_runtimes := Some (\<lambda>n. if n = ''a'' then ReadRow (zero_runtime\<lparr>rt_Name := ''a'', rt_Type := TypeAgent, rt_DelegationPolicyRef := ''p''\<rparr>)
                              else ReadMissing),
     sv_policies := Some (\<lambda>t n. ReadRow (demo_policy\<lparr>dp_ContentPolicy :=
        \<lparr>cp_MaxInputSize = 1000, cp_InterceptorRef = ''i'', cp_ScanExportedFiles = True, cp_MaxExportedFileSize = 0\<rparr>\<rparr>))\<rparr>"


text \<open>The child identifier is taken, so the request fails after it reserved its budget.\<close>

definition demo_clash :: "((string, int \<times> int) go_map, 'w) service" where
  "demo_clash = demo_service\<lparr>sv_idFn := Some ''p'', sv_treeBudget := Some (redis_reserver mem_redis (NewReserver 0))\<rparr>"


text \<open>An experiment that sends the requested runtime to the parent's, and an exporter that records its calls.\<close>

definition demo_routed :: "('r, 'w) service" where
  "demo_routed = demo_service\<lparr>sv_experimentRouter := Some (\<lambda>r. Inr (r\<lparr>se_RuntimeRef := ''a'',
     se_ExperimentContext := Some \<lparr>ec_ExperimentID = ''e'', ec_VariantID = ''v'', ec_Inherited = False\<rparr>\<rparr>))\<rparr>"

definition demo_exporter :: "('r, export_params list) service" where
  "demo_exporter = demo_registry\<lparr>sv_exportMat := Some (\<lambda>p x. (Inr ''plan'', x @ [p]))\<rparr>"

section \<open>Views of a stored row\<close>

lemma create_defaults_views [simp]:
  "security (create_defaults st r now) = security r"
  "content s (create_defaults st r now) = content s r"
  "node_of view (create_defaults st r now) = (node_of view r)\<lparr>nd_View := view (create_defaults st r now)\<rparr>"
  by (simp_all add: security_def content_def effectiveParentContentPolicy_def node_of_def)

section \<open>Orders that delegation respects\<close>

lemma tree_inv_cong: "ms_sessions st = ms_sessions st' \<Longrightarrow> tree_inv le view \<pi> st = tree_inv le view \<pi> st'"
  by (simp add: tree_inv_def)

text \<open>
  A view of a session row and an order on it such that a committed child is below the
  parent it was delegated from. Whatever view satisfies this law is ordered along every
  chain of a tree, however requests interleave.
\<close>

locale monotone_view =
  fixes s :: "('r, 'w) service" and view :: "session_row \<Rightarrow> 'p" and le :: "'p \<Rightarrow> 'p \<Rightarrow> bool"
  assumes le_refl: "le x x"
    and le_trans: "le x y \<Longrightarrow> le y z \<Longrightarrow> le x z"
    and view_create: "view (create_defaults st r now) = view r"
    and child_le: "Delegate s env t req rnd now w = (Inr res, w') \<Longrightarrow>
        store_Get (wo_store (env 0 w)) t (rq_ParentSessionID req) = Inr parent \<Longrightarrow>
        le (view (rs_Child res)) (view parent)"
    and child_link: "Delegate s env t req rnd now w = (Inr res, w') \<Longrightarrow>
        store_Get (wo_store (env 0 w)) t (rq_ParentSessionID req) = Inr parent \<Longrightarrow>
        se_ParentSessionID (rs_Child res) = se_ID parent"
    and child_stored: "Delegate s env t req rnd now w = (Inr res, w') \<Longrightarrow>
        (\<exists>st parent. store_Get (wo_store (env 0 w)) t (rq_ParentSessionID req) = Inr parent
           \<and> ms_sessions (wo_store w') = AList.update (se_ID (rs_Child res)) (create_defaults st (rs_Child res) now) (ms_sessions st)
           \<and> (\<forall>Q. stable Q s env \<longrightarrow> Q (ms_sessions (wo_store w)) \<longrightarrow> Q (ms_sessions st)))"
begin

abbreviation inv :: "(string \<Rightarrow> 'p node) \<Rightarrow> store \<Rightarrow> bool" where
  "inv \<pi> st \<equiv> tree_inv le view \<pi> st"

lemma sound_descends: "sound le \<pi> k \<Longrightarrow> descends \<pi> k a \<Longrightarrow> le (nd_View (\<pi> k)) (nd_View (\<pi> a))"
proof (induction arbitrary: a rule: sound.induct)
  case (sound_top k)
  then show ?case using le_refl by (auto elim: descendsE)
next
  case (sound_child k)
  from sound_child.prems have "k = a \<or> descends \<pi> (nd_Parent (\<pi> k)) a" by (auto elim: descendsE)
  then show ?case using sound_child.IH sound_child.hyps(1) le_refl le_trans by blast
qed

lemma stable_inv: "rely le view \<pi> s env \<Longrightarrow> stable (\<lambda>m. \<forall>st. ms_sessions st = m \<longrightarrow> inv \<pi> st) s env"
  unfolding stable_def rely_def using tree_inv_cong by blast

lemma Delegate_inv:
  assumes "rely le view \<pi> s env" "inv \<pi> (wo_store w)" "Delegate s env t req rnd now w = (res, w')"
    and named: "\<And>r. res = Inr r \<Longrightarrow> node_of view (rs_Child r) = \<pi> (se_ID (rs_Child r))"
  shows "inv \<pi> (wo_store w')"
proof -
  let ?Q = "\<lambda>m. \<forall>st. ms_sessions st = m \<longrightarrow> inv \<pi> st"
  note st = stable_inv[OF assms(1)]
  have q: "?Q (ms_sessions (wo_store w))" using assms(2) tree_inv_cong by blast
  show ?thesis
  proof (cases res)
    case (Inl e)
    then show ?thesis using Delegate_failed_stable[OF st q] assms(3) by blast
  next
    case (Inr r)
    note run = assms(3)[unfolded Inr]
    obtain st' parent where p: "store_Get (wo_store (env 0 w)) t (rq_ParentSessionID req) = Inr parent"
      and m: "ms_sessions (wo_store w') = AList.update (se_ID (rs_Child r)) (create_defaults st' (rs_Child r) now) (ms_sessions st')"
      and keep: "?Q (ms_sessions st')" using child_stored[OF run] st q by blast
    have node: "node_of view (rs_Child r) = \<pi> (se_ID (rs_Child r))" by (rule named[OF Inr])
    have "inv \<pi> (wo_store (env 0 w))" using stableD(1)[OF st q] by blast
    then have up: "node_of view parent = \<pi> (se_ID parent)" "sound le \<pi> (se_ID parent)"
      using p by (auto simp: tree_inv_def store_Get_Inr)
    have "nd_Parent (\<pi> (se_ID (rs_Child r))) = se_ID parent" "nd_View (\<pi> (se_ID (rs_Child r))) = view (rs_Child r)"
      using node child_link[OF run p] by (auto simp: node_of_def dest: sym)
    moreover have "nd_View (\<pi> (se_ID parent)) = view parent" using up(1) by (auto simp: node_of_def dest: sym)
    ultimately have "sound le \<pi> (se_ID (rs_Child r))" using child_le[OF run p] up(2) by (auto intro: sound_child)
    moreover have "node_of view (create_defaults st' (rs_Child r) now) = \<pi> (se_ID (rs_Child r))"
      using node view_create by (simp add: node_of_def)
    moreover have "inv \<pi> st'" using keep by blast
    ultimately show ?thesis by (simp add: tree_inv_def m map_of_update)
  qed
qed

lemma inv_descends:
  "inv \<pi> st \<Longrightarrow> map_of (ms_sessions st) k = Some r \<Longrightarrow> descends \<pi> k a \<Longrightarrow> le (view r) (nd_View (\<pi> a))"
  using sound_descends[of \<pi> k a] unfolding tree_inv_def by (metis node_of_def node.select_convs(3))

end

section \<open>The security posture\<close>

lemma AtLeastAsRestrictive_set: "AtLeastAsRestrictive a b \<Longrightarrow> a \<noteq> ProfileUnset"
  by (auto simp: AtLeastAsRestrictive_def isolation_IsValid_def AllProfiles_def split: if_splits)

lemma not_weaker_trans: "not_weaker x y \<Longrightarrow> not_weaker y z \<Longrightarrow> not_weaker x z"
  by (cases x; cases y; cases z)
     (auto simp: AtLeastAsNarrow_def intro: AtLeastAsRestrictive_trans dest: AtLeastAsRestrictive_set)

section \<open>The content policy\<close>

lemma defaults_positive [simp]: "0 < DefaultMaxInputSize" "0 < DefaultMaxExportedFileSize"
  by (simp_all add: DefaultMaxInputSize_def DefaultMaxExportedFileSize_def)

lemma as_strict_trans: "as_strict x y \<Longrightarrow> as_strict y z \<Longrightarrow> as_strict x z"
  by (auto simp: as_strict_def)

lemma normalize_positive:
  "0 < ef_MaxInputSize (normalizeContentPolicy cp)" "0 < ef_MaxExportedFileSize (normalizeContentPolicy cp)"
  by (simp_all add: normalizeContentPolicy_def)

lemma effective_positive:
  "0 < ef_MaxInputSize (effectiveParentContentPolicy s t p)" "0 < ef_MaxExportedFileSize (effectiveParentContentPolicy s t p)"
  by (simp_all add: effectiveParentContentPolicy_def Let_def normalizeContentPolicy_def platformDefaultContentPolicy_def
      split: option.splits)

lemma resolve_strict:
  assumes "resolveChildContentPolicy p c have = Inr e"
  shows "as_strict e p" "e = (if have then normalizeContentPolicy c else p)"
  using assms by (auto simp: resolveChildContentPolicy_def as_strict_def Let_def split: if_splits)

lemma effective_content:
  "effectiveParentContentPolicy s t p =
    (case lease_content (se_DelegationLease p) of (ref, i, scan, x) \<Rightarrow>
       if 0 < i \<or> ref \<noteq> '''' \<or> scan \<or> 0 < x
       then \<lparr>ef_MaxInputSize = (if i \<le> 0 then DefaultMaxInputSize else i), ef_InterceptorRef = ref, ef_ScanExportedFiles = scan,
             ef_MaxExportedFileSize = (if x \<le> 0 then DefaultMaxExportedFileSize else x)\<rparr>
       else case runtime_policy s t (se_RuntimeRef p) of Some pol \<Rightarrow> normalizeContentPolicy (dp_ContentPolicy pol)
            | None \<Rightarrow> platformDefaultContentPolicy)"
  by (simp add: effectiveParentContentPolicy_def lease_content_def Let_def split: option.splits)

lemma slice_content: "lease_content (storeLeaseFromSlice sl) = ('''', 0, False, 0)"
  by (simp add: storeLeaseFromSlice_def Let_def lease_content_def zero_lease_def)

lemma IsZero_content: "lease_IsZero (Some l) \<Longrightarrow> lease_content (Some l) = ('''', 0, False, 0)"
  by (simp add: lease_IsZero_def lease_content_def)

lemma stamp_content:
  assumes "lease_content dl = ('''', 0, False, 0)"
  shows "lease_content (stampLeasePolicy dl ref pol e) =
    (if tighterThanDefault e
     then (ef_InterceptorRef e, if ef_MaxInputSize e < DefaultMaxInputSize then ef_MaxInputSize e else 0, ef_ScanExportedFiles e,
           if ef_MaxExportedFileSize e < DefaultMaxExportedFileSize then ef_MaxExportedFileSize e else 0)
     else ('''', 0, False, 0))"
proof -
  define l0 where "l0 = (case dl of None \<Rightarrow> zero_lease | Some l \<Rightarrow> l)"
  define l1 where "l1 = (if ref \<noteq> '''' then l0\<lparr>dl_DelegationPolicyRef := ref\<rparr> else l0)"
  define l2 where "l2 = (case pol of None \<Rightarrow> l1 | Some p \<Rightarrow> l1\<lparr>dl_MaxDelegationPolicy := dp_Name p\<rparr>)"
  define l3 where "l3 = (if tighterThanDefault e
     then let l = l2\<lparr>dl_ContentPolicyRef := ef_InterceptorRef e, dl_ContentScanExportedFiles := ef_ScanExportedFiles e\<rparr>;
              l = (if ef_MaxInputSize e < DefaultMaxInputSize then l\<lparr>dl_ContentMaxInputSize := ef_MaxInputSize e\<rparr> else l)
          in if ef_MaxExportedFileSize e < DefaultMaxExportedFileSize
             then l\<lparr>dl_ContentMaxExportedFileSize := ef_MaxExportedFileSize e\<rparr> else l
     else l2)"
  have 0: "lease_content (Some l0) = ('''', 0, False, 0)"
    using assms by (cases dl) (simp_all add: l0_def lease_content_def zero_lease_def)
  have 2: "lease_content (Some l2) = ('''', 0, False, 0)"
    using 0 by (cases pol) (simp_all add: l1_def l2_def lease_content_def)
  have stamp: "stampLeasePolicy dl ref pol e =
      (if ref = '''' \<and> pol = None \<and> \<not> tighterThanDefault e then dl else if lease_IsZero (Some l3) then None else Some l3)"
    unfolding stampLeasePolicy_def Let_def l0_def l1_def l2_def l3_def by (rule refl)
  show ?thesis
  proof (cases "tighterThanDefault e")
    case True
    then have 3: "lease_content (Some l3) = (ef_InterceptorRef e,
        if ef_MaxInputSize e < DefaultMaxInputSize then ef_MaxInputSize e else 0, ef_ScanExportedFiles e,
        if ef_MaxExportedFileSize e < DefaultMaxExportedFileSize then ef_MaxExportedFileSize e else 0)"
      using 2 by (simp add: l3_def lease_content_def Let_def)
    moreover have "lease_content None = ('''', 0, False, 0)" by (simp add: lease_content_def)
    ultimately show ?thesis using True IsZero_content[of l3] by (simp add: stamp)
  next
    case False
    then show ?thesis using assms 2 by (simp add: stamp l3_def lease_content_def)
  qed
qed

text \<open>A stamped policy reads back with its sizes capped at the default.\<close>

lemma stamp_readback:
  assumes "0 < ef_MaxInputSize e" "0 < ef_MaxExportedFileSize e"
    and "se_DelegationLease r = stampLeasePolicy (storeLeaseFromSlice sl) ref pol e"
  shows "effectiveParentContentPolicy s t r =
    (if tighterThanDefault e
     then e\<lparr>ef_MaxInputSize := min (ef_MaxInputSize e) DefaultMaxInputSize,
            ef_MaxExportedFileSize := min (ef_MaxExportedFileSize e) DefaultMaxExportedFileSize\<rparr>
     else case runtime_policy s t (se_RuntimeRef r) of Some pol \<Rightarrow> normalizeContentPolicy (dp_ContentPolicy pol)
          | None \<Rightarrow> platformDefaultContentPolicy)"
  unfolding effective_content assms(3) stamp_content[OF slice_content]
  using assms(1,2) by (auto simp: tighterThanDefault_def min_def)

lemma child_as_strict:
  assumes "resolveChildContentPolicy (effectiveParentContentPolicy s t p) (declared_content (runtime_policy s t rt))
      (runtime_policy s t rt \<noteq> None) = Inr e"
    and "se_DelegationLease r = stampLeasePolicy (storeLeaseFromSlice sl) ref pol e" "se_RuntimeRef r = rt"
  shows "as_strict (effectiveParentContentPolicy s t r) (effectiveParentContentPolicy s t p)"
proof -
  note e = resolve_strict[OF assms(1)]
  have pos: "0 < ef_MaxInputSize e" "0 < ef_MaxExportedFileSize e"
    using e(2) normalize_positive effective_positive by (auto split: if_splits)
  have "as_strict (effectiveParentContentPolicy s t r) e"
    using e(2) assms(3)
    by (auto simp: stamp_readback[OF pos assms(2)] as_strict_def declared_content_def platformDefaultContentPolicy_def
        tighterThanDefault_def split: option.splits)
  then show ?thesis using e(1) as_strict_trans by blast
qed

section \<open>The service keeps both orders\<close>

lemma child_row_link:
  assumes "rs_Child res = (child_row s t req adm rt cid plan now)
       \<lparr>se_RuntimeRef := a, se_PoolRef := b, se_ExperimentContext := c, se_WorkspacePlan := d\<rparr>"
  shows "se_ParentSessionID (rs_Child res) = se_ID (ad_parent adm)"
    "security (rs_Child res) = (t, se_UserID (ad_parent adm), ad_childProfile adm, ad_childVis adm)"
    "se_TenantID (rs_Child res) = t"
    "se_RuntimeRef (rs_Child res) = a"
    "se_DelegationLease (rs_Child res) = stampLeasePolicy (storeLeaseFromSlice (rq_LeaseSlice req)) (ad_delegationPolicyRef adm)
       (ad_effectivePolicy adm) (ad_childContentEff adm)"
  by (simp_all add: assms child_row_def Let_def security_def)

lemma Delegate_parent_link:
  assumes "routes_only s" "Delegate s env t req rnd now w = (Inr res, w')"
    and "store_Get (wo_store (env 0 w)) t (rq_ParentSessionID req) = Inr parent"
  shows "se_ParentSessionID (rs_Child res) = se_ID parent"
  by (rule committed_child[OF assms(1,2)]) (use assms(3) in \<open>auto dest: child_row_link(1)\<close>)

lemma Delegate_stored:
  assumes "routes_only s" "Delegate s env t req rnd now w = (Inr res, w')"
  shows "\<exists>st parent. store_Get (wo_store (env 0 w)) t (rq_ParentSessionID req) = Inr parent
     \<and> ms_sessions (wo_store w') = AList.update (se_ID (rs_Child res)) (create_defaults st (rs_Child res) now) (ms_sessions st)
     \<and> (\<forall>Q. stable Q s env \<longrightarrow> Q (ms_sessions (wo_store w)) \<longrightarrow> Q (ms_sessions st))"
  by (rule committed_child[OF assms]) blast

lemma Delegate_not_weaker:
  assumes "routes_only s" "Delegate s env t req rnd now w = (Inr res, w')"
    and "store_Get (wo_store (env 0 w)) t (rq_ParentSessionID req) = Inr parent"
  shows "not_weaker (security (rs_Child res)) (security parent)"
proof (rule committed_child[OF assms(1,2)])
  fix adm
  assume p: "store_Get (wo_store (env 0 w)) t (rq_ParentSessionID req) = Inr (ad_parent adm)"
    and iso: "se_IsolationProfile (ad_parent adm) \<noteq> ProfileUnset
       \<Longrightarrow> AtLeastAsRestrictive (ad_childProfile adm) (se_IsolationProfile (ad_parent adm))"
    and vis: "AtLeastAsNarrow (ad_childVis adm) (se_TreeVisibility (ad_parent adm))"
    and row: "\<exists>rt pl ec p cid plan. rs_Child res = (child_row s t req adm (root_of (ad_parent adm)) cid plan now)
       \<lparr>se_RuntimeRef := rt, se_PoolRef := pl, se_ExperimentContext := ec, se_WorkspacePlan := p\<rparr>
       \<and> (sv_experimentRouter s = None \<longrightarrow> rt = rq_RuntimeRef req \<and> pl = rq_PoolRef req)"
  have "ad_parent adm = parent" "se_TenantID parent = t" using p assms(3) by (auto simp: store_Get_Inr)
  with row iso vis show ?thesis by (auto dest!: child_row_link(2) simp: security_def)
qed

lemma Delegate_as_strict:
  assumes "sv_experimentRouter s = None" "Delegate s env t req rnd now w = (Inr res, w')"
    and "store_Get (wo_store (env 0 w)) t (rq_ParentSessionID req) = Inr parent"
  shows "as_strict (content s (rs_Child res)) (content s parent)"
proof -
  have "routes_only s" using assms(1) by (simp add: routes_only_def)
  from this assms(2) show ?thesis
  proof (rule committed_child)
    fix adm
    assume p: "store_Get (wo_store (env 0 w)) t (rq_ParentSessionID req) = Inr (ad_parent adm)"
      and pe: "ad_parentContentEff adm = effectiveParentContentPolicy s t (ad_parent adm)"
      and pol: "ad_effectivePolicy adm = runtime_policy s t (rq_RuntimeRef req)"
      and eff: "resolveChildContentPolicy (ad_parentContentEff adm)
         (declared_content (ad_effectivePolicy adm)) (ad_effectivePolicy adm \<noteq> None) = Inr (ad_childContentEff adm)"
      and row: "\<exists>rt pl ec p cid plan. rs_Child res = (child_row s t req adm (root_of (ad_parent adm)) cid plan now)
         \<lparr>se_RuntimeRef := rt, se_PoolRef := pl, se_ExperimentContext := ec, se_WorkspacePlan := p\<rparr>
         \<and> (sv_experimentRouter s = None \<longrightarrow> rt = rq_RuntimeRef req \<and> pl = rq_PoolRef req)"
    have pa: "ad_parent adm = parent" "se_TenantID parent = t" using p assms(3) by (auto simp: store_Get_Inr)
    obtain ec pl p cid plan where "rs_Child res = (child_row s t req adm (root_of (ad_parent adm)) cid plan now)
         \<lparr>se_RuntimeRef := rq_RuntimeRef req, se_PoolRef := pl, se_ExperimentContext := ec, se_WorkspacePlan := p\<rparr>"
      using row assms(1) by metis
    note r = child_row_link[OF this]
    show ?thesis
      using child_as_strict[OF eff[unfolded pe pol] r(5,4)] r(3) pa by (simp add: content_def)
  qed
qed

text \<open>A service whose experiment router meets its contract, and one without a router.\<close>

locale routed =
  fixes s :: "('r, 'w) service"
  assumes routes_only: "routes_only s"

sublocale routed \<subseteq> posture: monotone_view s security not_weaker
proof
  show "not_weaker x x" for x by (cases x) (auto simp: AtLeastAsNarrow_def)
qed (use not_weaker_trans Delegate_not_weaker[OF routes_only] Delegate_parent_link[OF routes_only]
       Delegate_stored[OF routes_only] in auto)

locale unrouted =
  fixes s :: "('r, 'w) service"
  assumes no_router: "sv_experimentRouter s = None"

sublocale unrouted \<subseteq> routed s
  by unfold_locales (simp add: routes_only_def no_router)

sublocale unrouted \<subseteq> strictness: monotone_view s "content s" as_strict
proof
  show "as_strict x x" for x by (simp add: as_strict_def)
qed (use as_strict_trans Delegate_as_strict[OF no_router] Delegate_parent_link[OF routes_only]
       Delegate_stored[OF routes_only] in auto)

interpretation plain: unrouted "NewService (opts\<lparr>sv_experimentRouter := None\<rparr>)" for opts
  by unfold_locales (simp add: NewService_def)

context routed
begin

lemmas posture_inv = posture.Delegate_inv
lemmas posture_descends = posture.inv_descends

end

context unrouted
begin

lemmas strictness_inv = strictness.Delegate_inv
lemmas strictness_descends = strictness.inv_descends

end

section \<open>A failed insert\<close>

lemma buildChildSession_budget: "wo_budget (snd (buildChildSession s (\<lambda>_ w. w) t req adm rt rnd now w)) = wo_budget w"
  by (auto simp: buildChildSession_def materializeExport_def undoChildExport_def Let_def
      split: sum.splits option.splits prod.splits bool.splits)

lemma commitChild_budget: "wo_budget (snd (commitChild s (\<lambda>_ w. w) c rv now w)) = wo_budget w"
  by (auto simp: commitChild_def undoChildExport_def Let_def split: sum.splits option.splits prod.splits bool.splits)

lemma insertChildSession_Inl_reserve:
  assumes "insertChildSession s (\<lambda>_ w. w) t req adm rnd now w = (Inl e, resv, w')"
    and "reserveTreeBudget s (\<lambda>_ w. w) t req (ad_parent adm) (root_of (ad_parent adm)) w = (Inl e', wr)"
  shows "e' = e \<and> w' = wr \<and> resv = None"
  using assms unfolding insertChildSession_def Let_def root_of_def[symmetric] by simp

lemma insertChildSession_Inl_late:
  assumes "insertChildSession s (\<lambda>_ w. w) t req adm rnd now w = (Inl e, resv, w')"
    and "reserveTreeBudget s (\<lambda>_ w. w) t req (ad_parent adm) (root_of (ad_parent adm)) w = (Inr resv', wr)"
  shows "resv = resv' \<and> wo_budget w' = wo_budget wr"
proof -
  obtain b wb where b: "buildChildSession s (\<lambda>_ w. w) t req adm (root_of (ad_parent adm)) rnd now wr = (b, wb)" by fastforce
  have eq: "wo_budget wb = wo_budget wr" using buildChildSession_budget[of s t req adm "root_of (ad_parent adm)" rnd now wr] b by simp
  have "resv = resv' \<and> (w' = wb \<or> (\<exists>c rv e. commitChild s (\<lambda>_ w. w) c rv now wb = (Some e, w')))"
    using assms b unfolding insertChildSession_def Let_def root_of_def[symmetric]
    by (auto split: sum.splits prod.splits option.splits)
  then show ?thesis using eq commitChild_budget[of s _ _ now wb] by (metis snd_conv)
qed

section \<open>The reserver's contract\<close>

text \<open>The two attempts of a reservation, without interference and without an expiry handler.\<close>

lemma reserveDetectingExpiry_cases:
  assumes "sv_keysExpired s = None" "reserveDetectingExpiry s (\<lambda>_ w. w) tb t r w = (res, w')"
    and 1: "tb_Reserve tb r (wo_budget w) = (x1, b1)"
    and 2: "tb_Reserve tb (r\<lparr>tr_CreateTree := isFirstReservation (wo_store w) t (tr_RootSessionID r)\<rparr>) b1 = (x2, b2)"
  obtains (first) v where "x1 = Inr v" "res = None" "wo_budget w' = b1"
    | (failed) e where "x1 = Inl e" "e \<noteq> ErrTreeBudgetKeysExpired" "res = Some (budget_failure e)" "wo_budget w' = b1"
    | (retried) v where "x1 = Inl ErrTreeBudgetKeysExpired" "x2 = Inr v" "res = None" "wo_budget w' = b2"
    | (twice) e f where "x1 = Inl ErrTreeBudgetKeysExpired" "x2 = Inl e" "res = Some f" "wo_budget w' = b2"
        "e = ErrTreeBudgetUnavailable \<Longrightarrow> f = ErrBudgetUnavailable"
proof (cases x1)
  case (Inr v)
  then show thesis using first assms(2) 1 by (auto simp: reserveDetectingExpiry_def try_reserve_def)
next
  case x1: (Inl e)
  define fresh where "fresh = isFirstReservation (wo_store w) t (tr_RootSessionID r)"
  show thesis
  proof (cases "e = ErrTreeBudgetKeysExpired")
    case False
    then show thesis using failed[OF x1] assms(2) 1 x1 by (auto simp: reserveDetectingExpiry_def try_reserve_def)
  next
    case True
    show thesis
    proof (cases x2)
      case (Inr v)
      then show thesis using retried[of v] assms(1,2) 1 2 x1 True
        by (auto simp: reserveDetectingExpiry_def try_reserve_def Let_def)
    next
      case (Inl e2)
      then have "res = Some (if fresh \<or> e2 \<noteq> ErrTreeBudgetKeysExpired then budget_failure e2 else ErrBudgetKeysExpired)"
          "wo_budget w' = b2" using assms(1,2) 1 2 x1 True
        by (auto simp: reserveDetectingExpiry_def try_reserve_def fresh_def Let_def split: if_splits)
      then show thesis using twice[OF _ Inl] x1 True by (simp add: budget_failure_def)
    qed
  qed
qed

text \<open>
  What the service relies on: a refusal other than an outage changes no counter, and
  returning an admitted reservation restores every counter. \<open>counted\<close> are the keys
  that count, which leaves out the high-watermarks.
\<close>

locale budget_contract =
  fixes tb :: "'r tree_budget_reserver" and count :: "'r \<Rightarrow> string \<Rightarrow> int"
    and ok :: "'r \<Rightarrow> bool" and small :: "tree_reservation \<Rightarrow> bool" and counted :: "string \<Rightarrow> bool"
  assumes refused: "ok b \<Longrightarrow> small r \<Longrightarrow> tb_Reserve tb r b = (Inl e, b') \<Longrightarrow> e \<noteq> ErrTreeBudgetUnavailable \<Longrightarrow>
        counted k \<Longrightarrow> count b' k = count b k"
    and expired: "ok b \<Longrightarrow> small r \<Longrightarrow> tb_Reserve tb r b = (Inl ErrTreeBudgetKeysExpired, b') \<Longrightarrow> ok b'"
    and restored: "ok b \<Longrightarrow> small r \<Longrightarrow> tb_Reserve tb (r\<lparr>tr_CreateTree := c\<rparr>) b = (Inr tt, b') \<Longrightarrow>
        counted k \<Longrightarrow> count (snd (tb_Return tb r b')) k = count b k"
    and small_create: "small (r\<lparr>tr_CreateTree := c\<rparr>) = small r"
begin

lemma reserve_counts:
  assumes "ok (wo_budget w)" "small r" "tr_CreateTree r = False" "sv_keysExpired s = None"
    and "reserveDetectingExpiry s (\<lambda>_ w. w) tb t r w = (res, w')" "counted k"
  shows "\<And>e. res = Some e \<Longrightarrow> e \<noteq> ErrBudgetUnavailable \<Longrightarrow> count (wo_budget w') k = count (wo_budget w) k"
    and "res = None \<Longrightarrow> count (snd (tb_Return tb r (wo_budget w'))) k = count (wo_budget w) k"
proof -
  define fresh where "fresh = isFirstReservation (wo_store w) t (tr_RootSessionID r)"
  obtain x1 b1 where 1: "tb_Reserve tb r (wo_budget w) = (x1, b1)" by fastforce
  obtain x2 b2 where 2: "tb_Reserve tb (r\<lparr>tr_CreateTree := fresh\<rparr>) b1 = (x2, b2)" by fastforce
  note outcome = reserveDetectingExpiry_cases[OF assms(4,5) 1 2[unfolded fresh_def]]
  have same: "r\<lparr>tr_CreateTree := False\<rparr> = r" using assms(3) by simp
  have avail: "budget_failure ErrTreeBudgetUnavailable = ErrBudgetUnavailable" by (simp add: budget_failure_def)
  have ok1: "ok b1" if "x1 = Inl ErrTreeBudgetKeysExpired" using expired[OF assms(1,2)] 1 that by blast
  have eq1: "count b1 k = count (wo_budget w) k" if "x1 = Inl e" "e \<noteq> ErrTreeBudgetUnavailable" for e
    using refused[OF assms(1,2)] 1 that assms(6) by blast
  have eq2: "count b2 k = count b1 k" if "x1 = Inl ErrTreeBudgetKeysExpired" "x2 = Inl e" "e \<noteq> ErrTreeBudgetUnavailable" for e
    using refused[OF ok1] 2 that small_create assms(2,6) by blast
  show "count (wo_budget w') k = count (wo_budget w) k" if "res = Some e" "e \<noteq> ErrBudgetUnavailable" for e
    by (cases rule: outcome) (use that eq1 eq2 avail in auto)
  show "count (snd (tb_Return tb r (wo_budget w'))) k = count (wo_budget w) k" if "res = None"
  proof (cases rule: outcome)
    case (1 v)
    then show ?thesis using restored[OF assms(1,2), of False v b1] \<open>tb_Reserve tb r (wo_budget w) = (x1, b1)\<close> same assms(6) by simp
  next
    case (3 v)
    then show ?thesis using restored[OF ok1 assms(2), of fresh v b2 k] 2 eq1[of ErrTreeBudgetKeysExpired] assms(6) by simp
  qed (use that in simp_all)
qed

lemma tree_budget_counts:
  assumes "sv_treeBudget s = Some tb" "sv_keysExpired s = None" "ok (wo_budget w)" "counted k"
    and "\<And>parent rt sl cap. small (child_reservation parent rt sl cap (ls_MaxTokenBudget (rq_LeaseSlice req)))"
    and "reserveTreeBudget s (\<lambda>_ w. w) t req parent rt w = (res, w')"
  shows "\<And>e. res = Inl e \<Longrightarrow> e \<noteq> ErrBudgetUnavailable \<Longrightarrow> count (wo_budget w') k = count (wo_budget w) k"
    and "\<And>resv. res = Inr resv \<Longrightarrow> \<exists>r. resv = Some r \<and> count (snd (tb_Return tb r (wo_budget w'))) k = count (wo_budget w) k"
proof -
  consider (early) e where "res = Inl e" "w' = w"
    | (reserve) sl cap out where "reserveDetectingExpiry s (\<lambda>_ w. w) tb t
          (child_reservation parent rt sl cap (ls_MaxTokenBudget (rq_LeaseSlice req))) w = (out, w')"
        "res = (case out of Some e \<Rightarrow> Inl e
              | None \<Rightarrow> Inr (Some (child_reservation parent rt sl cap (ls_MaxTokenBudget (rq_LeaseSlice req)))))"
    using assms(6) unfolding reserveTreeBudget_def Let_def assms(1)
    by (auto split: option.splits if_splits sum.splits prod.splits)
  note outcome = this
  show "count (wo_budget w') k = count (wo_budget w) k" if "res = Inl e" "e \<noteq> ErrBudgetUnavailable" for e
  proof (cases rule: outcome)
    case (reserve sl cap out)
    have "tr_CreateTree (child_reservation parent rt sl cap (ls_MaxTokenBudget (rq_LeaseSlice req))) = False"
      by (simp add: child_reservation_def)
    from reserve_counts(1)[OF assms(3) assms(5) this assms(2) reserve(1) assms(4)] show ?thesis
      using that reserve(2) by (auto split: option.splits)
  qed simp
  show "\<exists>r. resv = Some r \<and> count (snd (tb_Return tb r (wo_budget w'))) k = count (wo_budget w) k" if "res = Inr resv" for resv
  proof (cases rule: outcome)
    case (reserve sl cap out)
    have "tr_CreateTree (child_reservation parent rt sl cap (ls_MaxTokenBudget (rq_LeaseSlice req))) = False"
      by (simp add: child_reservation_def)
    from reserve_counts(2)[OF assms(3) assms(5) this assms(2) reserve(1) assms(4)] show ?thesis
      using that reserve(2) by (auto split: option.splits)
  qed (use that in simp)
qed

lemma failed_counts:
  assumes "sv_treeBudget s = Some tb" "sv_keysExpired s = None" "ok (wo_budget w)" "counted k"
    and "\<And>parent rt sl cap. small (child_reservation parent rt sl cap (ls_MaxTokenBudget (rq_LeaseSlice req)))"
    and "Delegate s (\<lambda>_ w. w) t req rnd now w = (Inl e, w')" "e \<noteq> ErrBudgetUnavailable"
  shows "count (wo_budget w') k = count (wo_budget w) k"
proof (cases rule: Delegate_Inl[OF assms(6)])
  case (2 adm0 adm evs resv w1)
  let ?w = "w\<lparr>wo_events := wo_events w @ evs\<rparr>"
  obtain r1 wr where r: "reserveTreeBudget s (\<lambda>_ w. w) t req (ad_parent adm) (root_of (ad_parent adm)) ?w = (r1, wr)" by fastforce
  note counts = tree_budget_counts[OF assms(1,2) _ assms(4) assms(5) r]
  show ?thesis
  proof (cases r1)
    case (Inl e')
    then have "e' = e" "w1 = wr" "resv = None" using insertChildSession_Inl_reserve[OF 2(3) r[unfolded Inl]] by auto
    then show ?thesis using counts(1)[OF _ Inl] assms(3,7) 2(4) by (simp add: release_budget_def)
  next
    case (Inr resv')
    then have "resv = resv'" "wo_budget w1 = wo_budget wr" using insertChildSession_Inl_late[OF 2(3) r[unfolded Inr]] by auto
    then show ?thesis using counts(2)[OF _ Inr] assms(1,3) 2(4) by (auto simp: release_budget_def)
  qed
qed simp

end

section \<open>The Redis reserver meets the contract\<close>

lemma set_tree_keys_get:
  assumes "redis_laws R" "0 < ttl" "set_tree_keys R ttl ks s = (Some s0, s1)" "k \<in> set ks \<or> rd_get R s k \<noteq> None"
  shows "rd_get R s0 k \<noteq> None"
  using assms(3,4)
proof (induction ks arbitrary: s)
  case (Cons a ks)
  obtain s2 where s2: "rd_set_nx_ex R s a 0 ttl = Some s2"
      "rd_get R s2 = (rd_get R s)(a := (case rd_get R s a of None \<Rightarrow> Some 0 | Some w \<Rightarrow> Some w))"
    using redis_set_nx[OF assms(1,2)] by blast
  have "k \<in> set ks \<or> rd_get R s2 k \<noteq> None" using Cons.prems(2) by (auto simp: s2(2) split: option.splits)
  then show ?case using Cons.IH[of s2] Cons.prems(1) s2(1) by simp
qed simp

lemma small_zip: "small_deltas r \<Longrightarrow> list_all (\<lambda>(k, c, d). 0 \<le> d \<and> d \<le> 2 ^ 53) (zip (tree_keys r) (zip cs (tree_deltas r)))"
  using small_deltasD[of r] by (auto simp: list_all_iff dest!: set_zip_rightD)

text \<open>An admitted reservation leaves the sentinel key in place.\<close>

lemma reserve_sentinel:
  assumes "redis_laws R" "second \<le> rs_ttl rs" "small_deltas r" "budget_Reserve R rs up r s = (Inr t, s')"
  shows "rd_get R s' (tree_keys r ! 4) \<noteq> None"
proof -
  let ?k = "tree_keys r ! 4" and ?ttl = "ttl_seconds rs"
  have ttl: "0 < ?ttl" using assms(2) by (simp add: ttl_seconds_def second_def)
  obtain out where sc: "reserveScript R (tree_keys r) (hwmKey (tr_RootSessionID r)) (tree_caps r) (tree_deltas r) ?ttl
      (tr_CreateTree r) s = (StatusAdmitted out, s')"
    using assms(4) by (auto simp: budget_Reserve_def split: if_splits prod.splits script_result.splits)
  obtain m s0 where s0: "(if rd_get R s ?k = None then set_tree_keys R ?ttl [tree_keys r ! 0, tree_keys r ! 1, ?k] s else (Some s, s)) = (m, s0)"
    by fastforce
  obtain x where m: "m = Some x" using sc s0 by (cases m) (auto simp: reserveScript_def split: if_splits)
  have k0: "rd_get R x ?k \<noteq> None"
    using s0 m set_tree_keys_get[OF assms(1) ttl, of "[tree_keys r ! 0, tree_keys r ! 1, ?k]" s x s0 ?k]
    by (auto split: if_splits)
  let ?cur = "map (rd_val R x) (tree_keys r)"
  obtain o' s1 where b: "bump_axes R ?ttl (zip (tree_keys r) (zip ?cur (tree_deltas r))) x [] = (Some o', s1)"
      and s': "s' = track_hwm R ?ttl (hwmKey (tr_RootSessionID r)) (o' ! 2) s1"
    using sc by (auto simp: reserveScript_def s0[unfolded m] Let_def split: if_splits option.splits prod.splits)
  have "rd_get R s1 ?k \<noteq> None"
    using bump_axes_effect[OF assms(1) ttl _ small_zip[OF assms(3)] b, of ?k] distinct_tree_keys[of r] k0 by simp
  moreover have "?k \<noteq> hwmKey (tr_RootSessionID r)" using hwm_not_key[of r] nth_mem[of 4 "tree_keys r"] by fastforce
  ultimately show ?thesis using track_hwm_val[OF assms(1) ttl] s' by simp
qed

lemma drop_axes_total:
  assumes "redis_laws R" "list_all (\<lambda>(k, d). 0 \<le> d \<and> d \<le> 2 ^ 53) xs"
    and "\<And>k. k \<in> fst ` set xs \<Longrightarrow> 0 \<le> rd_val R s k \<and> rd_val R s k < 2 ^ 63"
  shows "fst (drop_axes R xs s)"
  using assms(2,3)
proof (induction xs arbitrary: s)
  case (Cons x xs)
  obtain a d where x: "x = (a, d)" "0 \<le> d" "d \<le> 2 ^ 53" using Cons.prems(1) by (cases x) auto
  have "is_int64 (rd_val R s a - d)" using Cons.prems(2)[of a] x by (simp add: is_int64_def min_int64_def max_int64_def)
  from redis_decrby_total[OF assms(1) this] obtain s1 v where d: "rd_decrby R s a d = Some (s1, v)" by blast
  let ?s2 = "if v < 0 then rd_set_keepttl R s1 a 0 else s1"
  have get: "v = rd_val R s a - d" "rd_get R s1 = (rd_get R s)(a := Some v)" using redis_decrby[OF assms(1) d] by auto
  have "0 \<le> rd_val R ?s2 k \<and> rd_val R ?s2 k < 2 ^ 63" if "k \<in> fst ` set xs" for k
    using Cons.prems(2)[of k] Cons.prems(2)[of a] that get x(1,2) by (auto simp: rd_val_def redis_keepttl[OF assms(1)])
  then have "fst (drop_axes R xs ?s2)" using Cons.IH[of ?s2] Cons.prems(1) by simp
  moreover have "fst (drop_axes R xs s)" using Cons.IH[of s] Cons.prems by simp
  ultimately show ?case using d lua_arg_small[OF x(2,3)] by (simp add: x(1))
qed simp

lemma budget_Return_total:
  assumes "redis_laws R" "small_deltas r" "tr_RootSessionID r \<noteq> ''''" "rd_get R s (tree_keys r ! 4) \<noteq> None"
    and "\<And>k. k \<in> set (tree_keys r) \<Longrightarrow> 0 \<le> rd_val R s k \<and> rd_val R s k < 2 ^ 63"
  shows "fst (budget_Return R True r s) = None"
proof -
  have "list_all (\<lambda>(k, d). 0 \<le> d \<and> d \<le> 2 ^ 53) (zip (tree_keys r) (tree_deltas r))"
    using small_deltasD[OF assms(2)] by (auto simp: list_all_iff dest: set_zip_rightD)
  moreover have "k \<in> set (tree_keys r)" if "k \<in> fst ` set (zip (tree_keys r) (tree_deltas r))" for k
    using that by (auto dest: set_zip_leftD)
  ultimately have "fst (drop_axes R (zip (tree_keys r) (tree_deltas r)) s)"
    using drop_axes_total[OF assms(1), of "zip (tree_keys r) (tree_deltas r)" s] assms(5) by blast
  then show ?thesis using assms(3,4) by (auto simp: budget_Return_def returnScript_def split: prod.splits bool.splits)
qed

locale redis_server =
  fixes R :: "'r redis" and rs :: reserver
  assumes laws: "redis_laws R" and ttl: "second \<le> rs_ttl rs"

lemma small_deltas_create [simp]: "small_deltas (r\<lparr>tr_CreateTree := c\<rparr>) = small_deltas r"
  "tree_keys (r\<lparr>tr_CreateTree := c\<rparr>) = tree_keys r" "budget_Return R up (r\<lparr>tr_CreateTree := c\<rparr>) = budget_Return R up r"
  by (simp_all add: small_deltas_def tree_deltas_def tree_keys_def budget_Return_def fun_eq_iff)

lemma delta_create: "delta_of (r\<lparr>tr_CreateTree := c\<rparr>) = delta_of r"
  by (simp add: delta_of_def fun_eq_iff tree_deltas_def)

lemma admitted_bound:
  assumes "redis_laws R" "second \<le> rs_ttl rs" "moderate R b" "small_deltas r" "budget_Reserve R rs up r b = (Inr tt, b')"
    and "k \<in> set (tree_keys r)"
  shows "0 \<le> rd_val R b' k \<and> rd_val R b' k < 2 ^ 63"
proof -
  have nn: "0 \<le> rd_val R b k" for k using assms(3) by (simp add: moderate_def)
  have "k \<noteq> hwmKey (tr_RootSessionID r)" using assms(6) hwm_not_key by blast
  from budget_Reserve_effect[OF assms(1,2,4) nn assms(5) this] show ?thesis
    using delta_of_bounds[OF assms(4), of k] assms(3) by (auto simp: moderate_def dest!: spec[of _ k])
qed

lemma Return_after_Reserve:
  assumes "redis_laws R" "second \<le> rs_ttl rs" "moderate R b" "small_deltas r"
    and "budget_Reserve R rs True (r\<lparr>tr_CreateTree := c\<rparr>) b = (Inr tt, b')"
  shows "budget_Return R True r b' = (None, snd (budget_Return R True r b'))"
proof -
  have "tr_RootSessionID r \<noteq> ''''" using assms(5) by (auto simp: budget_Reserve_def)
  moreover have "rd_get R b' (tree_keys r ! 4) \<noteq> None" using reserve_sentinel[OF assms(1,2) _ assms(5)] assms(4) by simp
  ultimately have "fst (budget_Return R True r b') = None"
    using budget_Return_total[OF assms(1,4)] admitted_bound[OF assms(1,2,3) _ assms(5)] assms(4) by simp
  then show ?thesis by (metis prod.collapse)
qed

sublocale redis_server \<subseteq> budget_contract "redis_reserver R rs" "rd_val R" "moderate R" small_deltas "\<lambda>k. \<forall>rt. k \<noteq> hwmKey rt"
proof
  fix b r e b' k
  assume a: "moderate R b" "small_deltas r" "tb_Reserve (redis_reserver R rs) r b = (Inl e, b')" "e \<noteq> ErrTreeBudgetUnavailable"
  then have run: "budget_Reserve R rs True r b = (Inl e, b')" by (simp add: redis_reserver_def)
  show "rd_val R b' k = rd_val R b k"
  proof (cases "tr_RootSessionID r = ''''")
    case True
    then show ?thesis using run by (simp add: budget_Reserve_def)
  next
    case False
    then have "(\<exists>a c cap d. e = BudgetExhaustedError a c cap d) \<or> e = ErrTreeBudgetKeysExpired"
      using run a(4) by (auto simp: budget_Reserve_def split: prod.splits script_result.splits if_splits)
    then show ?thesis using budget_Reserve_quiet[OF laws ttl run] by auto
  qed
next
  fix b r b'
  assume "moderate R b" "tb_Reserve (redis_reserver R rs) r b = (Inl ErrTreeBudgetKeysExpired, b')"
  then show "moderate R b'"
    using budget_Reserve_quiet[OF laws ttl, of True r b "Inl ErrTreeBudgetKeysExpired" b'] by (simp add: redis_reserver_def moderate_def)
next
  fix b r c tt b' k
  assume a: "moderate R b" "small_deltas r" "tb_Reserve (redis_reserver R rs) (r\<lparr>tr_CreateTree := c\<rparr>) b = (Inr tt, b')"
    "\<forall>rt. k \<noteq> hwmKey rt"
  have nn: "0 \<le> rd_val R b k" for k using a(1) by (simp add: moderate_def)
  have run: "budget_Reserve R rs True (r\<lparr>tr_CreateTree := c\<rparr>) b = (Inr tt, b')" using a(3) by (simp add: redis_reserver_def)
  have "budget_Return R True r b' = (None, snd (budget_Return R True r b'))"
    by (rule Return_after_Reserve[OF laws ttl a(1,2) run])
  then have "rd_val R (snd (budget_Return R True r b')) k = max 0 (rd_val R b' k - delta_of r k)"
    using budget_Return_effect[OF laws a(2) _ \<open>budget_Return R True r b' = _\<close>, of k]
      budget_Reserve_nonneg[OF laws ttl _ nn run] a(2) by simp
  then show "rd_val R (snd (tb_Return (redis_reserver R rs) r b')) k = rd_val R b k"
    using budget_Reserve_effect[OF laws ttl _ nn run, of k] a(2,4) nn[of k] by (simp add: redis_reserver_def delta_create)
qed simp

interpretation mem: redis_server mem_redis "NewReserver 0"
  by unfold_locales (rule mem_redis_laws demo_ttl)+

context redis_server
begin

lemmas delegation_counts = failed_counts

end

section \<open>A failed request leaves nothing behind\<close>

lemma ReleaseReservation_other:
  "k \<noteq> reservationKey t c \<Longrightarrow> map_of (ms_reservations (ReleaseReservation st t c)) k = map_of (ms_reservations st) k"
  by (simp add: ReleaseReservation_def map_of_delete)

lemma undoChildExport_other:
  "k \<noteq> reservationKey t c \<Longrightarrow>
   map_of (ms_reservations (wo_store (undoChildExport s t c w))) k = map_of (ms_reservations (wo_store w)) k"
  by (simp add: undoChildExport_def ReleaseReservation_other split: option.splits prod.splits bool.splits)

lemma store_Reserve_other:
  "store_Reserve st t u c d now = Inr st' \<Longrightarrow> k \<noteq> reservationKey t c \<Longrightarrow> map_of (ms_reservations st') k = map_of (ms_reservations st) k"
  by (auto simp: store_Reserve_def Let_def map_of_update split: option.splits if_splits)

lemma build_reservations:
  assumes "buildChildSession s (\<lambda>_ w. w) t req adm rt rnd now w = (res, w')"
  shows "(\<And>c. newChildID s rnd rt = Inr c \<Longrightarrow> k \<noteq> reservationKey t c)
      \<Longrightarrow> map_of (ms_reservations (wo_store w')) k = map_of (ms_reservations (wo_store w)) k"
    and "rq_FileExport req = [] \<Longrightarrow> wo_store w' = wo_store w"
proof -
  have "w' = w \<or> (\<exists>st cid m w1. newChildID s rnd rt = Inr cid \<and> rq_FileExport req \<noteq> []
      \<and> store_Reserve (wo_store w) t (se_UserID (ad_parent adm)) cid True now = Inr st
      \<and> materializeExport s t req (ad_parent adm) cid (ad_effectivePolicy adm) (w\<lparr>wo_store := st\<rparr>) = (m, w1)
      \<and> (w' = w1 \<or> w' = undoChildExport s t cid w1))"
    using assms(1) by (auto simp: buildChildSession_def Let_def split: option.splits if_splits sum.splits prod.splits)
  then consider (same) "w' = w"
    | (export) st cid m w1 where "newChildID s rnd rt = Inr cid" "rq_FileExport req \<noteq> []"
        "store_Reserve (wo_store w) t (se_UserID (ad_parent adm)) cid True now = Inr st"
        "materializeExport s t req (ad_parent adm) cid (ad_effectivePolicy adm) (w\<lparr>wo_store := st\<rparr>) = (m, w1)"
        "w' = w1 \<or> w' = undoChildExport s t cid w1" by blast
  note cases = this
  show "map_of (ms_reservations (wo_store w')) k = map_of (ms_reservations (wo_store w)) k"
    if key: "\<And>c. newChildID s rnd rt = Inr c \<Longrightarrow> k \<noteq> reservationKey t c"
  proof (cases rule: cases)
    case export
    have "wo_store w1 = st"
      using materializeExport_store[of s t req "ad_parent adm" cid "ad_effectivePolicy adm" "w\<lparr>wo_store := st\<rparr>"] export(4) by simp
    then show ?thesis
      using export(5) store_Reserve_other[OF export(3) key[OF export(1)]]
      by (elim disjE) (simp_all add: undoChildExport_other[OF key[OF export(1)]])
  qed simp
  show "wo_store w' = wo_store w" if "rq_FileExport req = []"
    by (cases rule: cases) (use that in simp_all)
qed

lemma built_child_key:
  assumes "routes_only s" "buildChildSession s env t req adm rt rnd now w = (Inr (child, rv), w')"
  shows "newChildID s rnd rt = Inr (se_ID child)" "se_TenantID child = t" "rv = (rq_FileExport req \<noteq> [])"
proof -
  obtain cid plan where c: "newChildID s rnd rt = Inr cid" "finish_row s (child_row s t req adm rt cid plan now) = Inr child"
      "rv = (rq_FileExport req \<noteq> [])" by (rule buildChildSession_Inr[OF assms(2)])
  show "newChildID s rnd rt = Inr (se_ID child)" "se_TenantID child = t" "rv = (rq_FileExport req \<noteq> [])"
    using c by (auto elim!: finish_row_Inr[OF assms(1)] simp: child_row_def Let_def)
qed

lemma reserveDetectingExpiry_store:
  assumes "sv_keysExpired s = None" "reserveDetectingExpiry s (\<lambda>_ w. w) tb t r w = (res, w')"
  shows "wo_store w' = wo_store w"
proof -
  have tr: "wo_store u' = wo_store u" if "try_reserve tb r u = (e, u')" for r u e u'
    using try_reserve_store[of tb r u] that by simp
  obtain e1 w1 where 1: "try_reserve tb r w = (e1, w1)" by fastforce
  obtain e2 w2 where 2: "try_reserve tb (r\<lparr>tr_CreateTree := isFirstReservation (wo_store w1) t (tr_RootSessionID r)\<rparr>) w1 = (e2, w2)"
    by fastforce
  have "w' = w1 \<or> w' = w2"
    using assms by (auto simp: reserveDetectingExpiry_def 1 2 Let_def split: option.splits if_splits)
  then show ?thesis using tr[OF 1] tr[OF 2] by auto
qed

lemma reserve_store:
  assumes "sv_keysExpired s = None" "reserveTreeBudget s (\<lambda>_ w. w) t req parent rt w = (res, w')"
  shows "wo_store w' = wo_store w"
proof -
  have "w' = w \<or> (\<exists>tb r res'. reserveDetectingExpiry s (\<lambda>_ w. w) tb t r w = (res', w'))"
    using assms(2) by (auto simp: reserveTreeBudget_def Let_def split: option.splits if_splits sum.splits prod.splits)
  then show ?thesis using reserveDetectingExpiry_store[OF assms(1)] by blast
qed

lemma failed_insert_reservations:
  assumes "routes_only s" "sv_keysExpired s = None" "insertChildSession s (\<lambda>_ w. w) t req adm rnd now w = (Inl e, resv, w')"
  shows "(\<And>c. newChildID s rnd (root_of (ad_parent adm)) = Inr c \<Longrightarrow> k \<noteq> reservationKey t c)
      \<Longrightarrow> map_of (ms_reservations (wo_store w')) k = map_of (ms_reservations (wo_store w)) k"
    and "rq_FileExport req = [] \<Longrightarrow> wo_store w' = wo_store w"
proof -
  obtain r1 w1 where 1: "reserveTreeBudget s (\<lambda>_ w. w) t req (ad_parent adm) (root_of (ad_parent adm)) w = (r1, w1)" by fastforce
  obtain r2 w2 where 2: "buildChildSession s (\<lambda>_ w. w) t req adm (root_of (ad_parent adm)) rnd now w1 = (r2, w2)" by fastforce
  note s1 = reserve_store[OF assms(2) 1]
  note s2 = build_reservations[OF 2]
  consider (res) "w' = w1" | (build) "w' = w2"
    | (commit) c rv where "r2 = Inr (c, rv)" "w' = w2 \<or> rv \<and> w' = undoChildExport s (se_TenantID c) (se_ID c) w2"
    using assms(3) 1 2 unfolding insertChildSession_def Let_def root_of_def[symmetric]
    by (auto simp: commitChild_def Let_def split: sum.splits prod.splits option.splits if_splits)
  note cases = this
  show "map_of (ms_reservations (wo_store w')) k = map_of (ms_reservations (wo_store w)) k"
    if key: "\<And>c. newChildID s rnd (root_of (ad_parent adm)) = Inr c \<Longrightarrow> k \<noteq> reservationKey t c"
  proof (cases rule: cases)
    case (commit c rv)
    have "k \<noteq> reservationKey (se_TenantID c) (se_ID c)" using built_child_key[OF assms(1) 2[unfolded commit(1)]] key by blast
    from undoChildExport_other[OF this, of s w2] show ?thesis using commit(2) s1 s2(1)[OF key] by (elim disjE) simp_all
  qed (use s1 s2(1)[OF key] in simp_all)
  show "wo_store w' = wo_store w" if "rq_FileExport req = []"
  proof (cases rule: cases)
    case (commit c rv)
    then show ?thesis using built_child_key(3)[OF assms(1) 2[unfolded commit(1)]] that s1 s2(2) by simp
  qed (use s1 s2(2) that in simp_all)
qed

lemma release_budget_same: "wo_store (release_budget s (\<lambda>_ w. w) resv w) = wo_store w"
  by (simp add: release_budget_def Let_def split: option.splits)

lemma failed_reservations:
  assumes "routes_only s" "sv_keysExpired s = None" "Delegate s (\<lambda>_ w. w) t req rnd now w = (Inl e, w')"
  shows "\<exists>c. \<forall>k. k \<noteq> reservationKey t c \<longrightarrow> map_of (ms_reservations (wo_store w')) k = map_of (ms_reservations (wo_store w)) k"
    and "rq_FileExport req = [] \<Longrightarrow> wo_store w' = wo_store w"
proof -
  show "\<exists>c. \<forall>k. k \<noteq> reservationKey t c \<longrightarrow> map_of (ms_reservations (wo_store w')) k = map_of (ms_reservations (wo_store w)) k"
  proof (cases rule: Delegate_Inl[OF assms(3)])
    case (2 adm0 adm evs resv w1)
    show ?thesis
    proof (intro exI allI impI)
      fix k
      assume "k \<noteq> reservationKey t (case newChildID s rnd (root_of (ad_parent adm)) of Inr c \<Rightarrow> c | Inl _ \<Rightarrow> '''')"
      then show "map_of (ms_reservations (wo_store w')) k = map_of (ms_reservations (wo_store w)) k"
        using failed_insert_reservations(1)[OF assms(1,2) 2(3)] 2(4) by (simp add: release_budget_same split: sum.splits)
    qed
  qed simp
  show "wo_store w' = wo_store w" if "rq_FileExport req = []"
  proof (cases rule: Delegate_Inl[OF assms(3)])
    case (2 adm0 adm evs resv w1)
    from failed_insert_reservations(2)[OF assms(1,2) 2(3) that] show ?thesis using 2(4) by (simp add: release_budget_same)
  qed simp
qed

section \<open>Properties\<close>

lemma removal_keeps_inv:
  assumes "\<And>k r. map_of (ms_sessions st') k = Some r \<Longrightarrow> map_of (ms_sessions st) k = Some r" "tree_inv le view \<pi> st"
  shows "tree_inv le view \<pi> st'"
  using assms by (auto simp: tree_inv_def)

lemma delete_sessions: "map_of (ms_sessions (apply_op (OpDelete t x) st)) k = Some r \<Longrightarrow> map_of (ms_sessions st) k = Some r"
  by (auto simp: settle_def store_Delete_def map_of_delete split: sum.splits if_splits)

lemma demo_env_rely: "sv_keysExpired s = None \<Longrightarrow> rely le view \<pi> s demo_env"
  by (auto simp: rely_def demo_env_def intro: removal_keeps_inv[OF delete_sessions])

lemma demo_inv:
  assumes "se_ID c \<noteq> ''p''"
  shows "tree_inv le view (demo_tree view c) (wo_store (demo_world b x))"
  using assms
  by (auto simp: tree_inv_def demo_world_def demo_tree_def demo_parent_def demo_session_def node_of_def zero_session_def
      intro!: sound_top)

text \<open>
  C1. Delegation never widens security along a tree. Whatever other requests do between
  the steps of a delegation, as long as they keep the same invariant and session
  identifiers are not reused, every stored session has the tenant and the owner of all
  sessions it descends from, an isolation profile at least as restrictive as theirs and
  a tree visibility at least as narrow, also when sessions in between are gone. The
  experiment router may only rewrite runtime, pool and experiment context.
\<close>

theorem delegation_tree_monotone:
  assumes "routes_only s" "rely not_weaker security \<pi> s env" "tree_inv not_weaker security \<pi> (wo_store w)"
    and "Delegate s env t req rnd now w = (res, w')"
    and "\<forall>r. res = Inr r \<longrightarrow> node_of security (rs_Child r) = \<pi> (se_ID (rs_Child r))"
  shows "tree_inv not_weaker security \<pi> (wo_store w')
       \<and> (\<forall>k r a. map_of (ms_sessions (wo_store w')) k = Some r \<longrightarrow> descends \<pi> k a
            \<longrightarrow> not_weaker (security r) (nd_View (\<pi> a)))"
proof -
  have r: "routed s" using assms(1) by unfold_locales
  have inv: "tree_inv not_weaker security \<pi> (wo_store w')"
    using routed.posture_inv[OF r assms(2-4)] assms(5) by blast
  then show ?thesis using routed.posture_descends[OF r inv] by blast
qed

theorem delegation_tree_monotone_witness:
  "let rw = Delegate demo_service demo_env ''t'' demo_request [] 5 (demo_world () ())
   in se_IsolationProfile (child_of rw) = ProfileSandboxed
    \<and> map_of (ms_sessions (wo_store (snd rw))) ''c'' \<noteq> None
    \<and> tree_inv not_weaker security (demo_tree security (child_of rw)) (wo_store (snd rw))"
proof -
  define rw where "rw = Delegate demo_service demo_env ''t'' demo_request [] 5 (demo_world () ())"
  have facts: "se_IsolationProfile (child_of rw) = ProfileSandboxed \<and> se_ID (child_of rw) = ''c''
      \<and> map_option se_ID (map_of (ms_sessions (wo_store (snd rw))) ''c'') = Some ''c''"
    unfolding rw_def by code_simp
  have run: "Delegate demo_service demo_env ''t'' demo_request [] 5 (demo_world () ()) = (fst rw, snd rw)"
    unfolding rw_def by (rule surjective_pairing)
  have s: "routes_only demo_service" "sv_keysExpired demo_service = None"
    by (simp_all add: routes_only_def demo_service_def NewService_def)
  have "node_of security (rs_Child r) = demo_tree security (child_of rw) (se_ID (rs_Child r))" if "fst rw = Inr r" for r
    using that by (simp add: child_of_def demo_tree_def)
  then have "tree_inv not_weaker security (demo_tree security (child_of rw)) (wo_store (snd rw))"
    using delegation_tree_monotone[OF s(1) demo_env_rely[OF s(2)] demo_inv[of "child_of rw"] run] facts by simp
  then show ?thesis unfolding Let_def rw_def[symmetric] using facts by (intro conjI) auto
qed

text \<open>
  C6. The effective content policy never weakens along a tree: without an experiment
  router, and while the runtime and policy registries stand still, every stored session
  has, on each of the four axes (input size, exported file size, scan, interceptor), a
  policy at least as strict as every session it descends from, also where the policy is
  inherited, stamped on the lease or read back from it, and however requests interleave.
\<close>

theorem content_policy_monotone:
  assumes "sv_experimentRouter s = None" "rely as_strict (content s) \<pi> s env" "tree_inv as_strict (content s) \<pi> (wo_store w)"
    and "Delegate s env t req rnd now w = (res, w')"
    and "\<forall>r. res = Inr r \<longrightarrow> node_of (content s) (rs_Child r) = \<pi> (se_ID (rs_Child r))"
  shows "tree_inv as_strict (content s) \<pi> (wo_store w')
       \<and> (\<forall>k r a. map_of (ms_sessions (wo_store w')) k = Some r \<longrightarrow> descends \<pi> k a
            \<longrightarrow> as_strict (content s r) (nd_View (\<pi> a)))"
proof -
  have u: "unrouted s" using assms(1) by unfold_locales
  have inv: "tree_inv as_strict (content s) \<pi> (wo_store w')"
    using unrouted.strictness_inv[OF u assms(2-4)] assms(5) by blast
  then show ?thesis using unrouted.strictness_descends[OF u inv] by blast
qed

theorem content_policy_monotone_witness:
  "let rw = Delegate (demo_registry :: (unit, unit) service) demo_env ''t'' demo_request [] 5 (demo_world () ())
   in content (demo_registry :: (unit, unit) service) (child_of rw) =
        \<lparr>ef_MaxInputSize = 1000, ef_InterceptorRef = ''i'', ef_ScanExportedFiles = True,
         ef_MaxExportedFileSize = DefaultMaxExportedFileSize\<rparr>
    \<and> tree_inv as_strict (content (demo_registry :: (unit, unit) service)) (demo_tree (content (demo_registry :: (unit, unit) service)) (child_of rw)) (wo_store (snd rw))"
proof -
  define rw where "rw = Delegate (demo_registry :: (unit, unit) service) demo_env ''t'' demo_request [] 5 (demo_world () ())"
  have facts: "content (demo_registry :: (unit, unit) service) (child_of rw) =
        \<lparr>ef_MaxInputSize = 1000, ef_InterceptorRef = ''i'', ef_ScanExportedFiles = True,
         ef_MaxExportedFileSize = DefaultMaxExportedFileSize\<rparr> \<and> se_ID (child_of rw) = ''c''"
    unfolding rw_def by code_simp
  have run: "Delegate (demo_registry :: (unit, unit) service) demo_env ''t'' demo_request [] 5 (demo_world () ()) = (fst rw, snd rw)"
    unfolding rw_def by (rule surjective_pairing)
  have s: "sv_experimentRouter (demo_registry :: (unit, unit) service) = None" "sv_keysExpired (demo_registry :: (unit, unit) service) = None"
    by (simp_all add: demo_registry_def demo_service_def NewService_def)
  have "node_of (content (demo_registry :: (unit, unit) service)) (rs_Child r) = demo_tree (content (demo_registry :: (unit, unit) service)) (child_of rw) (se_ID (rs_Child r))"
    if "fst rw = Inr r" for r using that by (simp add: child_of_def demo_tree_def)
  then have "tree_inv as_strict (content (demo_registry :: (unit, unit) service)) (demo_tree (content (demo_registry :: (unit, unit) service)) (child_of rw)) (wo_store (snd rw))"
    using content_policy_monotone[OF s(1) demo_env_rely[OF s(2)] demo_inv[of "child_of rw"] run] facts by simp
  then show ?thesis unfolding Let_def rw_def[symmetric] using facts by (intro conjI) auto
qed



text \<open>
  C13. Chains stay finite and free of repeats. In enforce mode with the platform layer
  closed and no experiment router, a committed child has a (runtime, pool) identity
  that none of the ancestors the service walked has; its depth is their number, at most
  the configured default when the request names no depth, and never more than four
  above the default, where the walk stops.
\<close>

theorem committed_child_bounded:
  assumes "sv_mode s = ModeEnforce" "\<not> sv_platformAllowSelfRec s" "sv_experimentRouter s = None"
    and "0 < sv_defaultMaxDepth s" "sv_defaultMaxDepth s < 2 ^ 31"
    and "Delegate s env t req rnd now w = (Inr res, w')"
  shows "\<exists>parent chain. store_Get (wo_store (env 0 w)) t (rq_ParentSessionID req) = Inr parent
     \<and> lineage_walk (wo_store (env 0 w)) t (nat (3 + sv_defaultMaxDepth s)) [] parent = Inr chain
     \<and> row_identity (rs_Child res) \<notin> row_identity ` set chain
     \<and> rs_Depth res = int (length chain) \<and> int (unat (se_DelegationDepth (rs_Child res))) = rs_Depth res
     \<and> rs_Depth res \<le> sv_defaultMaxDepth s + 4
     \<and> rs_Depth res \<le> (if 0 < rq_MaxDepth req then rq_MaxDepth req else sv_defaultMaxDepth s)"
proof -
  obtain adm0 adm evs where v: "validateDelegation s (wo_store (env 0 w)) t req = Inr adm0"
      and d: "detectCycle s t req adm0 now = (Inr adm, evs)" and depth: "checkDelegationDepth s req adm = None"
      and row: "row_identity (rs_Child res) = \<lparr>id_RuntimeName = rq_RuntimeRef req, id_PoolName = rq_PoolRef req\<rparr>"
        "se_DelegationDepth (rs_Child res) = word_of_int (ad_depth adm + 1)" "rs_Depth res = w64 (ad_depth adm + 1)"
    by (rule committed_stages[OF assms(3,6)])
  note v' = validateDelegation_Inr[OF v]
  note d' = detectCycle_Inr[OF d v'(9,10)]
  obtain chain where c: "lineage_walk (wo_store (env 0 w)) t (nat (3 + sv_defaultMaxDepth s)) [] (ad_parent adm0) = Inr chain"
      "ad_lineage adm0 = map row_identity (rev chain)" "ad_depth adm0 = int (length chain) - 1"
      "int (length chain) \<le> sv_defaultMaxDepth s + 4"
    by (rule buildLineage_Inr[OF v'(7) assms(4,5)])
  have "row_identity (rs_Child res) \<notin> row_identity ` set chain"
    using cycle_gate[OF d assms(1,2)] c(2) row(1) by simp
  moreover have "w64 (ad_depth adm + 1) = int (length chain)"
    using c(3,4) d'(5) assms(5) by (simp add: w64_id is_int64_def min_int64_def max_int64_def)
  moreover have "unat (se_DelegationDepth (rs_Child res)) = length chain"
  proof -
    have "length chain < 2 ^ 32" using c(4) assms(5) by simp
    moreover have "se_DelegationDepth (rs_Child res) = word_of_nat (length chain)" using c(3) d'(5) row(2) by simp
    ultimately show ?thesis by (simp add: unsigned_of_nat take_bit_nat_eq_self)
  qed
  ultimately show ?thesis using v'(1) c(1,4) depth_gate[OF depth d'(8) assms(4)] row(3) by auto
qed

theorem committed_child_bounded_witness:
  "\<exists>res w'. Delegate demo_service demo_env ''t'' demo_request [] 5 (demo_world () ()) = (Inr res, w')
     \<and> rs_Depth res \<le> 10 \<and> row_identity (rs_Child res) \<noteq> row_identity demo_parent"
proof -
  define rw where "rw = Delegate demo_service demo_env ''t'' demo_request [] 5 (demo_world () ())"
  have "\<not> isl (fst rw)" unfolding rw_def by code_simp
  then obtain res where res: "fst rw = Inr res" by (cases "fst rw") auto
  have run: "Delegate demo_service demo_env ''t'' demo_request [] 5 (demo_world () ()) = (Inr res, snd rw)"
    unfolding res[symmetric] unfolding rw_def by (rule surjective_pairing)
  have s: "sv_mode demo_service = ModeEnforce" "\<not> sv_platformAllowSelfRec demo_service"
      "sv_experimentRouter demo_service = None" "sv_defaultMaxDepth demo_service = 10"
    by (simp_all add: demo_service_def NewService_def DefaultMaxDepth_def)
  have p: "store_Get (wo_store (demo_env 0 (demo_world () ()))) ''t'' (rq_ParentSessionID demo_request) = Inr demo_parent"
      "rq_MaxDepth demo_request = 0"
    by (simp_all add: demo_env_def demo_world_def demo_request_def settle_def store_Delete_def store_Get_def demo_parent_def demo_session_def)
  from committed_child_bounded[OF s(1-3) _ _ run] p obtain chain where
      c: "lineage_walk (wo_store (demo_env 0 (demo_world () ()))) ''t'' 13 [] demo_parent = Inr chain"
      "row_identity (rs_Child res) \<notin> row_identity ` set chain" "rs_Depth res \<le> 10" by (auto simp: s(4))
  have "demo_parent \<in> set chain" by (rule lineage_walk_start[OF c(1)])
  then show ?thesis using run c(2,3) by blast
qed



end
