(* ===== verification/Spec2Isabelle.thy ===== *)
theory Spec2Isabelle
  imports Retry_Policy Pod_Interleaving Slot_Registry Runtime_Upgrade Warm_Plan Delegation_Safety
begin

text \<open>
  A verification library for Lenny, a Kubernetes-native agent-session platform
  written in Go (\<^verbatim>\<open>src/pkg\<close>).
\<close>

end
